(* ===== verification/Prelude.thy ===== *)
theory Prelude imports Main "HOL-Library.Multiset" begin

text \<open>
  What every theory of the development shares: the collections its facts are gathered in, the
  short names of the list idioms of the source, and the lemmas on lists and options that several
  components need.

  \<^item> \<open>ustr\<close> collects the equations that evaluate text literals and string operations on closed
    terms; the witnesses unfold it.
  \<^item> \<open>handler\<close> collects the equations of the event handlers of the pages, so that a proof about
    every handler of a page is \<open>simp add: handler\<close> after a case split on the event.
  \<^item> \<open>view\<close> collects the equations of the rendered trees.
\<close>

named_theorems ustr "evaluation of text literals and of string operations"
named_theorems handler "equations of the event handlers of the pages"
named_theorems view "equations of the rendered trees"

subsection \<open>Options as the source's nullish and falsy tests\<close>

text \<open>\<open>x ?? d\<close> of the source: the value, or the default when it is null or undefined.\<close>

definition orelse :: "'a option \<Rightarrow> 'a \<Rightarrow> 'a" where
  "orelse x d = (case x of None \<Rightarrow> d | Some v \<Rightarrow> v)"

lemma orelse_simps [simp]: "orelse None d = d" "orelse (Some v) d = v"
  by (simp_all add: orelse_def)

text \<open>A conditional fragment of a rendered tree, \<open>cond && <...>\<close> of the source.\<close>

definition whenl :: "bool \<Rightarrow> 'a list \<Rightarrow> 'a list" where
  "whenl b xs = (if b then xs else [])"

lemma whenl_simps [simp]: "whenl True xs = xs" "whenl False xs = []"
  by (simp_all add: whenl_def)

lemma set_whenl [simp]: "x \<in> set (whenl b xs) \<longleftrightarrow> b \<and> x \<in> set xs"
  by (simp add: whenl_def)

subsection \<open>Updating and deleting by index\<close>

text \<open>\<open>xs.filter((_, i) => i !== k)\<close>: the list without its element at index \<open>k\<close>.\<close>

definition delete_at :: "nat \<Rightarrow> 'a list \<Rightarrow> 'a list" where
  "delete_at k xs = take k xs @ drop (Suc k) xs"

lemma length_delete_at: "k < length xs \<Longrightarrow> length (delete_at k xs) = length xs - 1"
  by (simp add: delete_at_def)

lemma delete_at_beyond [simp]: "length xs \<le> k \<Longrightarrow> delete_at k xs = xs"
  by (simp add: delete_at_def)

lemma nth_delete_at:
  "i < length xs - 1 \<Longrightarrow> k < length xs \<Longrightarrow>
     delete_at k xs ! i = (if i < k then xs ! i else xs ! Suc i)"
  by (auto simp: delete_at_def nth_append min_def)

lemma filter_index_delete:
  "map snd (filter (\<lambda>(i, x). i \<noteq> k) (enumerate n xs)) =
     (if k < n then xs else delete_at (k - n) xs)"
proof (induction xs arbitrary: n)
  case Nil
  then show ?case by (simp add: delete_at_def)
next
  case (Cons x xs)
  have all: "filter (\<lambda>(i, x). i \<noteq> k) (enumerate m ys) = enumerate m ys" if "k < m" for m and ys :: "'a list"
    using that by (auto simp: filter_id_conv enumerate_eq_zip dest: set_zip_leftD)
  show ?case
  proof (cases "k = n")
    case True
    then show ?thesis using all [of "Suc n" xs] by (simp add: delete_at_def)
  next
    case False
    show ?thesis
    proof (cases "k < n")
      case True
      then show ?thesis using all [of n "x # xs"] by simp
    next
      case False
      with \<open>k \<noteq> n\<close> obtain j where j: "k - n = Suc j" "k - Suc n = j"
        by (metis Suc_diff_Suc diff_Suc_1 linorder_neqE_nat)
      with Cons.IH [of "Suc n"] False \<open>k \<noteq> n\<close> show ?thesis by (simp add: delete_at_def)
    qed
  qed
qed

subsection \<open>Searching\<close>

lemma find_Some_in: "List.find P xs = Some x \<Longrightarrow> x \<in> set xs \<and> P x"
  by (induction xs) (auto split: if_splits)

lemma find_None_all: "List.find P xs = None \<longleftrightarrow> (\<forall>x \<in> set xs. \<not> P x)"
  by (induction xs) auto

lemma distinct_map_filter: "distinct (map f xs) \<Longrightarrow> distinct (map f (filter P xs))"
  by (induction xs) auto

subsection \<open>Sums by class\<close>

text \<open>A total split by a predicate: what the per-status cards of the pages rest on.\<close>

lemma sum_list_partition:
  fixes f :: "'a \<Rightarrow> 'b::comm_monoid_add"
  shows "sum_list (map f (filter P xs)) + sum_list (map f (filter (\<lambda>x. \<not> P x) xs)) =
         sum_list (map f xs)"
  by (induction xs) (simp_all add: ac_simps)

lemma sum_list_filter_le:
  fixes f :: "'a \<Rightarrow> int"
  assumes "\<And>x. x \<in> set xs \<Longrightarrow> 0 \<le> f x"
  shows "sum_list (map f (filter P xs)) \<le> sum_list (map f xs)"
  using assms by (induction xs) (auto intro: add_mono order_trans)

lemma sum_list_nonneg_int:
  fixes f :: "'a \<Rightarrow> int"
  assumes "\<And>x. x \<in> set xs \<Longrightarrow> 0 \<le> f x"
  shows "0 \<le> sum_list (map f xs)"
  using assms by (induction xs) auto

end
