(* ===== verification/JsNumber.thy ===== *)
theory JsNumber imports Complex_Main Prelude "HOL-Library.Log_Nat" begin

text \<open>
  JavaScript numbers: IEEE 754 binary64, with rounding to nearest, ties to even.

  A finite number is the rational it denotes; every operation computes exactly and then rounds
  (\<open>fl\<close>) to 53 significant bits, with the subnormal range below \<open>2 powi (-1022)\<close> and overflow to
  an infinity at \<open>2 ^ 1024\<close>. The two zeros of the format are one value here: no operation of the
  source tells them apart.

  The lemmas say which results are exact (integers up to \<open>2 ^ 53\<close>, halves) and how far a rounded
  result is from the exact one; the money totals and the money display of the pages rest on them.
\<close>

subsection \<open>Binary exponent\<close>

text \<open>The greatest \<open>e\<close> with \<open>2 powi e \<le> q\<close>, for a positive \<open>q\<close>.\<close>

definition ilog2 :: "rat \<Rightarrow> int" where
  "ilog2 q = (if 1 \<le> q then bitlen \<lfloor>q\<rfloor> - 1 else - bitlen (\<lceil>1 / q\<rceil> - 1))"

lemma powi2_pos [simp]: "0 < (2::rat) powi e"
  by simp

lemma powi2_less: "(2::rat) powi a < 2 powi b \<Longrightarrow> a < b"
  using power_int_increasing [of b a "2::rat"] by (cases "a < b") auto

lemma ilog2_ge1:
  assumes "1 \<le> q"
  shows "2 powi ilog2 q \<le> q" and "q < 2 powi (ilog2 q + 1)"
proof -
  let ?n = "\<lfloor>q\<rfloor>"
  have n: "1 \<le> ?n" using assms by (simp add: le_floor_iff)
  then have b: "2 ^ nat (bitlen ?n - 1) \<le> ?n" "?n < 2 ^ nat (bitlen ?n)"
    using bitlen_bounds [of ?n] by auto
  have len: "0 \<le> bitlen ?n - 1" using n by (simp add: bitlen_def floorlog_def)
  have "(2::rat) powi ilog2 q = of_int (2 ^ nat (bitlen ?n - 1))"
    using assms len by (simp add: ilog2_def power_int_def)
  also have "\<dots> \<le> of_int ?n" using b(1) by (simp only: of_int_le_iff)
  also have "\<dots> \<le> q" by simp
  finally show "2 powi ilog2 q \<le> q" .
  have "q < of_int (?n + 1)" by linarith
  also have "\<dots> \<le> of_int (2 ^ nat (bitlen ?n))" using b(2) by (simp only: of_int_le_iff)
  also have "\<dots> = (2::rat) powi (ilog2 q + 1)"
    using assms len by (simp add: ilog2_def power_int_def)
  finally show "q < 2 powi (ilog2 q + 1)" .
qed

lemma ilog2_lt1:
  assumes "0 < q" "q < 1"
  shows "2 powi ilog2 q \<le> q" and "q < 2 powi (ilog2 q + 1)"
proof -
  let ?r = "\<lceil>1 / q\<rceil> - 1" and ?k = "bitlen (\<lceil>1 / q\<rceil> - 1)"
  have "1 < 1 / q" using assms by simp
  then have r: "1 \<le> ?r" by linarith
  then have b: "2 ^ nat (?k - 1) \<le> ?r" "?r < 2 ^ nat ?k"
    using bitlen_bounds [of ?r] by auto
  have k: "1 \<le> ?k" using r by (simp add: bitlen_def floorlog_def)
  have e: "ilog2 q = - ?k" using assms by (simp add: ilog2_def)
  have "1 / q \<le> of_int (?r + 1)" by linarith
  also have "\<dots> \<le> of_int (2 ^ nat ?k)" using b(2) by (simp only: of_int_le_iff)
  finally have "1 / q \<le> 2 ^ nat ?k" by simp
  then have "inverse (2 ^ nat ?k) \<le> q"
    using assms by (simp add: field_simps)
  then show "2 powi ilog2 q \<le> q"
    using k by (simp add: e power_int_minus power_int_def inverse_eq_divide power_one_over)
  have "(of_int (2 ^ nat (?k - 1))::rat) \<le> of_int ?r" using b(1) by (simp only: of_int_le_iff)
  also have "\<dots> < 1 / q" by linarith
  finally have "q < inverse (2 ^ nat (?k - 1))"
    using assms by (simp add: field_simps)
  also have "\<dots> = 2 powi (- (?k - 1))"
    using k by (simp add: power_int_minus power_int_def inverse_eq_divide power_one_over)
  finally show "q < 2 powi (ilog2 q + 1)" by (simp add: e)
qed

lemma ilog2_bounds:
  assumes "0 < q"
  shows "2 powi ilog2 q \<le> q" and "q < 2 powi (ilog2 q + 1)"
  using assms ilog2_ge1 [of q] ilog2_lt1 [of q] by (cases "1 \<le> q"; simp)+

lemma ilog2_less:
  assumes "0 < q" "q < 2 powi e"
  shows "ilog2 q < e"
proof -
  have "(2::rat) powi ilog2 q < 2 powi e" using ilog2_bounds(1) [OF assms(1)] assms(2) by linarith
  then show ?thesis by (rule powi2_less)
qed

lemma ilog2_ge:
  assumes "0 < q" "2 powi e \<le> q"
  shows "e \<le> ilog2 q"
proof -
  have "(2::rat) powi e < 2 powi (ilog2 q + 1)" using ilog2_bounds(2) [OF assms(1)] assms(2) by linarith
  then have "e < ilog2 q + 1" by (rule powi2_less)
  then show ?thesis by simp
qed

subsection \<open>Rounding\<close>

text \<open>Round to the nearest integer, ties to even.\<close>

definition rhe :: "rat \<Rightarrow> int" where
  "rhe x = (let n = \<lfloor>x\<rfloor>; f = x - of_int n
            in if f < 1 / 2 then n else if 1 / 2 < f then n + 1
               else if even n then n else n + 1)"

lemma rhe_of_int [simp]: "rhe (of_int n) = n"
  by (simp add: rhe_def)

lemma rhe_error: "\<bar>of_int (rhe x) - x\<bar> \<le> 1 / 2"
proof -
  have "of_int \<lfloor>x\<rfloor> \<le> x" "x < of_int \<lfloor>x\<rfloor> + 1" by linarith+
  then show ?thesis unfolding rhe_def Let_def abs_le_iff of_int_add of_int_1
    by (simp del: of_int_floor_le split: if_split)
qed

lemma rhe_abs_le:
  assumes "\<bar>x\<bar> < of_int n"
  shows "\<bar>rhe x\<bar> \<le> n"
proof -
  have "\<bar>of_int (rhe x) - x\<bar> \<le> 1 / 2" by (rule rhe_error)
  with assms have "\<bar>(of_int (rhe x)::rat)\<bar> < of_int (n + 1)" by (simp add: abs_if split: if_splits)
  then have "(of_int \<bar>rhe x\<bar>::rat) < of_int (n + 1)" by simp
  then show ?thesis by (simp only: of_int_less_iff)
qed

text \<open>The spacing exponent of the format at \<open>q\<close>, and the rounded value.\<close>

definition fl_exp :: "rat \<Rightarrow> int" where
  "fl_exp q = max (ilog2 \<bar>q\<bar> - 52) (- 1074)"

definition fl :: "rat \<Rightarrow> rat" where
  "fl q = (if q = 0 then 0 else of_int (rhe (q / 2 powi fl_exp q)) * 2 powi fl_exp q)"

lemma fl_0 [simp]: "fl 0 = 0"
  by (simp add: fl_def)

lemma powi_diff_nat:
  assumes "e \<le> k"
  shows "(2::rat) powi k / 2 powi e = of_int (2 ^ nat (k - e))"
proof -
  have "(2::rat) powi k / 2 powi e = 2 powi (k - e)" by (simp add: power_int_diff)
  then show ?thesis using assms by (simp add: power_int_def)
qed

lemma fl_exact_lt:
  assumes "q = of_int m * 2 powi k" "\<bar>m\<bar> < 2 ^ 53" "- 1074 \<le> k"
  shows "fl q = q"
proof (cases "m = 0")
  case True
  then show ?thesis using assms(1) by simp
next
  case False
  have "(of_int \<bar>m\<bar>::rat) < of_int (2 ^ 53)" using assms(2) by (simp only: of_int_less_iff)
  then have "\<bar>q\<bar> < 2 powi 53 * 2 powi k" using assms(1) by (simp add: abs_mult)
  also have "\<dots> = 2 powi (53 + k)" by (rule power_int_add [symmetric]) simp
  finally have "ilog2 \<bar>q\<bar> < 53 + k" using False assms(1) by (intro ilog2_less) auto
  then have e: "fl_exp q \<le> k" using assms(3) by (simp add: fl_exp_def)
  have "q / 2 powi fl_exp q = of_int m * (2 powi k / 2 powi fl_exp q)" using assms(1) by simp
  also have "\<dots> = of_int (m * 2 ^ nat (k - fl_exp q))" by (simp only: powi_diff_nat [OF e] of_int_mult)
  finally have i: "q / 2 powi fl_exp q = of_int (m * 2 ^ nat (k - fl_exp q))" .
  then have "rhe (q / 2 powi fl_exp q) = m * 2 ^ nat (k - fl_exp q)" by (simp only: rhe_of_int)
  then have "fl q = of_int (m * 2 ^ nat (k - fl_exp q)) * 2 powi fl_exp q"
    using False assms(1) by (simp add: fl_def)
  also have "\<dots> = q" using i by (simp add: field_simps)
  finally show ?thesis .
qed

lemma fl_exact:
  assumes "q = of_int m * 2 powi k" "\<bar>m\<bar> \<le> 2 ^ 53" "- 1074 \<le> k"
  shows "fl q = q"
proof (cases "\<bar>m\<bar> = 2 ^ 53")
  case True
  have "q = of_int (sgn m) * 2 powi (k + 53)"
  proof -
    have "m = sgn m * 2 ^ 53" using True by (metis mult.commute abs_sgn_eq linordered_idom_class.abs_sgn mult_sgn_abs)
    then have "(of_int m::rat) = of_int (sgn m) * 2 ^ 53" by (metis of_int_mult of_int_numeral of_int_power)
    then show ?thesis using assms(1) by (simp add: power_int_add)
  qed
  then show ?thesis by (rule fl_exact_lt) (use assms(3) in \<open>auto simp: sgn_if\<close>)
next
  case False
  with assms show ?thesis by (intro fl_exact_lt) auto
qed

lemma fl_of_int: "\<bar>n\<bar> \<le> 2 ^ 53 \<Longrightarrow> fl (of_int n) = of_int n"
  by (rule fl_exact [of _ n 0]) auto

lemma fl_error: "\<bar>fl q - q\<bar> \<le> 2 powi fl_exp q / 2"
proof (cases "q = 0")
  case False
  let ?e = "(2::rat) powi fl_exp q"
  have "fl q - q = (of_int (rhe (q / ?e)) - q / ?e) * ?e"
    using False by (simp add: fl_def field_simps)
  then have "\<bar>fl q - q\<bar> = \<bar>of_int (rhe (q / ?e)) - q / ?e\<bar> * ?e" by (simp add: abs_mult)
  also have "\<dots> \<le> 1 / 2 * ?e" by (intro mult_right_mono rhe_error) simp
  finally show ?thesis by simp
qed simp

text \<open>In the normal range the relative error is at most \<open>2 ^ -53\<close>.\<close>

lemma fl_rel_error:
  assumes "2 powi (- 1022) \<le> \<bar>q\<bar>"
  shows "\<bar>fl q - q\<bar> \<le> \<bar>q\<bar> * 2 powi (- 53)"
proof -
  have pos: "0 < \<bar>q\<bar>" using assms powi2_pos [of "- 1022"] by linarith
  have "- 1022 \<le> ilog2 \<bar>q\<bar>" using ilog2_ge [OF pos assms] .
  then have e: "fl_exp q = ilog2 \<bar>q\<bar> - 52" by (simp add: fl_exp_def)
  have "\<bar>fl q - q\<bar> \<le> 2 powi (ilog2 \<bar>q\<bar> - 52) / 2" using fl_error [of q] by (simp only: e)
  also have "\<dots> = 2 powi ilog2 \<bar>q\<bar> * 2 powi (- 53)" by (simp add: power_int_diff power_int_minus)
  also have "\<dots> \<le> \<bar>q\<bar> * 2 powi (- 53)"
    by (intro mult_right_mono ilog2_bounds(1) pos) simp
  finally show ?thesis .
qed

text \<open>A rounded value is a value of the format: rounding it again changes nothing.\<close>

lemma fl_idem [simp]: "fl (fl q) = fl q"
proof (cases "q = 0")
  case False
  let ?e = "fl_exp q"
  have "\<bar>q\<bar> < 2 powi (ilog2 \<bar>q\<bar> + 1)" using False by (intro ilog2_bounds(2)) simp
  also have "\<dots> \<le> 2 powi (53 + ?e)" by (intro power_int_increasing) (auto simp: fl_exp_def)
  also have "\<dots> = 2 ^ 53 * 2 powi ?e" by (simp add: power_int_add)
  finally have "\<bar>q / 2 powi ?e\<bar> < of_int (2 ^ 53)" by (simp add: field_simps abs_mult)
  then have "\<bar>rhe (q / 2 powi ?e)\<bar> \<le> 2 ^ 53" by (rule rhe_abs_le)
  with False show ?thesis
    by (intro fl_exact [of _ "rhe (q / 2 powi ?e)" ?e]) (auto simp: fl_def fl_exp_def)
qed simp

subsection \<open>The values of the type number\<close>

datatype jsnum = NaN | PInf | NInf | Fin rat

text \<open>The value of an exact result: rounded, and an infinity beyond the format.\<close>

definition mk :: "rat \<Rightarrow> jsnum" where
  "mk q = (let r = fl q in
     if ilog2 \<bar>r\<bar> < 1024 then Fin r else if 0 < r then PInf else NInf)"

definition num_int :: "int \<Rightarrow> jsnum" where
  "num_int n = mk (of_int n)"

fun js_neg :: "jsnum \<Rightarrow> jsnum" where
  "js_neg NaN = NaN" | "js_neg PInf = NInf" | "js_neg NInf = PInf" | "js_neg (Fin a) = Fin (- a)"

fun js_add :: "jsnum \<Rightarrow> jsnum \<Rightarrow> jsnum" where
  "js_add (Fin a) (Fin b) = mk (a + b)"
| "js_add NaN y = NaN" | "js_add x NaN = NaN"
| "js_add PInf NInf = NaN" | "js_add NInf PInf = NaN"
| "js_add PInf y = PInf" | "js_add NInf y = NInf"
| "js_add x PInf = PInf" | "js_add x NInf = NInf"

definition js_sub :: "jsnum \<Rightarrow> jsnum \<Rightarrow> jsnum" where
  "js_sub x y = js_add x (js_neg y)"

definition inf_of :: "bool \<Rightarrow> jsnum" where
  "inf_of neg = (if neg then NInf else PInf)"

fun is_neg :: "jsnum \<Rightarrow> bool" where
  "is_neg NInf = True" | "is_neg (Fin a) = (a < 0)" | "is_neg _ = False"

fun js_mul :: "jsnum \<Rightarrow> jsnum \<Rightarrow> jsnum" where
  "js_mul (Fin a) (Fin b) = mk (a * b)"
| "js_mul NaN y = NaN" | "js_mul x NaN = NaN"
| "js_mul x y = (if x = Fin 0 \<or> y = Fin 0 then NaN else inf_of (is_neg x \<noteq> is_neg y))"

text \<open>Division; a zero divisor is the positive zero, the only one the source divides by.\<close>

fun js_div :: "jsnum \<Rightarrow> jsnum \<Rightarrow> jsnum" where
  "js_div (Fin a) (Fin b) =
     (if b \<noteq> 0 then mk (a / b) else if a = 0 then NaN else inf_of (a < 0))"
| "js_div NaN y = NaN" | "js_div x NaN = NaN"
| "js_div (Fin a) y = Fin 0"
| "js_div x (Fin b) = inf_of (is_neg x \<noteq> (b < 0))"
| "js_div x y = NaN"

text \<open>The comparisons: every one with NaN is false.\<close>

fun js_lt :: "jsnum \<Rightarrow> jsnum \<Rightarrow> bool" where
  "js_lt (Fin a) (Fin b) = (a < b)"
| "js_lt NaN y = False" | "js_lt x NaN = False"
| "js_lt x PInf = (x \<noteq> PInf)" | "js_lt NInf y = (y \<noteq> NInf)"
| "js_lt PInf y = False" | "js_lt x NInf = False"

fun js_eq :: "jsnum \<Rightarrow> jsnum \<Rightarrow> bool" where
  "js_eq NaN y = False" | "js_eq x y = (x = y)"

definition js_le :: "jsnum \<Rightarrow> jsnum \<Rightarrow> bool" where
  "js_le x y \<longleftrightarrow> js_lt x y \<or> js_eq x y"

text \<open>Truthiness, \<open>Number.isFinite\<close>, \<open>Math.abs\<close>, \<open>Math.round\<close> (halves upwards), \<open>Math.max\<close>.\<close>

fun num_truthy :: "jsnum \<Rightarrow> bool" where
  "num_truthy NaN = False" | "num_truthy (Fin a) = (a \<noteq> 0)" | "num_truthy _ = True"

fun js_isFinite :: "jsnum \<Rightarrow> bool" where
  "js_isFinite (Fin a) = True" | "js_isFinite _ = False"

fun js_abs :: "jsnum \<Rightarrow> jsnum" where
  "js_abs (Fin a) = Fin \<bar>a\<bar>" | "js_abs NaN = NaN" | "js_abs _ = PInf"

fun js_round :: "jsnum \<Rightarrow> jsnum" where
  "js_round (Fin a) = mk (of_int \<lfloor>a + 1 / 2\<rfloor>)" | "js_round x = x"

definition js_max :: "jsnum \<Rightarrow> jsnum \<Rightarrow> jsnum" where
  "js_max x y = (if x = NaN \<or> y = NaN then NaN else if js_lt x y then y else x)"

lemma ilog2_0 [simp]: "ilog2 0 = 0"
  by (simp add: ilog2_def bitlen_def floorlog_def)

lemma mk_Fin:
  assumes "\<bar>fl q\<bar> < 2 powi 1024"
  shows "mk q = Fin (fl q)"
  using ilog2_less [of "\<bar>fl q\<bar>" 1024] assms by (cases "fl q = 0") (simp_all add: mk_def)

lemma mk_of_int:
  assumes "\<bar>n\<bar> \<le> 2 ^ 53"
  shows "mk (of_int n) = Fin (of_int n)"
proof -
  have "(of_int \<bar>n\<bar>::rat) \<le> of_int (2 ^ 53)" using assms by (simp only: of_int_le_iff)
  then have "\<bar>of_int n\<bar> \<le> (2::rat) powi 53" by simp
  also have "\<dots> < 2 powi 1024" by (rule power_int_strict_increasing) simp_all
  finally show ?thesis using mk_Fin [of "of_int n"] by (simp add: fl_of_int [OF assms])
qed

lemma num_int_small: "\<bar>n\<bar> \<le> 2 ^ 53 \<Longrightarrow> num_int n = Fin (of_int n)"
  by (simp add: num_int_def mk_of_int)

lemma mk_0 [simp]: "mk 0 = Fin 0"
  using mk_of_int [of 0] by simp

lemma js_lt_irrefl [simp]: "\<not> js_lt x x"
  by (cases x) auto

lemma js_lt_trans: "js_lt x y \<Longrightarrow> js_lt y z \<Longrightarrow> js_lt x z"
  by (cases x; cases y; cases z) auto

lemma js_le_not_lt: "js_le x y \<Longrightarrow> \<not> js_lt y x"
  by (cases x; cases y) (auto simp: js_le_def)

lemma num_int_add:
  assumes "\<bar>a\<bar> \<le> 2 ^ 53" "\<bar>b\<bar> \<le> 2 ^ 53" "\<bar>a + b\<bar> \<le> 2 ^ 53"
  shows "js_add (num_int a) (num_int b) = num_int (a + b)"
  using assms by (simp add: num_int_small) (simp flip: of_int_add add: mk_of_int)

subsection \<open>Halves and small differences\<close>

text \<open>Half of a value of the format is one, unless it is so small that a bit falls off.\<close>

lemma fl_half:
  assumes "fl q = q" "2 powi (- 1021) \<le> \<bar>q\<bar>"
  shows "fl (q / 2) = q / 2"
proof -
  let ?e = "fl_exp q" and ?n = "rhe (q / 2 powi fl_exp q)"
  have pos: "0 < \<bar>q\<bar>" using assms(2) powi2_pos [of "- 1021"] by linarith
  then have q: "q = of_int ?n * 2 powi ?e" using assms(1) by (simp add: fl_def split: if_splits)
  have "- 1021 \<le> ilog2 \<bar>q\<bar>" using ilog2_ge [OF pos assms(2)] .
  then have e: "- 1073 \<le> ?e" by (simp add: fl_exp_def)
  have "\<bar>q\<bar> < 2 powi (ilog2 \<bar>q\<bar> + 1)" using pos by (rule ilog2_bounds(2))
  also have "\<dots> \<le> 2 powi (53 + ?e)" by (intro power_int_increasing) (auto simp: fl_exp_def)
  also have "\<dots> = 2 ^ 53 * 2 powi ?e" by (simp add: power_int_add)
  finally have "\<bar>q / 2 powi ?e\<bar> < of_int (2 ^ 53)" by (simp add: field_simps abs_mult)
  then have n: "\<bar>?n\<bar> \<le> 2 ^ 53" by (rule rhe_abs_le)
  have "q / 2 = of_int ?n * 2 powi (?e - 1)" using q by (simp add: power_int_diff)
  then show ?thesis by (rule fl_exact) (use n e in auto)
qed

lemma mk_fixed: "fl q = q \<Longrightarrow> \<bar>q\<bar> < 2 powi 1024 \<Longrightarrow> mk q = Fin q"
  using mk_Fin [of q] by simp

lemma mk_half_int:
  assumes "\<bar>n\<bar> \<le> 2 ^ 53"
  shows "mk (of_int n / 2) = Fin (of_int n / 2)"
proof (rule mk_fixed)
  show "fl (of_int n / 2) = of_int n / 2"
    by (rule fl_exact [of _ n "- 1"]) (use assms in \<open>auto simp: power_int_minus\<close>)
  have "(of_int \<bar>n\<bar>::rat) \<le> of_int (2 ^ 53)" using assms by (simp only: of_int_le_iff)
  then have "\<bar>of_int n / 2\<bar> \<le> (2::rat) powi 53" by simp
  also have "\<dots> < 2 powi 1024" by (rule power_int_strict_increasing) simp_all
  finally show "\<bar>of_int n / 2\<bar> < (2::rat) powi 1024" .
qed

text \<open>Rounding a value between 1/1024 and 1024 moves it by less than one in ten billion.\<close>

lemma fl_close:
  assumes "1 / 1024 \<le> \<bar>q\<bar>" "\<bar>q\<bar> \<le> 1024"
  shows "fl q < q + 1 / 10 ^ 10" "q - 1 / 10 ^ 10 < fl q"
proof -
  have "(2::rat) powi (- 1022) \<le> 2 powi (- 10)" by (rule power_int_increasing) simp_all
  also have "\<dots> = 1 / 1024" by (simp add: power_int_minus)
  finally have "2 powi (- 1022) \<le> \<bar>q\<bar>" using assms(1) by linarith
  then have "\<bar>fl q - q\<bar> \<le> \<bar>q\<bar> * 2 powi (- 53)" by (rule fl_rel_error)
  also have "\<dots> \<le> 1024 * 2 powi (- 53)" using assms(2) by (intro mult_right_mono) simp_all
  also have "\<dots> < 1 / 10 ^ 10" by (simp add: power_int_minus)
  finally have "\<bar>fl q - q\<bar> < 1 / 10 ^ 10" .
  then show "fl q < q + 1 / 10 ^ 10" "q - 1 / 10 ^ 10 < fl q" unfolding abs_less_iff by linarith+
qed

lemma mk_finite: "\<bar>fl q\<bar> \<le> 2048 \<Longrightarrow> mk q = Fin (fl q)"
proof (rule mk_Fin)
  assume "\<bar>fl q\<bar> \<le> 2048"
  also have "(2048::rat) = 2 powi 11" by simp
  also have "\<dots> < 2 powi 1024" by (rule power_int_strict_increasing) simp_all
  finally show "\<bar>fl q\<bar> < 2 powi 1024" .
qed

end
