(* ===== verification/JsString.thy ===== *)
theory JsString imports Prelude "HOL-Library.Sublist" begin

text \<open>
  JavaScript strings and the string operations the web client uses.

  A string is the list of its UTF-16 code units, each a natural number, as in JavaScript: its
  length, its indices and its slices count code units. Case mapping (\<open>toLowerCase\<close>,
  \<open>toUpperCase\<close>) is written out for ASCII and for the letters of Latin-1, which is what the
  Portuguese interface uses; every other code unit is its own upper and lower case here.
\<close>

type_synonym jstr = "nat list"

subsection \<open>Text literals\<close>

text \<open>
  \<open>U s\<close> is the JavaScript literal \<open>s\<close>. The theories are ASCII, so a code unit outside ASCII is
  written as its four hexadecimal digits after a tilde: \<open>~00e7\<close> is what JavaScript also spells
  \<open>u00e7\<close> after a backslash. No literal of the source holds a tilde.
\<close>

definition hexval :: "char \<Rightarrow> nat" where
  "hexval c = (let n = of_char c in if n < 58 then n - 48 else n - 87)"

fun U :: "string \<Rightarrow> jstr" where
  "U [] = []"
| "U (c # s) =
     (if c = CHR ''~'' then
        (case s of a # b # d # e # r \<Rightarrow>
            (4096 * hexval a + 256 * hexval b + 16 * hexval d + hexval e) # U r
         | _ \<Rightarrow> [])
      else of_char c # U s)"

declare U.simps [simp del]

lemmas U_eval [ustr] = U.simps hexval_def Let_def

subsection \<open>Character classes\<close>

definition isDigit :: "nat \<Rightarrow> bool" where
  "isDigit c \<longleftrightarrow> 48 \<le> c \<and> c \<le> 57"

text \<open>White space and line ends as \<open>trim\<close> and the class \<open>s\<close> of regular expressions take them.\<close>

definition isSpace :: "nat \<Rightarrow> bool" where
  "isSpace c \<longleftrightarrow> (9 \<le> c \<and> c \<le> 13) \<or> c = 32 \<or> c = 160 \<or> c = 5760 \<or> (8192 \<le> c \<and> c \<le> 8202) \<or>
     c = 8232 \<or> c = 8233 \<or> c = 8239 \<or> c = 8287 \<or> c = 12288 \<or> c = 65279"

subsection \<open>The string methods of the source\<close>

definition js_trim :: "jstr \<Rightarrow> jstr" where
  "js_trim s = rev (dropWhile isSpace (rev (dropWhile isSpace s)))"

definition lower_unit :: "nat \<Rightarrow> nat" where
  "lower_unit c = (if (65 \<le> c \<and> c \<le> 90) \<or> (192 \<le> c \<and> c \<le> 222 \<and> c \<noteq> 215) then c + 32 else c)"

definition js_toLowerCase :: "jstr \<Rightarrow> jstr" where
  "js_toLowerCase s = map lower_unit s"

definition upper_unit :: "nat \<Rightarrow> nat" where
  "upper_unit c = (if (97 \<le> c \<and> c \<le> 122) \<or> (224 \<le> c \<and> c \<le> 254 \<and> c \<noteq> 247) then c - 32 else c)"

definition js_toUpperCase :: "jstr \<Rightarrow> jstr" where
  "js_toUpperCase s = map upper_unit s"

text \<open>\<open>h.includes(n)\<close> and \<open>h.startsWith(n)\<close>.\<close>

fun js_startsWith :: "jstr \<Rightarrow> jstr \<Rightarrow> bool" where
  "js_startsWith h [] = True"
| "js_startsWith [] (_ # _) = False"
| "js_startsWith (a # h) (b # n) = (a = b \<and> js_startsWith h n)"

fun js_includes :: "jstr \<Rightarrow> jstr \<Rightarrow> bool" where
  "js_includes [] n = (n = [])"
| "js_includes (a # h) n = (js_startsWith (a # h) n \<or> js_includes h n)"

text \<open>\<open>s.split(c)\<close> for a separator of one code unit: never the empty list.\<close>

fun js_split :: "nat \<Rightarrow> jstr \<Rightarrow> jstr list" where
  "js_split c [] = [[]]"
| "js_split c (a # s) =
     (if a = c then [] # js_split c s
      else (case js_split c s of [] \<Rightarrow> [[a]] | p # ps \<Rightarrow> (a # p) # ps))"

text \<open>\<open>xs.join(sep)\<close>, \<open>s.slice(0, n)\<close>, \<open>s.charAt(0)\<close> and \<open>s.replace(/\D/g, "")\<close>.\<close>

fun js_join :: "jstr \<Rightarrow> jstr list \<Rightarrow> jstr" where
  "js_join sep [] = []"
| "js_join sep [x] = x"
| "js_join sep (x # xs) = x @ sep @ js_join sep xs"

definition js_slice :: "nat \<Rightarrow> jstr \<Rightarrow> jstr" where
  "js_slice n s = take n s"

definition js_charAt0 :: "jstr \<Rightarrow> jstr" where
  "js_charAt0 s = take 1 s"

definition js_onlyDigits :: "jstr \<Rightarrow> jstr" where
  "js_onlyDigits s = filter isDigit s"

text \<open>
  \<open>s || d\<close> and \<open>s || undefined\<close> on strings and on nullable strings, and \<open>.filter(Boolean)\<close> on a
  list of nullable strings: the empty string is falsy.
\<close>

definition js_or :: "jstr \<Rightarrow> jstr \<Rightarrow> jstr" where
  "js_or s d = (if s = [] then d else s)"

definition nonempty :: "jstr \<Rightarrow> jstr option" where
  "nonempty s = (if s = [] then None else Some s)"

definition truthy_s :: "jstr option \<Rightarrow> jstr option" where
  "truthy_s x = (case x of None \<Rightarrow> None | Some s \<Rightarrow> nonempty s)"

definition or_str :: "jstr option \<Rightarrow> jstr \<Rightarrow> jstr" where
  "or_str x d = (case x of None \<Rightarrow> d | Some s \<Rightarrow> js_or s d)"

definition filter_Boolean :: "jstr option list \<Rightarrow> jstr list" where
  "filter_Boolean xs = map the (filter (\<lambda>x. x \<noteq> None) (map truthy_s xs))"

lemmas str_eval [ustr] = js_trim_def isSpace_def isDigit_def lower_unit_def upper_unit_def
  js_toLowerCase_def js_toUpperCase_def js_slice_def js_charAt0_def js_onlyDigits_def js_or_def
  nonempty_def truthy_s_def or_str_def filter_Boolean_def

subsection \<open>Facts\<close>

lemma lower_unit_idem [simp]: "lower_unit (lower_unit c) = lower_unit c"
  by (simp add: lower_unit_def)

lemma toLowerCase_idem [simp]: "js_toLowerCase (js_toLowerCase s) = js_toLowerCase s"
  by (simp add: js_toLowerCase_def)

lemma toLowerCase_append: "js_toLowerCase (s @ t) = js_toLowerCase s @ js_toLowerCase t"
  by (simp add: js_toLowerCase_def)

lemma toLowerCase_Nil [simp]: "js_toLowerCase [] = []"
  by (simp add: js_toLowerCase_def)

lemma startsWith_prefix: "js_startsWith h n \<longleftrightarrow> prefix n h"
  by (induction h n rule: js_startsWith.induct) auto

lemma includes_sublist: "js_includes h n \<longleftrightarrow> sublist n h"
  by (induction h) (auto simp: startsWith_prefix sublist_Cons_right)

lemma includes_Nil [simp]: "js_includes h []"
  by (simp add: includes_sublist)

lemma trim_Nil [simp]: "js_trim [] = []"
  by (simp add: js_trim_def)

lemma trim_eq_Nil: "js_trim s = [] \<longleftrightarrow> (\<forall>c \<in> set s. isSpace c)"
  by (auto simp: js_trim_def dropWhile_eq_Nil_conv dest: set_dropWhileD)
     (metis dropWhile_eq_Nil_conv hd_dropWhile list.set_sel(1) rev_is_Nil_conv set_rev)

lemma dropWhile_rev_dropWhile:
  "dropWhile P (rev (dropWhile P (rev (dropWhile P s)))) = rev (dropWhile P (rev (dropWhile P s)))"
proof (cases "dropWhile P s")
  case Nil
  show ?thesis unfolding Nil by simp
next
  case (Cons a t)
  then have na: "\<not> P a" by (metis hd_dropWhile list.discI list.sel(1))
  have "dropWhile P (u @ [a]) = dropWhile P u @ [a]" for u
    using na by (induction u) auto
  with na show ?thesis unfolding Cons by simp
qed

lemma trim_idem [simp]: "js_trim (js_trim s) = js_trim s"
  by (simp add: js_trim_def dropWhile_rev_dropWhile dropWhile_idem)

lemma set_trim: "set (js_trim s) \<subseteq> set s"
  by (auto simp: js_trim_def dest!: set_dropWhileD)

lemma split_not_Nil [simp]: "js_split c s \<noteq> []"
  by (induction s) (auto split: list.splits)

lemma split_no_sep: "c \<notin> set s \<Longrightarrow> js_split c s = [s]"
  by (induction s) auto

lemma split_hd_no_sep: "c \<notin> set (hd (js_split c s))"
  by (induction s) (auto split: list.splits)

lemma split_append_sep: "c \<notin> set s \<Longrightarrow> js_split c (s @ c # t) = s # js_split c t"
  by (induction s) auto

lemma join_split: "js_join [c] (js_split c s) = s"
proof (induction s)
  case Nil
  show ?case by simp
next
  case (Cons a s)
  obtain p ps where "js_split c s = p # ps"
    by (cases "js_split c s") auto
  with Cons.IH show ?case by (cases ps) auto
qed

lemma onlyDigits_all: "\<forall>c \<in> set s. isDigit c \<Longrightarrow> js_onlyDigits s = s"
  by (simp add: js_onlyDigits_def)

lemma onlyDigits_set: "c \<in> set (js_onlyDigits s) \<Longrightarrow> isDigit c"
  by (simp add: js_onlyDigits_def)

lemma onlyDigits_idem [simp]: "js_onlyDigits (js_onlyDigits s) = js_onlyDigits s"
  by (simp add: js_onlyDigits_def)

lemma onlyDigits_Cons_nondigit: "\<not> isDigit c \<Longrightarrow> js_onlyDigits (c # s) = js_onlyDigits s"
  by (simp add: js_onlyDigits_def)

lemma digit_not_space: "isDigit c \<Longrightarrow> \<not> isSpace c"
  by (auto simp: isDigit_def isSpace_def)

lemma nonempty_simps [simp]: "nonempty [] = None" "nonempty (c # s) = Some (c # s)"
  by (simp_all add: nonempty_def)

lemma nonempty_Some: "nonempty s = Some t \<longleftrightarrow> s = t \<and> t \<noteq> []"
  by (auto simp: nonempty_def)

end
