(* ===== verification/JsFormat.thy ===== *)
theory JsFormat imports JsNumber JsString begin

text \<open>
  Numbers as text and text as numbers: the formatters the pages use (\<open>Intl.NumberFormat\<close> for
  Brazilian currency, \<open>toLocaleString("pt-BR")\<close>, \<open>toFixed\<close>), \<open>String(x)\<close> and \<open>Number(s)\<close>.

  The main fact is that the currency display loses nothing: an amount kept in cents, divided by
  100 in binary64 and formatted, still shows exactly those cents (\<open>brl_shows_cents\<close>).
\<close>

subsection \<open>Decimal digits\<close>

fun dec :: "nat \<Rightarrow> jstr" where
  "dec n = (if n < 10 then [48 + n] else dec (n div 10) @ [48 + n mod 10])"

declare dec.simps [simp del]

definition undec :: "jstr \<Rightarrow> nat" where
  "undec s = foldl (\<lambda>n c. 10 * n + (c - 48)) 0 s"

lemma undec_snoc [simp]: "undec (s @ [c]) = 10 * undec s + (c - 48)"
  by (simp add: undec_def)

lemma undec_dec [simp]: "undec (dec n) = n"
proof (induction n rule: dec.induct)
  case (1 n)
  show ?case
  proof (cases "n < 10")
    case True
    then show ?thesis by (subst dec.simps) (simp add: undec_def)
  next
    case False
    with 1 show ?thesis by (subst dec.simps) simp
  qed
qed

lemma dec_inj [simp]: "dec m = dec n \<longleftrightarrow> m = n"
  by (metis undec_dec)

lemma dec_not_Nil [simp]: "dec n \<noteq> []"
  by (subst dec.simps) simp

lemma dec_digits: "c \<in> set (dec n) \<Longrightarrow> isDigit c"
proof (induction n rule: dec.induct)
  case (1 n)
  then show ?case by (subst (asm) (2) dec.simps) (auto simp: isDigit_def split: if_splits)
qed

text \<open>\<open>pad k n\<close>: the last \<open>k\<close> decimal digits of \<open>n\<close>.\<close>

fun pad :: "nat \<Rightarrow> nat \<Rightarrow> jstr" where
  "pad 0 n = []"
| "pad (Suc k) n = pad k (n div 10) @ [48 + n mod 10]"

lemma undec_pad [simp]: "undec (pad k n) = n mod 10 ^ k"
proof (induction k arbitrary: n)
  case 0
  then show ?case by (simp add: undec_def)
next
  case (Suc k)
  then show ?case by (simp add: mod_mult2_eq)
qed

lemma length_pad [simp]: "length (pad k n) = k"
  by (induction k arbitrary: n) auto

lemma pad_digits: "c \<in> set (pad k n) \<Longrightarrow> isDigit c"
  by (induction k arbitrary: n) (auto simp: isDigit_def)

lemma undec_append: "undec (s @ t) = undec s * 10 ^ length t + undec t"
proof (induction t rule: rev_induct)
  case Nil
  then show ?case by (simp add: undec_def)
next
  case (snoc c t)
  then show ?case by (simp flip: append_assoc add: algebra_simps)
qed

subsection \<open>Grouping\<close>

text \<open>Groups of three, counted from the right, with a full stop between them.\<close>

fun group_rev :: "jstr \<Rightarrow> jstr" where
  "group_rev (a # b # c # d # s) = a # b # c # 46 # group_rev (d # s)"
| "group_rev s = s"

definition group3 :: "jstr \<Rightarrow> jstr" where
  "group3 s = rev (group_rev (rev s))"

lemma onlyDigits_group_rev:
  "(\<forall>c \<in> set s. isDigit c) \<Longrightarrow> js_onlyDigits (group_rev s) = s"
  by (induction s rule: group_rev.induct) (auto simp: js_onlyDigits_def isDigit_def)

lemma onlyDigits_rev: "js_onlyDigits (rev s) = rev (js_onlyDigits s)"
  by (simp add: js_onlyDigits_def rev_filter)

lemma onlyDigits_append: "js_onlyDigits (s @ t) = js_onlyDigits s @ js_onlyDigits t"
  by (simp add: js_onlyDigits_def)

lemma onlyDigits_group3:
  "(\<forall>c \<in> set s. isDigit c) \<Longrightarrow> js_onlyDigits (group3 s) = s"
  by (simp add: group3_def onlyDigits_rev onlyDigits_group_rev)

subsection \<open>Formatting\<close>

text \<open>\<open>scaled d q\<close>: \<open>q\<close> in units of \<open>10 ^ -d\<close>, to nearest, halves away from zero (\<open>q\<close> at least 0).\<close>

definition scaled :: "nat \<Rightarrow> rat \<Rightarrow> nat" where
  "scaled d q = nat \<lfloor>q * 10 ^ d + 1 / 2\<rfloor>"

definition sign_str :: "rat \<Rightarrow> jstr" where
  "sign_str q = (if q < 0 then [45] else [])"

text \<open>\<open>new Intl.NumberFormat("pt-BR", { style: "currency", currency: "BRL" }).format(x)\<close>.\<close>

fun fmt_brl :: "jsnum \<Rightarrow> jstr" where
  "fmt_brl (Fin q) = sign_str q @ [82, 36, 160] @
     group3 (dec (scaled 2 \<bar>q\<bar> div 100)) @ [44] @ pad 2 (scaled 2 \<bar>q\<bar>)"
| "fmt_brl NaN = [82, 36, 160, 78, 97, 78]"
| "fmt_brl PInf = [82, 36, 160, 8734]"
| "fmt_brl NInf = [45, 82, 36, 160, 8734]"

text \<open>\<open>x.toLocaleString("pt-BR")\<close>: at most three decimals, none that is a trailing zero.\<close>

definition strip0 :: "jstr \<Rightarrow> jstr" where
  "strip0 s = rev (dropWhile (\<lambda>c. c = 48) (rev s))"

fun toLocaleString :: "jsnum \<Rightarrow> jstr" where
  "toLocaleString (Fin q) =
     (let n = scaled 3 \<bar>q\<bar>; f = strip0 (pad 3 n) in
      sign_str q @ group3 (dec (n div 1000)) @ (if f = [] then [] else 44 # f))"
| "toLocaleString NaN = [78, 97, 78]"
| "toLocaleString PInf = [8734]"
| "toLocaleString NInf = [45, 8734]"

text \<open>
  \<open>String(x)\<close>: the shortest decimal digits that read back as \<open>x\<close>, the closest of those when there
  are several, laid out with or without an exponent by the size of \<open>x\<close>.
\<close>

fun ilog10_up :: "nat \<Rightarrow> rat \<Rightarrow> int" where
  "ilog10_up 0 q = 0"
| "ilog10_up (Suc k) q = (if q < 10 then 0 else 1 + ilog10_up k (q / 10))"

fun ilog10_down :: "nat \<Rightarrow> rat \<Rightarrow> int" where
  "ilog10_down 0 q = 0"
| "ilog10_down (Suc k) q = (if 1 \<le> q then 0 else ilog10_down k (q * 10) - 1)"

definition ilog10 :: "rat \<Rightarrow> int" where
  "ilog10 q = (if 1 \<le> q then ilog10_up 310 q else ilog10_down 330 q)"

definition try_digits :: "rat \<Rightarrow> nat \<Rightarrow> nat option" where
  "try_digits q k = (let u = (10::rat) powi (ilog10 q + 1 - int k); s = nat \<lfloor>q / u + 1 / 2\<rfloor> in
     if fl (of_nat s * u) = q then Some s else None)"

text \<open>The digits and the power of ten of the point, for the first length from \<open>k\<close> that reads back.\<close>

fun shortest :: "rat \<Rightarrow> nat \<Rightarrow> nat \<Rightarrow> jstr \<times> int" where
  "shortest q k 0 = (dec (nat \<lfloor>q\<rfloor>), int (length (dec (nat \<lfloor>q\<rfloor>))))"
| "shortest q k (Suc f) = (case try_digits q k of
     Some s \<Rightarrow> (dec s, ilog10 q + 1 + int (length (dec s)) - int k)
   | None \<Rightarrow> shortest q (Suc k) f)"

definition dec_int :: "int \<Rightarrow> jstr" where
  "dec_int i = (if i < 0 then 45 # dec (nat (- i)) else dec (nat i))"

definition layout_digits :: "jstr \<Rightarrow> int \<Rightarrow> jstr" where
  "layout_digits ds n = (let k = int (length ds) in
     if k \<le> n \<and> n \<le> 21 then ds @ replicate (nat (n - k)) 48
     else if 0 < n \<and> n \<le> 21 then take (nat n) ds @ [46] @ drop (nat n) ds
     else if - 6 < n \<and> n \<le> 0 then [48, 46] @ replicate (nat (- n)) 48 @ ds
     else let e = [101] @ (if 0 < n then [43] else []) @ dec_int (n - 1) in
       if k = 1 then ds @ e else take 1 ds @ [46] @ drop 1 ds @ e)"

fun num_str :: "jsnum \<Rightarrow> jstr" where
  "num_str (Fin q) =
     (if q = 0 then [48]
      else if q = of_int \<lfloor>q\<rfloor> \<and> \<bar>q\<bar> \<le> 2 ^ 53 then dec_int \<lfloor>q\<rfloor>
      else case shortest \<bar>q\<bar> 1 17 of (ds, n) \<Rightarrow> sign_str q @ layout_digits (strip0 ds) n)"
| "num_str NaN = [78, 97, 78]"
| "num_str PInf = [73, 110, 102, 105, 110, 105, 116, 121]"
| "num_str NInf = [45, 73, 110, 102, 105, 110, 105, 116, 121]"

text \<open>\<open>x.toFixed(d)\<close>: on the exact value of the number, halves away from zero.\<close>

fun toFixed :: "nat \<Rightarrow> jsnum \<Rightarrow> jstr" where
  "toFixed d (Fin q) =
     (if 10 ^ 21 \<le> \<bar>q\<bar> then num_str (Fin q)
      else sign_str q @ dec (scaled d \<bar>q\<bar> div 10 ^ d) @
           (if d = 0 then [] else 46 # pad d (scaled d \<bar>q\<bar>)))"
| "toFixed d x = num_str x"

subsection \<open>Reading\<close>

text \<open>\<open>span\<close> of digits, then the value of a decimal literal, exactly.\<close>

definition sign_of :: "jstr \<Rightarrow> bool \<times> jstr" where
  "sign_of s = (case s of c # r \<Rightarrow> if c = 45 then (True, r) else if c = 43 then (False, r) else (False, s)
                        | [] \<Rightarrow> (False, s))"

definition read_exp :: "jstr \<Rightarrow> int option" where
  "read_exp s = (case s of [] \<Rightarrow> Some 0
     | c # r \<Rightarrow>
        if c = 101 \<or> c = 69 then
          (case sign_of r of (neg, d) \<Rightarrow>
             if d \<noteq> [] \<and> list_all isDigit d
             then Some (if neg then - int (undec d) else int (undec d)) else None)
        else None)"

definition read_decimal :: "jstr \<Rightarrow> rat option" where
  "read_decimal s =
     (let i = takeWhile isDigit s; r = dropWhile isDigit s;
          f = (case r of [] \<Rightarrow> [] | c # t \<Rightarrow> if c = 46 then takeWhile isDigit t else []);
          e = (case r of [] \<Rightarrow> [] | c # t \<Rightarrow> if c = 46 then dropWhile isDigit t else r)
      in if i = [] \<and> f = [] then None
         else map_option (\<lambda>x. of_nat (undec (i @ f)) * 10 powi (x - int (length f))) (read_exp e))"

definition radix_digit :: "nat \<Rightarrow> nat option" where
  "radix_digit c = (if isDigit c then Some (c - 48)
     else if 97 \<le> c \<and> c \<le> 102 then Some (c - 87)
     else if 65 \<le> c \<and> c \<le> 70 then Some (c - 55) else None)"

fun read_radix :: "nat \<Rightarrow> nat \<Rightarrow> jstr \<Rightarrow> nat option" where
  "read_radix b n [] = Some n"
| "read_radix b n (c # s) = (case radix_digit c of None \<Rightarrow> None
     | Some d \<Rightarrow> if d < b then read_radix b (b * n + d) s else None)"

definition radix_of :: "nat \<Rightarrow> nat option" where
  "radix_of c = (if c = 120 \<or> c = 88 then Some 16 else if c = 111 \<or> c = 79 then Some 8
                 else if c = 98 \<or> c = 66 then Some 2 else None)"

definition read_unsigned :: "jstr \<Rightarrow> jsnum" where
  "read_unsigned t = (if t = [73, 110, 102, 105, 110, 105, 116, 121] then PInf
     else case read_decimal t of Some q \<Rightarrow> mk q | None \<Rightarrow> NaN)"

text \<open>\<open>Number(s)\<close>.\<close>

definition js_Number :: "jstr \<Rightarrow> jsnum" where
  "js_Number s0 = (let s = js_trim s0 in
     if s = [] then Fin 0
     else case (case s of z # c # d # r \<Rightarrow> if z = 48 then map_option (\<lambda>b. (b, d # r)) (radix_of c) else None
                        | _ \<Rightarrow> None) of
       Some (b, ds) \<Rightarrow> (case read_radix b 0 ds of Some n \<Rightarrow> mk (of_nat n) | None \<Rightarrow> NaN)
     | None \<Rightarrow> (case sign_of s of (neg, t) \<Rightarrow> if neg then js_neg (read_unsigned t) else read_unsigned t))"

subsection \<open>Reading back the digits of a whole number\<close>

lemma trim_no_space:
  assumes "\<forall>c \<in> set s. \<not> isSpace c"
  shows "js_trim s = s"
proof -
  have id: "dropWhile isSpace t = t" if "\<forall>c \<in> set t. \<not> isSpace c" for t
    using that by (cases t) auto
  show ?thesis using assms by (simp add: js_trim_def id)
qed

lemma trim_dec [simp]: "js_trim (dec n) = dec n"
  by (rule trim_no_space) (blast dest: dec_digits digit_not_space)

lemma read_decimal_digits:
  assumes "s \<noteq> []" "\<forall>c \<in> set s. isDigit c"
  shows "read_decimal s = Some (of_nat (undec s))"
proof -
  have d: "takeWhile isDigit s = s" "dropWhile isDigit s = []"
    using assms(2) by (simp_all only: takeWhile_eq_all_conv dropWhile_eq_Nil_conv)
  show ?thesis unfolding read_decimal_def Let_def d using assms(1) by (simp add: read_exp_def)
qed

lemma js_Number_digits:
  assumes "s \<noteq> []" "\<forall>c \<in> set s. isDigit c"
  shows "js_Number s = mk (of_nat (undec s))"
proof -
  have ns: "\<forall>c \<in> set s. \<not> isSpace c" using assms(2) digit_not_space by blast
  obtain a r where s: "s = a # r" using assms(1) by (cases s) auto
  have sg: "sign_of s = (False, s)" using assms(2) by (auto simp: s sign_of_def isDigit_def)
  have rx: "radix_of c = None" if "isDigit c" for c using that by (auto simp: radix_of_def isDigit_def)
  have "read_unsigned s = mk (of_nat (undec s))"
    using assms(2) by (auto simp: read_unsigned_def read_decimal_digits [OF assms] isDigit_def)
  then have "(case sign_of s of (neg, t) \<Rightarrow> if neg then js_neg (read_unsigned t) else read_unsigned t) =
      mk (of_nat (undec s))" by (simp add: sg)
  moreover have "(case s of z # c # d # r \<Rightarrow> if z = 48 then map_option (\<lambda>b. (b, d # r)) (radix_of c) else None
      | _ \<Rightarrow> None) = None"
    using assms(2) by (auto simp: rx split: list.splits)
  ultimately show ?thesis
    using assms(1) by (simp add: js_Number_def trim_no_space [OF ns])
qed

lemma js_Number_dec: "js_Number (dec n) = num_int (int n)"
  using js_Number_digits [of "dec n"] by (simp add: num_int_def dec_digits)

lemma js_Number_Nil [simp]: "js_Number [] = Fin 0"
  by (simp add: js_Number_def)

subsection \<open>The currency display loses nothing\<close>

text \<open>The cents a displayed amount stands for, read off the text alone.\<close>

definition read_brl :: "jstr \<Rightarrow> int" where
  "read_brl s = (let n = int (undec (js_onlyDigits s)) in if js_startsWith s [45] then - n else n)"

definition brl_text :: "bool \<Rightarrow> nat \<Rightarrow> jstr" where
  "brl_text neg n = (if neg then [45] else []) @ [82, 36, 160] @ group3 (dec (n div 100)) @ [44] @ pad 2 n"

lemma fmt_brl_text: "fmt_brl (Fin q) = brl_text (q < 0) (scaled 2 \<bar>q\<bar>)"
  by (simp add: brl_text_def sign_str_def)

lemma onlyDigits_brl_text: "js_onlyDigits (brl_text neg n) = dec (n div 100) @ pad 2 n"
proof -
  have d: "js_onlyDigits (group3 (dec (n div 100))) = dec (n div 100)"
    by (rule onlyDigits_group3) (simp add: dec_digits)
  have p: "js_onlyDigits (pad 2 n) = pad 2 n"
    by (rule onlyDigits_all) (blast intro: pad_digits)
  have "js_onlyDigits [82, 36, 160] = []" "js_onlyDigits [45] = []" "js_onlyDigits [44] = []"
    by (simp_all add: js_onlyDigits_def isDigit_def)
  moreover have "js_onlyDigits [] = []" by (simp add: js_onlyDigits_def)
  ultimately show ?thesis
    unfolding brl_text_def onlyDigits_append d p by simp
qed

lemma read_brl_text: "read_brl (brl_text neg n) = (if neg then - int n else int n)"
proof -
  have "undec (dec (n div 100) @ pad 2 n) = n"
    by (simp add: undec_append)
  moreover have "js_startsWith (brl_text neg n) [45] = neg"
    by (cases neg) (simp_all add: brl_text_def)
  ultimately show ?thesis by (simp add: read_brl_def onlyDigits_brl_text)
qed

lemma scaled_near:
  assumes "\<bar>q * 10 ^ d - of_nat n\<bar> < 1 / 2"
  shows "scaled d q = n"
proof -
  have "\<lfloor>q * 10 ^ d + 1 / 2\<rfloor> = int n"
    using assms unfolding abs_less_iff by (intro floor_unique; simp)
  then show ?thesis by (simp add: scaled_def)
qed

lemma cents_error:
  assumes "\<bar>c\<bar> < 2 ^ 52"
  shows "\<bar>fl (of_int c / 100) * 100 - of_int c\<bar> < 1 / 2"
proof (cases "c = 0")
  case False
  let ?q = "(of_int c / 100)::rat"
  have "1 \<le> \<bar>c\<bar>" using False by linarith
  then have "of_int 1 \<le> (of_int \<bar>c\<bar>::rat)" by (simp only: of_int_le_iff)
  moreover have "(2::rat) powi (- 1022) \<le> 2 powi (- 7)" by (rule power_int_increasing) simp_all
  ultimately have "2 powi (- 1022) \<le> \<bar>?q\<bar>" by (simp add: power_int_minus)
  from fl_rel_error [OF this] have "\<bar>fl ?q - ?q\<bar> * 100 \<le> \<bar>?q\<bar> * 2 powi (- 53) * 100"
    by (rule mult_right_mono) simp
  moreover have "\<bar>fl ?q * 100 - of_int c\<bar> = \<bar>fl ?q - ?q\<bar> * 100"
  proof -
    have "fl ?q * 100 - of_int c = (fl ?q - ?q) * 100" by (simp add: algebra_simps)
    then show ?thesis by (simp only: abs_mult abs_numeral)
  qed
  moreover have "(of_int \<bar>c\<bar>::rat) < of_int (2 ^ 52)" using assms by (simp only: of_int_less_iff)
  ultimately show ?thesis by (simp add: power_int_minus)
qed simp

lemma cents_bounds:
  assumes "\<bar>c\<bar> < 2 ^ 52"
  shows "fl (of_int c / 100) * 100 < of_int c + 1 / 2" "of_int c - 1 / 2 < fl (of_int c / 100) * 100"
  using cents_error [OF assms] unfolding abs_less_iff by simp_all

lemma fl_div100_bound:
  assumes "\<bar>c\<bar> < 2 ^ 52"
  shows "\<bar>fl (of_int c / 100)\<bar> < 2 powi 1024"
proof -
  have "(of_int c::rat) < of_int (2 ^ 52)" "of_int (- (2 ^ 52)) < (of_int c::rat)"
    unfolding of_int_less_iff using assms by auto
  then have "(of_int c::rat) < 2 ^ 52" "- (2 ^ 52) < (of_int c::rat)" by simp_all
  with cents_bounds [OF assms] have "fl (of_int c / 100) < 2 ^ 52" "- fl (of_int c / 100) < 2 ^ 52"
    by simp_all
  then have "\<bar>fl (of_int c / 100)\<bar> < 2 ^ 52" unfolding abs_less_iff by simp
  also have "\<dots> = 2 powi 52" by (simp add: power_int_def)
  also have "\<dots> < 2 powi 1024" by (rule power_int_strict_increasing) simp_all
  finally show ?thesis .
qed

lemma cents_value:
  assumes "\<bar>c\<bar> < 2 ^ 52"
  shows "js_div (num_int c) (num_int 100) = Fin (fl (of_int c / 100))"
proof -
  have "num_int c = Fin (of_int c)" using assms by (simp add: num_int_small)
  moreover have "num_int 100 = Fin 100" by (simp add: num_int_small)
  ultimately show ?thesis using mk_Fin [OF fl_div100_bound [OF assms]] by simp
qed

lemma fl_cents_neg:
  assumes "\<bar>c\<bar> < 2 ^ 52"
  shows "fl (of_int c / 100) < 0 \<longleftrightarrow> c < 0"
proof
  assume "fl (of_int c / 100) < 0"
  with cents_bounds(2) [OF assms] have "of_int c < (1::rat) / 2" by linarith
  then have "(of_int c::rat) < of_int 1" by simp
  then have "c < 1" by (simp only: of_int_less_iff)
  moreover have "c \<noteq> 0" using \<open>fl (of_int c / 100) < 0\<close> by auto
  ultimately show "c < 0" by linarith
next
  assume "c < 0"
  then have "(of_int c::rat) \<le> of_int (- 1)" by (simp only: of_int_le_iff)
  with cents_bounds(1) [OF assms] show "fl (of_int c / 100) < 0" by simp
qed

lemma fmt_cents:
  assumes "\<bar>c\<bar> < 2 ^ 52"
  shows "fmt_brl (js_div (num_int c) (num_int 100)) = brl_text (c < 0) (nat \<bar>c\<bar>)"
proof -
  let ?f = "fl (of_int c / 100)"
  have "\<bar>?f\<bar> * 100 = \<bar>?f * 100\<bar>" by (simp add: abs_mult)
  moreover have "\<bar>\<bar>?f * 100\<bar> - \<bar>of_int c\<bar>\<bar> \<le> \<bar>?f * 100 - of_int c\<bar>" by (rule abs_triangle_ineq3)
  moreover have "\<bar>of_int c\<bar> = (of_nat (nat \<bar>c\<bar>)::rat)" by simp
  moreover have "\<bar>?f\<bar> * 10 ^ 2 = \<bar>?f\<bar> * 100" by simp
  ultimately have "\<bar>\<bar>?f\<bar> * 10 ^ 2 - of_nat (nat \<bar>c\<bar>)\<bar> \<le> \<bar>?f * 100 - of_int c\<bar>"
    by (simp only:)
  then have "\<bar>\<bar>?f\<bar> * 10 ^ 2 - of_nat (nat \<bar>c\<bar>)\<bar> < 1 / 2"
    using cents_error [OF assms] by (rule order.strict_trans1)
  then have "scaled 2 \<bar>?f\<bar> = nat \<bar>c\<bar>" by (rule scaled_near)
  then show ?thesis
    unfolding cents_value [OF assms] fmt_brl_text by (simp add: fl_cents_neg [OF assms])
qed

lemma brl_shows_cents:
  assumes "\<bar>c\<bar> < 2 ^ 52"
  shows "read_brl (fmt_brl (js_div (num_int c) (num_int 100))) = c"
  unfolding fmt_cents [OF assms] read_brl_text by simp

end
