(* ===== verification/JsValue.thy ===== *)
theory JsValue imports JsFormat begin

text \<open>
  Dynamic JavaScript values, for the data the source leaves untyped: the rules of a programme
  (\<open>Record<string, unknown>\<close>), the bodies of requests and replies, the audit metadata. Objects are
  association lists in insertion order; a key occurs at most once in what the source builds.

  \<open>json v\<close> is the value that \<open>JSON.stringify v\<close> denotes as a JSON text: members whose value is
  undefined are gone, undefined elements of arrays and non-finite numbers are null. The text itself
  is not modelled.
\<close>

datatype jsval = JUndef | JNull | JBool bool | JNum jsnum | JStr jstr | JArr "jsval list"
  | JObj "(string \<times> jsval) list"

fun js_truthy :: "jsval \<Rightarrow> bool" where
  "js_truthy JUndef = False"
| "js_truthy JNull = False"
| "js_truthy (JBool b) = b"
| "js_truthy (JNum x) = num_truthy x"
| "js_truthy (JStr s) = (s \<noteq> [])"
| "js_truthy (JArr _) = True"
| "js_truthy (JObj _) = True"

text \<open>The member \<open>v.k\<close>: a type error on null and undefined, undefined where there is none.\<close>

fun member :: "jsval \<Rightarrow> string \<Rightarrow> jsval option" where
  "member JUndef k = None"
| "member JNull k = None"
| "member (JObj ms) k = Some (case map_of ms k of Some v \<Rightarrow> v | None \<Rightarrow> JUndef)"
| "member _ k = Some JUndef"

text \<open>\<open>{...a, ...b}\<close> on the members: a member of \<open>b\<close> replaces the one of \<open>a\<close> where it stands.\<close>

fun set_key :: "'k \<Rightarrow> 'v \<Rightarrow> ('k \<times> 'v) list \<Rightarrow> ('k \<times> 'v) list" where
  "set_key k v [] = [(k, v)]"
| "set_key k v ((k', v') # ms) = (if k = k' then (k, v) # ms else (k', v') # set_key k v ms)"

definition spread :: "('k \<times> 'v) list \<Rightarrow> ('k \<times> 'v) list \<Rightarrow> ('k \<times> 'v) list" where
  "spread a b = fold (\<lambda>(k, v). set_key k v) b a"

lemma map_of_set_key: "map_of (set_key k v ms) = (map_of ms)(k \<mapsto> v)"
  by (induction ms) auto

lemma map_of_spread: "distinct (map fst b) \<Longrightarrow> map_of (spread a b) = map_of a ++ map_of b"
proof (induction b arbitrary: a)
  case Nil
  then show ?case by (simp add: spread_def)
next
  case (Cons p b)
  obtain k v where p: "p = (k, v)" by (cases p)
  have "spread a (p # b) = spread (set_key k v a) b" by (simp add: spread_def p)
  then have "map_of (spread a (p # b)) = (map_of a)(k \<mapsto> v) ++ map_of b"
    using Cons by (simp add: map_of_set_key)
  moreover have "k \<notin> dom (map_of b)" using Cons.prems by (simp add: p dom_map_of_conv_image_fst)
  ultimately show ?case by (intro ext) (auto simp: p map_add_def dom_def split: option.splits)
qed

text \<open>\<open>String(v)\<close>, as \<open>new Error(v)\<close> applies it to what it is given.\<close>

fun js_String :: "jsval \<Rightarrow> jstr" where
  "js_String JUndef = U ''undefined''"
| "js_String JNull = U ''null''"
| "js_String (JBool b) = (if b then U ''true'' else U ''false'')"
| "js_String (JNum x) = num_str x"
| "js_String (JStr s) = s"
| "js_String (JArr vs) = js_join [44] (map (\<lambda>v. if v = JUndef \<or> v = JNull then [] else js_String v) vs)"
| "js_String (JObj _) = U ''[object Object]''"

fun json :: "jsval \<Rightarrow> jsval" where
  "json (JNum x) = (if js_isFinite x then JNum x else JNull)"
| "json (JArr vs) = JArr (map (\<lambda>v. if v = JUndef then JNull else json v) vs)"
| "json (JObj ms) = JObj (map (\<lambda>(k, v). (k, json v)) (filter (\<lambda>(k, v). v \<noteq> JUndef) ms))"
| "json v = v"

text \<open>No JSON text denotes undefined or a non-finite number, at any depth.\<close>

fun is_json :: "jsval \<Rightarrow> bool" where
  "is_json JUndef = False"
| "is_json (JNum x) = js_isFinite x"
| "is_json (JArr vs) = list_all is_json vs"
| "is_json (JObj ms) = list_all (\<lambda>(k, v). is_json v) ms"
| "is_json _ = True"

lemma is_json_json: "v \<noteq> JUndef \<Longrightarrow> is_json (json v)"
  by (induction v rule: json.induct) (auto simp: list_all_iff)

lemma json_id: "is_json v \<Longrightarrow> json v = v"
proof (induction v rule: json.induct)
  case (2 vs)
  then have "JUndef \<notin> set vs" by (auto simp: list_all_iff)
  with 2 show ?case by (auto simp: list_all_iff intro!: map_idI)
next
  case (3 ms)
  then have "filter (\<lambda>(k, v). v \<noteq> JUndef) ms = ms" by (auto simp: list_all_iff filter_id_conv)
  with 3 show ?case by (auto simp: list_all_iff intro!: map_idI)
qed auto

text \<open>Nullable and optional values as dynamic ones.\<close>

definition opt_str :: "jstr option \<Rightarrow> jsval" where
  "opt_str x = (case x of None \<Rightarrow> JUndef | Some s \<Rightarrow> JStr s)"

end
