(* ===== verification/Uri.thy ===== *)
theory Uri imports JsFormat begin

text \<open>
  Percent encoding: \<open>URLSearchParams\<close> (query strings of the API clients), \<open>encodeURIComponent\<close> and
  \<open>decodeURIComponent\<close> (the cookie of the tracking widget), over the UTF-8 bytes of a string.

  The lemmas state that reading back what was written gives the bytes, and the string, one started
  from.
\<close>

subsection \<open>UTF-16 to code points to UTF-8\<close>

definition is_high :: "nat \<Rightarrow> bool" where "is_high c \<longleftrightarrow> 55296 \<le> c \<and> c < 56320"
definition is_low :: "nat \<Rightarrow> bool" where "is_low c \<longleftrightarrow> 56320 \<le> c \<and> c < 57344"

text \<open>The code points of a string; \<open>None\<close> at a surrogate that is not one of a pair.\<close>

fun points :: "jstr \<Rightarrow> nat option list" where
  "points [] = []"
| "points [c] = [if is_high c \<or> is_low c then None else Some c]"
| "points (c # d # s) =
     (if is_high c \<and> is_low d then Some (65536 + (c - 55296) * 1024 + (d - 56320)) # points s
      else (if is_high c \<or> is_low c then None else Some c) # points (d # s))"

definition utf8 :: "nat \<Rightarrow> nat list" where
  "utf8 p = (if p < 128 then [p]
     else if p < 2048 then [192 + p div 64, 128 + p mod 64]
     else if p < 65536 then [224 + p div 4096, 128 + p div 64 mod 64, 128 + p mod 64]
     else [240 + p div 262144, 128 + p div 4096 mod 64, 128 + p div 64 mod 64, 128 + p mod 64])"

text \<open>Back: the string of a code point, and the bytes of a well-formed UTF-8 text.\<close>

definition units :: "nat \<Rightarrow> jstr" where
  "units p = (if p < 65536 then [p] else [55296 + (p - 65536) div 1024, 56320 + (p - 65536) mod 1024])"

definition cont :: "nat \<Rightarrow> bool" where "cont b \<longleftrightarrow> 128 \<le> b \<and> b < 192"

definition scalar :: "nat \<Rightarrow> bool" where
  "scalar p \<longleftrightarrow> p < 55296 \<or> (57344 \<le> p \<and> p < 1114112)"

fun unutf8 :: "nat list \<Rightarrow> jstr option" where
  "unutf8 [] = Some []"
| "unutf8 (a # r) =
    (if a < 128 then map_option ((@) (units a)) (unutf8 r)
     else if 194 \<le> a \<and> a < 224 then
       (case r of b # r' \<Rightarrow> if cont b then map_option ((@) (units ((a - 192) * 64 + (b - 128)))) (unutf8 r')
                           else None | _ \<Rightarrow> None)
     else if 224 \<le> a \<and> a < 240 then
       (case r of b # c # r' \<Rightarrow>
          (let p = (a - 224) * 4096 + (b - 128) * 64 + (c - 128) in
           if cont b \<and> cont c \<and> 2048 \<le> p \<and> scalar p then map_option ((@) (units p)) (unutf8 r') else None)
        | _ \<Rightarrow> None)
     else if 240 \<le> a \<and> a < 248 then
       (case r of b # c # d # r' \<Rightarrow>
          (let p = (a - 240) * 262144 + (b - 128) * 4096 + (c - 128) * 64 + (d - 128) in
           if cont b \<and> cont c \<and> cont d \<and> 65536 \<le> p \<and> scalar p
           then map_option ((@) (units p)) (unutf8 r') else None)
        | _ \<Rightarrow> None)
     else None)"

lemma base64_digits:
  fixes p :: nat
  shows "p = p div 64 * 64 + p mod 64" "p div 64 = p div 4096 * 64 + p div 64 mod 64"
    "p div 4096 = p div 262144 * 64 + p div 4096 mod 64"
proof -
  have "p div 4096 = p div 64 div 64" "p div 262144 = p div 4096 div 64"
    by (simp_all flip: div_mult2_eq)
  then show "p = p div 64 * 64 + p mod 64" "p div 64 = p div 4096 * 64 + p div 64 mod 64"
    "p div 4096 = p div 262144 * 64 + p div 4096 mod 64" by simp_all
qed

lemma unutf8_utf8:
  assumes "scalar p"
  shows "unutf8 (utf8 p @ r) = map_option ((@) (units p)) (unutf8 r)"
proof -
  consider "p < 128" | "128 \<le> p" "p < 2048" | "2048 \<le> p" "p < 65536" | "65536 \<le> p" "p < 1114112"
    using assms by (force simp: scalar_def)
  then show ?thesis
  proof cases
    case 1
    then show ?thesis by (simp add: utf8_def)
  next
    case 2
    have "2 * 64 div 64 \<le> p div 64" using 2 by (intro div_le_mono) simp
    moreover have "192 + p div 64 < 224" using 2 by (simp add: less_mult_imp_div_less)
    moreover have "p div 64 * 64 + p mod 64 = p" by simp
    ultimately have "194 \<le> 192 + p div 64" "p div 64 < 32" "p div 64 * 64 + p mod 64 = p" by simp_all
    with 2 show ?thesis
      by (simp add: utf8_def cont_def) (use 2 in \<open>simp add: less_mult_imp_div_less\<close>)
  next
    case 3
    have "p div 4096 * 4096 + p div 64 mod 64 * 64 + p mod 64 = p"
      using base64_digits(1,2) [of p] by linarith
    moreover have "224 + p div 4096 < 240" using 3 by (simp add: less_mult_imp_div_less)
    ultimately show ?thesis using 3 assms by (simp add: utf8_def cont_def)
  next
    case 4
    have "p div 262144 * 262144 + p div 4096 mod 64 * 4096 + p div 64 mod 64 * 64 + p mod 64 = p"
      using base64_digits [of p] by linarith
    moreover have "240 + p div 262144 < 248" using 4 by (simp add: less_mult_imp_div_less)
    ultimately show ?thesis using 4 assms by (simp add: utf8_def cont_def)
  qed
qed

lemma utf8_bytes: "p < 1114112 \<Longrightarrow> b \<in> set (utf8 p) \<Longrightarrow> b < 256"
  by (auto simp: utf8_def split: if_splits)

text \<open>A string of 16-bit units without a lone surrogate: what the two functions accept.\<close>

definition well_formed :: "jstr \<Rightarrow> bool" where
  "well_formed s \<longleftrightarrow> list_all (\<lambda>c. c < 65536) s \<and> None \<notin> set (points s)"

definition bytes_of :: "jstr \<Rightarrow> nat list" where
  "bytes_of s = concat (map (\<lambda>p. utf8 (case p of Some q \<Rightarrow> q | None \<Rightarrow> 65533)) (points s))"

lemma units_points: "is_high c \<Longrightarrow> is_low d \<Longrightarrow>
    scalar (65536 + (c - 55296) * 1024 + (d - 56320)) \<and>
    units (65536 + (c - 55296) * 1024 + (d - 56320)) = [c, d]"
proof -
  assume "is_high c" "is_low d"
  then obtain a e where "c = 55296 + a" "a < 1024" "d = 56320 + e" "e < 1024"
    by (auto simp: is_high_def is_low_def le_iff_add)
  then show ?thesis by (simp add: units_def scalar_def)
qed

lemma unutf8_bytes_of: "well_formed s \<Longrightarrow> unutf8 (bytes_of s) = Some s"
proof (induction s rule: points.induct)
  case 1
  show ?case by (simp add: bytes_of_def)
next
  case (2 c)
  then have "scalar c" "\<not> (is_high c \<or> is_low c)" "c < 65536"
    by (auto simp: well_formed_def scalar_def is_high_def is_low_def split: if_splits)
  then show ?case using unutf8_utf8 [of c "[]"] by (simp add: bytes_of_def units_def)
next
  case (3 c d s)
  show ?case
  proof (cases "is_high c \<and> is_low d")
    case True
    with 3 have "unutf8 (bytes_of s) = Some s" by (auto simp: well_formed_def)
    with True show ?thesis
      using units_points [of c d]
        unutf8_utf8 [of "65536 + (c - 55296) * 1024 + (d - 56320)" "bytes_of s"]
      by (simp add: bytes_of_def)
  next
    case False
    with 3 have "unutf8 (bytes_of (d # s)) = Some (d # s)" "c < 65536"
      "scalar c" "\<not> (is_high c \<or> is_low c)"
      by (auto simp: well_formed_def scalar_def is_high_def is_low_def split: if_splits)
    with False show ?thesis
      using unutf8_utf8 [of c "bytes_of (d # s)"] by (simp add: bytes_of_def units_def)
  qed
qed

subsection \<open>Percent encoding of bytes\<close>

definition hex_digit :: "nat \<Rightarrow> nat" where
  "hex_digit n = (if n < 10 then 48 + n else 55 + n)"

definition pct :: "nat \<Rightarrow> jstr" where
  "pct b = [37, hex_digit (b div 16), hex_digit (b mod 16)]"

definition unhex :: "nat \<Rightarrow> nat option" where
  "unhex c = radix_digit c"

lemma unhex_hex: "n < 16 \<Longrightarrow> unhex (hex_digit n) = Some n"
  by (auto simp: unhex_def hex_digit_def radix_digit_def isDigit_def)

definition alnum :: "nat \<Rightarrow> bool" where
  "alnum c \<longleftrightarrow> isDigit c \<or> (65 \<le> c \<and> c \<le> 90) \<or> (97 \<le> c \<and> c \<le> 122)"

text \<open>
  The bytes \<open>encodeURIComponent\<close> leaves alone, and those the form encoding of \<open>URLSearchParams\<close>
  leaves alone; the form encoding writes the space as a plus sign.
\<close>

definition uri_safe :: "nat \<Rightarrow> bool" where
  "uri_safe c \<longleftrightarrow> alnum c \<or> c \<in> {33, 39, 40, 41, 42, 45, 46, 95, 126}"

definition form_safe :: "nat \<Rightarrow> bool" where
  "form_safe c \<longleftrightarrow> alnum c \<or> c \<in> {42, 45, 46, 95}"

definition uri_byte :: "nat \<Rightarrow> jstr" where
  "uri_byte b = (if uri_safe b then [b] else pct b)"

definition form_byte :: "nat \<Rightarrow> jstr" where
  "form_byte b = (if form_safe b then [b] else if b = 32 then [43] else pct b)"

text \<open>Decoding; in the form encoding an escape that is not one stands for itself.\<close>

fun unform :: "jstr \<Rightarrow> nat list" where
  "unform (c # a # b # s) =
     (if c = 37 then (case (unhex a, unhex b) of (Some h, Some l) \<Rightarrow> (16 * h + l) # unform s
                      | _ \<Rightarrow> 37 # unform (a # b # s))
      else (if c = 43 then 32 else c) # unform (a # b # s))"
| "unform s = map (\<lambda>c. if c = 43 then 32 else c) s"

lemma unform_form_byte:
  assumes "b < 256"
  shows "unform (form_byte b @ s) = b # unform s"
proof -
  have plain: "unform (c # s) = (if c = 43 then 32 else c) # unform s" if "c \<noteq> 37" for c
  proof (cases s)
    case (Cons d t)
    with that show ?thesis by (cases t) simp_all
  qed simp
  have esc: "unform (pct b @ s) = b # unform s"
    using assms by (simp add: pct_def unhex_hex less_mult_imp_div_less)
  have "b \<noteq> 37 \<and> b \<noteq> 43" if "form_safe b"
    using that by (auto simp: form_safe_def alnum_def isDigit_def)
  then show ?thesis using plain [of b] plain [of 43] by (simp add: form_byte_def esc)
qed

lemma unform_form_bytes:
  "\<forall>b \<in> set bs. b < 256 \<Longrightarrow> unform (concat (map form_byte bs)) = bs"
  by (induction bs) (simp_all add: unform_form_byte)

lemma hex_digit_alnum: "n < 16 \<Longrightarrow> alnum (hex_digit n)"
  by (auto simp: hex_digit_def alnum_def isDigit_def)

lemma form_byte_chars:
  assumes "c \<in> set (form_byte b)" "b < 256"
  shows "c \<noteq> 38 \<and> c \<noteq> 61 \<and> c \<noteq> 63 \<and> c \<noteq> 35"
proof -
  have "form_safe c \<or> c = 43 \<or> c = 37"
    using assms hex_digit_alnum [of "b div 16"] hex_digit_alnum [of "b mod 16"]
    by (auto simp: form_byte_def pct_def form_safe_def less_mult_imp_div_less split: if_splits)
  then show ?thesis by (auto simp: form_safe_def alnum_def isDigit_def)
qed

subsection \<open>\<open>encodeURIComponent\<close> and \<open>decodeURIComponent\<close>\<close>

text \<open>Both throw a \<open>URIError\<close> (\<open>None\<close>): the first on a lone surrogate, the second on bad escapes.\<close>

definition encodeURIComponent :: "jstr \<Rightarrow> jstr option" where
  "encodeURIComponent s = (if None \<in> set (points s) then None
                           else Some (concat (map uri_byte (bytes_of s))))"

text \<open>The bytes of a text with escapes; a unit outside ASCII contributes its own UTF-8 bytes.\<close>

fun unpct :: "jstr \<Rightarrow> nat list option" where
  "unpct [] = Some []"
| "unpct (c # s) =
     (if c = 37 then
        (case s of a # b # r \<Rightarrow>
           (case (unhex a, unhex b) of (Some h, Some l) \<Rightarrow> map_option ((#) (16 * h + l)) (unpct r)
            | _ \<Rightarrow> None)
         | _ \<Rightarrow> None)
      else map_option ((@) (utf8 c)) (unpct s))"

definition decodeURIComponent :: "jstr \<Rightarrow> jstr option" where
  "decodeURIComponent s = Option.bind (unpct s) unutf8"

lemma unpct_uri_byte:
  assumes "b < 256"
  shows "unpct (uri_byte b @ s) = map_option ((#) b) (unpct s)"
proof -
  have "b div 16 < 16" using assms by simp
  moreover have "b < 128" "b \<noteq> 37" if "uri_safe b"
    using that by (auto simp: uri_safe_def alnum_def isDigit_def)
  moreover have "(@) [b] = (#) b" by (rule ext) simp
  ultimately show ?thesis by (auto simp: uri_byte_def pct_def unhex_hex utf8_def)
qed

lemma unpct_uri_bytes: "\<forall>b \<in> set bs. b < 256 \<Longrightarrow> unpct (concat (map uri_byte bs)) = Some bs"
  by (induction bs) (simp_all add: unpct_uri_byte)

lemma points_bound: "\<forall>c \<in> set s. c < 65536 \<Longrightarrow> Some p \<in> set (points s) \<Longrightarrow> p < 1114112"
  by (induction s rule: points.induct) (auto simp: is_high_def is_low_def split: if_splits)

lemma bytes_of_bytes:
  assumes "\<forall>c \<in> set s. c < 65536"
  shows "\<forall>b \<in> set (bytes_of s). b < 256"
proof
  fix b assume "b \<in> set (bytes_of s)"
  then obtain p where p: "p \<in> set (points s)"
    and b: "b \<in> set (utf8 (case p of Some q \<Rightarrow> q | None \<Rightarrow> 65533))" by (auto simp: bytes_of_def)
  have "(case p of Some q \<Rightarrow> q | None \<Rightarrow> 65533) < 1114112"
    using points_bound [OF assms] p by (cases p) auto
  then show "b < 256" using b by (rule utf8_bytes)
qed

lemma decode_encode:
  assumes "well_formed s"
  shows "\<exists>t. encodeURIComponent s = Some t \<and> decodeURIComponent t = Some s"
proof -
  have "\<forall>c \<in> set s. c < 65536" using assms by (simp add: well_formed_def list_all_iff)
  then have "unpct (concat (map uri_byte (bytes_of s))) = Some (bytes_of s)"
    by (intro unpct_uri_bytes bytes_of_bytes)
  with assms show ?thesis
    by (simp add: encodeURIComponent_def decodeURIComponent_def well_formed_def unutf8_bytes_of)
qed

lemma encode_chars:
  assumes "encodeURIComponent s = Some t" "\<forall>c \<in> set s. c < 65536"
  shows "\<forall>c \<in> set t. uri_safe c \<or> c = 37"
proof -
  have hex: "uri_safe (hex_digit n)" if "n < 16" for n
    using hex_digit_alnum [OF that] by (simp add: uri_safe_def)
  have byte: "uri_safe c \<or> c = 37" if "c \<in> set (uri_byte b)" "b < 256" for b c
    using that hex [of "b div 16"] hex [of "b mod 16"]
    by (auto simp: uri_byte_def pct_def less_mult_imp_div_less split: if_splits)
  have t: "t = concat (map uri_byte (bytes_of s))"
    using assms(1) by (simp add: encodeURIComponent_def split: if_splits)
  show ?thesis
  proof
    fix c assume "c \<in> set t"
    then obtain b where "b \<in> set (bytes_of s)" "c \<in> set (uri_byte b)" by (auto simp: t)
    then show "uri_safe c \<or> c = 37" using byte bytes_of_bytes [OF assms(2)] by blast
  qed
qed

subsection \<open>\<open>URLSearchParams\<close>\<close>

text \<open>
  The parameters in the order they were set (\<open>set\<close> replaces the first of the name and drops the
  others; the source sets each name once), and \<open>toString\<close>.
\<close>

type_synonym params = "(jstr \<times> jstr) list"

definition params_set :: "jstr \<Rightarrow> jstr \<Rightarrow> params \<Rightarrow> params" where
  "params_set k v ps = (if k \<in> fst ` set ps
     then (case List.extract (\<lambda>p. fst p = k) ps of
             Some (a, _, b) \<Rightarrow> a @ (k, v) # filter (\<lambda>p. fst p \<noteq> k) b | None \<Rightarrow> ps)
     else ps @ [(k, v)])"

text \<open>\<open>if (v) params.set(k, v)\<close>.\<close>

definition set_if :: "jstr \<Rightarrow> jstr option \<Rightarrow> params \<Rightarrow> params" where
  "set_if k v ps = (case truthy_s v of None \<Rightarrow> ps | Some s \<Rightarrow> params_set k s ps)"

definition form_enc :: "jstr \<Rightarrow> jstr" where
  "form_enc s = concat (map form_byte (bytes_of s))"

definition params_str :: "params \<Rightarrow> jstr" where
  "params_str ps = js_join [38] (map (\<lambda>(k, v). form_enc k @ [61] @ form_enc v) ps)"

text \<open>A path with the query string, when there is one: \<open>qs ? ("?" + qs) : ""\<close>.\<close>

definition with_query :: "jstr \<Rightarrow> params \<Rightarrow> jstr" where
  "with_query path ps = path @ (let qs = params_str ps in if qs = [] then [] else 63 # qs)"

text \<open>The other end: the pairs of byte strings a server reads from a query string.\<close>

definition read_pair :: "jstr \<Rightarrow> nat list \<times> nat list" where
  "read_pair s = (unform (takeWhile (\<lambda>c. c \<noteq> 61) s), unform (drop 1 (dropWhile (\<lambda>c. c \<noteq> 61) s)))"

definition read_query :: "jstr \<Rightarrow> (nat list \<times> nat list) list" where
  "read_query s = (if s = [] then [] else map read_pair (js_split 38 s))"

lemma form_enc_chars:
  "\<forall>u \<in> set s. u < 65536 \<Longrightarrow> c \<in> set (form_enc s) \<Longrightarrow> c \<noteq> 38 \<and> c \<noteq> 61 \<and> c \<noteq> 63 \<and> c \<noteq> 35"
  using bytes_of_bytes form_byte_chars by (fastforce simp: form_enc_def)

lemma unform_form_enc: "\<forall>u \<in> set s. u < 65536 \<Longrightarrow> unform (form_enc s) = bytes_of s"
  by (simp add: form_enc_def unform_form_bytes bytes_of_bytes)

lemma read_pair_enc:
  assumes "\<forall>u \<in> set k. u < 65536" "\<forall>u \<in> set v. u < 65536"
  shows "read_pair (form_enc k @ 61 # form_enc v) = (bytes_of k, bytes_of v)"
proof -
  have "\<forall>c \<in> set (form_enc k). c \<noteq> 61" using form_enc_chars [OF assms(1)] by blast
  then show ?thesis using assms by (simp add: read_pair_def takeWhile_append2 dropWhile_append2 unform_form_enc)
qed

definition units16 :: "params \<Rightarrow> bool" where
  "units16 ps \<longleftrightarrow> (\<forall>(k, v) \<in> set ps. (\<forall>u \<in> set k. u < 65536) \<and> (\<forall>u \<in> set v. u < 65536))"

lemma split_join:
  "xs \<noteq> [] \<Longrightarrow> \<forall>x \<in> set xs. c \<notin> set x \<Longrightarrow> js_split c (js_join [c] xs) = xs"
proof (induction xs)
  case (Cons x xs)
  then show ?case by (cases xs) (auto simp: split_no_sep split_append_sep)
qed simp

lemma read_query_params:
  assumes "units16 ps"
  shows "read_query (params_str ps) = map (\<lambda>(k, v). (bytes_of k, bytes_of v)) ps"
proof (cases "ps = []")
  case True
  then show ?thesis by (simp add: read_query_def params_str_def)
next
  case False
  let ?f = "\<lambda>(k, v). form_enc k @ [61] @ form_enc v"
  have no: "\<forall>x \<in> set (map ?f ps). 38 \<notin> set x"
    using assms form_enc_chars by (fastforce simp: units16_def)
  have "js_split 38 (params_str ps) = map ?f ps"
    using False no by (simp add: params_str_def split_join)
  moreover have "params_str ps \<noteq> []"
  proof (cases ps)
    case (Cons p qs)
    then show ?thesis by (cases p; cases qs) (auto simp: params_str_def)
  qed (use False in simp)
  moreover have "map read_pair (map ?f ps) = map (\<lambda>(k, v). (bytes_of k, bytes_of v)) ps"
    using assms by (auto simp: units16_def read_pair_enc)
  ultimately show ?thesis by (simp add: read_query_def)
qed

lemma params_str_eq_Nil: "params_str ps = [] \<longleftrightarrow> ps = []"
  by (cases ps; cases "tl ps") (auto simp: params_str_def split: prod.splits)

end
