(* ===== verification/Http.thy ===== *)
theory Http imports JsValue Uri begin

text \<open>
  The HTTP layer the two applications and the client package share: requests as \<open>fetch\<close> receives
  them, its outcome (a network failure, or a reply with a status and a body), and the functions
  \<open>request\<close> of \<open>apps/dashboard/app/lib/api.ts\<close>, \<open>apps/partner/app/lib/api.ts\<close> and
  \<open>packages/api-client/src/index.ts\<close>: what they send, and how they settle on each outcome.

  \<open>fetch\<close> and the server are outside: an outcome is an argument. The locale \<open>http_client\<close> is the
  contract the pages rely on, and the two \<open>settle\<close> functions are its instances.
\<close>

subsection \<open>Requests and outcomes\<close>

record http_req =
  rq_method :: string
  rq_url :: jstr
  rq_credentials :: string
  rq_headers :: "(string \<times> jstr) list"
  rq_body :: "jsval option"

text \<open>What a caller passes as \<open>init\<close>: the method, its own headers and the body.\<close>

record http_init =
  in_method :: string
  in_headers :: "(string \<times> jstr) list"
  in_body :: "jsval option"

text \<open>A reply: \<open>rp_json\<close> is what \<open>res.json()\<close> resolves to, \<open>None\<close> where it rejects.\<close>

record http_reply =
  rp_status :: nat
  rp_statusText :: jstr
  rp_json :: "jsval option"

datatype outcome = NetworkFailure jstr | Reply http_reply

definition res_ok :: "http_reply \<Rightarrow> bool" where
  "res_ok r \<longleftrightarrow> 200 \<le> rp_status r \<and> rp_status r \<le> 299"

text \<open>
  What a call can throw: an \<open>ApiError\<close> (message and status), an \<open>IndicaApiError\<close> of the client
  package (message, code and status, copied from the body), the rejection of \<open>fetch\<close>, a type error
  (a member of null was read), or the syntax error of \<open>res.json()\<close>. The wording of the last two is
  the engine's: the argument \<open>eng\<close> of the functions below gives it.
\<close>

datatype api_err = ApiErr jstr nat | IndicaErr jstr jsval jsval | FetchErr jstr | TypeErr jstr | SyntaxErr jstr

text \<open>\<open>e.message\<close> of what was thrown.\<close>

fun err_message :: "api_err \<Rightarrow> jstr" where
  "err_message (ApiErr m _) = m"
| "err_message (IndicaErr m _ _) = m"
| "err_message (FetchErr m) = m"
| "err_message (TypeErr m) = m"
| "err_message (SyntaxErr m) = m"

type_synonym engine = "string \<Rightarrow> jstr"

definition json_type :: "(string \<times> jstr) list" where
  "json_type = [(''Content-Type'', U ''application/json'')]"

text \<open>\<open>body ? JSON.stringify(body) : undefined\<close>.\<close>

definition body_of :: "jsval \<Rightarrow> jsval option" where
  "body_of v = (if js_truthy v then Some (json v) else None)"

subsection \<open>\<open>request\<close> of the two applications\<close>

definition app_request :: "jstr \<Rightarrow> jstr \<Rightarrow> http_init \<Rightarrow> http_req" where
  "app_request base path i = \<lparr> rq_method = in_method i, rq_url = base @ path,
     rq_credentials = ''include'', rq_headers = spread json_type (in_headers i), rq_body = in_body i \<rparr>"

definition error_text :: "jsval \<Rightarrow> jstr \<Rightarrow> jstr" where
  "error_text v d = (if js_truthy v then js_String v else d)"

fun app_settle :: "engine \<Rightarrow> outcome \<Rightarrow> api_err + jsval" where
  "app_settle eng (NetworkFailure m) = Inl (FetchErr m)"
| "app_settle eng (Reply r) =
     (if \<not> res_ok r then
        (case member (case rp_json r of Some v \<Rightarrow> v | None \<Rightarrow> JObj [(''error'', JStr (rp_statusText r))]) ''error'' of
           None \<Rightarrow> Inl (TypeErr (eng ''TypeError''))
         | Some e \<Rightarrow> Inl (ApiErr (error_text e (rp_statusText r)) (rp_status r)))
      else if rp_status r = 204 then Inr JUndef
      else case rp_json r of None \<Rightarrow> Inl (SyntaxErr (eng ''SyntaxError'')) | Some v \<Rightarrow> Inr v)"

definition api_get :: "jstr \<Rightarrow> jstr \<Rightarrow> http_req" where
  "api_get base path = app_request base path \<lparr> in_method = ''GET'', in_headers = [], in_body = None \<rparr>"

definition api_post :: "jstr \<Rightarrow> jstr \<Rightarrow> jsval \<Rightarrow> http_req" where
  "api_post base path body =
     app_request base path \<lparr> in_method = ''POST'', in_headers = [], in_body = body_of body \<rparr>"

definition api_patch :: "jstr \<Rightarrow> jstr \<Rightarrow> jsval \<Rightarrow> http_req" where
  "api_patch base path body =
     app_request base path \<lparr> in_method = ''PATCH'', in_headers = [], in_body = body_of body \<rparr>"

definition api_del :: "jstr \<Rightarrow> jstr \<Rightarrow> http_req" where
  "api_del base path = app_request base path \<lparr> in_method = ''DELETE'', in_headers = [], in_body = None \<rparr>"

text \<open>
  \<open>err instanceof ApiError ? err.message : d\<close>, as the handlers of the pages word a failure.
\<close>

fun api_message :: "api_err \<Rightarrow> jstr \<Rightarrow> jstr" where
  "api_message (ApiErr m _) d = m"
| "api_message _ d = d"

subsection \<open>\<open>createClient\<close> of the client package\<close>

record client_options =
  co_baseUrl :: jstr
  co_credentials :: "string option"
  co_headers :: "(string \<times> jstr) list option"

definition client_request :: "client_options \<Rightarrow> jstr \<Rightarrow> http_init \<Rightarrow> http_req" where
  "client_request o' path i = \<lparr> rq_method = in_method i, rq_url = co_baseUrl o' @ path,
     rq_credentials = orelse (co_credentials o') ''include'',
     rq_headers = spread (spread json_type (orelse (co_headers o') [])) (in_headers i),
     rq_body = in_body i \<rparr>"

text \<open>\<open>super(error.message)\<close>: an absent message is the empty one.\<close>

definition message_of :: "jsval \<Rightarrow> jstr" where
  "message_of v = (if v = JUndef then [] else js_String v)"

fun client_settle :: "engine \<Rightarrow> outcome \<Rightarrow> api_err + jsval" where
  "client_settle eng (NetworkFailure m) = Inl (FetchErr m)"
| "client_settle eng (Reply r) =
     (if \<not> res_ok r then
        (let body = (case rp_json r of Some v \<Rightarrow> v
             | None \<Rightarrow> JObj [(''message'', JStr (rp_statusText r)), (''code'', JStr (U ''UNKNOWN_ERROR'')),
                           (''status'', JNum (num_int (int (rp_status r))))]) in
         case (member body ''message'', member body ''code'', member body ''status'') of
           (Some m, Some c, Some s) \<Rightarrow> Inl (IndicaErr (message_of m) c s)
         | _ \<Rightarrow> Inl (TypeErr (eng ''TypeError'')))
      else if rp_status r = 204 then Inr JUndef
      else case rp_json r of None \<Rightarrow> Inl (SyntaxErr (eng ''SyntaxError'')) | Some v \<Rightarrow> Inr v)"

text \<open>The five methods; \<open>init\<close> carries only headers there, its method and body are replaced.\<close>

definition client_get :: "client_options \<Rightarrow> jstr \<Rightarrow> (string \<times> jstr) list \<Rightarrow> http_req" where
  "client_get o' path hs = client_request o' path \<lparr> in_method = ''GET'', in_headers = hs, in_body = None \<rparr>"

definition client_post :: "client_options \<Rightarrow> jstr \<Rightarrow> jsval \<Rightarrow> (string \<times> jstr) list \<Rightarrow> http_req" where
  "client_post o' path b hs =
     client_request o' path \<lparr> in_method = ''POST'', in_headers = hs, in_body = body_of b \<rparr>"

definition client_put :: "client_options \<Rightarrow> jstr \<Rightarrow> jsval \<Rightarrow> (string \<times> jstr) list \<Rightarrow> http_req" where
  "client_put o' path b hs =
     client_request o' path \<lparr> in_method = ''PUT'', in_headers = hs, in_body = body_of b \<rparr>"

definition client_patch :: "client_options \<Rightarrow> jstr \<Rightarrow> jsval \<Rightarrow> (string \<times> jstr) list \<Rightarrow> http_req" where
  "client_patch o' path b hs =
     client_request o' path \<lparr> in_method = ''PATCH'', in_headers = hs, in_body = body_of b \<rparr>"

definition client_delete :: "client_options \<Rightarrow> jstr \<Rightarrow> (string \<times> jstr) list \<Rightarrow> http_req" where
  "client_delete o' path hs =
     client_request o' path \<lparr> in_method = ''DELETE'', in_headers = hs, in_body = None \<rparr>"

lemmas request_defs = api_get_def api_post_def api_patch_def api_del_def app_request_def
  client_get_def client_post_def client_put_def client_patch_def client_delete_def client_request_def

subsection \<open>The contract of a client\<close>

locale http_client =
  fixes settle :: "outcome \<Rightarrow> api_err + jsval"
  assumes network: "\<exists>e. settle (NetworkFailure m) = Inl e"
    and refused: "\<not> res_ok r \<Longrightarrow> \<exists>e. settle (Reply r) = Inl e"
    and empty: "rp_status r = 204 \<Longrightarrow> settle (Reply r) = Inr JUndef"
    and delivered: "res_ok r \<Longrightarrow> rp_status r \<noteq> 204 \<Longrightarrow> rp_json r = Some v \<Longrightarrow> settle (Reply r) = Inr v"
    and broken: "res_ok r \<Longrightarrow> rp_status r \<noteq> 204 \<Longrightarrow> rp_json r = None \<Longrightarrow> \<exists>m. settle (Reply r) = Inl (SyntaxErr m)"
begin

lemma resolves_iff:
  "settle x = Inr v \<longleftrightarrow> (\<exists>r. x = Reply r \<and> res_ok r \<and>
     (if rp_status r = 204 then v = JUndef else rp_json r = Some v))"
proof (cases x)
  case (NetworkFailure m)
  then show ?thesis using network [of m] by auto
next
  case (Reply r)
  show ?thesis
  proof (cases "res_ok r")
    case False
    then show ?thesis using refused [of r] Reply by auto
  next
    case True
    then show ?thesis
      using empty [of r] delivered [of r] broken [of r] Reply by (cases "rp_json r") auto
  qed
qed

lemma resolves_ok: "settle x = Inr v \<Longrightarrow> \<exists>r. x = Reply r \<and> res_ok r"
  by (auto simp: resolves_iff)

end

lemma ok_204: "rp_status r = 204 \<Longrightarrow> res_ok r"
  by (simp add: res_ok_def)

interpretation app: http_client "app_settle eng" for eng
  by unfold_locales (auto simp: ok_204 split: option.splits)

interpretation pkg: http_client "client_settle eng" for eng
  by unfold_locales (auto simp: ok_204 Let_def split: option.splits)

text \<open>An application call fails with a type error only on a refused reply whose body is null.\<close>

lemma member_None: "member v k = None \<longleftrightarrow> v = JUndef \<or> v = JNull"
  by (cases v) auto

lemma app_type_error:
  "(\<exists>m. app_settle eng x = Inl (TypeErr m)) \<longleftrightarrow>
     (\<exists>r. x = Reply r \<and> \<not> res_ok r \<and> (rp_json r = Some JNull \<or> rp_json r = Some JUndef))"
  by (cases x) (auto simp: member_None split: option.splits)

subsection \<open>Paths\<close>

text \<open>The part of a path before the query, cut at the slashes.\<close>

definition path_only :: "jstr \<Rightarrow> jstr" where
  "path_only p = takeWhile (\<lambda>c. c \<noteq> 63) p"

definition segments :: "jstr \<Rightarrow> jstr list" where
  "segments p = js_split 47 (path_only p)"

text \<open>An identifier that is one path segment, as the UUIDs of the server are.\<close>

definition is_segment :: "jstr \<Rightarrow> bool" where
  "is_segment s \<longleftrightarrow> s \<noteq> [] \<and> 47 \<notin> set s \<and> 63 \<notin> set s"

lemma path_only_query: "63 \<notin> set p \<Longrightarrow> path_only (with_query p ps) = p"
proof -
  assume "63 \<notin> set p"
  then have "takeWhile (\<lambda>c. c \<noteq> 63) p = p" by (auto simp: takeWhile_eq_all_conv)
  with \<open>63 \<notin> set p\<close> show ?thesis
    by (auto simp: path_only_def with_query_def Let_def takeWhile_append)
qed

definition query_of :: "jstr \<Rightarrow> jstr" where
  "query_of p = drop 1 (dropWhile (\<lambda>c. c \<noteq> 63) p)"

lemma query_of_with: "63 \<notin> set p \<Longrightarrow> query_of (with_query p ps) = params_str ps"
proof -
  assume "63 \<notin> set p"
  then have "dropWhile (\<lambda>c. c \<noteq> 63) p = []" by auto
  with \<open>63 \<notin> set p\<close> show ?thesis
    by (auto simp: query_of_def with_query_def Let_def dropWhile_append)
qed

end
