(* ===== verification/DashboardApi.thy ===== *)
theory DashboardApi imports Http begin

text \<open>
  \<open>apps/dashboard/app/lib/api.ts\<close>: the records the dashboard receives and sends, and every call of
  its \<open>...Api\<close> objects with the request it makes. A field the interface types \<open>T | null\<close> or \<open>T?\<close>
  is an option; identifiers, dates and texts are strings; a number is a JavaScript number.
\<close>

subsection \<open>Records and unions\<close>

datatype program_status = PActive | PPaused | PDraft

fun program_status_str :: "program_status \<Rightarrow> jstr" where
  "program_status_str PActive = U ''active''"
| "program_status_str PPaused = U ''paused''"
| "program_status_str PDraft = U ''draft''"

record program =
  pg_id :: jstr
  pg_tenant_id :: jstr
  pg_name :: jstr
  pg_description :: "jstr option"
  pg_status :: program_status
  pg_rules :: jsval
  pg_redirect_type :: jstr
  pg_redirect_url :: "jstr option"
  pg_whatsapp_number :: "jstr option"
  pg_settings :: jsval
  pg_created_at :: jstr

record create_program =
  cp_name :: jstr
  cp_description :: "jstr option"
  cp_rules :: jsval
  cp_redirect_type :: jstr
  cp_redirect_url :: "jstr option"
  cp_whatsapp_number :: "jstr option"
  cp_settings :: "jsval option"

record recent_lead =
  rl_id :: jstr
  rl_name :: jstr
  rl_partner_name :: jstr
  rl_status :: jstr
  rl_created_at :: jstr

record dashboard_overview =
  ov_clicks_last_7_days :: jsnum
  ov_clicks_delta_pct :: jsnum
  ov_new_leads_last_7_days :: jsnum
  ov_leads_delta_pct :: jsnum
  ov_pending_rewards_cents :: jsnum
  ov_active_partners :: jsnum
  ov_clicks_per_day :: "(jstr \<times> jsnum) list"
  ov_top_partners :: "(jstr \<times> jsnum \<times> jsnum) list"
  ov_recent_leads :: "recent_lead list"

datatype partner_status = TActive | TPending | TSuspended

fun partner_status_str :: "partner_status \<Rightarrow> jstr" where
  "partner_status_str TActive = U ''active''"
| "partner_status_str TPending = U ''pending''"
| "partner_status_str TSuspended = U ''suspended''"

record partner =
  pt_id :: jstr
  pt_name :: jstr
  pt_email :: "jstr option"
  pt_phone_e164 :: "jstr option"
  pt_status :: partner_status
  pt_program_id :: jstr
  pt_program_name :: jstr
  pt_link_slug :: "jstr option"
  pt_link_url :: "jstr option"
  pt_referrals :: jsnum
  pt_clicks :: jsnum
  pt_commission_cents :: jsnum
  pt_created_at :: jstr

record create_partner =
  ct_name :: jstr
  ct_email :: "jstr option"
  ct_phone_e164 :: "jstr option"
  ct_program_id :: jstr

datatype lead_status = LNew | LInProgress | LQualified | LClosed | LLost

fun lead_status_str :: "lead_status \<Rightarrow> jstr" where
  "lead_status_str LNew = U ''new''"
| "lead_status_str LInProgress = U ''in_progress''"
| "lead_status_str LQualified = U ''qualified''"
| "lead_status_str LClosed = U ''closed''"
| "lead_status_str LLost = U ''lost''"

record lead =
  ld_id :: jstr
  ld_name :: "jstr option"
  ld_phone_e164 :: "jstr option"
  ld_email :: "jstr option"
  ld_status :: lead_status
  ld_source :: jstr
  ld_notes :: "jstr option"
  ld_closed_at :: "jstr option"
  ld_created_at :: jstr
  ld_program_id :: jstr
  ld_program_name :: jstr
  ld_partner_id :: "jstr option"
  ld_partner_name :: "jstr option"
  ld_sale_amount_cents :: "jsnum option"

datatype reward_status = RPending | RApproved | RPaid | RRejected | RCancelled

fun reward_status_str :: "reward_status \<Rightarrow> jstr" where
  "reward_status_str RPending = U ''pending''"
| "reward_status_str RApproved = U ''approved''"
| "reward_status_str RPaid = U ''paid''"
| "reward_status_str RRejected = U ''rejected''"
| "reward_status_str RCancelled = U ''cancelled''"

record reward =
  rw_id :: jstr
  rw_type :: jstr
  rw_amount_cents :: jsnum
  rw_currency :: jstr
  rw_status :: reward_status
  rw_approved_at :: "jstr option"
  rw_rejected_reason :: "jstr option"
  rw_created_at :: jstr
  rw_program_id :: jstr
  rw_program_name :: jstr
  rw_partner_id :: jstr
  rw_partner_name :: jstr
  rw_lead_name :: "jstr option"

record reward_summary =
  rs_pending :: jsnum
  rs_approved :: jsnum
  rs_paid :: jsnum
  rs_rejected :: jsnum
  rs_cancelled :: jsnum

record me =
  me_id :: jstr
  me_email :: jstr
  me_name :: jstr
  me_role :: jstr
  me_email_verified :: bool
  me_tenant_id :: "jstr option"
  me_tenant_name :: "jstr option"

datatype payout_status = YPending | YProcessing | YPaid | YFailed | YCancelled

fun payout_status_str :: "payout_status \<Rightarrow> jstr" where
  "payout_status_str YPending = U ''pending''"
| "payout_status_str YProcessing = U ''processing''"
| "payout_status_str YPaid = U ''paid''"
| "payout_status_str YFailed = U ''failed''"
| "payout_status_str YCancelled = U ''cancelled''"

record payout =
  po_id :: jstr
  po_partner_id :: jstr
  po_partner_name :: jstr
  po_pix_key :: "jstr option"
  po_pix_key_type :: "jstr option"
  po_amount_cents :: jsnum
  po_currency :: jstr
  po_method :: jstr
  po_status :: payout_status
  po_created_at :: jstr
  po_reward_count :: "jsnum option"

record payouts_response =
  pr_payouts :: "payout list option"
  pr_total_count :: jsnum
  pr_page :: jsnum
  pr_limit :: jsnum

record audit_entry =
  ae_id :: jstr
  ae_user_id :: "jstr option"
  ae_user_email :: "jstr option"
  ae_action :: jstr
  ae_entity_type :: jstr
  ae_entity_id :: "jstr option"
  ae_old_values :: jsval
  ae_new_values :: jsval
  ae_ip_address :: "jstr option"
  ae_user_agent :: "jstr option"
  ae_metadata :: jsval
  ae_created_at :: jstr

record audit_summary =
  as_total_entries :: jsnum
  as_fraud_ok :: jsnum
  as_fraud_review :: jsnum
  as_fraud_block :: jsnum
  as_entries_last_7_days :: jsnum
  as_entries_last_30_days :: jsnum
  as_top_actions :: "(jstr \<times> jsnum) list"

datatype fraud_action = FOk | FReview | FBlock

fun fraud_action_str :: "fraud_action \<Rightarrow> jstr" where
  "fraud_action_str FOk = U ''ok''"
| "fraud_action_str FReview = U ''review''"
| "fraud_action_str FBlock = U ''block''"

record fraud_signal =
  fs_name :: jstr
  fs_points :: jsnum
  fs_evidence :: "jsval option"

record fraud_evaluation =
  fe_id :: jstr
  fe_partner_id :: jstr
  fe_partner_name :: jstr
  fe_lead_id :: "jstr option"
  fe_score :: jsnum
  fe_action :: fraud_action
  fe_signals :: "fraud_signal list"
  fe_evidence :: jsval
  fe_created_at :: jstr

record session =
  se_id :: jstr
  se_ip_address :: "jstr option"
  se_user_agent :: "jstr option"
  se_created_at :: jstr
  se_expires_at :: jstr

subsection \<open>The calls\<close>

text \<open>One constructor per member of the \<open>...Api\<close> objects, with its arguments.\<close>

datatype dash_call =
    DashboardOverview
  | PartnersList | PartnersCreate create_partner
  | LeadsList "lead_status option" | LeadsUpdateStatus jstr lead_status
  | AuthMe | AuthLogout
  | RewardsList "reward_status option" | RewardsSummary | RewardsApprove jstr | RewardsReject jstr jstr
  | ProgramsList | ProgramsGet jstr | ProgramsCreate create_program | ProgramsUpdateStatus jstr jstr
  | AuditList "jstr option" "jstr option" "jsnum option" | AuditSummary
  | AuditFraudEvaluations "jstr option" "jsnum option"
  | SessionsList | SessionsRevoke jstr | SessionsRevokeAll
  | PayoutsList "payout_status option" "jsnum option" "jsnum option"
  | PayoutsCreateJob | PayoutsConfirm jstr | PayoutsPaid jstr jsval | PayoutsCancel jstr "jstr option"

text \<open>\<open>if (x) params.set(k, String(x))\<close> for an optional number: zero and NaN are falsy.\<close>

definition num_param :: "jsnum option \<Rightarrow> jstr option" where
  "num_param x = (case x of None \<Rightarrow> None | Some n \<Rightarrow> if num_truthy n then Some (num_str n) else None)"

definition create_partner_json :: "create_partner \<Rightarrow> jsval" where
  "create_partner_json d = JObj [(''name'', JStr (ct_name d)), (''email'', opt_str (ct_email d)),
     (''phone_e164'', opt_str (ct_phone_e164 d)), (''program_id'', JStr (ct_program_id d))]"

definition create_program_json :: "create_program \<Rightarrow> jsval" where
  "create_program_json d = JObj [(''name'', JStr (cp_name d)), (''description'', opt_str (cp_description d)),
     (''rules'', cp_rules d), (''redirect_type'', JStr (cp_redirect_type d)),
     (''redirect_url'', opt_str (cp_redirect_url d)),
     (''whatsapp_number'', opt_str (cp_whatsapp_number d)),
     (''settings'', orelse (cp_settings d) JUndef)]"

text \<open>The parameters each list call sets.\<close>

fun dash_params :: "dash_call \<Rightarrow> params" where
  "dash_params (LeadsList st) = set_if (U ''status'') (map_option lead_status_str st) []"
| "dash_params (RewardsList st) = set_if (U ''status'') (map_option reward_status_str st) []"
| "dash_params (AuditList a e l) =
     set_if (U ''limit'') (num_param l) (set_if (U ''entity_type'') e (set_if (U ''action'') a []))"
| "dash_params (AuditFraudEvaluations a l) =
     set_if (U ''limit'') (num_param l) (set_if (U ''action'') a [])"
| "dash_params (PayoutsList st p l) =
     set_if (U ''limit'') (num_param l) (set_if (U ''page'') (num_param p)
       (set_if (U ''status'') (map_option payout_status_str st) []))"
| "dash_params _ = []"

fun dash_req :: "jstr \<Rightarrow> dash_call \<Rightarrow> http_req" where
  "dash_req b DashboardOverview = api_get b (U ''/api/dashboard/overview'')"
| "dash_req b PartnersList = api_get b (U ''/api/partners'')"
| "dash_req b (PartnersCreate d) = api_post b (U ''/api/partners'') (create_partner_json d)"
| "dash_req b (LeadsList st) = api_get b (with_query (U ''/api/leads'') (dash_params (LeadsList st)))"
| "dash_req b (LeadsUpdateStatus i st) =
     api_patch b (U ''/api/leads/'' @ i @ U ''/status'') (JObj [(''status'', JStr (lead_status_str st))])"
| "dash_req b AuthMe = api_get b (U ''/api/me'')"
| "dash_req b AuthLogout = api_post b (U ''/api/auth/logout'') JUndef"
| "dash_req b (RewardsList st) = api_get b (with_query (U ''/api/rewards'') (dash_params (RewardsList st)))"
| "dash_req b RewardsSummary = api_get b (U ''/api/rewards/summary'')"
| "dash_req b (RewardsApprove i) = api_patch b (U ''/api/rewards/'' @ i @ U ''/approve'') JUndef"
| "dash_req b (RewardsReject i reason) =
     api_patch b (U ''/api/rewards/'' @ i @ U ''/reject'') (JObj [(''reason'', JStr reason)])"
| "dash_req b ProgramsList = api_get b (U ''/api/programs'')"
| "dash_req b (ProgramsGet i) = api_get b (U ''/api/programs/'' @ i)"
| "dash_req b (ProgramsCreate d) = api_post b (U ''/api/programs'') (create_program_json d)"
| "dash_req b (ProgramsUpdateStatus i st) =
     api_patch b (U ''/api/programs/'' @ i @ U ''/status'') (JObj [(''status'', JStr st)])"
| "dash_req b (AuditList a e l) = api_get b (with_query (U ''/api/audit-log'') (dash_params (AuditList a e l)))"
| "dash_req b AuditSummary = api_get b (U ''/api/audit-log/summary'')"
| "dash_req b (AuditFraudEvaluations a l) =
     api_get b (with_query (U ''/api/audit-log/fraud-evaluations'') (dash_params (AuditFraudEvaluations a l)))"
| "dash_req b SessionsList = api_get b (U ''/api/me/sessions'')"
| "dash_req b (SessionsRevoke i) = api_post b (U ''/api/me/sessions/'' @ i @ U ''/revoke'') JUndef"
| "dash_req b SessionsRevokeAll = api_post b (U ''/api/me/sessions/revoke-all'') JUndef"
| "dash_req b (PayoutsList st p l) =
     api_get b (with_query (U ''/api/tenants/me/payouts'') (dash_params (PayoutsList st p l)))"
| "dash_req b PayoutsCreateJob = api_post b (U ''/api/tenants/me/payouts/create-job'') JUndef"
| "dash_req b (PayoutsConfirm i) = api_post b (U ''/api/tenants/me/payouts/'' @ i @ U ''/confirm'') JUndef"
| "dash_req b (PayoutsPaid i body) = api_post b (U ''/api/tenants/me/payouts/'' @ i @ U ''/paid'') body"
| "dash_req b (PayoutsCancel i reason) =
     api_post b (U ''/api/tenants/me/payouts/'' @ i @ U ''/cancel'')
       (case truthy_s reason of None \<Rightarrow> JUndef | Some r \<Rightarrow> JObj [(''reason'', JStr r)])"

subsection \<open>What a server reads from the query of a list call\<close>

fun list_call :: "dash_call \<Rightarrow> bool" where
  "list_call (LeadsList _) = True" | "list_call (RewardsList _) = True"
| "list_call (AuditList _ _ _) = True" | "list_call (AuditFraudEvaluations _ _) = True"
| "list_call (PayoutsList _ _ _) = True" | "list_call _ = False"

fun call_text16 :: "dash_call \<Rightarrow> bool" where
  "call_text16 (AuditList a e _) = (\<forall>s \<in> set_option a \<union> set_option e. \<forall>u \<in> set s. u < 65536)"
| "call_text16 (AuditFraudEvaluations a _) = (\<forall>s \<in> set_option a. \<forall>u \<in> set s. u < 65536)"
| "call_text16 _ = True"

end
