(* ===== verification/React.thy ===== *)
theory React imports JsValue Prelude begin

text \<open>
  The event loop a page runs in.

  A page is a state, a function \<open>begin\<close> (an event handler up to its first \<open>await\<close>) and a function
  \<open>finish\<close> (the rest of the handler, when what it awaited settles). Both return the new state and
  the effects, among them the calls they start. The calls in flight are a multiset: the server may
  answer them in any order. \<open>reachable\<close> is every state some interleaving of events and replies
  leads to, with the calls still in flight.

  The locale \<open>spinner\<close> is the contract of a flag such as \<open>loading\<close> or \<open>busy\<close>: whatever raises it
  starts a call that will lower it. Its lemma, proved once, is that the flag is never stuck.
\<close>

subsection \<open>Effects\<close>

datatype toast_variant = VDefault | VSuccess | VError | VWarning | VDestructive

record toast_input =
  ti_title :: "jstr option"
  ti_description :: "jstr option"
  ti_variant :: "toast_variant option"
  ti_duration :: "jsnum option"

definition toast_of :: "jstr \<Rightarrow> jstr option \<Rightarrow> toast_variant \<Rightarrow> toast_input" where
  "toast_of title desc v =
     \<lparr> ti_title = Some title, ti_description = desc, ti_variant = Some v, ti_duration = None \<rparr>"

text \<open>
  A call, a toast, navigation by the router (\<open>push\<close>, \<open>replace\<close>; a push after a delay), a navigation
  outside it (\<open>window.location\<close>) or in a new window, a call of a callback property of a component, a timer.
\<close>

datatype 'op eff = Call 'op | Toast toast_input | Push jstr | Replace jstr | PushLater nat jstr
  | SetLocation jstr | OpenWindow jstr | Callback string | Timer nat string | WriteClipboard jstr

definition calls :: "'op eff list \<Rightarrow> 'op list" where
  "calls es = concat (map (\<lambda>e. case e of Call c \<Rightarrow> [c] | _ \<Rightarrow> []) es)"

lemma calls_simps [simp]:
  "calls [] = []" "calls (Call c # es) = c # calls es" "calls (Toast t # es) = calls es"
  "calls (Push p # es) = calls es" "calls (Replace p # es) = calls es"
  "calls (PushLater n p # es) = calls es" "calls (SetLocation p # es) = calls es"
  "calls (Callback k # es) = calls es" "calls (Timer n k # es) = calls es"
  "calls (WriteClipboard u # es) = calls es" "calls (OpenWindow u # es) = calls es"
  by (simp_all add: calls_def)

lemma calls_append [simp]: "calls (xs @ ys) = calls xs @ calls ys"
  by (simp add: calls_def)

definition toasts_of :: "'op eff list \<Rightarrow> toast_input list" where
  "toasts_of es = concat (map (\<lambda>e. case e of Toast t \<Rightarrow> [t] | _ \<Rightarrow> []) es)"

subsection \<open>Reachable states\<close>

inductive reachable ::
  "('ev \<Rightarrow> 's \<Rightarrow> 's \<times> 'op eff list) \<Rightarrow> ('d \<Rightarrow> 's \<Rightarrow> 's \<times> 'op eff list) \<Rightarrow> ('d \<Rightarrow> 'op) \<Rightarrow>
   's \<times> 'op list \<Rightarrow> 's \<Rightarrow> 'op multiset \<Rightarrow> bool"
  for begn fin opof init where
  start: "reachable begn fin opof init (fst init) (mset (snd init))"
| event: "reachable begn fin opof init s P \<Longrightarrow> begn ev s = (s', es) \<Longrightarrow>
            reachable begn fin opof init s' (P + mset (calls es))"
| settled: "reachable begn fin opof init s P \<Longrightarrow> opof d \<in># P \<Longrightarrow> fin d s = (s', es) \<Longrightarrow>
            reachable begn fin opof init s' (P - {#opof d#} + mset (calls es))"

text \<open>An invariant of the state alone.\<close>

lemma reachable_invariant:
  assumes "reachable begn fin opof init s P"
    and "I (fst init)"
    and "\<And>ev s. I s \<Longrightarrow> I (fst (begn ev s))"
    and "\<And>d s. I s \<Longrightarrow> I (fst (fin d s))"
  shows "I s"
  using assms(1)
proof induction
  case start
  show ?case by (rule assms(2))
next
  case (event s P ev s' es)
  then show ?case using assms(3) [of s ev] by simp
next
  case (settled s P d s' es)
  then show ?case using assms(4) [of s d] by simp
qed

text \<open>The state a page is in once its first call has been answered.\<close>

lemma first_reply:
  assumes "snd init = [opof d]"
  shows "reachable begn fin opof init (fst (fin d (fst init))) (mset (calls (snd (fin d (fst init)))))"
  using reachable.settled [OF reachable.start, of opof d init fin "fst (fin d (fst init))" "snd (fin d (fst init))" begn]
    assms by simp

subsection \<open>Flags that are never stuck\<close>

locale spinner =
  fixes begn :: "'ev \<Rightarrow> 's \<Rightarrow> 's \<times> 'op eff list"
    and fin :: "'d \<Rightarrow> 's \<Rightarrow> 's \<times> 'op eff list"
    and opof :: "'d \<Rightarrow> 'op"
    and init :: "'s \<times> 'op list"
    and owns :: "'s \<Rightarrow> 'op \<Rightarrow> bool"
    and on :: "'s \<Rightarrow> bool"
  assumes init_owned: "on (fst init) \<Longrightarrow> \<exists>c \<in> set (snd init). owns (fst init) c"
    and begin_owned: "begn ev s = (s', es) \<Longrightarrow> on s' \<Longrightarrow>
      (on s \<and> (\<forall>c. owns s c \<longrightarrow> owns s' c)) \<or> (\<exists>c \<in> set (calls es). owns s' c)"
    and finish_owned: "fin d s = (s', es) \<Longrightarrow> on s' \<Longrightarrow>
      (on s \<and> \<not> owns s (opof d) \<and> (\<forall>c. owns s c \<longrightarrow> owns s' c)) \<or> (\<exists>c \<in> set (calls es). owns s' c)"
begin

lemma owned:
  assumes "reachable begn fin opof init s P" "on s"
  shows "\<exists>c. c \<in># P \<and> owns s c"
  using assms
proof induction
  case start
  then show ?case using init_owned by auto
next
  case (event s P ev s' es)
  from begin_owned [OF event.hyps(2) event.prems] show ?case
    using event.IH by auto
next
  case (settled s P d s' es)
  from finish_owned [OF settled.hyps(3) settled.prems] show ?case
  proof
    assume a: "on s \<and> \<not> owns s (opof d) \<and> (\<forall>c. owns s c \<longrightarrow> owns s' c)"
    then obtain c where "c \<in># P" "owns s c" "c \<noteq> opof d" using settled.IH by auto
    then have "c \<in># P - {#opof d#}" by (simp add: in_diff_count)
    then show ?thesis using a \<open>owns s c\<close> by auto
  qed auto
qed

lemma quiescent: "reachable begn fin opof init s {#} \<Longrightarrow> \<not> on s"
  using owned [of s "{#}"] by auto

end

subsection \<open>Replies come to an end\<close>

text \<open>\<open>replies\<close> is a run of \<open>n\<close> replies with no event of the user between them.\<close>

inductive replies ::
  "('d \<Rightarrow> 's \<Rightarrow> 's \<times> 'op eff list) \<Rightarrow> ('d \<Rightarrow> 'op) \<Rightarrow> 's \<Rightarrow> 'op multiset \<Rightarrow> nat \<Rightarrow> 's \<Rightarrow> 'op multiset \<Rightarrow> bool"
  for fin opof where
  none: "replies fin opof s P 0 s P"
| one: "opof d \<in># P \<Longrightarrow> fin d s = (s', es) \<Longrightarrow>
          replies fin opof s' (P - {#opof d#} + mset (calls es)) n t Q \<Longrightarrow> replies fin opof s P (Suc n) t Q"

lemma reachable_replies:
  assumes "replies fin opof s P n t Q" "reachable begn fin opof init s P"
  shows "reachable begn fin opof init t Q"
  using assms
proof induction
  case (one d P s s' es n t Q)
  then show ?case using reachable.settled [OF one.prems one.hyps(1,2)] by simp
qed

lemma replies_append:
  assumes "replies fin opof s P n t Q" "replies fin opof t Q m u R"
  shows "replies fin opof s P (n + m) u R"
  using assms by induction (auto intro: replies.one)

definition load :: "('op \<Rightarrow> nat) \<Rightarrow> 'op multiset \<Rightarrow> nat" where
  "load weight P = sum_mset (image_mset weight P)"

text \<open>
  The contract of a page whose replies cannot start calls for ever: a call has a weight, and the
  calls a reply starts weigh less, together, than the call it answers. Every call the page makes
  is one a reply is handled for.
\<close>

locale draining =
  fixes begn :: "'ev \<Rightarrow> 's \<Rightarrow> 's \<times> 'op eff list"
    and fin :: "'d \<Rightarrow> 's \<Rightarrow> 's \<times> 'op eff list"
    and opof :: "'d \<Rightarrow> 'op"
    and init :: "'s \<times> 'op list"
    and weight :: "'op \<Rightarrow> nat"
  assumes lighter: "fin d s = (s', es) \<Longrightarrow> sum_list (map weight (calls es)) < weight (opof d)"
    and init_answered: "c \<in> set (snd init) \<Longrightarrow> c \<in> range opof"
    and begin_answered: "begn ev s = (s', es) \<Longrightarrow> c \<in> set (calls es) \<Longrightarrow> c \<in> range opof"
    and finish_answered: "fin d s = (s', es) \<Longrightarrow> c \<in> set (calls es) \<Longrightarrow> c \<in> range opof"
begin

lemma answered:
  assumes "reachable begn fin opof init s P" "c \<in># P"
  shows "c \<in> range opof"
  using assms
proof (induction arbitrary: c)
  case start
  then show ?case using init_answered by simp
next
  case (event s P ev s' es)
  then show ?case using begin_answered [OF event.hyps(2)] by auto
next
  case (settled s P d s' es)
  have "c \<in># P \<or> c \<in> set (calls es)" using settled.prems
    unfolding union_iff in_multiset_in_set by (blast dest: in_diffD)
  then show ?case using settled.IH finish_answered [OF settled.hyps(3)] by blast
qed

lemma load_step:
  assumes "opof d \<in># P" "fin d s = (s', es)"
  shows "load weight (P - {#opof d#} + mset (calls es)) < load weight P"
proof -
  have "load weight P = weight (opof d) + load weight (P - {#opof d#})"
    using assms(1) by (simp add: load_def sum_mset.remove image_mset_Diff)
  then show ?thesis using lighter [OF assms(2)]
    by (simp add: load_def mset_map [symmetric] sum_mset_sum_list del: mset_map)
qed

lemma bounded: "replies fin opof s P n t Q \<Longrightarrow> n + load weight Q \<le> load weight P"
proof (induction rule: replies.induct)
  case (one d P s s' es n t Q)
  then show ?case using load_step [OF one.hyps(1,2)] by simp
qed simp

lemma drains:
  "reachable begn fin opof init s P \<Longrightarrow> \<exists>n t. replies fin opof s P n t {#}"
proof (induction "load weight P" arbitrary: s P rule: less_induct)
  case less
  show ?case
  proof (cases "P = {#}")
    case False
    then obtain c where c: "c \<in># P" by auto
    then obtain d where d: "opof d = c" using answered [OF less.prems] by blast
    obtain s' es where f: "fin d s = (s', es)" by fastforce
    have "reachable begn fin opof init s' (P - {#opof d#} + mset (calls es))"
      using reachable.settled [OF less.prems _ f] c d by blast
    then show ?thesis using less.hyps load_step [OF _ f] c d f by (blast intro: replies.one)
  qed (auto intro: replies.none)
qed

end

text \<open>From every state the page can reach, the calls in flight can all be answered, and then the flag is down.\<close>

definition rests ::
  "('ev \<Rightarrow> 's \<Rightarrow> 's \<times> 'op eff list) \<Rightarrow> ('d \<Rightarrow> 's \<Rightarrow> 's \<times> 'op eff list) \<Rightarrow> ('d \<Rightarrow> 'op) \<Rightarrow> 's \<times> 'op list \<Rightarrow> ('s \<Rightarrow> bool) \<Rightarrow> bool" where
  "rests begn fin opof init on \<longleftrightarrow> (\<forall>s P. reachable begn fin opof init s P \<longrightarrow>
     (\<exists>n t. replies fin opof s P n t {#}) \<and> (\<forall>n t. replies fin opof s P n t {#} \<longrightarrow> \<not> on t))"

text \<open>Both contracts together: once the replies have come, whatever they are, the flag is down.\<close>

locale settling = spinner begn fin opof init owns on + draining begn fin opof init weight
  for begn :: "'ev \<Rightarrow> 's \<Rightarrow> 's \<times> 'op eff list"
    and fin :: "'d \<Rightarrow> 's \<Rightarrow> 's \<times> 'op eff list"
    and opof :: "'d \<Rightarrow> 'op"
    and init :: "'s \<times> 'op list"
    and owns :: "'s \<Rightarrow> 'op \<Rightarrow> bool"
    and on :: "'s \<Rightarrow> bool"
    and weight :: "'op \<Rightarrow> nat"
begin

lemma all_replied:
  assumes "reachable begn fin opof init s P" "replies fin opof s P n t {#}"
  shows "\<not> on t"
  using quiescent reachable_replies [OF assms(2,1)] by blast

lemma settles_down:
  assumes "reachable begn fin opof init s P"
  shows "\<exists>n t. n \<le> load weight P \<and> replies fin opof s P n t {#} \<and> \<not> on t"
  using drains [OF assms] bounded all_replied [OF assms] by (metis add_leD1)

lemma comes_to_rest: "rests begn fin opof init on"
  using drains all_replied by (auto simp: rests_def)

end

text \<open>
  The usual page: it loads when it is opened, no event raises the flag again, and no reply starts a
  call. It settles, every call weighing one.
\<close>

locale loader =
  fixes begn :: "'ev \<Rightarrow> 's \<Rightarrow> 's \<times> 'op eff list"
    and fin :: "'d \<Rightarrow> 's \<Rightarrow> 's \<times> 'op eff list"
    and opof :: "'d \<Rightarrow> 'op"
    and init :: "'s \<times> 'op list"
    and first :: 'op
    and loading :: "'s \<Rightarrow> bool"
  assumes opens: "snd init = [first]" "first \<in> range opof"
    and event_keeps: "begn ev s = (s', es) \<Longrightarrow> loading s' \<Longrightarrow> loading s"
    and event_answered: "begn ev s = (s', es) \<Longrightarrow> c \<in> set (calls es) \<Longrightarrow> c \<in> range opof"
    and reply_keeps: "fin d s = (s', es) \<Longrightarrow> loading s' \<Longrightarrow> loading s \<and> opof d \<noteq> first"
    and reply_quiet: "fin d s = (s', es) \<Longrightarrow> calls es = []"

sublocale loader \<subseteq> settling begn fin opof init "\<lambda>_ c. c = first" loading "\<lambda>_. 1"
proof unfold_locales
  show "\<exists>c \<in> set (snd init). c = first" using opens by simp
  show "c \<in> set (snd init) \<Longrightarrow> c \<in> range opof" for c using opens by simp
  show "begn ev s = (s', es) \<Longrightarrow> loading s' \<Longrightarrow>
      (loading s \<and> (\<forall>c. c = first \<longrightarrow> c = first)) \<or> (\<exists>c \<in> set (calls es). c = first)" for ev s s' es
    using event_keeps by blast
  show "fin d s = (s', es) \<Longrightarrow> loading s' \<Longrightarrow>
      (loading s \<and> opof d \<noteq> first \<and> (\<forall>c. c = first \<longrightarrow> c = first)) \<or> (\<exists>c \<in> set (calls es). c = first)" for d s s' es
    using reply_keeps by blast
  show "fin d s = (s', es) \<Longrightarrow> sum_list (map (\<lambda>_. 1) (calls es)) < (1 :: nat)" for d s s' es
    using reply_quiet [of d s s' es] by simp
  show "fin d s = (s', es) \<Longrightarrow> c \<in> set (calls es) \<Longrightarrow> c \<in> range opof" for d s s' es c
    using reply_quiet [of d s s' es] by simp
qed (rule event_answered)

end
