(* ===== verification/View.thy ===== *)
theory View imports JsString begin

text \<open>
  Rendered trees. A component's markup is a tree of elements and texts; an element has a tag,
  attributes and children. Attributes are texts, flags (\<open>disabled\<close>) and event handlers, which map
  the value of the event (the text typed, the option chosen; nothing for a click) to an event of
  the page. Static class names, icons and ARIA roles carry no behaviour and are left out; a class
  or an attribute that depends on the state is kept.
\<close>

datatype 'e attr = A string jstr | On string "jstr \<Rightarrow> 'e" | Flag string bool

datatype 'e view = T jstr | N string "'e attr list" "'e view list"

text \<open>The texts a tree shows, in document order.\<close>

fun texts :: "'e view \<Rightarrow> jstr list" where
  "texts (T s) = [s]"
| "texts (N _ _ vs) = concat (map texts vs)"

definition disabled :: "'e attr list \<Rightarrow> bool" where
  "disabled as = (\<exists>a \<in> set as. case a of Flag n b \<Rightarrow> n = ''disabled'' \<and> b | _ \<Rightarrow> False)"

definition handlers :: "'e attr list \<Rightarrow> (string \<times> (jstr \<Rightarrow> 'e)) list" where
  "handlers as = concat (map (\<lambda>a. case a of On n h \<Rightarrow> [(n, h)] | _ \<Rightarrow> []) as)"

text \<open>The handlers a user can reach: those of the elements that are not disabled.\<close>

fun reachable_handlers :: "'e view \<Rightarrow> (string \<times> (jstr \<Rightarrow> 'e)) list" where
  "reachable_handlers (T _) = []"
| "reachable_handlers (N _ as vs) =
     (if disabled as then [] else handlers as) @ concat (map reachable_handlers vs)"

text \<open>The events a user can cause in a tree by a handler of a given name, and by any.\<close>

definition clicks :: "string \<Rightarrow> 'e view \<Rightarrow> 'e list" where
  "clicks n v = map (\<lambda>(_, h). h []) (filter (\<lambda>(m, _). m = n) (reachable_handlers v))"

definition causes :: "'e view \<Rightarrow> 'e \<Rightarrow> bool" where
  "causes v e \<longleftrightarrow> (\<exists>(n, h) \<in> set (reachable_handlers v). \<exists>x. h x = e)"

lemma disabled_simps [simp]:
  "disabled [] = False"
  "disabled (A n s # as) = disabled as"
  "disabled (On n h # as) = disabled as"
  "disabled (Flag n b # as) = (n = ''disabled'' \<and> b \<or> disabled as)"
  by (auto simp: disabled_def)

lemma handlers_simps [simp]:
  "handlers [] = []"
  "handlers (A n s # as) = handlers as"
  "handlers (On n h # as) = (n, h) # handlers as"
  "handlers (Flag n b # as) = handlers as"
  by (auto simp: handlers_def)

text \<open>Shared pieces: text elements, table cells, a select and its options.\<close>

definition box :: "string \<Rightarrow> 'e view list \<Rightarrow> 'e view" where
  "box tag vs = N tag [] vs"

definition txt_el :: "string \<Rightarrow> jstr \<Rightarrow> 'e view" where
  "txt_el tag s = N tag [] [T s]"

definition option_el :: "jstr \<Rightarrow> jstr \<Rightarrow> 'e view" where
  "option_el v label = N ''option'' [A ''value'' v] [T label]"

definition select_el :: "jstr \<Rightarrow> (jstr \<Rightarrow> 'e) \<Rightarrow> (jstr \<times> jstr) list \<Rightarrow> 'e view" where
  "select_el v h opts = N ''select'' [A ''value'' v, On ''onChange'' h] (map (\<lambda>(a, b). option_el a b) opts)"

definition text_input :: "jstr \<Rightarrow> jstr \<Rightarrow> (jstr \<Rightarrow> 'e) \<Rightarrow> 'e view" where
  "text_input ph v h = N ''input'' [A ''type'' (U ''text''), A ''placeholder'' ph, A ''value'' v, On ''onChange'' h] []"

definition stat_card_el :: "jstr \<Rightarrow> jstr \<Rightarrow> 'e view" where
  "stat_card_el label v = N ''StatCard'' [A ''label'' label, A ''value'' v] []"

definition menu_item :: "'e \<Rightarrow> jstr \<Rightarrow> 'e view" where
  "menu_item e label = N ''DropdownMenuItem'' [On ''onSelect'' (\<lambda>_. e)] [T label]"

definition menu_item_off :: "jstr \<Rightarrow> 'e view" where
  "menu_item_off label = N ''DropdownMenuItem'' [Flag ''disabled'' True] [T label]"

definition table_el :: "jstr list \<Rightarrow> 'e view list \<Rightarrow> 'e view" where
  "table_el heads rows = N ''Table'' []
     [N ''TableHeader'' [] [N ''TableRow'' [] (map (txt_el ''TableHead'') heads)], N ''TableBody'' [] rows]"

lemmas view_defs [view] = box_def txt_el_def option_el_def select_el_def text_input_def stat_card_el_def
  menu_item_def menu_item_off_def table_el_def

lemma options_no_handlers:
  "concat (map reachable_handlers (map (\<lambda>(a, b). option_el a b) opts)) = []"
  by (induction opts) (auto simp: option_el_def)

lemma heads_no_handlers: "concat (map reachable_handlers (map (txt_el t) hs)) = []"
  by (induction hs) (auto simp: txt_el_def)

lemma handlers_select [simp]: "reachable_handlers (select_el v h opts) = [(''onChange'', h)]"
  unfolding select_el_def by (simp add: options_no_handlers del: map_map)

lemma handlers_table [simp]:
  "reachable_handlers (table_el heads rows) = concat (map reachable_handlers rows)"
  unfolding table_el_def by (simp add: heads_no_handlers del: map_map)

lemma handlers_pieces [simp]:
  "reachable_handlers (txt_el t s) = []"
  "reachable_handlers (box t vs) = concat (map reachable_handlers vs)"
  "reachable_handlers (text_input ph v h) = [(''onChange'', h)]"
  "reachable_handlers (stat_card_el l s) = []"
  "reachable_handlers (menu_item e l) = [(''onSelect'', \<lambda>_. e)]"
  "reachable_handlers (menu_item_off l) = []"
  by (simp_all add: txt_el_def box_def text_input_def stat_card_el_def menu_item_def menu_item_off_def)

text \<open>A component's tree inside another: its events wrapped, \<open>map_view f\<close>.\<close>

lemma disabled_map [simp]: "disabled (map (map_attr f) as) = disabled as"
proof (induction as)
  case (Cons a as)
  then show ?case by (cases a) simp_all
qed simp

lemma handlers_map: "handlers (map (map_attr f) as) = map (\<lambda>(n, h). (n, f \<circ> h)) (handlers as)"
proof (induction as)
  case (Cons a as)
  then show ?case by (cases a) (simp_all add: comp_def)
qed simp

lemma reachable_handlers_map:
  "reachable_handlers (map_view f v) = map (\<lambda>(n, h). (n, f \<circ> h)) (reachable_handlers v)"
proof (induction v)
  case (N t as vs)
  then have "concat (map reachable_handlers (map (map_view f) vs)) =
      map (\<lambda>(n, h). (n, f \<circ> h)) (concat (map reachable_handlers vs))"
    by (induction vs) simp_all
  then show ?case by (simp add: handlers_map comp_def)
qed simp

lemma causes_map: "causes (map_view f v) e \<longleftrightarrow> (\<exists>e'. causes v e' \<and> e = f e')"
  unfolding causes_def reachable_handlers_map by (force simp: split_beta)

text \<open>The events of a tree are those of its parts.\<close>

lemma causes_T [simp]: "\<not> causes (T s) e"
  by (simp add: causes_def)

lemma causes_N: "causes (N t as vs) e \<longleftrightarrow>
    (\<not> disabled as \<and> (\<exists>(n, h) \<in> set (handlers as). \<exists>x. h x = e)) \<or> (\<exists>v \<in> set vs. causes v e)"
  unfolding causes_def by (auto simp: split_beta)

lemma causes_pieces [simp]:
  "\<not> causes (txt_el t s) e"
  "causes (box t vs) e \<longleftrightarrow> (\<exists>v \<in> set vs. causes v e)"
  "causes (text_input ph v h) e \<longleftrightarrow> (\<exists>x. h x = e)"
  "causes (select_el v h opts) e \<longleftrightarrow> (\<exists>x. h x = e)"
  "\<not> causes (stat_card_el l s) e"
  "causes (menu_item e' l) e \<longleftrightarrow> e' = e"
  "\<not> causes (menu_item_off l) e"
  "causes (table_el heads rows) e \<longleftrightarrow> (\<exists>v \<in> set rows. causes v e)"
  unfolding causes_def by auto

end
