(* ===== verification/Saques.thy ===== *)
theory Saques imports DashboardApi React View begin

text \<open>
  \<open>apps/dashboard/app/(app)/saques/page.tsx\<close>: the payouts page of the tenant's administrator. Its
  state is one field per \<open>useState\<close>; an event pairs what the user did with what \<open>window.prompt\<close>
  answers if the handler asks (nothing when the prompt is dismissed); a handler is cut at its
  \<open>await\<close> into \<open>sq_begin\<close> and \<open>sq_finish\<close>.
\<close>

subsection \<open>State, events, replies\<close>

record saques =
  sq_payouts :: "payout list"
  sq_loading :: bool
  sq_error :: "jstr option"
  sq_statusFilter :: jstr
  sq_search :: jstr
  sq_busy :: "jstr option"

datatype sq_act = SqFilter jstr | SqSearch jstr | SqCreateJob | SqConfirm jstr | SqMarkPaid jstr | SqCancel jstr

datatype sq_done =
    SqListed "api_err + payouts_response"
  | SqCreated "api_err + jsnum"
  | SqConfirmed jstr "api_err + unit"
  | SqPaid jstr jsval "api_err + unit"
  | SqCancelled jstr "jstr option" "api_err + unit"

definition sq_list_call :: dash_call where
  "sq_list_call = PayoutsList None None (Some (num_int 100))"

fun sq_opof :: "sq_done \<Rightarrow> dash_call" where
  "sq_opof (SqListed _) = sq_list_call"
| "sq_opof (SqCreated _) = PayoutsCreateJob"
| "sq_opof (SqConfirmed i _) = PayoutsConfirm i"
| "sq_opof (SqPaid i b _) = PayoutsPaid i b"
| "sq_opof (SqCancelled i r _) = PayoutsCancel i r"

subsection \<open>The handlers\<close>

definition sq_reload :: "saques \<Rightarrow> saques \<times> dash_call eff list" where
  "sq_reload s = (s\<lparr> sq_loading := True \<rparr>, [Call sq_list_call])"

text \<open>The first render: the initial state, and the effect that loads the list.\<close>

definition sq_init :: "saques \<times> dash_call list" where
  "sq_init = (case sq_reload \<lparr> sq_payouts = [], sq_loading = True, sq_error = None,
       sq_statusFilter = U ''all'', sq_search = [], sq_busy = None \<rparr> of (s, es) \<Rightarrow> (s, calls es))"

fun sq_begin :: "sq_act \<times> jstr option \<Rightarrow> saques \<Rightarrow> saques \<times> dash_call eff list" where
  "sq_begin (SqFilter v, _) s = (s\<lparr> sq_statusFilter := v \<rparr>, [])"
| "sq_begin (SqSearch v, _) s = (s\<lparr> sq_search := v \<rparr>, [])"
| "sq_begin (SqCreateJob, _) s = (s\<lparr> sq_busy := Some (U ''__create__'') \<rparr>, [Call PayoutsCreateJob])"
| "sq_begin (SqConfirm i, _) s = (s\<lparr> sq_busy := Some i \<rparr>, [Call (PayoutsConfirm i)])"
| "sq_begin (SqMarkPaid i, answer) s = (s\<lparr> sq_busy := Some i \<rparr>,
     [Call (PayoutsPaid i (case truthy_s answer of Some u \<Rightarrow> JObj [(''receipt_url'', JStr u)] | None \<Rightarrow> JUndef))])"
| "sq_begin (SqCancel i, answer) s = (case answer of None \<Rightarrow> (s, [])
     | Some r \<Rightarrow> (s\<lparr> sq_busy := Some i \<rparr>, [Call (PayoutsCancel i (nonempty r))]))"

definition sq_failed :: "jstr \<Rightarrow> api_err \<Rightarrow> saques \<Rightarrow> saques \<times> dash_call eff list" where
  "sq_failed title e s = (s\<lparr> sq_busy := None \<rparr>,
     [Toast (toast_of title (Some (api_message e (U ''Erro inesperado''))) VDestructive)])"

definition sq_worked :: "toast_input \<Rightarrow> saques \<Rightarrow> saques \<times> dash_call eff list" where
  "sq_worked t s = (case sq_reload s of (s', es) \<Rightarrow> (s'\<lparr> sq_busy := None \<rparr>, Toast t # es))"

definition created_toast :: "jsnum \<Rightarrow> toast_input" where
  "created_toast n = toast_of
     (if js_lt (Fin 0) n then num_str n @ U '' saque(s) criado(s)'' else U ''Nenhum saque eleg~00edvel'')
     (Some (if js_lt (Fin 0) n then U ''Comiss~00f5es aprovadas dentro da janela de hold foram agrupadas.''
            else U ''Sem comiss~00f5es aprovadas al~00e9m do prazo de hold neste momento.'')) VSuccess"

fun sq_finish :: "sq_done \<Rightarrow> saques \<Rightarrow> saques \<times> dash_call eff list" where
  "sq_finish (SqListed (Inr r)) s = (s\<lparr> sq_payouts := orelse (pr_payouts r) [], sq_loading := False \<rparr>, [])"
| "sq_finish (SqListed (Inl e)) s = (s\<lparr> sq_error := Some (err_message e), sq_loading := False \<rparr>, [])"
| "sq_finish (SqCreated (Inr n)) s = sq_worked (created_toast n) s"
| "sq_finish (SqCreated (Inl e)) s = sq_failed (U ''Falha ao criar saques'') e s"
| "sq_finish (SqConfirmed i (Inr _)) s =
     sq_worked (toast_of (U ''Saque confirmado'') (Some (U ''Agora ~00e9 s~00f3 efetuar o Pix.'')) VSuccess) s"
| "sq_finish (SqConfirmed i (Inl e)) s = sq_failed (U ''Falha ao confirmar'') e s"
| "sq_finish (SqPaid i b (Inr _)) s = sq_worked (toast_of (U ''Saque marcado como pago'') None VSuccess) s"
| "sq_finish (SqPaid i b (Inl e)) s = sq_failed (U ''Falha ao marcar como pago'') e s"
| "sq_finish (SqCancelled i r (Inr _)) s = sq_worked (toast_of (U ''Saque cancelado'') None VWarning) s"
| "sq_finish (SqCancelled i r (Inl e)) s = sq_failed (U ''Falha ao cancelar'') e s"

lemmas sq_handlers [handler] = sq_reload_def sq_failed_def sq_worked_def

subsection \<open>Totals and filter\<close>

record totals =
  tt_pending :: jsnum
  tt_processing :: jsnum
  tt_paid :: jsnum
  tt_cancelled :: jsnum

definition add_total :: "payout \<Rightarrow> totals \<Rightarrow> totals" where
  "add_total p t =
     (let t1 = (if po_status p = YPending then t\<lparr> tt_pending := js_add (tt_pending t) (po_amount_cents p) \<rparr> else t);
          t2 = (if po_status p = YProcessing then t1\<lparr> tt_processing := js_add (tt_processing t1) (po_amount_cents p) \<rparr> else t1);
          t3 = (if po_status p = YPaid then t2\<lparr> tt_paid := js_add (tt_paid t2) (po_amount_cents p) \<rparr> else t2)
      in if po_status p = YCancelled \<or> po_status p = YFailed
         then t3\<lparr> tt_cancelled := js_add (tt_cancelled t3) (po_amount_cents p) \<rparr> else t3)"

definition totals_of :: "payout list \<Rightarrow> totals" where
  "totals_of ps = fold add_total ps
     \<lparr> tt_pending = Fin 0, tt_processing = Fin 0, tt_paid = Fin 0, tt_cancelled = Fin 0 \<rparr>"

definition sq_match :: "jstr \<Rightarrow> jstr \<Rightarrow> payout \<Rightarrow> bool" where
  "sq_match st q p \<longleftrightarrow> (st = U ''all'' \<or> payout_status_str (po_status p) = st) \<and>
     js_includes (js_toLowerCase (po_partner_name p)) (js_toLowerCase q)"

definition sq_filtered :: "saques \<Rightarrow> payout list" where
  "sq_filtered s = filter (sq_match (sq_statusFilter s) (sq_search s)) (sq_payouts s)"

subsection \<open>The page\<close>

fun sq_status_label :: "payout_status \<Rightarrow> jstr" where
  "sq_status_label YPending = U ''Pendente''"
| "sq_status_label YProcessing = U ''Confirmado''"
| "sq_status_label YPaid = U ''Pago''"
| "sq_status_label YFailed = U ''Falhou''"
| "sq_status_label YCancelled = U ''Cancelado''"

fun sq_status_variant :: "payout_status \<Rightarrow> jstr" where
  "sq_status_variant YPending = U ''warning''"
| "sq_status_variant YProcessing = U ''warning''"
| "sq_status_variant YPaid = U ''success''"
| "sq_status_variant YFailed = U ''destructive''"
| "sq_status_variant YCancelled = U ''destructive''"

definition cents_brl :: "jsnum \<Rightarrow> jstr" where
  "cents_brl c = fmt_brl (js_div c (num_int 100))"

definition sq_menu :: "payout \<Rightarrow> sq_act view" where
  "sq_menu p = N ''DropdownMenuContent'' []
     (whenl (po_status p = YPending)
        [menu_item (SqConfirm (po_id p)) (U ''Confirmar''), menu_item (SqCancel (po_id p)) (U ''Cancelar'')] @
      whenl (po_status p = YProcessing)
        [menu_item (SqMarkPaid (po_id p)) (U ''Marcar como pago''), menu_item (SqCancel (po_id p)) (U ''Cancelar'')] @
      whenl (po_status p \<noteq> YPending \<and> po_status p \<noteq> YProcessing)
        [menu_item_off (U ''Sem a~00e7~00f5es dispon~00edveis'')])"

definition sq_pix_cell :: "payout \<Rightarrow> sq_act view list" where
  "sq_pix_cell p = (case truthy_s (po_pix_key p) of None \<Rightarrow> [T (U ''~2014'')]
     | Some k \<Rightarrow> [N ''span'' [] (T k # (case truthy_s (po_pix_key_type p) of None \<Rightarrow> []
          | Some t \<Rightarrow> [N ''span'' [] [T (U ''(''), T t, T (U '')'')]]))])"

text \<open>A row; \<open>fmtDate\<close> is the date formatter, whose output depends on the time zone.\<close>

definition sq_row :: "(jstr \<Rightarrow> jstr) \<Rightarrow> jstr option \<Rightarrow> payout \<Rightarrow> sq_act view" where
  "sq_row fmtDate busy p = N ''TableRow'' [A ''key'' (po_id p)]
     [txt_el ''TableCell'' (po_partner_name p),
      N ''TableCell'' [] (sq_pix_cell p),
      txt_el ''TableCell'' (case po_reward_count p of Some n \<Rightarrow> num_str n | None \<Rightarrow> U ''~2014''),
      txt_el ''TableCell'' (cents_brl (po_amount_cents p)),
      box ''TableCell'' [N ''Badge'' [A ''variant'' (sq_status_variant (po_status p))] [T (sq_status_label (po_status p))]],
      txt_el ''TableCell'' (fmtDate (po_created_at p)),
      box ''TableCell'' [N ''DropdownMenu'' []
        [N ''Button'' [Flag ''disabled'' (busy = Some (po_id p)), A ''aria-label'' (U ''A~00e7~00f5es'')] [], sq_menu p]]]"

definition sq_options :: "(jstr \<times> jstr) list" where
  "sq_options = [(U ''all'', U ''Todos os status''), (U ''pending'', U ''Pendente''),
     (U ''processing'', U ''Confirmado''), (U ''paid'', U ''Pago''), (U ''cancelled'', U ''Cancelado''),
     (U ''failed'', U ''Falhou'')]"

definition sq_cards :: "payout list \<Rightarrow> (jstr \<times> jstr) list" where
  "sq_cards ps = (let t = totals_of ps in
     [(U ''Pendente'', cents_brl (tt_pending t)), (U ''Confirmado'', cents_brl (tt_processing t)),
      (U ''Pago'', cents_brl (tt_paid t)), (U ''Cancelado'', cents_brl (tt_cancelled t))])"

definition sq_count_text :: "nat \<Rightarrow> jstr" where
  "sq_count_text n = num_str (num_int (int n)) @ U '' '' @ (if n = 1 then U ''saque'' else U ''saques'')"

definition sq_view :: "(jstr \<Rightarrow> jstr) \<Rightarrow> saques \<Rightarrow> sq_act view" where
  "sq_view fmtDate s = N ''div'' []
    ([N ''div'' [] [N ''div'' [] [txt_el ''h1'' (U ''Saques''),
        txt_el ''p'' (U ''Agrupe comiss~00f5es aprovadas em saques, confirme e marque como pago ap~00f3s o Pix manual.'')],
        N ''Button'' [On ''onClick'' (\<lambda>_. SqCreateJob), Flag ''disabled'' (sq_busy s = Some (U ''__create__''))]
          [T (U ''Gerar saques'')]],
      N ''div'' [] (map (\<lambda>(l, v). stat_card_el l v) (sq_cards (sq_payouts s)))] @
     (case truthy_s (sq_error s) of None \<Rightarrow> [] | Some e \<Rightarrow> [txt_el ''div'' e]) @
     [N ''div'' []
       ([N ''div'' [] [text_input (U ''Buscar por parceiro...'') (sq_search s) SqSearch,
           select_el (sq_statusFilter s) SqFilter sq_options]] @
        (if sq_loading s then [txt_el ''p'' (U ''Carregando saques...'')]
         else [table_el [U ''Parceiro'', U ''Chave Pix'', U ''Comiss~00f5es'', U ''Valor'', U ''Status'', U ''Data'', U ''A~00e7~00f5es'']
                 (map (sq_row fmtDate (sq_busy s)) (sq_filtered s) @
                  whenl (sq_filtered s = [])
                    [N ''TableRow'' [] [txt_el ''TableCell''
                       (if sq_payouts s = [] then U ''Nenhum saque ainda. Use ~0022Gerar saques~0022 para agrupar comiss~00f5es aprovadas.''
                        else U ''Nenhum saque com este filtro.'')]]),
               N ''div'' [] [txt_el ''p'' (sq_count_text (length (sq_filtered s)))]]))])"

subsection \<open>Totals\<close>

definition cents_in :: "(payout \<Rightarrow> int) \<Rightarrow> (payout_status \<Rightarrow> bool) \<Rightarrow> payout list \<Rightarrow> int" where
  "cents_in c st ps = sum_list (map c (filter (st \<circ> po_status) ps))"

definition sent_cents :: "(payout \<Rightarrow> int) \<Rightarrow> payout list \<Rightarrow> bool" where
  "sent_cents c ps \<longleftrightarrow> (\<forall>p \<in> set ps. po_amount_cents p = num_int (c p) \<and> 0 \<le> c p)"

abbreviation (input) "ended \<equiv> (\<lambda>st. st = YCancelled \<or> st = YFailed)"

lemma cents_in_bounds:
  assumes "sent_cents c ps"
  shows "0 \<le> cents_in c st ps" "cents_in c st ps \<le> sum_list (map c ps)"
  using assms unfolding cents_in_def sent_cents_def
  by (auto intro!: sum_list_filter_le sum_list_nonneg_int)

lemma totals_fold:
  assumes "sent_cents c ps"
    and "0 \<le> a" "0 \<le> b" "0 \<le> d" "0 \<le> e" "a + sum_list (map c ps) \<le> 2 ^ 53"
    and "b + sum_list (map c ps) \<le> 2 ^ 53" "d + sum_list (map c ps) \<le> 2 ^ 53" "e + sum_list (map c ps) \<le> 2 ^ 53"
  shows "fold add_total ps \<lparr> tt_pending = num_int a, tt_processing = num_int b, tt_paid = num_int d, tt_cancelled = num_int e \<rparr> =
    \<lparr> tt_pending = num_int (a + cents_in c (\<lambda>st. st = YPending) ps),
      tt_processing = num_int (b + cents_in c (\<lambda>st. st = YProcessing) ps),
      tt_paid = num_int (d + cents_in c (\<lambda>st. st = YPaid) ps),
      tt_cancelled = num_int (e + cents_in c ended ps) \<rparr>"
  using assms
proof (induction ps arbitrary: a b d e)
  case Nil
  then show ?case by (simp add: cents_in_def)
next
  case (Cons p ps)
  have p: "po_amount_cents p = num_int (c p)" "0 \<le> c p" and ps: "sent_cents c ps"
    using Cons.prems(1) by (auto simp: sent_cents_def)
  have sm: "0 \<le> sum_list (map c ps)"
    using ps by (auto simp: sent_cents_def intro!: sum_list_nonneg_int)
  have add: "js_add (num_int x) (num_int (c p)) = num_int (x + c p)"
    if "0 \<le> x" "x + sum_list (map c (p # ps)) \<le> 2 ^ 53" for x
    using that p sm by (intro num_int_add) auto
  show ?case
    using Cons.IH [OF ps, of "a + (if po_status p = YPending then c p else 0)"
        "b + (if po_status p = YProcessing then c p else 0)" "d + (if po_status p = YPaid then c p else 0)"
        "e + (if ended (po_status p) then c p else 0)"] Cons.prems p
    by (cases "po_status p") (simp_all add: add_total_def add cents_in_def add.assoc)
qed

lemma totals_exact:
  assumes "sent_cents c ps" "sum_list (map c ps) \<le> 2 ^ 53"
  shows "totals_of ps = \<lparr> tt_pending = num_int (cents_in c (\<lambda>st. st = YPending) ps),
      tt_processing = num_int (cents_in c (\<lambda>st. st = YProcessing) ps),
      tt_paid = num_int (cents_in c (\<lambda>st. st = YPaid) ps),
      tt_cancelled = num_int (cents_in c ended ps) \<rparr>"
  using totals_fold [OF assms(1), of 0 0 0 0] assms(2)
  by (simp add: totals_of_def num_int_small)

lemma cents_partition:
  "cents_in c (\<lambda>st. st = YPending) ps + cents_in c (\<lambda>st. st = YProcessing) ps +
   cents_in c (\<lambda>st. st = YPaid) ps + cents_in c ended ps = sum_list (map c ps)"
proof (induction ps)
  case (Cons p ps)
  then show ?case by (cases "po_status p") (simp_all add: cents_in_def)
qed (simp add: cents_in_def)

subsection \<open>Neither spinner is ever stuck\<close>

definition sq_owns_loading :: "saques \<Rightarrow> dash_call \<Rightarrow> bool" where
  "sq_owns_loading s c \<longleftrightarrow> c = sq_list_call"

text \<open>The call that answers for the row, or the button, that is busy.\<close>

fun sq_busy_key :: "dash_call \<Rightarrow> jstr option" where
  "sq_busy_key PayoutsCreateJob = Some (U ''__create__'')"
| "sq_busy_key (PayoutsConfirm i) = Some i"
| "sq_busy_key (PayoutsPaid i _) = Some i"
| "sq_busy_key (PayoutsCancel i _) = Some i"
| "sq_busy_key _ = None"

definition sq_owns_busy :: "saques \<Rightarrow> dash_call \<Rightarrow> bool" where
  "sq_owns_busy s c \<longleftrightarrow> sq_busy s \<noteq> None \<and> sq_busy_key c = sq_busy s"

lemma sq_begin_cases:
  "sq_begin ev s = (s', es) \<Longrightarrow>
     sq_loading s' = sq_loading s \<and> sq_payouts s' = sq_payouts s \<and> sq_error s' = sq_error s \<and>
     (sq_busy s' = sq_busy s \<and> es = [] \<or>
      (\<exists>i c. sq_busy s' = Some i \<and> es = [Call c] \<and> sq_busy_key c = Some i))"
  by (induction ev s rule: sq_begin.induct) (auto split: option.splits)

lemma sq_list_key [simp]: "sq_busy_key sq_list_call = None"
  by (simp add: sq_list_call_def)

lemma sq_finish_cases:
  "sq_finish d s = (s', es) \<Longrightarrow>
     (sq_opof d = sq_list_call \<and> \<not> sq_loading s' \<and> sq_busy s' = sq_busy s \<and> calls es = []) \<or>
     (sq_opof d \<noteq> sq_list_call \<and> sq_busy s' = None \<and>
      (sq_loading s' = sq_loading s \<and> calls es = [] \<or> sq_loading s' \<and> calls es = [sq_list_call]))"
  by (induction d s rule: sq_finish.induct) (auto simp: handler sq_list_call_def)

interpretation sqL: spinner sq_begin sq_finish sq_opof sq_init sq_owns_loading sq_loading
proof unfold_locales
  show "sq_loading (fst sq_init) \<Longrightarrow> \<exists>c\<in>set (snd sq_init). sq_owns_loading (fst sq_init) c"
    by (simp add: sq_init_def sq_reload_def sq_owns_loading_def)
next
  fix ev s s' es assume "sq_begin ev s = (s', es)" "sq_loading s'"
  then show "sq_loading s \<and> (\<forall>c. sq_owns_loading s c \<longrightarrow> sq_owns_loading s' c) \<or> (\<exists>c\<in>set (calls es). sq_owns_loading s' c)"
    using sq_begin_cases [of ev s s' es] by (auto simp: sq_owns_loading_def)
next
  fix d s s' es assume "sq_finish d s = (s', es)" "sq_loading s'"
  then show "sq_loading s \<and> \<not> sq_owns_loading s (sq_opof d) \<and> (\<forall>c. sq_owns_loading s c \<longrightarrow> sq_owns_loading s' c) \<or>
       (\<exists>c\<in>set (calls es). sq_owns_loading s' c)"
    using sq_finish_cases [of d s s' es] by (auto simp: sq_owns_loading_def)
qed

interpretation sqB: spinner sq_begin sq_finish sq_opof sq_init sq_owns_busy "\<lambda>s. sq_busy s \<noteq> None"
proof unfold_locales
  show "sq_busy (fst sq_init) \<noteq> None \<Longrightarrow> \<exists>c\<in>set (snd sq_init). sq_owns_busy (fst sq_init) c"
    by (simp add: sq_init_def sq_reload_def)
next
  fix ev s s' es assume "sq_begin ev s = (s', es)" "sq_busy s' \<noteq> None"
  then show "sq_busy s \<noteq> None \<and> (\<forall>c. sq_owns_busy s c \<longrightarrow> sq_owns_busy s' c) \<or> (\<exists>c\<in>set (calls es). sq_owns_busy s' c)"
    using sq_begin_cases [of ev s s' es] by (auto simp: sq_owns_busy_def)
next
  fix d s s' es assume "sq_finish d s = (s', es)" "sq_busy s' \<noteq> None"
  then show "sq_busy s \<noteq> None \<and> \<not> sq_owns_busy s (sq_opof d) \<and> (\<forall>c. sq_owns_busy s c \<longrightarrow> sq_owns_busy s' c) \<or>
       (\<exists>c\<in>set (calls es). sq_owns_busy s' c)"
    using sq_finish_cases [of d s s' es] by (auto simp: sq_owns_busy_def)
qed

text \<open>An action is answered by its reply and the list it reloads.\<close>

definition sq_weight :: "dash_call \<Rightarrow> nat" where
  "sq_weight c = (if c = sq_list_call then 1 else 2)"

lemma sq_range: "sq_list_call \<in> range sq_opof" "PayoutsCreateJob \<in> range sq_opof"
    "PayoutsConfirm i \<in> range sq_opof" "PayoutsPaid i b \<in> range sq_opof" "PayoutsCancel i r \<in> range sq_opof"
  by (metis rangeI sq_opof.simps)+

lemma sq_begin_answered: "sq_begin ev s = (s', es) \<Longrightarrow> c \<in> set (calls es) \<Longrightarrow> c \<in> range sq_opof"
  by (induction ev s rule: sq_begin.induct) (auto split: option.splits simp: sq_range)

interpretation sqD: draining sq_begin sq_finish sq_opof sq_init sq_weight
proof unfold_locales
  show "c \<in> set (snd sq_init) \<Longrightarrow> c \<in> range sq_opof" for c
    by (simp add: sq_range sq_init_def sq_reload_def)
  show "sq_finish d s = (s', es) \<Longrightarrow> sum_list (map sq_weight (calls es)) < sq_weight (sq_opof d)" for d s s' es
    using sq_finish_cases [of d s s' es] by (auto simp: sq_weight_def)
  show "sq_finish d s = (s', es) \<Longrightarrow> c \<in> set (calls es) \<Longrightarrow> c \<in> range sq_opof" for d s s' es c
    using sq_finish_cases [of d s s' es] sq_range(1) by auto
qed (rule sq_begin_answered)

interpretation sqLS: settling sq_begin sq_finish sq_opof sq_init sq_owns_loading sq_loading sq_weight
  by unfold_locales

interpretation sqBS: settling sq_begin sq_finish sq_opof sq_init sq_owns_busy "\<lambda>s. sq_busy s \<noteq> None" sq_weight
  by unfold_locales

end
