(* ===== verification/PayoutServer.thy ===== *)
theory PayoutServer imports Saques begin

text \<open>
  The payouts of one tenant on the API server (\<open>internal/api/handlers/payouts/handler.go\<close>): the rows
  of \<open>payouts\<close> and \<open>rewards\<close> the handlers read and write, and the handlers as functions on them that
  return the HTTP status. Failures of the database and the audit log are left out; the reply
  \<open>Confirm\<close> caches for a day is kept, and may expire at any time.

  The theory relates the menu of the page to the server: what the menu offers is what the server
  would carry out.
\<close>

record srv_payout =
  sp_id :: jstr
  sp_partner :: jstr
  sp_rewards :: "jstr list"
  sp_amount :: int
  sp_status :: payout_status

record srv_reward =
  sr_id :: jstr
  sr_partner :: jstr
  sr_amount :: int
  sr_status :: reward_status

record payout_db =
  db_payouts :: "srv_payout list"
  db_rewards :: "srv_reward list"
  db_pix :: "jstr \<Rightarrow> jstr option"
  db_cached :: "jstr list"

text \<open>\<open>UPDATE payouts SET status = st WHERE id = i AND status IN ss RETURNING id\<close>: the new rows, and
  whether there was one to update. Identifiers are the primary key.\<close>

definition update_payout :: "jstr \<Rightarrow> payout_status set \<Rightarrow> payout_status \<Rightarrow> srv_payout list \<Rightarrow> srv_payout list \<times> bool" where
  "update_payout i ss st ps =
     (map (\<lambda>p. if sp_id p = i \<and> sp_status p \<in> ss then p\<lparr> sp_status := st \<rparr> else p) ps,
      list_ex (\<lambda>p. sp_id p = i \<and> sp_status p \<in> ss) ps)"

definition payout_row :: "jstr \<Rightarrow> payout_db \<Rightarrow> srv_payout option" where
  "payout_row i d = List.find (\<lambda>p. sp_id p = i) (db_payouts d)"

definition current_status :: "jstr \<Rightarrow> payout_db \<Rightarrow> payout_status option" where
  "current_status i d = map_option sp_status (payout_row i d)"

text \<open>\<open>UPDATE rewards SET status = st WHERE id = ANY(the payout's reward_ids)\<close>, unconditionally.\<close>

definition update_rewards :: "jstr \<Rightarrow> reward_status \<Rightarrow> payout_db \<Rightarrow> payout_db" where
  "update_rewards i st d = d\<lparr> db_rewards :=
     map (\<lambda>r. if \<exists>p \<in> set (db_payouts d). sp_id p = i \<and> sr_id r \<in> set (sp_rewards p)
              then r\<lparr> sr_status := st \<rparr> else r) (db_rewards d) \<rparr>"

definition srv_confirm :: "jstr \<Rightarrow> payout_db \<Rightarrow> nat \<times> payout_db" where
  "srv_confirm i d =
     (if i \<in> set (db_cached d) then (200, d)
      else case update_payout i {YPending} YProcessing (db_payouts d) of
        (ps, True) \<Rightarrow> (200, d\<lparr> db_payouts := ps, db_cached := i # db_cached d \<rparr>)
      | (_, False) \<Rightarrow>
          (if current_status i d \<in> {Some YProcessing, Some YPaid}
           then (200, d\<lparr> db_cached := i # db_cached d \<rparr>) else (404, d)))"

definition srv_paid :: "jstr \<Rightarrow> payout_db \<Rightarrow> nat \<times> payout_db" where
  "srv_paid i d =
     (case update_payout i {YProcessing} YPaid (db_payouts d) of
        (ps, True) \<Rightarrow> (200, update_rewards i RPaid (d\<lparr> db_payouts := ps \<rparr>))
      | (_, False) \<Rightarrow> (if current_status i d = Some YPaid then (200, d) else (409, d)))"

definition srv_cancel :: "jstr \<Rightarrow> payout_db \<Rightarrow> nat \<times> payout_db" where
  "srv_cancel i d =
     (case update_payout i {YPending, YProcessing} YCancelled (db_payouts d) of
        (ps, True) \<Rightarrow> (200, update_rewards i RApproved (d\<lparr> db_payouts := ps \<rparr>))
      | (_, False) \<Rightarrow> (404, d))"

text \<open>
  \<open>CreatePayoutsJob\<close>. \<open>held r\<close> is the database's test that the hold of a reward has run out,
  \<open>order\<close> the order in which Go ranges over the map of partners, \<open>fresh\<close> the UUIDs it draws. The
  rewards are read once, before the loop; a partner with a pending payout is skipped.
\<close>

definition eligible :: "(srv_reward \<Rightarrow> bool) \<Rightarrow> payout_db \<Rightarrow> srv_reward list" where
  "eligible held d = filter (\<lambda>r. sr_status r = RApproved \<and> truthy_s (db_pix d (sr_partner r)) \<noteq> None \<and> held r)
     (db_rewards d)"

text \<open>The payout the job writes for a partner.\<close>

definition job_payout :: "(jstr \<Rightarrow> jstr) \<Rightarrow> srv_reward list \<Rightarrow> jstr \<Rightarrow> srv_payout" where
  "job_payout fresh el q = (let rs = filter (\<lambda>r. sr_partner r = q) el in
     \<lparr> sp_id = fresh q, sp_partner = q, sp_rewards = map sr_id rs,
       sp_amount = sum_list (map sr_amount rs), sp_status = YPending \<rparr>)"

definition no_pending :: "jstr \<Rightarrow> payout_db \<Rightarrow> bool" where
  "no_pending q d \<longleftrightarrow> (\<forall>p \<in> set (db_payouts d). sp_partner p = q \<longrightarrow> sp_status p \<noteq> YPending)"

definition job_partner :: "(jstr \<Rightarrow> jstr) \<Rightarrow> srv_reward list \<Rightarrow> jstr \<Rightarrow> nat \<times> payout_db \<Rightarrow> nat \<times> payout_db" where
  "job_partner fresh el q nd = (case nd of (n, d) \<Rightarrow>
     if no_pending q d then (Suc n, d\<lparr> db_payouts := db_payouts d @ [job_payout fresh el q] \<rparr>) else (n, d))"

definition srv_create_job ::
  "(srv_reward \<Rightarrow> bool) \<Rightarrow> jstr list \<Rightarrow> (jstr \<Rightarrow> jstr) \<Rightarrow> payout_db \<Rightarrow> nat \<times> payout_db" where
  "srv_create_job held order fresh d =
     (let el = eligible held d in
      fold (job_partner fresh el) (filter (\<lambda>q. q \<in> sr_partner ` set el) order) (0, d))"

text \<open>The handler an action of the page's menu reaches, for the payout it names.\<close>

fun srv_act :: "sq_act \<Rightarrow> payout_db \<Rightarrow> nat \<times> payout_db" where
  "srv_act (SqConfirm i) d = srv_confirm i d"
| "srv_act (SqMarkPaid i) d = srv_paid i d"
| "srv_act (SqCancel i) d = srv_cancel i d"
| "srv_act _ d = (200, d)"

lemma find_map_status:
  "List.find (\<lambda>p. sp_id p = i) (map (\<lambda>p. if sp_id p = j \<and> sp_status p \<in> ss then p\<lparr> sp_status := st \<rparr> else p) ps) =
   map_option (\<lambda>p. if sp_id p = j \<and> sp_status p \<in> ss then p\<lparr> sp_status := st \<rparr> else p)
     (List.find (\<lambda>p. sp_id p = i) ps)"
  by (induction ps) auto

lemma status_update:
  "current_status i (d\<lparr> db_payouts := fst (update_payout j ss st (db_payouts d)) \<rparr>) =
   map_option (\<lambda>s. if i = j \<and> s \<in> ss then st else s) (current_status i d)"
proof -
  have "sp_id p = i" if "List.find (\<lambda>p. sp_id p = i) (db_payouts d) = Some p" for p
    using find_Some_in [OF that] by simp
  then show ?thesis
    by (cases "List.find (\<lambda>p. sp_id p = i) (db_payouts d)")
       (auto simp: current_status_def payout_row_def update_payout_def find_map_status)
qed

lemma status_rewards [simp]: "current_status i (update_rewards j st d) = current_status i d"
  by (simp add: current_status_def payout_row_def update_rewards_def)

lemma status_cached [simp]: "current_status i (d\<lparr> db_cached := c \<rparr>) = current_status i d"
  "current_status i (d\<lparr> db_payouts := ps, db_cached := c \<rparr>) = current_status i (d\<lparr> db_payouts := ps \<rparr>)"
  by (simp_all add: current_status_def payout_row_def)

definition unique_ids :: "payout_db \<Rightarrow> bool" where
  "unique_ids d \<longleftrightarrow> distinct (map sp_id (db_payouts d))"

lemma list_ex_status:
  "unique_ids d \<Longrightarrow> snd (update_payout i ss st (db_payouts d)) \<longleftrightarrow> (\<exists>s \<in> ss. current_status i d = Some s)"
proof -
  assume u: "unique_ids d"
  have "list_ex (\<lambda>p. sp_id p = i \<and> sp_status p \<in> ss) ps \<longleftrightarrow>
        (\<exists>p. List.find (\<lambda>p. sp_id p = i) ps = Some p \<and> sp_status p \<in> ss)"
    if "distinct (map sp_id ps)" for ps
    using that
  proof (induction ps)
    case (Cons a ps)
    have "sp_id p \<noteq> sp_id a" if "p \<in> set ps" for p using Cons.prems that by (metis distinct.simps(2) image_eqI list.set_map list.simps(9))
    with Cons show ?case by (auto simp: list_ex_iff)
  qed simp
  with u show ?thesis
    by (auto simp: update_payout_def current_status_def payout_row_def unique_ids_def)
qed

text \<open>The status of a payout after each handler.\<close>

lemma after_confirm:
  assumes "unique_ids d" "i \<notin> set (db_cached d)"
  shows "current_status j (snd (srv_confirm i d)) =
           (if j = i \<and> current_status i d = Some YPending then Some YProcessing else current_status j d)"
    and "fst (srv_confirm i d) = 200 \<longleftrightarrow> current_status i d \<in> {Some YPending, Some YProcessing, Some YPaid}"
  using assms status_update [where i = j and d = d and j = i and ss = "{YPending}" and st = YProcessing] list_ex_status [OF assms(1), of i "{YPending}" YProcessing]
  by (auto simp: srv_confirm_def option.map_ident split: prod.splits bool.splits)

lemma after_paid:
  assumes "unique_ids d"
  shows "current_status j (snd (srv_paid i d)) =
           (if j = i \<and> current_status i d = Some YProcessing then Some YPaid else current_status j d)"
    and "fst (srv_paid i d) = 200 \<longleftrightarrow> current_status i d \<in> {Some YProcessing, Some YPaid}"
  using assms status_update [where i = j and d = d and j = i and ss = "{YProcessing}" and st = YPaid] list_ex_status [OF assms, of i "{YProcessing}" YPaid]
  by (auto simp: srv_paid_def option.map_ident split: prod.splits bool.splits)

lemma after_cancel:
  assumes "unique_ids d"
  shows "current_status j (snd (srv_cancel i d)) =
           (if j = i \<and> current_status i d \<in> {Some YPending, Some YProcessing} then Some YCancelled else current_status j d)"
    and "fst (srv_cancel i d) = 200 \<longleftrightarrow> current_status i d \<in> {Some YPending, Some YProcessing}"
  using assms status_update [where i = j and d = d and j = i and ss = "{YPending, YProcessing}" and st = YCancelled]
    list_ex_status [OF assms, of i "{YPending, YProcessing}" YCancelled]
  by (auto simp: srv_cancel_def option.map_ident split: prod.splits bool.splits)

text \<open>The events the menu of a row can cause.\<close>

lemma menu_causes:
  "causes (sq_menu p) a \<longleftrightarrow>
     (po_status p = YPending \<and> a = SqConfirm (po_id p)) \<or>
     (po_status p = YProcessing \<and> a = SqMarkPaid (po_id p)) \<or>
     (po_status p \<in> {YPending, YProcessing} \<and> a = SqCancel (po_id p))"
  by (cases "po_status p") (auto simp: causes_def sq_menu_def)

fun menu_act :: "sq_act \<Rightarrow> bool" where
  "menu_act (SqConfirm _) = True" | "menu_act (SqMarkPaid _) = True" | "menu_act (SqCancel _) = True"
| "menu_act _ = False"

fun act_id :: "sq_act \<Rightarrow> jstr" where
  "act_id (SqConfirm i) = i" | "act_id (SqMarkPaid i) = i" | "act_id (SqCancel i) = i" | "act_id _ = []"

lemma menu_offers_iff:
  assumes "unique_ids d" "i \<notin> set (db_cached d)" "current_status i d = Some (po_status p)" "po_id p = i"
    and "menu_act a" "act_id a = i"
  shows "causes (sq_menu p) a \<longleftrightarrow> current_status i (snd (srv_act a d)) \<noteq> current_status i d"
  using assms by (cases a; cases "po_status p") (auto simp: menu_causes after_confirm after_paid after_cancel)


subsection \<open>The job\<close>

lemma job_partner_eq:
  "job_partner fresh el q (n, d) = (if no_pending q d
     then (Suc n, d\<lparr> db_payouts := db_payouts d @ [job_payout fresh el q] \<rparr>) else (n, d))"
  by (simp add: job_partner_def)

lemma job_fold_keeps:
  "set (db_payouts d) \<subseteq> set (db_payouts (snd (fold (job_partner fresh el) qs (n, d))))"
proof (induction qs arbitrary: n d)
  case (Cons q qs)
  then show ?case by (auto simp: job_partner_eq) (metis Un_iff set_append subsetD surjective update_convs(1) select_convs(1))
qed simp

lemma job_fold_creates:
  assumes "distinct qs" "q \<in> set qs" "no_pending q d"
  shows "job_payout fresh el q \<in> set (db_payouts (snd (fold (job_partner fresh el) qs (n, d))))"
  using assms
proof (induction qs arbitrary: n d)
  case (Cons a qs)
  show ?case
  proof (cases "a = q")
    case True
    let ?d = "d\<lparr> db_payouts := db_payouts d @ [job_payout fresh el q] \<rparr>"
    have "job_payout fresh el q \<in> set (db_payouts ?d)" by simp
    then show ?thesis using job_fold_keeps [of ?d fresh el qs "Suc n"] True Cons.prems(3)
      by (auto simp: job_partner_eq)
  next
    case False
    have p: "sp_partner (job_payout fresh el a) = a" by (simp add: job_payout_def Let_def)
    obtain m e where me: "job_partner fresh el a (n, d) = (m, e)" by fastforce
    then have "no_pending q e"
      using Cons.prems(3) False p by (auto simp: job_partner_eq no_pending_def split: if_splits)
    then show ?thesis using Cons.IH [of e m] Cons.prems False me by simp
  qed
qed simp

lemma job_creates:
  assumes "r \<in> set (eligible held d)" "sr_partner r \<in> set order" "distinct order" "no_pending (sr_partner r) d"
  shows "job_payout fresh (eligible held d) (sr_partner r) \<in> set (db_payouts (snd (srv_create_job held order fresh d)))"
  unfolding srv_create_job_def Let_def using assms by (intro job_fold_creates) auto

lemma job_payout_reward: "r \<in> set el \<Longrightarrow> sr_id r \<in> set (sp_rewards (job_payout fresh el (sr_partner r)))"
  by (auto simp: job_payout_def Let_def)

end
