(* ===== verification/PayoutSpec.thy ===== *)
theory PayoutSpec imports PayoutServer "HOL-Library.Sublist" begin

text \<open>
  What the payouts of the server promise, as a machine on the status of one payout, and the
  refinement: after any sequence of the handlers, the status of a payout is the one the machine
  gives for the actions that name it. The reply \<open>Confirm\<close> caches does not show, because a payout
  whose confirmation is cached has left \<open>pending\<close>.
\<close>

subsection \<open>The abstract machine\<close>

fun pay_step :: "sq_act \<Rightarrow> payout_status \<Rightarrow> payout_status" where
  "pay_step (SqConfirm _) YPending = YProcessing"
| "pay_step (SqMarkPaid _) YProcessing = YPaid"
| "pay_step (SqCancel _) YPending = YCancelled"
| "pay_step (SqCancel _) YProcessing = YCancelled"
| "pay_step _ st = st"

definition pay_run :: "jstr \<Rightarrow> sq_act list \<Rightarrow> payout_status \<Rightarrow> payout_status" where
  "pay_run i as st = fold pay_step (filter (\<lambda>a. menu_act a \<and> act_id a = i) as) st"

definition srv_run :: "sq_act list \<Rightarrow> payout_db \<Rightarrow> payout_db" where
  "srv_run as d = fold (\<lambda>a d. snd (srv_act a d)) as d"

lemma pay_run_Nil [simp]: "pay_run i [] st = st"
  by (simp add: pay_run_def)

lemma pay_run_Cons [simp]:
  "pay_run i (a # as) st = pay_run i as (if menu_act a \<and> act_id a = i then pay_step a st else st)"
  by (simp add: pay_run_def)

lemma srv_run_Nil [simp]: "srv_run [] d = d" and srv_run_Cons [simp]: "srv_run (a # as) d = srv_run as (snd (srv_act a d))"
  by (simp_all add: srv_run_def)

text \<open>A status that is over stays.\<close>

definition over :: "payout_status \<Rightarrow> bool" where
  "over st \<longleftrightarrow> st = YPaid \<or> st = YFailed \<or> st = YCancelled"

lemma over_step: "over st \<Longrightarrow> pay_step a st = st"
  by (cases a; cases st) (auto simp: over_def)

lemma over_run: "over st \<Longrightarrow> pay_run i as st = st"
  by (induction as) (auto simp: over_step)

text \<open>A payout is paid only after it was confirmed: both actions occur, in that order.\<close>

lemma processing_to_paid:
  "pay_run i as YProcessing = YPaid \<Longrightarrow> subseq [SqMarkPaid i] as"
proof (induction as)
  case (Cons a as)
  show ?case
  proof (cases "menu_act a \<and> act_id a = i")
    case True
    then show ?thesis using Cons over_run [of YCancelled i as]
      by (cases a) (auto simp: over_def subseq_Cons')
  next
    case False
    then show ?thesis using Cons by (auto simp: subseq_Cons')
  qed
qed simp

lemma pending_to_paid:
  "pay_run i as YPending = YPaid \<Longrightarrow> subseq [SqConfirm i, SqMarkPaid i] as"
proof (induction as)
  case (Cons a as)
  show ?case
  proof (cases "menu_act a \<and> act_id a = i")
    case True
    then show ?thesis using Cons over_run [of YCancelled i as] processing_to_paid [of i as]
      by (cases a) (auto simp: over_def subseq_Cons')
  next
    case False
    then show ?thesis using Cons by (cases a) (auto simp: subseq_Cons')
  qed
qed simp

subsection \<open>The refinement\<close>

definition cache_ok :: "payout_db \<Rightarrow> bool" where
  "cache_ok d \<longleftrightarrow> (\<forall>i \<in> set (db_cached d). current_status i d \<noteq> Some YPending)"

definition db_ok :: "payout_db \<Rightarrow> bool" where
  "db_ok d \<longleftrightarrow> unique_ids d \<and> cache_ok d"

lemma ids_act: "map sp_id (db_payouts (snd (srv_act a d))) = map sp_id (db_payouts d)"
proof -
  have u: "map sp_id (fst (update_payout i ss st ps)) = map sp_id ps" for i ss st ps
    by (simp add: update_payout_def)
  have c: "map sp_id (db_payouts (snd (srv_confirm i d))) = map sp_id (db_payouts d)" for i
    using u [of i "{YPending}" YProcessing "db_payouts d"] by (auto simp: srv_confirm_def split: prod.splits bool.splits)
  have p: "map sp_id (db_payouts (snd (srv_paid i d))) = map sp_id (db_payouts d)" for i
    using u [of i "{YProcessing}" YPaid "db_payouts d"]
    by (auto simp: srv_paid_def update_rewards_def split: prod.splits bool.splits)
  have k: "map sp_id (db_payouts (snd (srv_cancel i d))) = map sp_id (db_payouts d)" for i
    using u [of i "{YPending, YProcessing}" YCancelled "db_payouts d"]
    by (auto simp: srv_cancel_def update_rewards_def split: prod.splits bool.splits)
  show ?thesis by (cases a) (simp_all add: c p k)
qed

lemma unique_act: "unique_ids d \<Longrightarrow> unique_ids (snd (srv_act a d))"
  by (simp add: unique_ids_def ids_act)

lemma status_act:
  assumes "db_ok d"
  shows "current_status j (snd (srv_act a d)) =
    (if menu_act a \<and> act_id a = j then map_option (pay_step a) (current_status j d) else current_status j d)"
proof (cases a)
  case (SqConfirm i)
  show ?thesis
  proof (cases "i \<in> set (db_cached d)")
    case True
    then have "current_status i d \<noteq> Some YPending" using assms by (auto simp: db_ok_def cache_ok_def)
    then have "map_option (pay_step (SqConfirm i)) (current_status i d) = current_status i d"
      by (cases "current_status i d"; cases "the (current_status i d)") auto
    then show ?thesis using SqConfirm True by (cases "i = j") (simp_all add: srv_confirm_def)
  next
    case False
    then show ?thesis using after_confirm(1) [of d i j] assms SqConfirm
      by (cases "current_status i d"; cases "the (current_status i d)") (auto simp: db_ok_def)
  qed
next
  case (SqMarkPaid i)
  then show ?thesis using after_paid(1) [of d j i] assms
    by (cases "current_status i d"; cases "the (current_status i d)") (auto simp: db_ok_def)
next
  case (SqCancel i)
  then show ?thesis using after_cancel(1) [of d j i] assms
    by (cases "current_status i d"; cases "the (current_status i d)") (auto simp: db_ok_def)
qed simp_all

lemma cached_act:
  assumes "k \<in> set (db_cached (snd (srv_act a d)))"
  shows "k \<in> set (db_cached d) \<or> a = SqConfirm k"
  using assms by (cases a) (auto simp: srv_confirm_def srv_paid_def srv_cancel_def update_rewards_def
      split: if_splits prod.splits bool.splits)

lemma step_pending: "pay_step a st = YPending \<Longrightarrow> st = YPending \<and> \<not> (\<exists>i. a = SqConfirm i)"
  by (cases a; cases st) auto

lemma ok_act:
  assumes "db_ok d"
  shows "db_ok (snd (srv_act a d))"
proof -
  have "current_status k (snd (srv_act a d)) \<noteq> Some YPending" if "k \<in> set (db_cached (snd (srv_act a d)))" for k
    using cached_act [OF that] assms status_act [OF assms, of k a]
    by (auto simp: db_ok_def cache_ok_def dest!: step_pending split: if_splits)
  then show ?thesis using assms unique_act by (auto simp: db_ok_def cache_ok_def)
qed

lemma run_refines:
  "db_ok d \<Longrightarrow> current_status i (srv_run as d) = map_option (pay_run i as) (current_status i d)"
proof (induction as arbitrary: d)
  case Nil
  then show ?case by (simp add: option.map_ident)
next
  case (Cons a as)
  then show ?case using ok_act [OF Cons.prems, of a] status_act [OF Cons.prems, of i a]
    by (cases "current_status i d") (auto simp: option.map_comp)
qed

end
