(* ===== verification/Comissoes.thy ===== *)
theory Comissoes imports PayoutServer begin

text \<open>
  \<open>apps/dashboard/app/(app)/comissoes/page.tsx\<close>: the rewards page of the tenant's administrator, and
  the handlers of the server it calls (\<open>internal/api/handlers/rewards/handler.go\<close>). An event pairs
  what the user did with the answer of \<open>window.prompt\<close>, as on the payouts page. The list and the
  summary are loaded together, \<open>Promise.all\<close>: one operation in flight, which settles with both or
  with the first error.
\<close>

subsection \<open>State, events, replies\<close>

record comissoes =
  cm_rewards :: "reward list"
  cm_summary :: "reward_summary option"
  cm_loading :: bool
  cm_error :: "jstr option"
  cm_statusFilter :: jstr
  cm_search :: jstr
  cm_busy :: "jstr option"

datatype cm_act = CmFilter jstr | CmSearch jstr | CmApprove jstr | CmReject jstr

text \<open>An operation in flight, and the calls it consists of.\<close>

datatype cm_op = CmLoad | CmDoApprove jstr | CmDoReject jstr jstr

fun cm_calls :: "cm_op \<Rightarrow> dash_call list" where
  "cm_calls CmLoad = [RewardsList None, RewardsSummary]"
| "cm_calls (CmDoApprove i) = [RewardsApprove i]"
| "cm_calls (CmDoReject i r) = [RewardsReject i r]"

datatype cm_done = CmLoaded "api_err + reward list option \<times> reward_summary"
  | CmApproved jstr "api_err + unit" | CmRejected jstr jstr "api_err + unit"

fun cm_opof :: "cm_done \<Rightarrow> cm_op" where
  "cm_opof (CmLoaded _) = CmLoad"
| "cm_opof (CmApproved i _) = CmDoApprove i"
| "cm_opof (CmRejected i r _) = CmDoReject i r"

subsection \<open>The handlers\<close>

definition cm_reload :: "comissoes \<Rightarrow> comissoes \<times> cm_op eff list" where
  "cm_reload s = (s\<lparr> cm_loading := True \<rparr>, [Call CmLoad])"

definition cm_init :: "comissoes \<times> cm_op list" where
  "cm_init = (case cm_reload \<lparr> cm_rewards = [], cm_summary = None, cm_loading = True, cm_error = None,
       cm_statusFilter = U ''all'', cm_search = [], cm_busy = None \<rparr> of (s, es) \<Rightarrow> (s, calls es))"

fun cm_begin :: "cm_act \<times> jstr option \<Rightarrow> comissoes \<Rightarrow> comissoes \<times> cm_op eff list" where
  "cm_begin (CmFilter v, _) s = (s\<lparr> cm_statusFilter := v \<rparr>, [])"
| "cm_begin (CmSearch v, _) s = (s\<lparr> cm_search := v \<rparr>, [])"
| "cm_begin (CmApprove i, _) s = (s\<lparr> cm_busy := Some i \<rparr>, [Call (CmDoApprove i)])"
| "cm_begin (CmReject i, answer) s = (case truthy_s answer of None \<Rightarrow> (s, [])
     | Some r \<Rightarrow> (s\<lparr> cm_busy := Some i \<rparr>, [Call (CmDoReject i r)]))"

definition cm_failed :: "jstr \<Rightarrow> api_err \<Rightarrow> comissoes \<Rightarrow> comissoes \<times> cm_op eff list" where
  "cm_failed title e s = (s\<lparr> cm_busy := None \<rparr>,
     [Toast (toast_of title (Some (api_message e (U ''Erro inesperado''))) VDestructive)])"

definition cm_worked :: "toast_input \<Rightarrow> comissoes \<Rightarrow> comissoes \<times> cm_op eff list" where
  "cm_worked t s = (case cm_reload s of (s', es) \<Rightarrow> (s'\<lparr> cm_busy := None \<rparr>, Toast t # es))"

fun cm_finish :: "cm_done \<Rightarrow> comissoes \<Rightarrow> comissoes \<times> cm_op eff list" where
  "cm_finish (CmLoaded (Inr (l, sm))) s =
     (s\<lparr> cm_rewards := orelse l [], cm_summary := Some sm, cm_loading := False \<rparr>, [])"
| "cm_finish (CmLoaded (Inl e)) s = (s\<lparr> cm_error := Some (err_message e), cm_loading := False \<rparr>, [])"
| "cm_finish (CmApproved i (Inr _)) s = cm_worked (toast_of (U ''Comiss~00e3o aprovada'') None VSuccess) s"
| "cm_finish (CmApproved i (Inl e)) s = cm_failed (U ''Falha ao aprovar'') e s"
| "cm_finish (CmRejected i r (Inr _)) s = cm_worked (toast_of (U ''Comiss~00e3o rejeitada'') None VWarning) s"
| "cm_finish (CmRejected i r (Inl e)) s = cm_failed (U ''Falha ao rejeitar'') e s"

lemmas cm_handlers [handler] = cm_reload_def cm_failed_def cm_worked_def

definition cm_match :: "jstr \<Rightarrow> jstr \<Rightarrow> reward \<Rightarrow> bool" where
  "cm_match st q r \<longleftrightarrow> (st = U ''all'' \<or> reward_status_str (rw_status r) = st) \<and>
     js_includes (js_toLowerCase (js_join (U '' '')
        (filter_Boolean [Some (rw_partner_name r), rw_lead_name r, Some (rw_program_name r)]))) (js_toLowerCase q)"

definition cm_filtered :: "comissoes \<Rightarrow> reward list" where
  "cm_filtered s = filter (cm_match (cm_statusFilter s) (cm_search s)) (cm_rewards s)"

subsection \<open>The page\<close>

fun cm_status_label :: "reward_status \<Rightarrow> jstr" where
  "cm_status_label RPending = U ''Pendente''"
| "cm_status_label RApproved = U ''Aprovada''"
| "cm_status_label RPaid = U ''Paga''"
| "cm_status_label RRejected = U ''Rejeitada''"
| "cm_status_label RCancelled = U ''Cancelada''"

fun cm_status_variant :: "reward_status \<Rightarrow> jstr" where
  "cm_status_variant RPending = U ''warning''"
| "cm_status_variant RApproved = U ''success''"
| "cm_status_variant RPaid = U ''success''"
| "cm_status_variant RRejected = U ''destructive''"
| "cm_status_variant RCancelled = U ''destructive''"

text \<open>\<open>summary?.x || 0\<close>.\<close>

definition sum_field :: "(reward_summary \<Rightarrow> jsnum) \<Rightarrow> reward_summary option \<Rightarrow> jsnum" where
  "sum_field f x = (case x of None \<Rightarrow> Fin 0 | Some r \<Rightarrow> if num_truthy (f r) then f r else Fin 0)"

definition cm_cards :: "reward_summary option \<Rightarrow> (jstr \<times> jstr) list" where
  "cm_cards x = [(U ''Pendente'', cents_brl (sum_field rs_pending x)), (U ''Aprovada'', cents_brl (sum_field rs_approved x)),
     (U ''Paga'', cents_brl (sum_field rs_paid x)),
     (U ''Rejeitada'', cents_brl (js_add (sum_field rs_rejected x) (sum_field rs_cancelled x)))]"

definition cm_menu :: "reward \<Rightarrow> cm_act view" where
  "cm_menu r = N ''DropdownMenuContent'' []
     (if rw_status r = RPending
      then [menu_item (CmApprove (rw_id r)) (U ''Aprovar''), menu_item (CmReject (rw_id r)) (U ''Rejeitar'')]
      else [menu_item_off (U ''Sem a~00e7~00f5es dispon~00edveis'')])"

definition cm_row :: "(jstr \<Rightarrow> jstr) \<Rightarrow> jstr option \<Rightarrow> reward \<Rightarrow> cm_act view" where
  "cm_row fmtDate busy r = N ''TableRow'' [A ''key'' (rw_id r)]
     [txt_el ''TableCell'' (rw_partner_name r),
      txt_el ''TableCell'' (or_str (rw_lead_name r) (U ''~2014'')),
      txt_el ''TableCell'' (rw_program_name r),
      txt_el ''TableCell'' (cents_brl (rw_amount_cents r)),
      box ''TableCell'' [N ''Badge'' [A ''variant'' (cm_status_variant (rw_status r))] [T (cm_status_label (rw_status r))]],
      txt_el ''TableCell'' (fmtDate (rw_created_at r)),
      box ''TableCell'' [N ''DropdownMenu'' []
        [N ''Button'' [Flag ''disabled'' (busy = Some (rw_id r)), A ''aria-label'' (U ''A~00e7~00f5es'')] [], cm_menu r]]]"

definition cm_options :: "(jstr \<times> jstr) list" where
  "cm_options = [(U ''all'', U ''Todos os status''), (U ''pending'', U ''Pendente''), (U ''approved'', U ''Aprovada''),
     (U ''paid'', U ''Paga''), (U ''rejected'', U ''Rejeitada''), (U ''cancelled'', U ''Cancelada'')]"

definition cm_count_text :: "nat \<Rightarrow> jstr" where
  "cm_count_text n = num_str (num_int (int n)) @ U '' '' @ (if n = 1 then U ''comiss~00e3o'' else U ''comiss~00f5es'')"

definition cm_view :: "(jstr \<Rightarrow> jstr) \<Rightarrow> comissoes \<Rightarrow> cm_act view" where
  "cm_view fmtDate s = N ''div'' []
    ([N ''div'' [] [txt_el ''h1'' (U ''Comiss~00f5es''),
        txt_el ''p'' (U ''Aprove ou rejeite recompensas pendentes e acompanhe o que j~00e1 foi pago.'')],
      N ''div'' [] (map (\<lambda>(l, v). stat_card_el l v) (cm_cards (cm_summary s)))] @
     (case truthy_s (cm_error s) of None \<Rightarrow> [] | Some e \<Rightarrow> [txt_el ''div'' e]) @
     [N ''div'' []
       ([N ''div'' [] [text_input (U ''Buscar por parceiro, indica~00e7~00e3o ou programa...'') (cm_search s) CmSearch,
           select_el (cm_statusFilter s) CmFilter cm_options]] @
        (if cm_loading s then [txt_el ''p'' (U ''Carregando comiss~00f5es...'')]
         else [table_el [U ''Parceiro'', U ''Indica~00e7~00e3o'', U ''Programa'', U ''Valor'', U ''Status'', U ''Data'', U ''A~00e7~00f5es'']
                 (map (cm_row fmtDate (cm_busy s)) (cm_filtered s) @
                  whenl (cm_filtered s = [])
                    [N ''TableRow'' [] [txt_el ''TableCell''
                       (if cm_rewards s = [] then U ''Nenhuma comiss~00e3o ainda.''
                        else U ''Nenhuma comiss~00e3o com este filtro.'')]]),
               N ''div'' [] [txt_el ''p'' (cm_count_text (length (cm_filtered s)))]]))])"

subsection \<open>The server's handlers\<close>

text \<open>\<open>Approve\<close> and \<open>Reject\<close> on the rewards of the tenant: HTTP status and new rows.\<close>

definition update_reward :: "jstr \<Rightarrow> reward_status set \<Rightarrow> reward_status \<Rightarrow> srv_reward list \<Rightarrow> nat \<times> srv_reward list" where
  "update_reward i ss st rs =
     (if list_ex (\<lambda>r. sr_id r = i \<and> sr_status r \<in> ss) rs
      then (200, map (\<lambda>r. if sr_id r = i \<and> sr_status r \<in> ss then r\<lparr> sr_status := st \<rparr> else r) rs)
      else (409, rs))"

definition srv_approve :: "jstr \<Rightarrow> srv_reward list \<Rightarrow> nat \<times> srv_reward list" where
  "srv_approve i rs = update_reward i {RPending} RApproved rs"

definition srv_reject :: "jstr \<Rightarrow> srv_reward list \<Rightarrow> nat \<times> srv_reward list" where
  "srv_reject i rs = update_reward i {RPending, RApproved} RRejected rs"

text \<open>\<open>Summary\<close>: how many rewards have each status. The columns are COUNTs.\<close>

definition srv_summary :: "srv_reward list \<Rightarrow> reward_summary" where
  "srv_summary rs = (let n = (\<lambda>st. num_int (int (length (filter (\<lambda>r. sr_status r = st) rs)))) in
     \<lparr> rs_pending = n RPending, rs_approved = n RApproved, rs_paid = n RPaid, rs_rejected = n RRejected,
       rs_cancelled = n RCancelled \<rparr>)"

fun srv_reward_act :: "cm_act \<Rightarrow> srv_reward list \<Rightarrow> nat \<times> srv_reward list" where
  "srv_reward_act (CmApprove i) rs = srv_approve i rs"
| "srv_reward_act (CmReject i) rs = srv_reject i rs"
| "srv_reward_act _ rs = (200, rs)"

subsection \<open>Facts\<close>

lemma cm_menu_causes:
  "causes (cm_menu r) a \<longleftrightarrow> rw_status r = RPending \<and> (a = CmApprove (rw_id r) \<or> a = CmReject (rw_id r))"
  by (auto simp: causes_def cm_menu_def)

lemma cm_menu_accepted:
  assumes "causes (cm_menu r) a" "x \<in> set rs" "sr_id x = rw_id r" "sr_status x = rw_status r"
  shows "fst (srv_reward_act a rs) = 200"
  using assms by (auto simp: cm_menu_causes srv_approve_def srv_reject_def update_reward_def list_ex_iff)

text \<open>A rejection leaves the page only with a reason.\<close>

lemma cm_begin_cases:
  "cm_begin ev s = (s', es) \<Longrightarrow> cm_loading s' = cm_loading s \<and> cm_error s' = cm_error s \<and>
     (cm_busy s' = cm_busy s \<and> es = [] \<or>
      (\<exists>i. cm_busy s' = Some i \<and> (es = [Call (CmDoApprove i)] \<or> (\<exists>r. r \<noteq> [] \<and> es = [Call (CmDoReject i r)]))))"
  by (induction ev s rule: cm_begin.induct) (auto simp: truthy_s_def nonempty_Some split: option.splits)

lemma cm_finish_cases:
  "cm_finish d s = (s', es) \<Longrightarrow>
     (cm_opof d = CmLoad \<and> \<not> cm_loading s' \<and> cm_busy s' = cm_busy s \<and> calls es = []) \<or>
     (cm_opof d \<noteq> CmLoad \<and> cm_busy s' = None \<and>
      (cm_loading s' = cm_loading s \<and> calls es = [] \<or> cm_loading s' \<and> calls es = [CmLoad]))"
  by (induction d s rule: cm_finish.induct) (auto simp: handler)

definition cm_owns_loading :: "comissoes \<Rightarrow> cm_op \<Rightarrow> bool" where
  "cm_owns_loading s c \<longleftrightarrow> c = CmLoad"

definition cm_owns_busy :: "comissoes \<Rightarrow> cm_op \<Rightarrow> bool" where
  "cm_owns_busy s c \<longleftrightarrow> (\<exists>i. cm_busy s = Some i \<and> (c = CmDoApprove i \<or> (\<exists>r. c = CmDoReject i r)))"

interpretation cmL: spinner cm_begin cm_finish cm_opof cm_init cm_owns_loading cm_loading
proof unfold_locales
  show "cm_loading (fst cm_init) \<Longrightarrow> \<exists>c\<in>set (snd cm_init). cm_owns_loading (fst cm_init) c"
    by (simp add: cm_init_def cm_reload_def cm_owns_loading_def)
next
  fix ev s s' es assume "cm_begin ev s = (s', es)" "cm_loading s'"
  then show "cm_loading s \<and> (\<forall>c. cm_owns_loading s c \<longrightarrow> cm_owns_loading s' c) \<or> (\<exists>c\<in>set (calls es). cm_owns_loading s' c)"
    using cm_begin_cases [of ev s s' es] by (auto simp: cm_owns_loading_def)
next
  fix d s s' es assume "cm_finish d s = (s', es)" "cm_loading s'"
  then show "cm_loading s \<and> \<not> cm_owns_loading s (cm_opof d) \<and> (\<forall>c. cm_owns_loading s c \<longrightarrow> cm_owns_loading s' c) \<or>
       (\<exists>c\<in>set (calls es). cm_owns_loading s' c)"
    using cm_finish_cases [of d s s' es] by (auto simp: cm_owns_loading_def)
qed

interpretation cmB: spinner cm_begin cm_finish cm_opof cm_init cm_owns_busy "\<lambda>s. cm_busy s \<noteq> None"
proof unfold_locales
  show "cm_busy (fst cm_init) \<noteq> None \<Longrightarrow> \<exists>c\<in>set (snd cm_init). cm_owns_busy (fst cm_init) c"
    by (simp add: cm_init_def cm_reload_def)
next
  fix ev s s' es assume "cm_begin ev s = (s', es)" "cm_busy s' \<noteq> None"
  then show "cm_busy s \<noteq> None \<and> (\<forall>c. cm_owns_busy s c \<longrightarrow> cm_owns_busy s' c) \<or> (\<exists>c\<in>set (calls es). cm_owns_busy s' c)"
    using cm_begin_cases [of ev s s' es] by (auto simp: cm_owns_busy_def)
next
  fix d s s' es assume "cm_finish d s = (s', es)" "cm_busy s' \<noteq> None"
  then show "cm_busy s \<noteq> None \<and> \<not> cm_owns_busy s (cm_opof d) \<and> (\<forall>c. cm_owns_busy s c \<longrightarrow> cm_owns_busy s' c) \<or>
       (\<exists>c\<in>set (calls es). cm_owns_busy s' c)"
    using cm_finish_cases [of d s s' es] by (auto simp: cm_owns_busy_def)
qed

text \<open>The cards format the counts of the summary as cents: one pending reward shows as one cent.\<close>

lemma cm_cards_count:
  assumes "length rs < 2 ^ 52"
  shows "read_brl (cents_brl (sum_field rs_pending (Some (srv_summary rs)))) =
           int (length (filter (\<lambda>r. sr_status r = RPending) rs))"
proof -
  let ?n = "length (filter (\<lambda>r. sr_status r = RPending) rs)"
  have "?n < 2 ^ 52" using assms by (rule le_less_trans [OF length_filter_le])
  then have n: "int ?n < 2 ^ 52" by simp
  then have "num_int (int ?n) = Fin (of_int (int ?n))" by (intro num_int_small) simp
  then have "sum_field rs_pending (Some (srv_summary rs)) = num_int (int ?n)"
    by (simp add: sum_field_def srv_summary_def Let_def)
  then show ?thesis using n by (simp add: cents_brl_def brl_shows_cents)
qed

text \<open>An action is answered by its reply and the list it reloads.\<close>

definition cm_weight :: "cm_op \<Rightarrow> nat" where
  "cm_weight c = (if c = CmLoad then 1 else 2)"

lemma cm_range: "CmLoad \<in> range cm_opof" "CmDoApprove i \<in> range cm_opof" "CmDoReject i r \<in> range cm_opof"
  by (metis rangeI cm_opof.simps)+

interpretation cmD: draining cm_begin cm_finish cm_opof cm_init cm_weight
proof unfold_locales
  show "c \<in> set (snd cm_init) \<Longrightarrow> c \<in> range cm_opof" for c
    by (simp add: cm_range cm_init_def cm_reload_def)
  show "cm_finish d s = (s', es) \<Longrightarrow> sum_list (map cm_weight (calls es)) < cm_weight (cm_opof d)" for d s s' es
    using cm_finish_cases [of d s s' es] by (auto simp: cm_weight_def)
  show "cm_begin ev s = (s', es) \<Longrightarrow> c \<in> set (calls es) \<Longrightarrow> c \<in> range cm_opof" for ev s s' es c
    using cm_begin_cases [of ev s s' es] by (auto simp: cm_range)
  show "cm_finish d s = (s', es) \<Longrightarrow> c \<in> set (calls es) \<Longrightarrow> c \<in> range cm_opof" for d s s' es c
    using cm_finish_cases [of d s s' es] cm_range(1) by auto
qed

interpretation cmLS: settling cm_begin cm_finish cm_opof cm_init cm_owns_loading cm_loading cm_weight
  by unfold_locales

interpretation cmBS: settling cm_begin cm_finish cm_opof cm_init cm_owns_busy "\<lambda>s. cm_busy s \<noteq> None" cm_weight
  by unfold_locales

end
