(* ===== verification/Indicacoes.thy ===== *)
theory Indicacoes imports DashboardApi React View Saques begin

text \<open>
  The leads page of the tenant's administrator: the table (\<open>apps/dashboard/app/(app)/indicacoes/table.tsx\<close>)
  and the sheet that opens on a row (\<open>sheet.tsx\<close>), with the badge both show
  (\<open>packages/ui/src/components/lead-status-badge.tsx\<close>). The table and the sheet are two pages of the
  model: the sheet's callbacks are effects, and the table has an event for each of them.
\<close>

subsection \<open>The badge\<close>

fun lead_badge_config :: "lead_status \<Rightarrow> jstr \<times> jstr \<times> jstr" where
  "lead_badge_config LNew = (U ''Novo'', U ''bg-info-light text-info'', U ''bg-info'')"
| "lead_badge_config LInProgress = (U ''Em atendimento'', U ''bg-warning-light text-warning'', U ''bg-warning'')"
| "lead_badge_config LQualified = (U ''Qualificado'', U ''bg-secondary-light text-secondary'', U ''bg-secondary'')"
| "lead_badge_config LClosed = (U ''Fechado'', U ''bg-success-light text-success'', U ''bg-success'')"
| "lead_badge_config LLost = (U ''N~00e3o fechou'', U ''bg-neutral-100 text-neutral-400'', U ''bg-neutral-400'')"

definition LeadStatusBadge :: "lead_status \<Rightarrow> 'e view" where
  "LeadStatusBadge st = (case lead_badge_config st of (label, cls, dot) \<Rightarrow>
     N ''span'' [A ''className'' cls, A ''aria-label'' (U ''Status: '' @ label)]
       [N ''span'' [A ''className'' dot] [], T label])"

subsection \<open>The table: state, events, replies\<close>

definition statusActions :: "(lead_status \<times> jstr) list" where
  "statusActions = [(LNew, U ''Novo''), (LInProgress, U ''Em atendimento''), (LQualified, U ''Qualificado''),
     (LClosed, U ''Fechado''), (LLost, U ''N~00e3o fechou'')]"

record indicacoes =
  it_leads :: "lead list"
  it_loading :: bool
  it_error :: "jstr option"
  it_selected :: "lead option"
  it_search :: jstr
  it_statusFilter :: jstr
  it_updatingId :: "jstr option"

datatype it_event = ItSearch jstr | ItFilter jstr | ItSelect lead | ItStatus lead lead_status
  | ItSheetClosed | ItSheetUpdated

datatype it_done = ItListed "api_err + lead list option" | ItUpdated lead lead_status "api_err + unit"

fun it_opof :: "it_done \<Rightarrow> dash_call" where
  "it_opof (ItListed _) = LeadsList None"
| "it_opof (ItUpdated l st _) = LeadsUpdateStatus (ld_id l) st"

subsection \<open>The table: handlers\<close>

definition it_reload :: "indicacoes \<Rightarrow> indicacoes \<times> dash_call eff list" where
  "it_reload s = (s\<lparr> it_loading := True \<rparr>, [Call (LeadsList None)])"

definition it_init :: "indicacoes \<times> dash_call list" where
  "it_init = (case it_reload \<lparr> it_leads = [], it_loading = True, it_error = None, it_selected = None,
       it_search = [], it_statusFilter = U ''all'', it_updatingId = None \<rparr> of (s, es) \<Rightarrow> (s, calls es))"

definition it_statusChange :: "lead \<Rightarrow> lead_status \<Rightarrow> indicacoes \<Rightarrow> indicacoes \<times> dash_call eff list" where
  "it_statusChange l next s = (if ld_status l = next then (s, [])
     else (s\<lparr> it_updatingId := Some (ld_id l) \<rparr>, [Call (LeadsUpdateStatus (ld_id l) next)]))"

fun it_begin :: "it_event \<Rightarrow> indicacoes \<Rightarrow> indicacoes \<times> dash_call eff list" where
  "it_begin (ItSearch v) s = (s\<lparr> it_search := v \<rparr>, [])"
| "it_begin (ItFilter v) s = (s\<lparr> it_statusFilter := v \<rparr>, [])"
| "it_begin (ItSelect l) s = (s\<lparr> it_selected := Some l \<rparr>, [])"
| "it_begin (ItStatus l next) s = it_statusChange l next s"
| "it_begin ItSheetClosed s = (s\<lparr> it_selected := None \<rparr>, [])"
| "it_begin ItSheetUpdated s = (case it_reload s of (s', es) \<Rightarrow> (s'\<lparr> it_selected := None \<rparr>, es))"

definition it_updated_toast :: "lead \<Rightarrow> lead_status \<Rightarrow> toast_input" where
  "it_updated_toast l next = toast_of (U ''Status atualizado'')
     (Some (or_str (ld_name l) (U ''Indica~00e7~00e3o'') @ U '' ~2192 '' @
        (case map_of statusActions next of Some label \<Rightarrow> label | None \<Rightarrow> U ''undefined''))) VSuccess"

fun it_finish :: "it_done \<Rightarrow> indicacoes \<Rightarrow> indicacoes \<times> dash_call eff list" where
  "it_finish (ItListed (Inr r)) s = (s\<lparr> it_leads := orelse r [], it_loading := False \<rparr>, [])"
| "it_finish (ItListed (Inl e)) s = (s\<lparr> it_error := Some (err_message e), it_loading := False \<rparr>, [])"
| "it_finish (ItUpdated l next (Inr _)) s = (case it_reload s of (s', es) \<Rightarrow>
     (s'\<lparr> it_updatingId := None \<rparr>, Toast (it_updated_toast l next) # es))"
| "it_finish (ItUpdated l next (Inl e)) s = (s\<lparr> it_updatingId := None \<rparr>,
     [Toast (toast_of (U ''N~00e3o foi poss~00edvel atualizar'') (Some (api_message e (U ''Erro inesperado''))) VDestructive)])"

definition it_match :: "jstr \<Rightarrow> jstr \<Rightarrow> lead \<Rightarrow> bool" where
  "it_match st q l \<longleftrightarrow>
     js_includes (js_toLowerCase (js_join (U '' '')
        (filter_Boolean [ld_name l, ld_email l, ld_phone_e164 l, ld_partner_name l]))) (js_toLowerCase q) \<and>
     (st = U ''all'' \<or> lead_status_str (ld_status l) = st)"

definition it_filtered :: "indicacoes \<Rightarrow> lead list" where
  "it_filtered s = filter (it_match (it_statusFilter s) (it_search s)) (it_leads s)"

subsection \<open>The table: markup\<close>

definition it_sourceLabels :: "(jstr \<times> jstr) list" where
  "it_sourceLabels = [(U ''referral'', U ''Link''), (U ''manual'', U ''Manual''), (U ''whatsapp'', U ''WhatsApp''),
     (U ''widget'', U ''Widget''), (U ''import'', U ''Importa~00e7~00e3o'')]"

definition label_for :: "(jstr \<times> jstr) list \<Rightarrow> jstr \<Rightarrow> jstr" where
  "label_for tab k = or_str (map_of tab k) k"

definition it_client_cell :: "lead \<Rightarrow> 'e view" where
  "it_client_cell l = box ''TableCell'' (txt_el ''div'' (or_str (ld_name l) (U ''~2014'')) #
     (case truthy_s (ld_email l) of Some e \<Rightarrow> [txt_el ''div'' e]
      | None \<Rightarrow> (case truthy_s (ld_phone_e164 l) of Some p \<Rightarrow> [txt_el ''div'' p] | None \<Rightarrow> [])))"

definition it_amount :: "jsnum option \<Rightarrow> jstr" where
  "it_amount x = (case x of Some n \<Rightarrow> if num_truthy n then cents_brl n else U ''~2014'' | None \<Rightarrow> U ''~2014'')"

definition it_menu :: "lead \<Rightarrow> it_event view" where
  "it_menu l = N ''DropdownMenuContent'' [] (map (\<lambda>(st, label).
     N ''DropdownMenuItem'' [On ''onSelect'' (\<lambda>_. ItStatus l st)]
       (txt_el ''span'' label # whenl (ld_status l = st) [N ''Check'' [] []])) statusActions)"

definition it_row :: "(jstr \<Rightarrow> jstr) \<Rightarrow> jstr option \<Rightarrow> lead \<Rightarrow> it_event view" where
  "it_row fmtDate busy l = N ''TableRow'' [A ''key'' (ld_id l), On ''onClick'' (\<lambda>_. ItSelect l)]
     [it_client_cell l,
      txt_el ''TableCell'' (or_str (ld_partner_name l) (U ''~2014'')),
      txt_el ''TableCell'' (ld_program_name l),
      txt_el ''TableCell'' (label_for it_sourceLabels (ld_source l)),
      txt_el ''TableCell'' (it_amount (ld_sale_amount_cents l)),
      box ''TableCell'' [LeadStatusBadge (ld_status l)],
      txt_el ''TableCell'' (fmtDate (ld_created_at l)),
      box ''TableCell'' [N ''DropdownMenu'' []
        [N ''Button'' [Flag ''disabled'' (busy = Some (ld_id l)), A ''aria-label'' (U ''A~00e7~00f5es'')] [], it_menu l]]]"

definition it_count_text :: "nat \<Rightarrow> jstr" where
  "it_count_text n = num_str (num_int (int n)) @ U '' '' @ (if n = 1 then U ''indica~00e7~00e3o'' else U ''indica~00e7~00f5es'')"

text \<open>The whole table; \<open>sheet\<close> is the tree of the sheet for the selected lead.\<close>

definition it_view :: "(jstr \<Rightarrow> jstr) \<Rightarrow> (lead \<Rightarrow> it_event view) \<Rightarrow> indicacoes \<Rightarrow> it_event view" where
  "it_view fmtDate sheet s =
     (if it_loading s then txt_el ''p'' (U ''Carregando indica~00e7~00f5es...'')
      else case truthy_s (it_error s) of Some e \<Rightarrow> txt_el ''div'' e
      | None \<Rightarrow> N ''Fragment'' []
         (N ''div'' []
            [N ''div'' [] [text_input (U ''Buscar por nome, telefone, email ou parceiro...'') (it_search s) ItSearch,
               select_el (it_statusFilter s) ItFilter
                 ((U ''all'', U ''Todos os status'') # map (\<lambda>(st, label). (lead_status_str st, label)) statusActions)],
             table_el [U ''Cliente'', U ''Parceiro'', U ''Programa'', U ''Origem'', U ''Valor'', U ''Status'', U ''Data'', U ''A~00e7~00f5es'']
               (map (it_row fmtDate (it_updatingId s)) (it_filtered s) @
                whenl (it_filtered s = [])
                  [N ''TableRow'' [] [txt_el ''TableCell''
                     (if it_leads s = [] then U ''Nenhuma indica~00e7~00e3o ainda.''
                      else U ''Nenhuma indica~00e7~00e3o encontrada com os filtros aplicados.'')]]),
             N ''div'' [] [txt_el ''p'' (it_count_text (length (it_filtered s)))]] #
          (case it_selected s of Some l \<Rightarrow> [sheet l] | None \<Rightarrow> [])))"

subsection \<open>The sheet\<close>

text \<open>Its properties are the lead and two callbacks; its state is the status chosen and the flag.\<close>

record lead_sheet =
  sh_lead :: lead
  sh_status :: lead_status
  sh_saving :: bool

datatype sh_event = ShStatus jstr | ShSave | ShClose

datatype sh_done = ShSaved jstr lead_status "api_err + unit"

fun sh_opof :: "sh_done \<Rightarrow> dash_call" where
  "sh_opof (ShSaved i st _) = LeadsUpdateStatus i st"

definition sh_init :: "lead \<Rightarrow> lead_sheet \<times> dash_call list" where
  "sh_init l = (\<lparr> sh_lead = l, sh_status = ld_status l, sh_saving = False \<rparr>, [])"

definition lead_status_of :: "jstr \<Rightarrow> lead_status option" where
  "lead_status_of v = List.find (\<lambda>st. lead_status_str st = v) (map fst statusActions)"

definition sh_handleSave :: "lead_sheet \<Rightarrow> lead_sheet \<times> dash_call eff list" where
  "sh_handleSave s = (if sh_status s = ld_status (sh_lead s) then (s, [Callback ''onClose''])
     else (s\<lparr> sh_saving := True \<rparr>, [Call (LeadsUpdateStatus (ld_id (sh_lead s)) (sh_status s))]))"

fun sh_begin :: "sh_event \<Rightarrow> lead_sheet \<Rightarrow> lead_sheet \<times> dash_call eff list" where
  "sh_begin (ShStatus v) s = (case lead_status_of v of Some st \<Rightarrow> (s\<lparr> sh_status := st \<rparr>, []) | None \<Rightarrow> (s, []))"
| "sh_begin ShSave s = sh_handleSave s"
| "sh_begin ShClose s = (s, [Callback ''onClose''])"

fun sh_finish :: "sh_done \<Rightarrow> lead_sheet \<Rightarrow> lead_sheet \<times> dash_call eff list" where
  "sh_finish (ShSaved i st (Inr _)) s = (s, [Toast (toast_of (U ''Status atualizado'')
      (Some (U ''Indica~00e7~00e3o marcada como ~0022'' @ lead_status_str st @ U ''~0022'')) VSuccess), Callback ''onUpdated''])"
| "sh_finish (ShSaved i st (Inl e)) s = (s\<lparr> sh_saving := False \<rparr>,
     [Toast (toast_of (U ''N~00e3o foi poss~00edvel atualizar'') (Some (api_message e (U ''Erro inesperado''))) VDestructive)])"

definition sh_sourceLabel :: "(jstr \<times> jstr) list" where
  "sh_sourceLabel = [(U ''whatsapp'', U ''WhatsApp''), (U ''referral'', U ''Indica~00e7~00e3o''), (U ''manual'', U ''Manual''),
     (U ''widget'', U ''Widget''), (U ''import'', U ''Importa~00e7~00e3o'')]"

definition sh_facts :: "(jstr \<Rightarrow> jstr) \<Rightarrow> lead \<Rightarrow> 'e view list" where
  "sh_facts fmtDateTime l =
     [txt_el ''p'' (U ''Telefone: '' @ or_str (ld_phone_e164 l) (U ''~2014'')),
      txt_el ''p'' (U ''E-mail: '' @ or_str (ld_email l) (U ''~2014'')),
      txt_el ''p'' (U ''Programa: '' @ ld_program_name l),
      txt_el ''p'' (U ''Origem: '' @ label_for sh_sourceLabel (ld_source l)),
      txt_el ''p'' (U ''Data: '' @ fmtDateTime (ld_created_at l))] @
     (case truthy_s (ld_closed_at l) of None \<Rightarrow> [] | Some d \<Rightarrow> [txt_el ''p'' (U ''Fechado em: '' @ fmtDateTime d)])"

definition sh_view :: "(jstr \<Rightarrow> jstr) \<Rightarrow> lead_sheet \<Rightarrow> sh_event view" where
  "sh_view fmtDateTime s = (let l = sh_lead s in
     N ''Sheet'' [On ''onOpenChange'' (\<lambda>_. ShClose)]
      [N ''div'' []
        ([txt_el ''h2'' (U ''Indica~00e7~00e3o: '' @ or_str (ld_name l) (U ''~2014'')),
          N ''div'' [] [LeadStatusBadge (ld_status l),
            txt_el ''span'' (U ''Parceiro: '' @ or_str (ld_partner_name l) (U ''~2014''))],
          N ''div'' [] (sh_facts fmtDateTime l)] @
         (case ld_sale_amount_cents l of None \<Rightarrow> [] | Some n \<Rightarrow> [txt_el ''p'' (U ''Valor da venda: '' @ cents_brl n)]) @
         (case truthy_s (ld_notes l) of None \<Rightarrow> [] | Some n \<Rightarrow> [txt_el ''p'' (U ''Notas: '' @ n)])),
       N ''div'' []
        [N ''div'' [] [txt_el ''label'' (U ''Alterar status''),
           select_el (lead_status_str (sh_status s)) ShStatus
             (map (\<lambda>(st, label). (lead_status_str st, label)) statusActions)],
         N ''Button'' [Flag ''disabled'' (sh_saving s), On ''onClick'' (\<lambda>_. ShSave)]
           [T (if sh_saving s then U ''Salvando...'' else U ''Salvar'')]]])"

subsection \<open>Facts\<close>

lemma badge_label: "map_of statusActions st = Some (fst (lead_badge_config st))"
  by (cases st) (simp_all add: statusActions_def)

lemma badge_no_handlers [simp]: "reachable_handlers (LeadStatusBadge st) = []"
  by (cases st) (simp_all add: LeadStatusBadge_def)

lemma it_menu_causes: "causes (it_menu l) e \<longleftrightarrow> (\<exists>st. e = ItStatus l st)"
proof
  assume "causes (it_menu l) e"
  then show "\<exists>st. e = ItStatus l st"
    by (auto simp: it_menu_def causes_N statusActions_def)
next
  assume "\<exists>st. e = ItStatus l st"
  then obtain st where "e = ItStatus l st" by blast
  then show "causes (it_menu l) e"
    by (cases st) (simp_all add: it_menu_def causes_N statusActions_def)
qed

text \<open>Choosing the status a lead already has does nothing; any other choice sends one PATCH.\<close>

lemma it_status_call:
  "it_begin (ItStatus l st) s = (s', es) \<Longrightarrow>
     calls es = (if ld_status l = st then [] else [LeadsUpdateStatus (ld_id l) st]) \<and>
     (ld_status l = st \<longrightarrow> s' = s \<and> es = [])"
  by (auto simp: it_statusChange_def split: if_splits)

definition it_owns_loading :: "indicacoes \<Rightarrow> dash_call \<Rightarrow> bool" where
  "it_owns_loading s c \<longleftrightarrow> c = LeadsList None"

definition it_owns_updating :: "indicacoes \<Rightarrow> dash_call \<Rightarrow> bool" where
  "it_owns_updating s c \<longleftrightarrow> (\<exists>i st. it_updatingId s = Some i \<and> c = LeadsUpdateStatus i st)"

lemma it_begin_cases:
  "it_begin ev s = (s', es) \<Longrightarrow>
     (it_loading s' = it_loading s \<and> it_updatingId s' = it_updatingId s \<and> calls es = []) \<or>
     (it_loading s' \<and> it_updatingId s' = it_updatingId s \<and> calls es = [LeadsList None]) \<or>
     (it_loading s' = it_loading s \<and> (\<exists>i st. it_updatingId s' = Some i \<and> calls es = [LeadsUpdateStatus i st]))"
  by (induction ev s rule: it_begin.induct) (auto simp: it_reload_def it_statusChange_def split: if_splits)

lemma it_finish_cases:
  "it_finish d s = (s', es) \<Longrightarrow>
     (it_opof d = LeadsList None \<and> \<not> it_loading s' \<and> it_updatingId s' = it_updatingId s \<and> calls es = []) \<or>
     (it_opof d \<noteq> LeadsList None \<and> it_updatingId s' = None \<and>
      (it_loading s' = it_loading s \<and> calls es = [] \<or> it_loading s' \<and> calls es = [LeadsList None]))"
  by (induction d s rule: it_finish.induct) (auto simp: it_reload_def)

interpretation itL: spinner it_begin it_finish it_opof it_init it_owns_loading it_loading
proof unfold_locales
  show "it_loading (fst it_init) \<Longrightarrow> \<exists>c\<in>set (snd it_init). it_owns_loading (fst it_init) c"
    by (simp add: it_init_def it_reload_def it_owns_loading_def)
next
  fix ev s s' es assume "it_begin ev s = (s', es)" "it_loading s'"
  then show "it_loading s \<and> (\<forall>c. it_owns_loading s c \<longrightarrow> it_owns_loading s' c) \<or> (\<exists>c\<in>set (calls es). it_owns_loading s' c)"
    using it_begin_cases [of ev s s' es] by (auto simp: it_owns_loading_def)
next
  fix d s s' es assume "it_finish d s = (s', es)" "it_loading s'"
  then show "it_loading s \<and> \<not> it_owns_loading s (it_opof d) \<and> (\<forall>c. it_owns_loading s c \<longrightarrow> it_owns_loading s' c) \<or>
       (\<exists>c\<in>set (calls es). it_owns_loading s' c)"
    using it_finish_cases [of d s s' es] by (auto simp: it_owns_loading_def)
qed

interpretation itU: spinner it_begin it_finish it_opof it_init it_owns_updating "\<lambda>s. it_updatingId s \<noteq> None"
proof unfold_locales
  show "it_updatingId (fst it_init) \<noteq> None \<Longrightarrow> \<exists>c\<in>set (snd it_init). it_owns_updating (fst it_init) c"
    by (simp add: it_init_def it_reload_def)
next
  fix ev s s' es assume "it_begin ev s = (s', es)" "it_updatingId s' \<noteq> None"
  then show "it_updatingId s \<noteq> None \<and> (\<forall>c. it_owns_updating s c \<longrightarrow> it_owns_updating s' c) \<or>
       (\<exists>c\<in>set (calls es). it_owns_updating s' c)"
    using it_begin_cases [of ev s s' es] by (auto simp: it_owns_updating_def)
next
  fix d s s' es assume "it_finish d s = (s', es)" "it_updatingId s' \<noteq> None"
  then show "it_updatingId s \<noteq> None \<and> \<not> it_owns_updating s (it_opof d) \<and>
         (\<forall>c. it_owns_updating s c \<longrightarrow> it_owns_updating s' c) \<or>
       (\<exists>c\<in>set (calls es). it_owns_updating s' c)"
    using it_finish_cases [of d s s' es] by (auto simp: it_owns_updating_def)
qed

text \<open>
  The sheet's button is disabled from the request on: it is enabled again only by an error, and a
  success asks the table to reload and to unmount the sheet.
\<close>

lemma sh_saving_call:
  "sh_begin ev s = (s', es) \<Longrightarrow> \<not> sh_saving s \<Longrightarrow> sh_saving s' \<longleftrightarrow> calls es \<noteq> []"
  by (induction ev s rule: sh_begin.induct) (auto simp: sh_handleSave_def split: if_splits option.splits)

lemma sh_settles:
  "sh_finish (ShSaved i st r) s = (s', es) \<Longrightarrow>
     (\<exists>e. r = Inl e) \<and> \<not> sh_saving s' \<and> Callback ''onUpdated'' \<notin> set es \<or>
     (\<exists>u. r = Inr u) \<and> Callback ''onUpdated'' \<in> set es"
  by (cases r) auto

text \<open>An action is answered by its reply and the list it reloads.\<close>

definition it_weight :: "dash_call \<Rightarrow> nat" where
  "it_weight c = (if c = LeadsList None then 1 else 2)"

lemma it_range: "LeadsList None \<in> range it_opof" "LeadsUpdateStatus i st \<in> range it_opof"
proof -
  show "LeadsList None \<in> range it_opof" by (metis rangeI it_opof.simps(1))
  have "it_opof (ItUpdated (l\<lparr> ld_id := i \<rparr>) st r) = LeadsUpdateStatus i st" for l r by simp
  then show "LeadsUpdateStatus i st \<in> range it_opof" by (metis rangeI)
qed

interpretation itD: draining it_begin it_finish it_opof it_init it_weight
proof unfold_locales
  show "c \<in> set (snd it_init) \<Longrightarrow> c \<in> range it_opof" for c
    by (simp add: it_range it_init_def it_reload_def)
  show "it_finish d s = (s', es) \<Longrightarrow> sum_list (map it_weight (calls es)) < it_weight (it_opof d)" for d s s' es
    using it_finish_cases [of d s s' es] by (auto simp: it_weight_def)
  show "it_begin ev s = (s', es) \<Longrightarrow> c \<in> set (calls es) \<Longrightarrow> c \<in> range it_opof" for ev s s' es c
    using it_begin_cases [of ev s s' es] by (auto simp: it_range)
  show "it_finish d s = (s', es) \<Longrightarrow> c \<in> set (calls es) \<Longrightarrow> c \<in> range it_opof" for d s s' es c
    using it_finish_cases [of d s s' es] it_range(1) by auto
qed

interpretation itLS: settling it_begin it_finish it_opof it_init it_owns_loading it_loading it_weight
  by unfold_locales

interpretation itBS: settling it_begin it_finish it_opof it_init it_owns_updating "\<lambda>s. it_updatingId s \<noteq> None" it_weight
  by unfold_locales

end
