(* ===== verification/TierBuilder.thy ===== *)
theory TierBuilder imports View JsFormat begin

text \<open>
  \<open>packages/ui/src/components/tier-builder.tsx\<close>: the editor of a list of tiers. The component keeps
  no state; each edit is an event, and \<open>tb_apply\<close> is the list its handler passes to \<open>onChange\<close>.

  The invariant is the agreement of a tier's type and value: a product tier holds a text, the others
  a number that is not NaN. The rules the wizard builds test the value with \<open>typeof\<close>.
\<close>

datatype tier_type = CommissionPct | CommissionFixed | Product | Points

fun tier_type_str :: "tier_type \<Rightarrow> jstr" where
  "tier_type_str CommissionPct = U ''commission_pct''"
| "tier_type_str CommissionFixed = U ''commission_fixed''"
| "tier_type_str Product = U ''product''"
| "tier_type_str Points = U ''points''"

datatype tier_value = RNum jsnum | RStr jstr

record tier =
  tr_from :: jsnum
  tr_to :: "jsnum option"
  tr_type :: tier_type
  tr_value :: tier_value

text \<open>A \<open>Partial<Tier>\<close>: the members present replace those of the tier.\<close>

record tier_patch =
  tp_from :: "jsnum option"
  tp_to :: "jsnum option option"
  tp_type :: "tier_type option"
  tp_value :: "tier_value option"

definition no_patch :: tier_patch where
  "no_patch = \<lparr> tp_from = None, tp_to = None, tp_type = None, tp_value = None \<rparr>"

definition apply_patch :: "tier_patch \<Rightarrow> tier \<Rightarrow> tier" where
  "apply_patch p t = \<lparr> tr_from = orelse (tp_from p) (tr_from t), tr_to = orelse (tp_to p) (tr_to t),
     tr_type = orelse (tp_type p) (tr_type t), tr_value = orelse (tp_value p) (tr_value t) \<rparr>"

subsection \<open>The edits\<close>

definition updateTier :: "nat \<Rightarrow> tier_patch \<Rightarrow> tier list \<Rightarrow> tier list" where
  "updateTier i p ts = map (\<lambda>(j, t). if j = i then apply_patch p t else t) (enumerate 0 ts)"

definition addTier :: "tier list \<Rightarrow> tier list" where
  "addTier ts =
     (let from = (if ts = [] then Fin 0 else orelse (tr_to (last ts)) (Fin 0))
      in ts @ [\<lparr> tr_from = from, tr_to = Some (js_add from (Fin 5)), tr_type = CommissionPct, tr_value = RNum (Fin 5) \<rparr>])"

definition removeTier :: "nat \<Rightarrow> tier list \<Rightarrow> tier list" where
  "removeTier i ts = map snd (filter (\<lambda>(j, t). j \<noteq> i) (enumerate 0 ts))"

text \<open>\<open>Number(v) || 0\<close>.\<close>

definition num_or_0 :: "jstr \<Rightarrow> jsnum" where
  "num_or_0 v = (let n = js_Number v in if num_truthy n then n else Fin 0)"

datatype tb_event = TbAdd | TbRemove nat | TbFrom nat jstr | TbTo nat jstr | TbType nat jstr
  | TbText nat jstr | TbNumber nat jstr

text \<open>The option with a given value; the select offers no other.\<close>

definition rewardTypeOptions :: "(tier_type \<times> jstr) list" where
  "rewardTypeOptions = [(CommissionPct, U ''% Comiss~00e3o''), (CommissionFixed, U ''Valor Fixo''),
     (Product, U ''Produto''), (Points, U ''Pontos'')]"

definition type_of_str :: "jstr \<Rightarrow> tier_type option" where
  "type_of_str s = List.find (\<lambda>t. tier_type_str t = s) (map fst rewardTypeOptions)"

fun tb_apply :: "tb_event \<Rightarrow> tier list \<Rightarrow> tier list" where
  "tb_apply TbAdd ts = addTier ts"
| "tb_apply (TbRemove i) ts = removeTier i ts"
| "tb_apply (TbFrom i v) ts = updateTier i (no_patch\<lparr> tp_from := Some (num_or_0 v) \<rparr>) ts"
| "tb_apply (TbTo i v) ts = updateTier i (no_patch\<lparr> tp_to := Some (if v = [] then None else Some (js_Number v)) \<rparr>) ts"
| "tb_apply (TbType i v) ts = (case type_of_str v of None \<Rightarrow> ts
     | Some ty \<Rightarrow> updateTier i (no_patch\<lparr> tp_type := Some ty,
         tp_value := Some (if v = U ''product'' then RStr [] else RNum (Fin 0)) \<rparr>) ts)"
| "tb_apply (TbText i v) ts = updateTier i (no_patch\<lparr> tp_value := Some (RStr v) \<rparr>) ts"
| "tb_apply (TbNumber i v) ts = updateTier i (no_patch\<lparr> tp_value := Some (RNum (num_or_0 v)) \<rparr>) ts"

subsection \<open>The component\<close>

fun rewardSuffix :: "tier_type \<Rightarrow> jstr" where
  "rewardSuffix CommissionPct = U ''%''"
| "rewardSuffix CommissionFixed = U ''R$''"
| "rewardSuffix Product = []"
| "rewardSuffix Points = U ''pts''"

fun value_str :: "tier_value \<Rightarrow> jstr" where
  "value_str (RNum n) = num_str n" | "value_str (RStr s) = s"

fun value_num :: "tier_value \<Rightarrow> jsnum" where
  "value_num (RNum n) = n" | "value_num (RStr s) = js_Number s"

definition num_input :: "(string \<times> jstr) list \<Rightarrow> jstr \<Rightarrow> (jstr \<Rightarrow> 'e) \<Rightarrow> 'e view" where
  "num_input as v h = N ''input'' (A ''type'' (U ''number'') # map (\<lambda>(k, x). A k x) as @ [A ''value'' v, On ''onChange'' h]) []"

definition tier_value_view :: "nat \<Rightarrow> tier \<Rightarrow> tb_event view list" where
  "tier_value_view i t = (if tr_type t = Product
     then [N ''input'' [A ''type'' (U ''text''), A ''placeholder'' (U ''ex: ~00f3culos''),
             A ''value'' (value_str (tr_value t)), On ''onChange'' (TbText i)] []]
     else [num_input [(''min'', U ''0''), (''step'', if tr_type t = CommissionPct then U ''0.5'' else U ''1'')]
             (num_str (if num_truthy (value_num (tr_value t)) then value_num (tr_value t) else Fin 0)) (TbNumber i),
           txt_el ''span'' (rewardSuffix (tr_type t))])"

definition tier_view :: "jstr \<Rightarrow> nat \<Rightarrow> tier \<Rightarrow> tb_event view" where
  "tier_view label i t = N ''div'' []
     [N ''div'' [] [txt_el ''span'' (U ''De''),
        num_input [(''min'', U ''0'')] (num_str (tr_from t)) (TbFrom i),
        txt_el ''span'' (U ''at~00e9''),
        num_input [(''min'', num_str (js_add (tr_from t) (Fin 1))), (''placeholder'', U ''~221e'')]
          (case tr_to t of None \<Rightarrow> [] | Some n \<Rightarrow> num_str n) (TbTo i),
        txt_el ''span'' label],
      N ''div'' [] (select_el (tier_type_str (tr_type t)) (TbType i)
          (map (\<lambda>(v, l). (tier_type_str v, l)) rewardTypeOptions) # tier_value_view i t),
      N ''button'' [A ''type'' (U ''button''), On ''onClick'' (\<lambda>_. TbRemove i), A ''aria-label'' (U ''Remover regra'')] []]"

definition tb_view :: "tier list \<Rightarrow> jstr \<Rightarrow> tb_event view" where
  "tb_view ts label = N ''div'' []
     ([N ''div'' [] [txt_el ''p'' (U ''Regras do Programa''),
         N ''Button'' [On ''onClick'' (\<lambda>_. TbAdd)] [T (U ''Adicionar Regra'')]]] @
      whenl (ts = []) [txt_el ''p'' (U ''Nenhuma regra ainda. Adicione a primeira pra come~00e7ar.'')] @
      [N ''div'' [] (map (\<lambda>(i, t). tier_view label i t) (enumerate 0 ts))])"

subsection \<open>Facts\<close>

lemma enumerate_map_nth: "map f (enumerate 0 xs) = map (\<lambda>i. f (i, xs ! i)) [0..<length xs]"
  by (intro nth_equalityI) (simp_all add: nth_enumerate_eq)

lemma length_updateTier [simp]: "length (updateTier i p ts) = length ts"
  by (simp add: updateTier_def)

lemma nth_updateTier: "j < length ts \<Longrightarrow> updateTier i p ts ! j = (if j = i then apply_patch p (ts ! j) else ts ! j)"
  by (simp add: updateTier_def nth_enumerate_eq)

lemma removeTier_delete: "removeTier i ts = delete_at i ts"
  by (simp add: removeTier_def filter_index_delete)

text \<open>A tier's value agrees with its type.\<close>

definition tier_ok :: "tier \<Rightarrow> bool" where
  "tier_ok t \<longleftrightarrow> (case tr_value t of RStr _ \<Rightarrow> tr_type t = Product | RNum n \<Rightarrow> tr_type t \<noteq> Product \<and> n \<noteq> NaN)"

definition tiers_ok :: "tier list \<Rightarrow> bool" where
  "tiers_ok ts \<longleftrightarrow> list_all tier_ok ts"

lemma num_or_0_not_NaN [simp]: "num_or_0 v \<noteq> NaN"
  by (auto simp: num_or_0_def Let_def)

lemma type_strings_distinct: "tier_type_str a = tier_type_str b \<longleftrightarrow> a = b"
  by (cases a; cases b) (simp_all add: ustr)

lemma type_of_str_Some: "type_of_str s = Some ty \<Longrightarrow> s = tier_type_str ty"
  by (auto simp: type_of_str_def dest!: find_Some_in)

lemma type_of_tier_str [simp]: "type_of_str (tier_type_str ty) = Some ty"
  by (cases ty) (simp_all add: type_of_str_def rewardTypeOptions_def type_strings_distinct del: tier_type_str.simps)

lemma product_str: "tier_type_str ty = U ''product'' \<longleftrightarrow> ty = Product"
  using type_strings_distinct [of ty Product] by simp

text \<open>The events the editor offers for a list of tiers.\<close>

fun tb_offers :: "tier list \<Rightarrow> tb_event \<Rightarrow> bool" where
  "tb_offers ts TbAdd = True"
| "tb_offers ts (TbRemove i) = (i < length ts)"
| "tb_offers ts (TbFrom i _) = (i < length ts)"
| "tb_offers ts (TbTo i _) = (i < length ts)"
| "tb_offers ts (TbType i _) = (i < length ts)"
| "tb_offers ts (TbText i _) = (i < length ts \<and> tr_type (ts ! i) = Product)"
| "tb_offers ts (TbNumber i _) = (i < length ts \<and> tr_type (ts ! i) \<noteq> Product)"

lemma handlers_num_input [simp]: "reachable_handlers (num_input as v h) = [(''onChange'', h)]"
proof -
  have "disabled (map (\<lambda>(k, x). A k x) as @ bs) = disabled bs"
    "handlers (map (\<lambda>(k, x). A k x) as @ bs) = handlers bs" for bs :: "'a attr list"
    by (induction as) auto
  then show ?thesis by (simp add: num_input_def)
qed

lemma tier_handlers:
  "reachable_handlers (tier_view label i t) =
     [(''onChange'', TbFrom i), (''onChange'', TbTo i), (''onChange'', TbType i),
      (''onChange'', if tr_type t = Product then TbText i else TbNumber i), (''onClick'', \<lambda>_. TbRemove i)]"
  by (simp add: tier_view_def tier_value_view_def)

lemma tb_handlers:
  "reachable_handlers (tb_view ts label) =
     (''onClick'', \<lambda>_. TbAdd) # concat (map (\<lambda>i. reachable_handlers (tier_view label i (ts ! i))) [0..<length ts])"
  by (simp add: tb_view_def whenl_def enumerate_map_nth comp_def)

lemma tb_causes: "causes (tb_view ts label) ev \<longleftrightarrow> tb_offers ts ev"
proof -
  have "causes (tb_view ts label) ev \<longleftrightarrow> ev = TbAdd \<or>
      (\<exists>i < length ts. \<exists>(n, h) \<in> set (reachable_handlers (tier_view label i (ts ! i))). \<exists>x. h x = ev)"
    unfolding causes_def tb_handlers by (force simp: split_beta)
  then show ?thesis by (cases ev) (auto simp: tier_handlers)
qed

lemma updateTier_ok:
  assumes "tiers_ok ts" "\<And>t. i < length ts \<Longrightarrow> t = ts ! i \<Longrightarrow> tier_ok t \<Longrightarrow> tier_ok (apply_patch p t)"
  shows "tiers_ok (updateTier i p ts)"
  using assms by (auto simp: tiers_ok_def list_all_length nth_updateTier)

lemma tb_apply_ok:
  assumes "tiers_ok ts" "tb_offers ts ev"
  shows "tiers_ok (tb_apply ev ts)"
proof (cases ev)
  case TbAdd
  then show ?thesis using assms by (simp add: addTier_def tiers_ok_def tier_ok_def Let_def)
next
  case (TbRemove i)
  then show ?thesis
    using assms by (auto simp: removeTier_delete delete_at_def tiers_ok_def list_all_iff dest: in_set_takeD in_set_dropD)
next
  case (TbType i v)
  show ?thesis
  proof (cases "type_of_str v")
    case None
    then show ?thesis using assms TbType by simp
  next
    case (Some ty)
    have "v = U ''product'' \<longleftrightarrow> ty = Product"
      unfolding type_of_str_Some [OF Some] by (rule product_str)
    then show ?thesis
      using assms TbType Some by (auto intro!: updateTier_ok simp: tier_ok_def apply_patch_def no_patch_def)
  qed
qed (use assms in \<open>auto intro!: updateTier_ok simp: tier_ok_def apply_patch_def no_patch_def split: tier_value.splits\<close>)

lemma addTier_last:
  "last (addTier ts) = \<lparr> tr_from = (if ts = [] then Fin 0 else orelse (tr_to (last ts)) (Fin 0)),
     tr_to = Some (js_add (if ts = [] then Fin 0 else orelse (tr_to (last ts)) (Fin 0)) (Fin 5)),
     tr_type = CommissionPct, tr_value = RNum (Fin 5) \<rparr>"
  by (simp add: addTier_def Let_def)

end
