(* ===== verification/RewardPreview.thy ===== *)
theory RewardPreview imports TierBuilder begin

text \<open>
  \<open>packages/ui/src/components/reward-rule-preview.tsx\<close>: the rule of a programme in words. The rules
  are those members of \<open>ProgramRules\<close> the component reads; \<open>reward\<close> is the structure it casts to,
  every member but the type optional. Labels are looked up in records; a key that names a member of
  \<open>Object.prototype\<close> is outside the model (the selects offer none).
\<close>

record preview_reward =
  pw_type :: jstr
  pw_amount_brl :: "jsnum option"
  pw_pct :: "jsnum option"
  pw_max_pct :: "jsnum option"
  pw_target :: "jsnum option"
  pw_metric :: "jstr option"
  pw_tiers :: "tier list option"

record preview_rules =
  pv_trigger :: jstr
  pv_reward :: preview_reward
  pv_method :: jstr
  pv_schedule :: jstr
  pv_minAmountBrl :: "jsnum option"

definition value_falsy :: "tier_value \<Rightarrow> bool" where
  "value_falsy v = (case v of RNum n \<Rightarrow> \<not> num_truthy n | RStr s \<Rightarrow> s = [])"

definition describeTier :: "tier \<Rightarrow> jstr \<Rightarrow> jstr" where
  "describeTier t label =
     (case tr_to t of None \<Rightarrow> num_str (tr_from t) @ U ''+ '' @ label
        | Some n \<Rightarrow> num_str (tr_from t) @ U '' a '' @ num_str n @ U '' '' @ label) @ U '' ~2192 '' @
     (case tr_type t of
        CommissionPct \<Rightarrow> value_str (tr_value t) @ U ''% de comiss~00e3o''
      | CommissionFixed \<Rightarrow> U ''R$ '' @ toLocaleString (value_num (tr_value t)) @ U '' por venda''
      | Product \<Rightarrow> U ''produto: '' @ (if value_falsy (tr_value t) then U ''~2014'' else value_str (tr_value t))
      | Points \<Rightarrow> value_str (tr_value t) @ U '' pontos'')"

text \<open>Either a list of lines, one per tier, or one text.\<close>

datatype described = Lines "jstr list" | Line jstr

definition metric_words :: "jstr option \<Rightarrow> jstr" where
  "metric_words x = (if x = Some (U ''sales_count'') then U ''vendas''
     else if x = Some (U ''sale_amount'') then U ''R$ em vendas'' else U ''indica~00e7~00f5es'')"

definition describeReward :: "preview_rules \<Rightarrow> described" where
  "describeReward rules = (let r = pv_reward rules; ty = pw_type r in
     if ty = U ''tiered'' then
       Lines (map (\<lambda>t. describeTier t (metric_words (pw_metric r))) (orelse (pw_tiers r) []))
     else if ty = U ''commission_fixed'' then
       Line (U ''Toda vez que um indicado fechar uma venda, o parceiro recebe R$ '' @
             toLocaleString (case pw_amount_brl r of Some n \<Rightarrow> if num_truthy n then n else Fin 0 | None \<Rightarrow> Fin 0) @
             U '' no '' @ (if pv_method rules = U ''pix'' then U ''Pix'' else pv_method rules) @ U ''.'')
     else if ty = U ''commission_pct'' then
       Line (U ''O parceiro recebe '' @ num_str (orelse (pw_pct r) (Fin 0)) @ U ''% sobre cada venda confirmada.'')
     else if ty = U ''flexible_split'' then
       Line (U ''O parceiro escolhe como dividir at~00e9 '' @ num_str (orelse (pw_max_pct r) (Fin 0)) @
             U ''% entre comiss~00e3o e desconto para o cliente.'')
     else if ty = U ''goal_based'' then
       Line (U ''Ao atingir '' @ num_str (orelse (pw_target r) (Fin 0)) @
             U '' indica~00e7~00f5es aprovadas, o parceiro recebe a recompensa configurada.'')
     else if ty = U ''points'' then
       Line (U ''O parceiro acumula pontos a cada indica~00e7~00e3o que se converte em venda.'')
     else if ty = U ''cashback'' then
       Line (U ''O pr~00f3prio cliente indicado recebe '' @ num_str (orelse (pw_pct r) (Fin 0)) @ U ''% de cashback na compra.'')
     else Line (U ''Regra personalizada.''))"

text \<open>\<open>table[k] || k\<close>.\<close>

definition label_or :: "(jstr \<times> jstr) list \<Rightarrow> jstr \<Rightarrow> jstr" where
  "label_or tab k = or_str (map_of tab k) k"

definition methodLabels :: "(jstr \<times> jstr) list" where
  "methodLabels = [(U ''pix'', U ''Pix''), (U ''credit'', U ''cr~00e9dito interno''), (U ''coupon'', U ''cupom''),
     (U ''physical'', U ''brinde'')]"

definition scheduleLabels :: "(jstr \<times> jstr) list" where
  "scheduleLabels = [(U ''on_approval'', U ''autom~00e1tico na aprova~00e7~00e3o''), (U ''manual'', U ''manual''),
     (U ''monthly'', U ''mensal'')]"

definition describePayout :: "preview_rules \<Rightarrow> jstr" where
  "describePayout rules = U ''Pagamento: '' @ label_or methodLabels (pv_method rules) @ U '', '' @
     label_or scheduleLabels (pv_schedule rules)"

text \<open>
  \<open>rules.payout.minAmountBrl && <p>...</p>\<close>: nothing when it is absent, the number itself when it is
  falsy (zero is rendered as a text), the paragraph otherwise.
\<close>

definition min_amount_view :: "jsnum option \<Rightarrow> 'e view list" where
  "min_amount_view x = (case x of None \<Rightarrow> []
     | Some n \<Rightarrow> if num_truthy n then [txt_el ''p'' (U ''Valor m~00ednimo: R$ '' @ toLocaleString n)] else [T (num_str n)])"

definition preview_view :: "preview_rules \<Rightarrow> 'e option \<Rightarrow> 'e view" where
  "preview_view rules onEdit = N ''div'' []
     ([N ''div'' [] [txt_el ''span'' (U ''~d83d~dccb''), T (U ''Resumo da regra'')],
       N ''div'' []
         ((case describeReward rules of
             Lines ls \<Rightarrow> if ls = [] then [txt_el ''p'' (U ''Sem regras configuradas ainda.'')]
               else [N ''ul'' [] (map (\<lambda>l. N ''li'' [] [txt_el ''span'' (U ''~25cf''), txt_el ''span'' l]) ls)]
           | Line t \<Rightarrow> [txt_el ''p'' t]) @
          [txt_el ''p'' (U ''Condi~00e7~00e3o: '' @
             (if pv_trigger rules = U ''sale.confirmed'' then U ''venda confirmada'' else pv_trigger rules)),
           txt_el ''p'' (describePayout rules)] @
          min_amount_view (pv_minAmountBrl rules))] @
      (case onEdit of None \<Rightarrow> [] | Some e \<Rightarrow> [N ''button'' [On ''onClick'' (\<lambda>_. e)] [T (U ''Editar regra'')]]))"

text \<open>One line per tier, in the order of the tiers.\<close>

lemma describe_lines:
  "pw_type (pv_reward r) = U ''tiered'' \<Longrightarrow>
     describeReward r = Lines (map (\<lambda>t. describeTier t (metric_words (pw_metric (pv_reward r))))
                                 (orelse (pw_tiers (pv_reward r)) []))"
  by (simp add: describeReward_def Let_def)

end
