(* ===== verification/GoRules.thy ===== *)
theory GoRules imports JsValue "HOL-Library.Monad_Syntax" begin

text \<open>
  The rule schema of the server (\<open>internal/domain/rules/schema.go\<close>): what \<open>json.Unmarshal\<close> makes of
  a JSON value for the struct \<open>RuleSchema\<close> (\<open>None\<close> where it fails) and \<open>Validate\<close>. Keys are matched
  exactly, which is how the client writes them. Integers are the 64-bit ones of Go; a JSON number
  with a fraction does not decode to one. \<open>float64\<close> is binary64, the type of JavaScript numbers.
\<close>

subsection \<open>Decoding\<close>

definition jfield :: "jsval \<Rightarrow> string \<Rightarrow> jsval option" where
  "jfield v k = (case v of JObj ms \<Rightarrow> map_of ms k | _ \<Rightarrow> None)"

fun go_string :: "jsval option \<Rightarrow> jstr option" where
  "go_string None = Some []"
| "go_string (Some JNull) = Some []"
| "go_string (Some (JStr s)) = Some s"
| "go_string (Some _) = None"

fun go_float_ptr :: "jsval option \<Rightarrow> rat option option" where
  "go_float_ptr None = Some None"
| "go_float_ptr (Some JNull) = Some None"
| "go_float_ptr (Some (JNum (Fin q))) = Some (Some q)"
| "go_float_ptr (Some _) = None"

definition go_float :: "jsval option \<Rightarrow> rat option" where
  "go_float v = map_option (\<lambda>x. orelse x 0) (go_float_ptr v)"

definition int64 :: "rat \<Rightarrow> int option" where
  "int64 q = (if q = of_int \<lfloor>q\<rfloor> \<and> - (2 ^ 63) \<le> \<lfloor>q\<rfloor> \<and> \<lfloor>q\<rfloor> < 2 ^ 63 then Some \<lfloor>q\<rfloor> else None)"

fun go_int_ptr :: "jsval option \<Rightarrow> int option option" where
  "go_int_ptr None = Some None"
| "go_int_ptr (Some JNull) = Some None"
| "go_int_ptr (Some (JNum (Fin q))) = map_option Some (int64 q)"
| "go_int_ptr (Some _) = None"

definition go_int :: "jsval option \<Rightarrow> int option" where
  "go_int v = map_option (\<lambda>x. orelse x 0) (go_int_ptr v)"

text \<open>A nested struct: absent and null leave it as it is, an object is decoded into it.\<close>

fun go_struct :: "jsval option \<Rightarrow> jsval option" where
  "go_struct None = Some (JObj [])"
| "go_struct (Some JNull) = Some (JObj [])"
| "go_struct (Some (JObj ms)) = Some (JObj ms)"
| "go_struct (Some _) = None"

record reward_config =
  gc_Type :: jstr
  gc_AmountBRL :: "rat option"
  gc_Pct :: "rat option"
  gc_MaxPct :: "rat option"
  gc_Target :: "int option"
  gc_PointsPerBRL :: "rat option"
  gc_PointsPerConversion :: "int option"
  gc_MaxMonths :: "int option"

record payout_config =
  gp_Method :: jstr
  gp_Schedule :: jstr
  gp_MinAmountBRL :: rat

record rule_schema =
  gr_SchemaVersion :: int
  gr_Trigger :: jstr
  gr_AttributionWindowDays :: int
  gr_Reward :: reward_config
  gr_Payout :: payout_config

definition decode_counting :: "jsval option \<Rightarrow> unit option" where
  "decode_counting v = do {
     c \<leftarrow> go_struct v;
     _ \<leftarrow> go_string (jfield c ''scope'');
     _ \<leftarrow> go_string (jfield c ''status_required'');
     Some () }"

definition decode_reward :: "jsval option \<Rightarrow> reward_config option" where
  "decode_reward v = do {
     r \<leftarrow> go_struct v;
     ty \<leftarrow> go_string (jfield r ''type'');
     am \<leftarrow> go_float_ptr (jfield r ''amount_brl'');
     pct \<leftarrow> go_float_ptr (jfield r ''pct'');
     mx \<leftarrow> go_float_ptr (jfield r ''max_pct'');
     tg \<leftarrow> go_int_ptr (jfield r ''target'');
     _ \<leftarrow> decode_counting (jfield r ''counting'');
     pb \<leftarrow> go_float_ptr (jfield r ''points_per_brl'');
     pc \<leftarrow> go_int_ptr (jfield r ''points_per_conversion'');
     mm \<leftarrow> go_int_ptr (jfield r ''max_months'');
     Some \<lparr> gc_Type = ty, gc_AmountBRL = am, gc_Pct = pct, gc_MaxPct = mx, gc_Target = tg,
            gc_PointsPerBRL = pb, gc_PointsPerConversion = pc, gc_MaxMonths = mm \<rparr> }"

definition decode_payout :: "jsval option \<Rightarrow> payout_config option" where
  "decode_payout v = do {
     p \<leftarrow> go_struct v;
     me \<leftarrow> go_string (jfield p ''method'');
     sc \<leftarrow> go_string (jfield p ''schedule'');
     mi \<leftarrow> go_float (jfield p ''min_amount_brl'');
     Some \<lparr> gp_Method = me, gp_Schedule = sc, gp_MinAmountBRL = mi \<rparr> }"

definition decode_limits :: "jsval option \<Rightarrow> unit option" where
  "decode_limits v = do {
     l \<leftarrow> go_struct v;
     _ \<leftarrow> go_int_ptr (jfield l ''max_per_partner_per_day'');
     _ \<leftarrow> go_float_ptr (jfield l ''max_total_payout_brl'');
     Some () }"

text \<open>
  The whole schema. The client sends neither \<open>conditions\<close> nor \<open>options\<close>; a value that has either is
  outside the model.
\<close>

definition decode_schema :: "jsval \<Rightarrow> rule_schema option" where
  "decode_schema v = do {
     r \<leftarrow> go_struct (Some v);
     sv \<leftarrow> go_int (jfield r ''schema_version'');
     tr \<leftarrow> go_string (jfield r ''trigger'');
     wd \<leftarrow> go_int (jfield r ''attribution_window_days'');
     rw \<leftarrow> decode_reward (jfield r ''reward'');
     pa \<leftarrow> decode_payout (jfield r ''payout'');
     _ \<leftarrow> decode_limits (jfield r ''limits'');
     Some \<lparr> gr_SchemaVersion = sv, gr_Trigger = tr, gr_AttributionWindowDays = wd, gr_Reward = rw,
            gr_Payout = pa \<rparr> }"

subsection \<open>Validation\<close>

datatype rule_err = ParseErr | RuleErr jstr

definition valid_types :: "jstr list" where
  "valid_types = [U ''commission_fixed'', U ''commission_pct'', U ''discount_for_lead'', U ''flexible_split'',
     U ''goal_based'', U ''points'', U ''cashback'', U ''recurring_commission'']"

definition valid_triggers :: "jstr list" where
  "valid_triggers = [U ''sale.confirmed'', U ''lead.created'', U ''lead.qualified'', U ''payment.confirmed'']"

definition above0 :: "rat option \<Rightarrow> bool" where
  "above0 x = (case x of None \<Rightarrow> False | Some q \<Rightarrow> 0 < q)"

definition pct_range :: "rat option \<Rightarrow> bool" where
  "pct_range x = (case x of None \<Rightarrow> False | Some q \<Rightarrow> 0 < q \<and> q \<le> 100)"

definition validate_reward :: "reward_config \<Rightarrow> jstr option" where
  "validate_reward rc = (let ty = gc_Type rc in
     if ty = [] then Some (U ''reward.type is required'')
     else if ty \<notin> set valid_types then Some (U ''invalid reward type: '' @ ty)
     else if ty = U ''commission_fixed'' then
       (if above0 (gc_AmountBRL rc) then None else Some (U ''commission_fixed requires amount_brl > 0''))
     else if ty = U ''commission_pct'' \<or> ty = U ''cashback'' then
       (if pct_range (gc_Pct rc) then None else Some (ty @ U '' requires pct between 0 and 100''))
     else if ty = U ''flexible_split'' then
       (if pct_range (gc_MaxPct rc) then None else Some (U ''flexible_split requires max_pct between 0 and 100''))
     else if ty = U ''goal_based'' then
       (case gc_Target rc of Some t \<Rightarrow> if 0 < t then None else Some (U ''goal_based requires target > 0'')
        | None \<Rightarrow> Some (U ''goal_based requires target > 0''))
     else if ty = U ''points'' then
       (if gc_PointsPerBRL rc = None \<and> gc_PointsPerConversion rc = None
        then Some (U ''points requires points_per_brl or points_per_conversion'') else None)
     else if ty = U ''recurring_commission'' then
       (if above0 (gc_Pct rc) then None else Some (U ''recurring_commission requires pct > 0''))
     else None)"

definition validate_schema :: "rule_schema \<Rightarrow> jstr + rule_schema" where
  "validate_schema r =
     (if gr_SchemaVersion r < 1 then Inl (U ''schema_version must be >= 1, got '' @ dec_int (gr_SchemaVersion r))
      else if gr_Trigger r = [] then Inl (U ''trigger is required'')
      else if gr_Trigger r \<notin> set valid_triggers then Inl (U ''invalid trigger: '' @ gr_Trigger r)
      else let r' = (if gr_AttributionWindowDays r \<le> 0 then r\<lparr> gr_AttributionWindowDays := 30 \<rparr> else r)
           in case validate_reward (gr_Reward r') of None \<Rightarrow> Inr r' | Some e \<Rightarrow> Inl e)"

text \<open>\<open>ParseRuleSchema\<close> on the JSON value the client sent.\<close>

definition ParseRuleSchema :: "jsval \<Rightarrow> rule_err + rule_schema" where
  "ParseRuleSchema v = (case decode_schema v of None \<Rightarrow> Inl ParseErr
     | Some r \<Rightarrow> (case validate_schema r of Inl e \<Rightarrow> Inl (RuleErr e) | Inr r' \<Rightarrow> Inr r'))"

definition accepted :: "jsval \<Rightarrow> bool" where
  "accepted v \<longleftrightarrow> (\<exists>r. ParseRuleSchema v = Inr r)"

lemma accepted_iff:
  "accepted v \<longleftrightarrow> (\<exists>r. decode_schema v = Some r \<and> 1 \<le> gr_SchemaVersion r \<and> gr_Trigger r \<in> set valid_triggers \<and>
     validate_reward (gr_Reward r) = None)"
proof -
  have "[] \<notin> set valid_triggers" by (simp add: valid_triggers_def ustr)
  then show ?thesis
    by (cases "decode_schema v")
       (auto simp: accepted_def ParseRuleSchema_def validate_schema_def Let_def split: option.splits sum.splits if_splits)
qed

end
