(* ===== verification/NovoPrograma.thy ===== *)
theory NovoPrograma imports DashboardApi React RewardPreview GoRules begin

text \<open>
  \<open>apps/dashboard/app/(app)/programas/novo/page.tsx\<close>: the page that creates a programme, with the
  handler of the server that receives it (\<open>internal/api/handlers/programs/handler.go\<close>).

  The central lemma, \<open>accepted_rules\<close>, says exactly which states of the page give rules that the
  server's \<open>ParseRuleSchema\<close> accepts.
\<close>

subsection \<open>Presets and metrics\<close>

datatype preset = Commission | Recurring | Goal | FlexibleSplit
datatype metric = ReferralsCount | SalesCount | SaleAmount
datatype destino = Whatsapp | Site | Landing

fun preset_str :: "preset \<Rightarrow> jstr" where
  "preset_str Commission = U ''commission''"
| "preset_str Recurring = U ''recurring''"
| "preset_str Goal = U ''goal''"
| "preset_str FlexibleSplit = U ''flexible_split''"

fun metric_str :: "metric \<Rightarrow> jstr" where
  "metric_str ReferralsCount = U ''referrals_count''"
| "metric_str SalesCount = U ''sales_count''"
| "metric_str SaleAmount = U ''sale_amount''"

definition presetOptions :: "(preset \<times> jstr \<times> jstr) list" where
  "presetOptions = [
     (Commission, U ''Comiss~00e3o'', U ''Parceiro recebe % ou R$ por venda. Pode ter n~00edveis (ex: 0~20135 = 5%, 5+ = 10%).''),
     (Recurring, U ''Recorrente'', U ''Comiss~00e3o repetida a cada renova~00e7~00e3o ou cobran~00e7a recorrente do cliente.''),
     (Goal, U ''Meta / Recompensa'', U ''Ao atingir uma meta, o parceiro ganha produto, brinde ou pontos.''),
     (FlexibleSplit, U ''Split flex~00edvel'', U ''O parceiro escolhe entre comiss~00e3o e desconto at~00e9 um teto (ex: 20%).'')]"

fun defaultTiersFor :: "preset \<Rightarrow> tier list" where
  "defaultTiersFor Commission = [\<lparr> tr_from = Fin 0, tr_to = None, tr_type = CommissionPct, tr_value = RNum (Fin 10) \<rparr>]"
| "defaultTiersFor Recurring = [\<lparr> tr_from = Fin 0, tr_to = None, tr_type = CommissionPct, tr_value = RNum (Fin 15) \<rparr>]"
| "defaultTiersFor Goal =
     [\<lparr> tr_from = Fin 0, tr_to = Some (Fin 4), tr_type = CommissionFixed, tr_value = RNum (Fin 0) \<rparr>,
      \<lparr> tr_from = Fin 5, tr_to = None, tr_type = Product, tr_value = RStr (U ''Brinde'') \<rparr>]"
| "defaultTiersFor FlexibleSplit = []"

definition defaultMetricFor :: "preset \<Rightarrow> metric" where
  "defaultMetricFor p = (if p = Goal then ReferralsCount
     else if p = Commission \<or> p = Recurring then SalesCount else ReferralsCount)"

fun metricLabel :: "metric \<Rightarrow> jstr" where
  "metricLabel ReferralsCount = U ''indica~00e7~00f5es''"
| "metricLabel SalesCount = U ''vendas''"
| "metricLabel SaleAmount = U ''R$ em vendas''"

subsection \<open>State\<close>

record novo =
  np_submitting :: bool
  np_nome :: jstr
  np_descricao :: jstr
  np_preset :: preset
  np_metric :: metric
  np_tiers :: "tier list"
  np_flexMaxPct :: jsnum
  np_quandoPagar :: jstr
  np_comoPagar :: jstr
  np_valorMinimo :: jstr
  np_janela :: jstr
  np_destino :: destino
  np_whatsapp :: jstr
  np_site :: jstr

definition np_start :: novo where
  "np_start = \<lparr> np_submitting = False, np_nome = [], np_descricao = [], np_preset = Commission,
     np_metric = defaultMetricFor Commission, np_tiers = defaultTiersFor Commission, np_flexMaxPct = Fin 20,
     np_quandoPagar = U ''sale.confirmed'', np_comoPagar = U ''pix'', np_valorMinimo = U ''50'',
     np_janela = U ''30'', np_destino = Whatsapp, np_whatsapp = [], np_site = [] \<rparr>"

definition isTiered :: "novo \<Rightarrow> bool" where
  "isTiered s \<longleftrightarrow> np_preset s \<noteq> FlexibleSplit"

definition np_reward :: "novo \<Rightarrow> preview_reward" where
  "np_reward s = (if np_preset s = FlexibleSplit
     then \<lparr> pw_type = U ''flexible_split'', pw_amount_brl = None, pw_pct = None, pw_max_pct = Some (np_flexMaxPct s),
            pw_target = None, pw_metric = None, pw_tiers = None \<rparr>
     else \<lparr> pw_type = U ''tiered'', pw_amount_brl = None, pw_pct = None, pw_max_pct = None,
            pw_target = None, pw_metric = Some (metric_str (np_metric s)), pw_tiers = Some (np_tiers s) \<rparr>)"

definition rulesPreview :: "novo \<Rightarrow> preview_rules" where
  "rulesPreview s = \<lparr> pv_trigger = np_quandoPagar s, pv_reward = np_reward s, pv_method = np_comoPagar s,
     pv_schedule = U ''on_approval'', pv_minAmountBrl = Some (num_or_0 (np_valorMinimo s)) \<rparr>"

subsection \<open>The rules sent to the server\<close>

definition value_if_number :: "tier option \<Rightarrow> jsnum" where
  "value_if_number t = (case t of Some u \<Rightarrow> (case tr_value u of RNum n \<Rightarrow> n | RStr _ \<Rightarrow> Fin 0) | None \<Rightarrow> Fin 0)"

definition first_tier :: "tier list \<Rightarrow> tier option" where
  "first_tier ts = (case ts of [] \<Rightarrow> None | t # _ \<Rightarrow> Some t)"

definition goal_tier :: "tier list \<Rightarrow> tier option" where
  "goal_tier ts = (case List.find (\<lambda>t. tr_type t = Product) ts of Some t \<Rightarrow> Some t
     | None \<Rightarrow> if ts = [] then None else Some (last ts))"

definition buildReward :: "novo \<Rightarrow> jsval" where
  "buildReward s =
     (if np_preset s = FlexibleSplit then
        JObj [(''type'', JStr (U ''flexible_split'')), (''max_pct'', JNum (np_flexMaxPct s))]
      else if np_preset s = Recurring then
        JObj [(''type'', JStr (U ''recurring_commission'')), (''pct'', JNum (value_if_number (first_tier (np_tiers s))))]
      else if np_preset s = Goal then
        JObj [(''type'', JStr (U ''goal_based'')),
              (''target'', JNum (case goal_tier (np_tiers s) of Some t \<Rightarrow> tr_from t | None \<Rightarrow> Fin 1)),
              (''counting'', JObj [(''scope'', JStr (U ''per_partner'')), (''status_required'', JStr (U ''closed''))])]
      else if map_option tr_type (first_tier (np_tiers s)) = Some CommissionFixed then
        JObj [(''type'', JStr (U ''commission_fixed'')), (''amount_brl'', JNum (value_if_number (first_tier (np_tiers s))))]
      else
        JObj [(''type'', JStr (U ''commission_pct'')), (''pct'', JNum (value_if_number (first_tier (np_tiers s))))])"

definition num_or_30 :: "jstr \<Rightarrow> jsnum" where
  "num_or_30 v = (let n = js_Number v in if num_truthy n then n else Fin 30)"

definition buildBackendRules :: "novo \<Rightarrow> jsval" where
  "buildBackendRules s = JObj [(''schema_version'', JNum (Fin 1)), (''trigger'', JStr (np_quandoPagar s)),
     (''attribution_window_days'', JNum (num_or_30 (np_janela s))), (''reward'', buildReward s),
     (''payout'', JObj [(''method'', JStr (np_comoPagar s)), (''schedule'', JStr (U ''on_approval'')),
                      (''min_amount_brl'', JNum (num_or_0 (np_valorMinimo s)))]),
     (''limits'', JObj [])]"

definition redirectType :: "destino \<Rightarrow> jstr" where
  "redirectType d = (if d = Whatsapp then U ''whatsapp'' else if d = Site then U ''website'' else U ''landing'')"

definition np_request :: "novo \<Rightarrow> create_program" where
  "np_request s = \<lparr> cp_name = np_nome s, cp_description = nonempty (np_descricao s),
     cp_rules = buildBackendRules s, cp_redirect_type = redirectType (np_destino s),
     cp_redirect_url = (if np_destino s = Site then Some (np_site s) else None),
     cp_whatsapp_number = (if np_destino s = Whatsapp then Some (np_whatsapp s) else None),
     cp_settings = None \<rparr>"

subsection \<open>The handlers\<close>

datatype np_event = NpNome jstr | NpDescricao jstr | NpPreset jstr | NpMetric jstr | NpTiers tb_event
  | NpFlexMax jstr | NpQuando jstr | NpComo jstr | NpMinimo jstr | NpJanela jstr | NpDestino destino
  | NpWhatsapp jstr | NpSite jstr | NpPublish | NpCancelar

definition handlePresetChange :: "preset \<Rightarrow> novo \<Rightarrow> novo" where
  "handlePresetChange p s = (let s1 = s\<lparr> np_preset := p \<rparr> in
     if p \<noteq> FlexibleSplit then s1\<lparr> np_tiers := defaultTiersFor p, np_metric := defaultMetricFor p \<rparr> else s1)"

definition preset_of :: "jstr \<Rightarrow> preset option" where
  "preset_of v = List.find (\<lambda>p. preset_str p = v) (map fst presetOptions)"

definition metric_of :: "jstr \<Rightarrow> metric option" where
  "metric_of v = List.find (\<lambda>m. metric_str m = v) [ReferralsCount, SalesCount, SaleAmount]"

text \<open>The first guard of \<open>publish\<close> that fails, as the title of its toast.\<close>

definition publish_guard :: "novo \<Rightarrow> jstr option" where
  "publish_guard s =
     (if js_trim (np_nome s) = [] then Some (U ''Nome obrigat~00f3rio'')
      else if isTiered s \<and> np_tiers s = [] then Some (U ''Adicione pelo menos uma regra'')
      else if np_destino s = Whatsapp \<and> js_trim (np_whatsapp s) = [] then Some (U ''Informe o WhatsApp da empresa'')
      else if np_destino s = Site \<and> js_trim (np_site s) = [] then Some (U ''Informe a URL do site'')
      else None)"

definition publish_begin :: "novo \<Rightarrow> novo \<times> dash_call eff list" where
  "publish_begin s = (case publish_guard s of
      Some title \<Rightarrow> (s, [Toast (toast_of title None VDestructive)])
    | None \<Rightarrow> (s\<lparr> np_submitting := True \<rparr>, [Call (ProgramsCreate (np_request s))]))"

fun np_begin :: "np_event \<Rightarrow> novo \<Rightarrow> novo \<times> dash_call eff list" where
  "np_begin (NpNome v) s = (s\<lparr> np_nome := v \<rparr>, [])"
| "np_begin (NpDescricao v) s = (s\<lparr> np_descricao := v \<rparr>, [])"
| "np_begin (NpPreset v) s = (case preset_of v of Some p \<Rightarrow> (handlePresetChange p s, []) | None \<Rightarrow> (s, []))"
| "np_begin (NpMetric v) s = (case metric_of v of Some m \<Rightarrow> (s\<lparr> np_metric := m \<rparr>, []) | None \<Rightarrow> (s, []))"
| "np_begin (NpTiers e) s = (s\<lparr> np_tiers := tb_apply e (np_tiers s) \<rparr>, [])"
| "np_begin (NpFlexMax v) s = (s\<lparr> np_flexMaxPct := num_or_0 v \<rparr>, [])"
| "np_begin (NpQuando v) s = (s\<lparr> np_quandoPagar := v \<rparr>, [])"
| "np_begin (NpComo v) s = (s\<lparr> np_comoPagar := v \<rparr>, [])"
| "np_begin (NpMinimo v) s = (s\<lparr> np_valorMinimo := v \<rparr>, [])"
| "np_begin (NpJanela v) s = (s\<lparr> np_janela := v \<rparr>, [])"
| "np_begin (NpDestino d) s = (s\<lparr> np_destino := d \<rparr>, [])"
| "np_begin (NpWhatsapp v) s = (s\<lparr> np_whatsapp := v \<rparr>, [])"
| "np_begin (NpSite v) s = (s\<lparr> np_site := v \<rparr>, [])"
| "np_begin NpPublish s = publish_begin s"
| "np_begin NpCancelar s = (s, [Push (U ''/programas'')])"

datatype np_done = NpCreated create_program "api_err + unit"

fun np_opof :: "np_done \<Rightarrow> dash_call" where
  "np_opof (NpCreated d _) = ProgramsCreate d"

fun np_finish :: "np_done \<Rightarrow> novo \<Rightarrow> novo \<times> dash_call eff list" where
  "np_finish (NpCreated d (Inr _)) s =
     (s, [Toast (toast_of (U ''Programa publicado!'')
            (Some (U ''~0022'' @ cp_name d @ U ''~0022 est~00e1 ativo.'')) VSuccess), PushLater 600 (U ''/programas'')])"
| "np_finish (NpCreated d (Inl e)) s =
     (s\<lparr> np_submitting := False \<rparr>,
      [Toast (toast_of (U ''N~00e3o foi poss~00edvel publicar'') (Some (api_message e (U ''Erro inesperado''))) VDestructive)])"

subsection \<open>The server's handler\<close>

text \<open>
  \<open>Create\<close> of the programmes handler on the JSON body: the HTTP status, and the status of the
  programme it creates. Failures of the database are left out.
\<close>

definition valid_redirects :: "jstr list" where
  "valid_redirects = [U ''website'', U ''whatsapp'', U ''landing'', U ''checkout'']"

definition srv_create_program :: "jsval \<Rightarrow> nat \<times> jstr option" where
  "srv_create_program body =
     (case (go_struct (Some body), go_string (jfield body ''name''), go_string (jfield body ''description''),
            go_string (jfield body ''redirect_type''), go_string (jfield body ''redirect_url''),
            go_string (jfield body ''whatsapp_number'')) of
        (Some _, Some name, Some _, Some rt, Some _, Some _) \<Rightarrow>
          if \<not> accepted (case jfield body ''rules'' of Some v \<Rightarrow> v | None \<Rightarrow> JUndef) then (400, None)
          else if name = [] then (400, None)
          else if (if rt = [] then U ''website'' else rt) \<notin> set valid_redirects then (400, None)
          else (201, Some (U ''draft''))
      | _ \<Rightarrow> (400, None))"

subsection \<open>When the server accepts the rules\<close>

lemma float_json [simp]: "go_float_ptr (Some (json (JNum n))) = Some (case n of Fin q \<Rightarrow> Some q | _ \<Rightarrow> None)"
  by (cases n) simp_all

lemma json_str [simp]: "json (JStr s) = JStr s"
  by simp

definition pct_num :: "jsnum \<Rightarrow> bool" where
  "pct_num n = (case n of Fin q \<Rightarrow> 0 < q \<and> q \<le> 100 | _ \<Rightarrow> False)"

definition above_num :: "jsnum \<Rightarrow> bool" where
  "above_num n = (case n of Fin q \<Rightarrow> 0 < q | _ \<Rightarrow> False)"

definition target_num :: "jsnum \<Rightarrow> bool" where
  "target_num n = (case n of Fin q \<Rightarrow> (case int64 q of Some i \<Rightarrow> 0 < i | None \<Rightarrow> False) | _ \<Rightarrow> False)"

text \<open>What the reward of each preset must satisfy.\<close>

definition reward_ok :: "novo \<Rightarrow> bool" where
  "reward_ok s = (case np_preset s of
      FlexibleSplit \<Rightarrow> pct_num (np_flexMaxPct s)
    | Recurring \<Rightarrow> above_num (value_if_number (first_tier (np_tiers s)))
    | Goal \<Rightarrow> target_num (case goal_tier (np_tiers s) of Some t \<Rightarrow> tr_from t | None \<Rightarrow> Fin 1)
    | Commission \<Rightarrow> if map_option tr_type (first_tier (np_tiers s)) = Some CommissionFixed
        then above_num (value_if_number (first_tier (np_tiers s)))
        else pct_num (value_if_number (first_tier (np_tiers s))))"

lemmas decode_defs = decode_schema_def decode_reward_def decode_payout_def decode_limits_def decode_counting_def
  jfield_def go_int_def go_float_def

definition janela_options :: "jstr list" where
  "janela_options = [U ''7'', U ''15'', U ''30'', U ''60'', U ''90'']"

lemma dec_literals:
  "U ''7'' = dec 7" "U ''15'' = dec 15" "U ''30'' = dec 30" "U ''60'' = dec 60" "U ''90'' = dec 90"
proof -
  have one: "dec n = [48 + n]" if "n < 10" for n using that by (subst dec.simps) simp
  have two: "dec n = [48 + n div 10, 48 + n mod 10]" if "10 \<le> n" "n < 100" for n
    using that by (subst dec.simps) (simp add: one)
  show "U ''7'' = dec 7" "U ''15'' = dec 15" "U ''30'' = dec 30" "U ''60'' = dec 60" "U ''90'' = dec 90"
    by (simp_all add: one two ustr)
qed

lemma janela_value:
  assumes "v \<in> set janela_options"
  shows "\<exists>k. num_or_30 v = Fin (of_int k) \<and> 0 < k \<and> k < 2 ^ 63"
proof -
  have "v = dec 7 \<or> v = dec 15 \<or> v = dec 30 \<or> v = dec 60 \<or> v = dec 90"
    using assms unfolding janela_options_def dec_literals by (simp only: list.set insert_iff empty_iff simp_thms)
  then obtain m :: nat where m: "v = dec m" "0 < m" "m < 100"
    using that [of 7] that [of 15] that [of 30] that [of 60] that [of 90] by auto
  then have "int m \<le> 2 ^ 53" by simp
  with m have "num_or_30 v = Fin (of_int (int m))"
    by (simp add: num_or_30_def js_Number_dec num_int_small)
  with m show ?thesis by (intro exI [of _ "int m"]) simp
qed

lemma int64_of_int: "- (2 ^ 63) \<le> k \<Longrightarrow> k < 2 ^ 63 \<Longrightarrow> int64 (of_int k) = Some k"
  by (simp add: int64_def)

definition reward_of :: "jsval \<Rightarrow> reward_config option" where
  "reward_of v = decode_reward (Some (json v))"

lemma int_json: "go_int_ptr (Some (json (JNum n))) = (case n of Fin q \<Rightarrow> map_option Some (int64 q) | _ \<Rightarrow> Some None)"
  by (cases n) simp_all

lemma type_tests:
  "U ''flexible_split'' \<in> set valid_types" "U ''recurring_commission'' \<in> set valid_types"
  "U ''goal_based'' \<in> set valid_types" "U ''commission_fixed'' \<in> set valid_types"
  "U ''commission_pct'' \<in> set valid_types"
  by (simp_all add: valid_types_def)

lemma type_strings:
  "U ''flexible_split'' \<noteq> []" "U ''flexible_split'' \<noteq> U ''commission_fixed''"
  "U ''flexible_split'' \<noteq> U ''commission_pct''" "U ''flexible_split'' \<noteq> U ''cashback''"
  "U ''flexible_split'' \<noteq> U ''goal_based''" "U ''flexible_split'' \<noteq> U ''points''"
  "U ''flexible_split'' \<noteq> U ''recurring_commission''" "U ''recurring_commission'' \<noteq> []"
  "U ''recurring_commission'' \<noteq> U ''commission_fixed''" "U ''recurring_commission'' \<noteq> U ''commission_pct''"
  "U ''recurring_commission'' \<noteq> U ''cashback''" "U ''recurring_commission'' \<noteq> U ''flexible_split''"
  "U ''recurring_commission'' \<noteq> U ''goal_based''" "U ''recurring_commission'' \<noteq> U ''points''"
  "U ''goal_based'' \<noteq> []" "U ''goal_based'' \<noteq> U ''commission_fixed''"
  "U ''goal_based'' \<noteq> U ''commission_pct''" "U ''goal_based'' \<noteq> U ''cashback''"
  "U ''goal_based'' \<noteq> U ''flexible_split''" "U ''goal_based'' \<noteq> U ''points''"
  "U ''goal_based'' \<noteq> U ''recurring_commission''" "U ''commission_fixed'' \<noteq> []"
  "U ''commission_fixed'' \<noteq> U ''commission_pct''" "U ''commission_fixed'' \<noteq> U ''cashback''"
  "U ''commission_fixed'' \<noteq> U ''flexible_split''" "U ''commission_fixed'' \<noteq> U ''goal_based''"
  "U ''commission_fixed'' \<noteq> U ''points''" "U ''commission_fixed'' \<noteq> U ''recurring_commission''"
  "U ''commission_pct'' \<noteq> []" "U ''commission_pct'' \<noteq> U ''commission_fixed''"
  "U ''commission_pct'' \<noteq> U ''cashback''" "U ''commission_pct'' \<noteq> U ''flexible_split''"
  "U ''commission_pct'' \<noteq> U ''goal_based''" "U ''commission_pct'' \<noteq> U ''points''"
  "U ''commission_pct'' \<noteq> U ''recurring_commission''"
  by (simp_all add: ustr)

lemma reward_accepted:
  "(\<exists>rc. reward_of (buildReward s) = Some rc \<and> validate_reward rc = None) \<longleftrightarrow> reward_ok s"
proof (cases "np_preset s")
  case FlexibleSplit
  then show ?thesis
    by (cases "np_flexMaxPct s") (simp_all add: buildReward_def reward_of_def decode_defs reward_ok_def pct_num_def
        validate_reward_def Let_def type_tests pct_range_def type_strings)
next
  case Recurring
  then show ?thesis
    by (cases "value_if_number (first_tier (np_tiers s))") (simp_all add: buildReward_def reward_of_def decode_defs reward_ok_def
        above_num_def validate_reward_def Let_def type_tests above0_def type_strings)
next
  case Goal
  define n where "n = (case goal_tier (np_tiers s) of Some t \<Rightarrow> tr_from t | None \<Rightarrow> Fin 1)"
  have b: "buildReward s = JObj [(''type'', JStr (U ''goal_based'')), (''target'', JNum n),
      (''counting'', JObj [(''scope'', JStr (U ''per_partner'')), (''status_required'', JStr (U ''closed''))])]"
    using Goal by (simp add: buildReward_def n_def)
  have r: "reward_ok s = target_num n" using Goal by (simp add: reward_ok_def n_def)
  show ?thesis
  proof (cases n)
    case (Fin q)
    then show ?thesis unfolding b r
      by (cases "int64 q") (simp_all add: reward_of_def decode_defs target_num_def validate_reward_def Let_def
          type_tests type_strings)
  qed (simp_all add: b r reward_of_def decode_defs target_num_def validate_reward_def Let_def type_tests type_strings)
next
  case Commission
  then show ?thesis
    by (cases "value_if_number (first_tier (np_tiers s))"; cases "map_option tr_type (first_tier (np_tiers s)) = Some CommissionFixed")
      (simp_all add: buildReward_def reward_of_def decode_defs reward_ok_def above_num_def pct_num_def
        validate_reward_def Let_def type_tests above0_def pct_range_def type_strings)
qed

lemma decoded_rules:
  assumes "np_janela s \<in> set janela_options"
  obtains k where "decode_schema (json (buildBackendRules s)) =
     map_option (\<lambda>rc. \<lparr> gr_SchemaVersion = 1, gr_Trigger = np_quandoPagar s, gr_AttributionWindowDays = k,
       gr_Reward = rc, gr_Payout = \<lparr> gp_Method = np_comoPagar s, gp_Schedule = U ''on_approval'',
         gp_MinAmountBRL = orelse (case num_or_0 (np_valorMinimo s) of Fin q \<Rightarrow> Some q | _ \<Rightarrow> None) 0 \<rparr> \<rparr>)
       (reward_of (buildReward s))"
proof -
  obtain k where k: "num_or_30 (np_janela s) = Fin (of_int k)" "0 < k" "k < 2 ^ 63"
    using janela_value [OF assms] by blast
  then have i: "int64 (of_int k) = Some k" by (intro int64_of_int) auto
  have one: "int64 1 = Some 1" using int64_of_int [of 1] by simp
  have r: "buildReward s \<noteq> JUndef" by (auto simp: buildReward_def)
  show ?thesis
    by (rule that [of k], use k i one r in \<open>cases "num_or_0 (np_valorMinimo s)"; cases "reward_of (buildReward s)"\<close>)
       (simp_all add: buildBackendRules_def decode_schema_def jfield_def go_int_def go_float_def
         decode_payout_def decode_limits_def reward_of_def)
qed

lemma accepted_rules:
  assumes "np_janela s \<in> set janela_options"
  shows "accepted (json (buildBackendRules s)) \<longleftrightarrow> np_quandoPagar s \<in> set valid_triggers \<and> reward_ok s"
  by (rule decoded_rules [OF assms]) (unfold accepted_iff reward_accepted [symmetric], auto)

lemma parsed_rules:
  assumes "np_janela s \<in> set janela_options" "ParseRuleSchema (json (buildBackendRules s)) = Inr r"
  shows "reward_of (buildReward s) = Some (gr_Reward r)"
  by (rule decoded_rules [OF assms(1)])
    (use assms(2) in \<open>auto simp: ParseRuleSchema_def validate_schema_def Let_def split: option.splits sum.splits if_splits\<close>)

lemma trigger_options: "U ''sale.confirmed'' \<in> set valid_triggers" "U ''payment.confirmed'' \<in> set valid_triggers"
  "U ''manual'' \<notin> set valid_triggers"
  by (simp_all add: valid_triggers_def ustr)

text \<open>The defaults of every preset are accepted.\<close>

lemma default_reward_ok: "reward_ok (handlePresetChange p (s\<lparr> np_flexMaxPct := Fin 20 \<rparr>))"
proof -
  have "int64 5 = Some 5" using int64_of_int [of 5] by simp
  then show ?thesis
    by (cases p) (simp_all add: reward_ok_def handlePresetChange_def Let_def first_tier_def goal_tier_def
        value_if_number_def pct_num_def above_num_def target_num_def)
qed

subsection \<open>The page\<close>

definition section_el :: "jstr \<Rightarrow> 'e view list \<Rightarrow> 'e view" where
  "section_el title vs = N ''section'' [] (txt_el ''h2'' title # vs)"

definition field_el :: "jstr \<Rightarrow> bool \<Rightarrow> 'e view list \<Rightarrow> 'e view" where
  "field_el label required vs = N ''div'' [] (N ''label'' [] (T label # whenl required [txt_el ''span'' (U ''*'')]) # vs)"

definition destino_card :: "bool \<Rightarrow> 'e \<Rightarrow> jstr \<Rightarrow> jstr \<Rightarrow> 'e view" where
  "destino_card active e icon title = N ''button''
     [A ''type'' (U ''button''), On ''onClick'' (\<lambda>_. e),
      A ''className'' (if active then U ''border-primary bg-primary-light''
        else U ''border-neutral-200 hover:border-neutral-300 dark:border-neutral-800'')]
     [txt_el ''span'' icon, txt_el ''p'' title]"

definition input_el :: "jstr \<Rightarrow> jstr \<Rightarrow> (jstr \<Rightarrow> 'e) \<Rightarrow> 'e view" where
  "input_el ph v h = N ''Input'' [A ''placeholder'' ph, A ''value'' v, On ''onChange'' h] []"

definition quando_options :: "(jstr \<times> jstr) list" where
  "quando_options = [(U ''sale.confirmed'', U ''Quando o lead fechar a venda''),
     (U ''payment.confirmed'', U ''Quando o pagamento for confirmado''), (U ''manual'', U ''Aprova~00e7~00e3o manual'')]"

definition como_options :: "(jstr \<times> jstr) list" where
  "como_options = [(U ''pix'', U ''Pix autom~00e1tico''), (U ''credit'', U ''Cr~00e9dito interno''), (U ''manual'', U ''Manual'')]"

definition metric_options :: "(jstr \<times> jstr) list" where
  "metric_options = [(U ''referrals_count'', U ''Quantidade de indica~00e7~00f5es''), (U ''sales_count'', U ''Vendas confirmadas''),
     (U ''sale_amount'', U ''Valor total de vendas (R$)'')]"

definition np_reward_section :: "novo \<Rightarrow> np_event view" where
  "np_reward_section s = section_el (U ''Como funciona a recompensa'')
     ([field_el (U ''Tipo do programa'') True
         [select_el (preset_str (np_preset s)) NpPreset (map (\<lambda>(p, l, d). (preset_str p, l)) presetOptions),
          N ''p'' [] (case List.find (\<lambda>(p, l, d). p = np_preset s) presetOptions of Some (_, _, d) \<Rightarrow> [T d] | None \<Rightarrow> [])]] @
      whenl (isTiered s)
        [field_el (U ''M~00e9trica do n~00edvel'') False [select_el (metric_str (np_metric s)) NpMetric metric_options],
         map_view NpTiers (tb_view (np_tiers s) (metricLabel (np_metric s)))] @
      whenl (np_preset s = FlexibleSplit)
        [field_el (U ''Teto m~00e1ximo de benef~00edcio (%)'') False
          [num_input [(''min'', U ''0''), (''max'', U ''100'')] (num_str (np_flexMaxPct s)) NpFlexMax,
           txt_el ''p'' (U ''O parceiro divide esse teto entre comiss~00e3o pra ele e desconto pra o cliente como preferir.'')]])"

definition np_payment_section :: "novo \<Rightarrow> np_event view" where
  "np_payment_section s = section_el (U ''Pagamento'')
     [N ''div'' [] [field_el (U ''Quando pagar'') False [select_el (np_quandoPagar s) NpQuando quando_options],
        field_el (U ''Como pagar'') False [select_el (np_comoPagar s) NpComo como_options],
        field_el (U ''Valor m~00ednimo de saque (R$)'') False
          [N ''Input'' [A ''value'' (np_valorMinimo s), On ''onChange'' NpMinimo] []]]]"

definition np_target_section :: "novo \<Rightarrow> np_event view" where
  "np_target_section s = section_el (U ''Para onde o parceiro indica'')
     ([N ''div'' [] [destino_card (np_destino s = Whatsapp) (NpDestino Whatsapp) (U ''~d83d~dcf1'') (U ''WhatsApp da empresa''),
        destino_card (np_destino s = Site) (NpDestino Site) (U ''~d83c~df10'') (U ''Site da empresa''),
        destino_card (np_destino s = Landing) (NpDestino Landing) (U ''~d83d~dcc4'') (U ''Landing page do programa'')]] @
      whenl (np_destino s = Whatsapp)
        [field_el (U ''N~00famero do WhatsApp'') False [input_el (U ''+5511999990000'') (np_whatsapp s) NpWhatsapp]] @
      whenl (np_destino s = Site)
        [field_el (U ''URL do site'') False [input_el (U ''https://...'') (np_site s) NpSite]] @
      [field_el (U ''Janela de atribui~00e7~00e3o'') False
         [select_el (np_janela s) NpJanela (map (\<lambda>v. (v, v @ U '' dias'')) janela_options)]])"

definition np_view :: "novo \<Rightarrow> np_event view" where
  "np_view s = N ''div'' []
     [N ''div'' [] [txt_el ''h1'' (U ''Novo Programa''),
        txt_el ''p'' (U ''Configure tudo em uma p~00e1gina s~00f3 ~2014 nome, regras e onde o link leva.'')],
      section_el (U ''Identidade'') [N ''div'' []
        [field_el (U ''Nome do programa'') True
           [input_el (U ''Ex: Programa de Indica~00e7~00e3o Wenox'') (np_nome s) NpNome],
         field_el (U ''Descri~00e7~00e3o (opcional)'') False
           [input_el (U ''Ex: 20% flex~00edvel entre comiss~00e3o e desconto'') (np_descricao s) NpDescricao]]],
      np_reward_section s, np_payment_section s, np_target_section s,
      preview_view (rulesPreview s) None,
      N ''div'' [] [N ''Button'' [On ''onClick'' (\<lambda>_. NpCancelar)] [T (U ''Cancelar'')],
        N ''Button'' [Flag ''disabled'' (np_submitting s), On ''onClick'' (\<lambda>_. NpPublish)]
          [T (if np_submitting s then U ''Publicando...'' else U ''Publicar programa'')]]]"

subsection \<open>From the page to the server\<close>

lemma published_status:
  assumes "publish_guard s = None" "np_janela s \<in> set janela_options"
  shows "srv_create_program (json (create_program_json (np_request s))) =
    (if np_quandoPagar s \<in> set valid_triggers \<and> reward_ok s then (201, Some (U ''draft'')) else (400, None))"
proof -
  have name: "np_nome s \<noteq> []" using assms(1) by (auto simp: publish_guard_def split: if_splits)
  have rt: "redirectType d \<in> set valid_redirects" "redirectType d \<noteq> []" for d
    by (cases d; simp add: redirectType_def valid_redirects_def; simp add: ustr)+
  have rules: "cp_rules (np_request s) \<noteq> JUndef" by (simp add: np_request_def buildBackendRules_def)
  let ?b = "json (create_program_json (np_request s))"
  have f: "jfield ?b ''name'' = Some (JStr (np_nome s))"
    "jfield ?b ''rules'' = Some (json (buildBackendRules s))"
    "jfield ?b ''redirect_type'' = Some (JStr (redirectType (np_destino s)))"
    "jfield ?b ''description'' = map_option JStr (nonempty (np_descricao s))"
    "jfield ?b ''redirect_url'' = (if np_destino s = Site then Some (JStr (np_site s)) else None)"
    "jfield ?b ''whatsapp_number'' = (if np_destino s = Whatsapp then Some (JStr (np_whatsapp s)) else None)"
    using rules by (auto simp: create_program_json_def np_request_def jfield_def opt_str_def buildBackendRules_def
        split: option.splits)
  have o: "go_struct (Some ?b) \<noteq> None" by (simp add: create_program_json_def)
  have s: "go_string (map_option JStr x) \<noteq> None" for x by (cases x) simp_all
  show ?thesis
    unfolding srv_create_program_def f
    using o s [of "nonempty (np_descricao s)"] name rt [of "np_destino s"] accepted_rules [OF assms(2)]
    by (auto split: option.splits)
qed

inductive np_reach :: "novo \<Rightarrow> bool" where
  start: "np_reach np_start"
| user: "np_reach s \<Longrightarrow> causes (np_view s) ev \<Longrightarrow> np_reach (fst (np_begin ev s))"
| reply: "np_reach s \<Longrightarrow> np_reach (fst (np_finish d s))"

lemma causes_if [simp]: "(\<exists>v \<in> set (whenl b vs). causes v e) \<longleftrightarrow> b \<and> (\<exists>v \<in> set vs. causes v e)"
  by auto

lemma preview_causes [simp]: "\<not> causes (preview_view r None) e"
  by (auto simp: preview_view_def causes_N min_amount_view_def split: described.splits option.splits if_splits)

lemma np_tier_events: "causes (np_view s) (NpTiers e) \<Longrightarrow> tb_offers (np_tiers s) e"
  by (auto simp: np_view_def causes_N section_el_def field_el_def input_el_def destino_card_def causes_map tb_causes
      np_reward_section_def np_payment_section_def np_target_section_def num_input_def split: option.splits if_splits)

lemma handlePresetChange_tiers: "tiers_ok (np_tiers s) \<Longrightarrow> tiers_ok (np_tiers (handlePresetChange p s))"
  by (cases p) (simp_all add: handlePresetChange_def tiers_ok_def tier_ok_def Let_def)

lemma np_begin_tiers:
  assumes "tiers_ok (np_tiers s)" "causes (np_view s) ev"
  shows "tiers_ok (np_tiers (fst (np_begin ev s)))"
proof (cases ev)
  case (NpTiers e)
  then show ?thesis using assms np_tier_events [of s e] by (simp add: tb_apply_ok)
next
  case NpPublish
  then show ?thesis using assms by (simp add: publish_begin_def split: option.splits)
qed (use assms in \<open>auto simp: handlePresetChange_tiers split: option.splits\<close>)

lemma np_finish_keeps: "np_tiers (fst (np_finish d s)) = np_tiers s"
  by (induction d s rule: np_finish.induct) simp_all

lemma np_reach_tiers: "np_reach s \<Longrightarrow> tiers_ok (np_tiers s)"
proof (induction rule: np_reach.induct)
  case start
  show ?case by (simp add: np_start_def tiers_ok_def tier_ok_def)
next
  case (user s ev)
  then show ?case by (simp add: np_begin_tiers)
next
  case (reply s d)
  then show ?case by (simp add: np_finish_keeps)
qed

end
