(* ===== verification/Regex.thy ===== *)
theory Regex imports JsString begin

text \<open>
  Anchored regular expressions over code units, as the source writes them between \<open>^\<close> and \<open>$\<close>. A
  match is computed with derivatives; \<open>matches_lang\<close> says it is membership in the language.
\<close>

datatype re = REmpty | REps | RSet "nat \<Rightarrow> bool" | RSeq re re | RAlt re re | RStar re

inductive_set star :: "jstr set \<Rightarrow> jstr set" for A where
  star_Nil: "[] \<in> star A"
| star_append: "u \<in> A \<Longrightarrow> v \<in> star A \<Longrightarrow> u @ v \<in> star A"

fun lang :: "re \<Rightarrow> jstr set" where
  "lang REmpty = {}"
| "lang REps = {[]}"
| "lang (RSet P) = {[c] | c. P c}"
| "lang (RSeq r t) = {u @ v | u v. u \<in> lang r \<and> v \<in> lang t}"
| "lang (RAlt r t) = lang r \<union> lang t"
| "lang (RStar r) = star (lang r)"

fun nullable :: "re \<Rightarrow> bool" where
  "nullable REmpty = False"
| "nullable REps = True"
| "nullable (RSet P) = False"
| "nullable (RSeq r t) = (nullable r \<and> nullable t)"
| "nullable (RAlt r t) = (nullable r \<or> nullable t)"
| "nullable (RStar r) = True"

fun deriv :: "nat \<Rightarrow> re \<Rightarrow> re" where
  "deriv c REmpty = REmpty"
| "deriv c REps = REmpty"
| "deriv c (RSet P) = (if P c then REps else REmpty)"
| "deriv c (RSeq r t) = (if nullable r then RAlt (RSeq (deriv c r) t) (deriv c t) else RSeq (deriv c r) t)"
| "deriv c (RAlt r t) = RAlt (deriv c r) (deriv c t)"
| "deriv c (RStar r) = RSeq (deriv c r) (RStar r)"

definition matches :: "re \<Rightarrow> jstr \<Rightarrow> bool" where
  "matches r s = nullable (foldl (\<lambda>q c. deriv c q) r s)"

lemma nullable_lang: "nullable r \<longleftrightarrow> [] \<in> lang r"
  by (induction r) (auto intro: star_Nil)

lemma star_Cons: "c # s \<in> star A \<longleftrightarrow> (\<exists>u v. s = u @ v \<and> c # u \<in> A \<and> v \<in> star A)"
proof
  assume "c # s \<in> star A"
  then show "\<exists>u v. s = u @ v \<and> c # u \<in> A \<and> v \<in> star A"
  proof (induction "c # s")
    case (star_append u v)
    then show ?case by (cases u) auto
  qed
next
  assume "\<exists>u v. s = u @ v \<and> c # u \<in> A \<and> v \<in> star A"
  then obtain u v where "s = u @ v" "c # u \<in> A" "v \<in> star A" by blast
  then show "c # s \<in> star A" using star_append [of "c # u" A v] by simp
qed

lemma deriv_lang: "s \<in> lang (deriv c r) \<longleftrightarrow> c # s \<in> lang r"
proof (induction r arbitrary: s)
  case (RSeq r t)
  then show ?case by (auto simp: nullable_lang Cons_eq_append_conv)
next
  case (RStar r)
  then show ?case by (auto simp: star_Cons)
qed auto

lemma matches_lang: "matches r s \<longleftrightarrow> s \<in> lang r"
proof -
  have "nullable (foldl (\<lambda>q c. deriv c q) r s) \<longleftrightarrow> s \<in> lang r"
    by (induction s arbitrary: r) (simp_all add: nullable_lang deriv_lang)
  then show ?thesis by (simp add: matches_def)
qed

subsection \<open>Derived forms\<close>

definition unit_re :: "nat \<Rightarrow> re" where
  "unit_re c = RSet (\<lambda>x. x = c)"

definition plus_re :: "(nat \<Rightarrow> bool) \<Rightarrow> re" where
  "plus_re P = RSeq (RSet P) (RStar (RSet P))"

fun times_re :: "nat \<Rightarrow> (nat \<Rightarrow> bool) \<Rightarrow> re" where
  "times_re 0 P = REps"
| "times_re (Suc n) P = RSeq (RSet P) (times_re n P)"

fun upto_re :: "nat \<Rightarrow> (nat \<Rightarrow> bool) \<Rightarrow> re" where
  "upto_re 0 P = REps"
| "upto_re (Suc n) P = RAlt REps (RSeq (RSet P) (upto_re n P))"

lemma lang_unit [simp]: "lang (unit_re c) = {[c]}"
  by (simp add: unit_re_def)

lemma star_set: "s \<in> star {[c] | c. P c} \<longleftrightarrow> (\<forall>c \<in> set s. P c)"
proof (induction s)
  case Nil
  show ?case by (simp add: star_Nil)
next
  case (Cons a s)
  then show ?case by (auto simp: star_Cons)
qed

lemma lang_SetSeq:
  "[] \<in> lang (RSeq (RSet P) t) \<longleftrightarrow> False"
  "a # s \<in> lang (RSeq (RSet P) t) \<longleftrightarrow> P a \<and> s \<in> lang t"
proof -
  show "a # s \<in> lang (RSeq (RSet P) t) \<longleftrightarrow> P a \<and> s \<in> lang t"
  proof
    assume "P a \<and> s \<in> lang t"
    then have "a # s = [a] @ s" "[a] \<in> lang (RSet P)" "s \<in> lang t" by auto
    then show "a # s \<in> lang (RSeq (RSet P) t)" unfolding lang.simps(4) by blast
  qed auto
qed auto

lemma lang_plus: "s \<in> lang (plus_re P) \<longleftrightarrow> s \<noteq> [] \<and> (\<forall>c \<in> set s. P c)"
  by (cases s) (simp_all add: plus_re_def lang_SetSeq star_set del: lang.simps(4))

lemma lang_times: "s \<in> lang (times_re n P) \<longleftrightarrow> length s = n \<and> (\<forall>c \<in> set s. P c)"
proof (induction n arbitrary: s)
  case 0
  then show ?case by auto
next
  case (Suc n)
  then show ?case by (cases s) (auto simp: lang_SetSeq simp del: lang.simps(4))
qed

lemma lang_upto: "s \<in> lang (upto_re n P) \<longleftrightarrow> length s \<le> n \<and> (\<forall>c \<in> set s. P c)"
proof (induction n arbitrary: s)
  case 0
  then show ?case by auto
next
  case (Suc n)
  then show ?case by (cases s) (auto simp: lang_SetSeq simp del: lang.simps(4))
qed

lemma lang_Seq: "s \<in> lang (RSeq r t) \<longleftrightarrow> (\<exists>u v. s = u @ v \<and> u \<in> lang r \<and> v \<in> lang t)"
  by auto

end
