(* ===== verification/PartnerApi.thy ===== *)
theory PartnerApi imports Http begin

text \<open>
  \<open>apps/partner/app/lib/api.ts\<close>: the records of the partner application, and every call of its
  \<open>authApi\<close> and \<open>partnerApi\<close> with the request it makes. \<open>request\<close> is the one of the dashboard, word
  for word (\<open>app_request\<close> and \<open>app_settle\<close> of the theory of the HTTP layer).
\<close>

subsection \<open>Records and unions\<close>

text \<open>
  \<open>ProgramRules\<close> and its \<open>reward\<close>: every member the partner pages read. \<open>tiers\<close> and \<open>limits\<close> are
  only carried.
\<close>

record reward_rules =
  rr_type :: jstr
  rr_max_pct :: "jsnum option"
  rr_amount_brl :: "jsnum option"
  rr_pct :: "jsnum option"
  rr_metric :: "jstr option"
  rr_tiers :: "jsval list option"

record payout_rules =
  pu_method :: jstr
  pu_schedule :: jstr
  pu_minAmountBrl :: "jsnum option"

record program_rules =
  pl_schemaVersion :: "jsnum option"
  pl_trigger :: "jstr option"
  pl_attributionWindowDays :: "jsnum option"
  pl_reward :: "reward_rules option"
  pl_payout :: "payout_rules option"
  pl_limits :: "jsval option"

record partner_me =
  pm_partner_id :: jstr
  pm_name :: jstr
  pm_email :: "jstr option"
  pm_phone_e164 :: "jstr option"
  pm_status :: jstr
  pm_program_id :: jstr
  pm_program_name :: jstr
  pm_program_rules :: "program_rules option"
  pm_link_url :: "jstr option"
  pm_clicks :: jsnum
  pm_referrals :: jsnum
  pm_pending_rewards_cents :: jsnum
  pm_approved_rewards_cents :: jsnum
  pm_paid_rewards_cents :: jsnum
  pm_created_at :: jstr

datatype referral_status = FNew | FInProgress | FQualified | FClosed | FLost

fun referral_status_str :: "referral_status \<Rightarrow> jstr" where
  "referral_status_str FNew = U ''new''"
| "referral_status_str FInProgress = U ''in_progress''"
| "referral_status_str FQualified = U ''qualified''"
| "referral_status_str FClosed = U ''closed''"
| "referral_status_str FLost = U ''lost''"

record partner_referral =
  rf_lead_id :: jstr
  rf_lead_name :: "jstr option"
  rf_status :: referral_status
  rf_source :: jstr
  rf_created_at :: jstr
  rf_closed_at :: "jstr option"
  rf_sale_amount_cents :: "jsnum option"
  rf_reward_cents :: "jsnum option"
  rf_reward_status :: "jstr option"

record split_choice =
  sc_commission_pct :: jsnum
  sc_discount_pct :: jsnum

record create_partner_lead =
  cl_name :: "jstr option"
  cl_phone_e164 :: jstr
  cl_email :: "jstr option"
  cl_notes :: "jstr option"
  cl_split_choice :: "split_choice option"

record wallet =
  wa_available_cents :: jsnum
  wa_hold_cents :: jsnum
  wa_pending_cents :: jsnum
  wa_total_paid_cents :: jsnum

datatype ppayout_status = QPending | QProcessing | QPaid | QFailed | QCancelled

record ppayout =
  pp_id :: jstr
  pp_partner_id :: jstr
  pp_reward_ids :: "jstr list"
  pp_amount_cents :: jsnum
  pp_currency :: jstr
  pp_method :: jstr
  pp_status :: ppayout_status
  pp_pix_key :: "jstr option"
  pp_pix_key_type :: "jstr option"
  pp_paid_at :: "jstr option"
  pp_metadata :: "jsval option"
  pp_created_at :: jstr
  pp_updated_at :: jstr

datatype pix_type = KCpf | KCnpj | KEmail | KPhone | KRandom

fun pix_type_str :: "pix_type \<Rightarrow> jstr" where
  "pix_type_str KCpf = U ''cpf''"
| "pix_type_str KCnpj = U ''cnpj''"
| "pix_type_str KEmail = U ''email''"
| "pix_type_str KPhone = U ''phone''"
| "pix_type_str KRandom = U ''random''"

subsection \<open>The calls\<close>

datatype partner_call =
    RequestMagicLink jstr | VerifyMagicLink jstr | PLogout | PAuthMe
  | PMe | PReferrals | PCreateLead create_partner_lead | PWallet
  | PPayouts "jsnum option" "jsnum option" | PUpdatePixKey jstr pix_type

definition split_json :: "split_choice \<Rightarrow> jsval" where
  "split_json c = JObj [(''commission_pct'', JNum (sc_commission_pct c)),
     (''discount_pct'', JNum (sc_discount_pct c))]"

definition create_lead_json :: "create_partner_lead \<Rightarrow> jsval" where
  "create_lead_json d = JObj [(''name'', opt_str (cl_name d)), (''phone_e164'', JStr (cl_phone_e164 d)),
     (''email'', opt_str (cl_email d)), (''notes'', opt_str (cl_notes d)),
     (''split_choice'', case cl_split_choice d of None \<Rightarrow> JUndef | Some c \<Rightarrow> split_json c)]"

text \<open>\<open>if (params?.x != null) qs.set(k, String(params.x))\<close>: here zero is sent.\<close>

definition set_num :: "jstr \<Rightarrow> jsnum option \<Rightarrow> params \<Rightarrow> params" where
  "set_num k x ps = (case x of None \<Rightarrow> ps | Some n \<Rightarrow> params_set k (num_str n) ps)"

fun partner_params :: "partner_call \<Rightarrow> params" where
  "partner_params (PPayouts l off) = set_num (U ''offset'') off (set_num (U ''limit'') l [])"
| "partner_params _ = []"

fun partner_req :: "jstr \<Rightarrow> partner_call \<Rightarrow> http_req" where
  "partner_req b (RequestMagicLink e) =
     api_post b (U ''/api/auth/magic-link'') (JObj [(''email'', JStr e)])"
| "partner_req b (VerifyMagicLink t) =
     api_post b (U ''/api/auth/magic-link/verify'') (JObj [(''token'', JStr t)])"
| "partner_req b PLogout = api_post b (U ''/api/auth/logout'') JUndef"
| "partner_req b PAuthMe = api_get b (U ''/api/me'')"
| "partner_req b PMe = api_get b (U ''/api/partner/me'')"
| "partner_req b PReferrals = api_get b (U ''/api/partner/referrals'')"
| "partner_req b (PCreateLead d) = api_post b (U ''/api/partner/leads'') (create_lead_json d)"
| "partner_req b PWallet = api_get b (U ''/api/partners/me/wallet'')"
| "partner_req b (PPayouts l off) =
     api_get b (with_query (U ''/api/partners/me/payouts'') (partner_params (PPayouts l off)))"
| "partner_req b (PUpdatePixKey k t) = api_patch b (U ''/api/partners/me/pix-key'')
     (JObj [(''pix_key'', JStr k), (''pix_key_type'', JStr (pix_type_str t))])"

end
