(* ===== verification/PixKey.thy ===== *)
theory PixKey imports Regex PartnerApi React View begin

text \<open>
  The Pix key of a partner: the settings page \<open>apps/partner/app/(app)/parceiro/configuracoes/page.tsx\<close>
  with its validation, and the validation of the server (\<open>ValidatePixKey\<close> of
  \<open>internal/api/handlers/payouts/handler.go\<close>). Both validate with anchored regular expressions over
  ASCII classes, except that the client's e-mail class takes any character but white space and the
  at sign. Go matches runes and JavaScript code units; on classes of ASCII characters the two agree.
\<close>

subsection \<open>The two validations\<close>

definition hexdigit :: "nat \<Rightarrow> bool" where
  "hexdigit c \<longleftrightarrow> isDigit c \<or> (97 \<le> c \<and> c \<le> 102) \<or> (65 \<le> c \<and> c \<le> 70)"

definition not_space_at :: "nat \<Rightarrow> bool" where
  "not_space_at c \<longleftrightarrow> \<not> isSpace c \<and> c \<noteq> 64"

definition letter :: "nat \<Rightarrow> bool" where
  "letter c \<longleftrightarrow> (97 \<le> c \<and> c \<le> 122) \<or> (65 \<le> c \<and> c \<le> 90)"

fun pixKeyRegex :: "pix_type \<Rightarrow> re" where
  "pixKeyRegex KCpf = times_re 11 isDigit"
| "pixKeyRegex KCnpj = times_re 14 isDigit"
| "pixKeyRegex KEmail = RSeq (plus_re not_space_at) (RSeq (unit_re 64)
     (RSeq (plus_re not_space_at) (RSeq (unit_re 46) (plus_re not_space_at))))"
| "pixKeyRegex KPhone = RSeq (unit_re 43) (RSeq (times_re 10 isDigit) (upto_re 5 isDigit))"
| "pixKeyRegex KRandom = times_re 32 hexdigit"

definition local_char :: "nat \<Rightarrow> bool" where
  "local_char c \<longleftrightarrow> letter c \<or> isDigit c \<or> c \<in> {46, 95, 37, 43, 45}"

definition domain_char :: "nat \<Rightarrow> bool" where
  "domain_char c \<longleftrightarrow> letter c \<or> isDigit c \<or> c \<in> {46, 45}"

definition pixEmail :: re where
  "pixEmail = RSeq (plus_re local_char) (RSeq (unit_re 64)
     (RSeq (plus_re domain_char) (RSeq (unit_re 46) (RSeq (RSet letter) (plus_re letter)))))"

text \<open>\<open>ValidatePixKey(key, type)\<close>: whether it returns no error.\<close>

definition go_ValidatePixKey :: "jstr \<Rightarrow> jstr \<Rightarrow> bool" where
  "go_ValidatePixKey key ty =
     (if ty = U ''cpf'' then matches (times_re 11 isDigit) key
      else if ty = U ''cnpj'' then matches (times_re 14 isDigit) key
      else if ty = U ''email'' then matches pixEmail key
      else if ty = U ''phone'' then matches (RSeq (unit_re 43) (RSeq (times_re 10 isDigit) (upto_re 5 isDigit))) key
      else if ty = U ''random'' then matches (times_re 32 hexdigit) key
      else False)"

fun pix_hint :: "pix_type \<Rightarrow> jstr" where
  "pix_hint KCpf = U ''11 d~00edgitos num~00e9ricos''"
| "pix_hint KCnpj = U ''14 d~00edgitos num~00e9ricos''"
| "pix_hint KEmail = U ''exemplo@email.com''"
| "pix_hint KPhone = U ''formato E.164, ex: +5511999990001''"
| "pix_hint KRandom = U ''32 caracteres hexadecimais''"

definition validatePixKey :: "jstr \<Rightarrow> pix_type \<Rightarrow> jstr option" where
  "validatePixKey key ty =
     (if js_trim key = [] then Some (U ''Informe a chave Pix.'')
      else if \<not> matches (pixKeyRegex ty) (js_trim key) then Some (U ''Chave inv~00e1lida. Esperado: '' @ pix_hint ty)
      else None)"

fun pixKeyTypeLabel :: "pix_type \<Rightarrow> jstr" where
  "pixKeyTypeLabel KCpf = U ''CPF''"
| "pixKeyTypeLabel KCnpj = U ''CNPJ''"
| "pixKeyTypeLabel KEmail = U ''E-mail''"
| "pixKeyTypeLabel KPhone = U ''Telefone''"
| "pixKeyTypeLabel KRandom = U ''Aleat~00f3ria''"

subsection \<open>What the expressions accept\<close>

lemma pix_type_strings: "pix_type_str a = pix_type_str b \<longleftrightarrow> a = b"
  by (cases a; cases b) (simp_all add: ustr)

lemma go_validate_cases:
  "go_ValidatePixKey k (pix_type_str KCpf) \<longleftrightarrow> matches (times_re 11 isDigit) k"
  "go_ValidatePixKey k (pix_type_str KCnpj) \<longleftrightarrow> matches (times_re 14 isDigit) k"
  "go_ValidatePixKey k (pix_type_str KEmail) \<longleftrightarrow> matches pixEmail k"
  "go_ValidatePixKey k (pix_type_str KPhone) \<longleftrightarrow>
     matches (RSeq (unit_re 43) (RSeq (times_re 10 isDigit) (upto_re 5 isDigit))) k"
  "go_ValidatePixKey k (pix_type_str KRandom) \<longleftrightarrow> matches (times_re 32 hexdigit) k"
  unfolding go_ValidatePixKey_def pix_type_str.simps by (simp_all add: ustr)

lemma phone_lang:
  "matches (pixKeyRegex KPhone) s \<longleftrightarrow>
     (\<exists>d. s = 43 # d \<and> 10 \<le> length d \<and> length d \<le> 15 \<and> (\<forall>c \<in> set d. isDigit c))"
proof
  assume "matches (pixKeyRegex KPhone) s"
  then obtain u v where "s = 43 # u @ v" "u \<in> lang (times_re 10 isDigit)" "v \<in> lang (upto_re 5 isDigit)"
    by (auto simp: matches_lang lang_Seq simp del: lang.simps(4))
  then show "\<exists>d. s = 43 # d \<and> 10 \<le> length d \<and> length d \<le> 15 \<and> (\<forall>c \<in> set d. isDigit c)"
    unfolding lang_times lang_upto by auto
next
  assume "\<exists>d. s = 43 # d \<and> 10 \<le> length d \<and> length d \<le> 15 \<and> (\<forall>c \<in> set d. isDigit c)"
  then obtain d where d: "s = 43 # d" "10 \<le> length d" "length d \<le> 15" "\<forall>c \<in> set d. isDigit c" by blast
  have "s = [43] @ take 10 d @ drop 10 d" using d by simp
  moreover have "take 10 d \<in> lang (times_re 10 isDigit)" "drop 10 d \<in> lang (upto_re 5 isDigit)"
    using d unfolding lang_times lang_upto by (auto dest: in_set_takeD in_set_dropD)
  ultimately show "matches (pixKeyRegex KPhone) s"
    unfolding matches_lang pixKeyRegex.simps lang_Seq by (metis lang_unit singletonI)
qed

lemma validate_None:
  "validatePixKey k ty = None \<longleftrightarrow> js_trim k \<noteq> [] \<and> matches (pixKeyRegex ty) (js_trim k)"
  by (simp add: validatePixKey_def)

lemma lang_nonempty: "matches (pixKeyRegex ty) s \<Longrightarrow> s \<noteq> []"
  by (cases ty) (auto simp: matches_lang lang_times lang_plus lang_Seq simp del: lang.simps(4))

lemma same_regex: "ty \<noteq> KEmail \<Longrightarrow> go_ValidatePixKey k (pix_type_str ty) \<longleftrightarrow> matches (pixKeyRegex ty) k"
  by (cases ty) (simp_all add: go_validate_cases del: pix_type_str.simps)

lemma plus_mono: "s \<in> lang (plus_re P) \<Longrightarrow> (\<And>c. P c \<Longrightarrow> Q c) \<Longrightarrow> s \<in> lang (plus_re Q)"
  by (auto simp: lang_plus)

lemma email_chars: "local_char c \<Longrightarrow> not_space_at c" "domain_char c \<Longrightarrow> not_space_at c" "letter c \<Longrightarrow> not_space_at c"
  by (auto simp: local_char_def domain_char_def not_space_at_def letter_def isDigit_def isSpace_def)

lemma email_stricter: "matches pixEmail s \<Longrightarrow> matches (pixKeyRegex KEmail) s"
proof -
  assume "matches pixEmail s"
  then obtain u v c w where s: "s = u @ [64] @ v @ [46] @ c # w" and u: "u \<in> lang (plus_re local_char)"
    and v: "v \<in> lang (plus_re domain_char)" and c: "letter c" and w: "w \<in> lang (plus_re letter)"
    unfolding matches_lang pixEmail_def lang_Seq by (auto simp del: lang.simps(4))
  have "u \<in> lang (plus_re not_space_at)" "v \<in> lang (plus_re not_space_at)" "c # w \<in> lang (plus_re not_space_at)"
    using u v c w by (auto simp: lang_plus email_chars)
  then show ?thesis
    unfolding matches_lang pixKeyRegex.simps lang_Seq s by (metis lang_unit singletonI)
qed

end
