(* ===== verification/PartnerSettings.thy ===== *)
theory PartnerSettings imports PixKey begin

text \<open>
  The settings page of the partner (\<open>apps/partner/app/(app)/parceiro/configuracoes/page.tsx\<close>): its
  state, its handlers cut at their \<open>await\<close>, and its tree.
\<close>

record settings =
  ps_me :: "partner_me option"
  ps_loading :: bool
  ps_error :: "jstr option"
  ps_type :: pix_type
  ps_value :: jstr
  ps_saving :: bool
  ps_pixError :: "jstr option"

datatype ps_event = PsType jstr | PsValue jstr | PsSave | PsCopyData | PsFixData | PsErase | PsPreferences

datatype ps_done = PsMe "api_err + partner_me" | PsSaved jstr pix_type "api_err + unit"

fun ps_opof :: "ps_done \<Rightarrow> partner_call" where
  "ps_opof (PsMe _) = PMe"
| "ps_opof (PsSaved k t _) = PUpdatePixKey k t"

definition ps_init :: "settings \<times> partner_call list" where
  "ps_init = (\<lparr> ps_me = None, ps_loading = True, ps_error = None, ps_type = KCpf, ps_value = [],
     ps_saving = False, ps_pixError = None \<rparr>, [PMe])"

definition pix_types :: "pix_type list" where
  "pix_types = [KCpf, KCnpj, KEmail, KPhone, KRandom]"

definition pix_type_of :: "jstr \<Rightarrow> pix_type option" where
  "pix_type_of v = List.find (\<lambda>t. pix_type_str t = v) pix_types"

definition handleUpdatePixKey :: "settings \<Rightarrow> settings \<times> partner_call eff list" where
  "handleUpdatePixKey s = (case validatePixKey (ps_value s) (ps_type s) of
      Some v \<Rightarrow> (s\<lparr> ps_pixError := Some v \<rparr>, [])
    | None \<Rightarrow> (s\<lparr> ps_pixError := None, ps_saving := True \<rparr>,
        [Call (PUpdatePixKey (js_trim (ps_value s)) (ps_type s))]))"

fun ps_begin :: "ps_event \<Rightarrow> settings \<Rightarrow> settings \<times> partner_call eff list" where
  "ps_begin (PsType v) s = (case pix_type_of v of Some t \<Rightarrow> (s\<lparr> ps_type := t, ps_pixError := None \<rparr>, [])
     | None \<Rightarrow> (s, []))"
| "ps_begin (PsValue v) s = (s\<lparr> ps_value := v, ps_pixError := None \<rparr>, [])"
| "ps_begin PsSave s = handleUpdatePixKey s"
| "ps_begin PsCopyData s = (s, [Toast (toast_of (U ''Solicita~00e7~00e3o enviada'')
     (Some (U ''Voc~00ea receber~00e1 uma c~00f3pia dos seus dados em at~00e9 15 dias.'')) VSuccess)])"
| "ps_begin PsFixData s = (s, [Toast (toast_of (U ''Solicita~00e7~00e3o enviada'')
     (Some (U ''Entraremos em contato para corrigir seus dados.'')) VSuccess)])"
| "ps_begin PsErase s = (s, [Toast (toast_of (U ''Tem certeza?'')
     (Some (U ''Esta a~00e7~00e3o ~00e9 irrevers~00edvel.'')) VWarning)])"
| "ps_begin PsPreferences s = (s, [Toast (toast_of (U ''Prefer~00eancias salvas'') None VSuccess)])"

fun ps_finish :: "ps_done \<Rightarrow> settings \<Rightarrow> settings \<times> partner_call eff list" where
  "ps_finish (PsMe (Inr m)) s = (s\<lparr> ps_me := Some m, ps_value := [], ps_loading := False \<rparr>, [])"
| "ps_finish (PsMe (Inl e)) s = (s\<lparr> ps_error := Some (err_message e), ps_loading := False \<rparr>, [])"
| "ps_finish (PsSaved k t (Inr _)) s = (s\<lparr> ps_value := [], ps_saving := False \<rparr>,
     [Toast (toast_of (U ''Chave Pix atualizada'') None VSuccess)])"
| "ps_finish (PsSaved k t (Inl e)) s =
     (s\<lparr> ps_pixError := Some (api_message e (U ''Erro ao atualizar chave Pix.'')), ps_saving := False \<rparr>, [])"

subsection \<open>The page\<close>

definition pix_placeholder :: "pix_type \<Rightarrow> jstr" where
  "pix_placeholder t = (if t = KCpf then U ''00000000000'' else if t = KCnpj then U ''00000000000000''
     else if t = KEmail then U ''exemplo@email.com'' else if t = KPhone then U ''+5511999990001''
     else U ''32 caracteres hexadecimais'')"

definition readonly_field :: "jstr \<Rightarrow> jstr \<Rightarrow> 'e view" where
  "readonly_field label v = N ''div'' [] [txt_el ''label'' label, N ''Input'' [A ''defaultValue'' v, Flag ''readOnly'' True] []]"

definition ps_pix_section :: "settings \<Rightarrow> ps_event view" where
  "ps_pix_section s = N ''div'' [] [txt_el ''h2'' (U ''Chave Pix''),
     txt_el ''p'' (U ''Esta chave ser~00e1 usada para receber seus pagamentos.''),
     N ''div'' []
       ([N ''div'' [] [txt_el ''label'' (U ''Tipo de chave''),
           select_el (pix_type_str (ps_type s)) PsType (map (\<lambda>t. (pix_type_str t, pixKeyTypeLabel t)) pix_types)],
         N ''div'' [] [txt_el ''label'' (U ''Chave''),
           N ''Input'' [A ''placeholder'' (pix_placeholder (ps_type s)), A ''value'' (ps_value s), On ''onChange'' PsValue] []]] @
        (case truthy_s (ps_pixError s) of None \<Rightarrow> [] | Some e \<Rightarrow> [txt_el ''p'' e]) @
        [N ''Button'' [On ''onClick'' (\<lambda>_. PsSave), Flag ''disabled'' (ps_saving s \<or> js_trim (ps_value s) = [])]
           [T (if ps_saving s then U ''Salvando...'' else U ''Salvar chave Pix'')]])]"

definition ps_lgpd_section :: "ps_event view" where
  "ps_lgpd_section = N ''div'' [] [txt_el ''h2'' (U ''Seus direitos (LGPD)''),
     txt_el ''p'' (U ''Voc~00ea tem direito sobre seus dados pessoais.''),
     N ''div'' [] [N ''Button'' [On ''onClick'' (\<lambda>_. PsCopyData)] [T (U ''Solicitar c~00f3pia dos meus dados'')],
       N ''Button'' [On ''onClick'' (\<lambda>_. PsFixData)] [T (U ''Corrigir meus dados'')],
       N ''Button'' [A ''variant'' (U ''destructive''), On ''onClick'' (\<lambda>_. PsErase)] [T (U ''Solicitar exclus~00e3o da minha conta'')]],
     N ''p'' [] [T (U ''Suas solicita~00e7~00f5es s~00e3o processadas em at~00e9 15 dias. D~00favidas? ''),
       N ''a'' [A ''href'' (U ''mailto:privacidade@indica.ai'')] [T (U ''privacidade@indica.ai'')]]]"

definition ps_notify_section :: "ps_event view" where
  "ps_notify_section = N ''div'' [] [txt_el ''h2'' (U ''Notifica~00e7~00f5es''),
     N ''div'' [] (map (\<lambda>(l, on). N ''label'' [] [txt_el ''span'' l,
         N ''input'' [A ''type'' (U ''checkbox''), Flag ''defaultChecked'' on] []])
       [(U ''E-mail sobre novas indica~00e7~00f5es'', True), (U ''E-mail sobre pagamentos'', True),
        (U ''WhatsApp sobre novas indica~00e7~00f5es'', False)]),
     N ''Button'' [On ''onClick'' (\<lambda>_. PsPreferences)] [T (U ''Salvar prefer~00eancias'')]]"

definition ps_page :: "partner_me \<Rightarrow> settings \<Rightarrow> ps_event view" where
  "ps_page m s = N ''div'' [] [txt_el ''h1'' (U ''Configura~00e7~00f5es''),
     N ''div'' [] [txt_el ''h2'' (U ''Dados pessoais''),
       N ''div'' [] [readonly_field (U ''Nome'') (pm_name m), readonly_field (U ''E-mail'') (orelse (pm_email m) []),
         readonly_field (U ''Telefone'') (orelse (pm_phone_e164 m) [])]],
     ps_pix_section s, ps_lgpd_section, ps_notify_section]"

definition ps_failed :: "jstr option \<Rightarrow> ps_event view" where
  "ps_failed e = txt_el ''div'' (orelse e (U ''N~00e3o foi poss~00edvel carregar seus dados.''))"

definition ps_view :: "settings \<Rightarrow> ps_event view" where
  "ps_view s = (if ps_loading s then txt_el ''p'' (U ''Carregando...'')
     else case ps_me s of None \<Rightarrow> ps_failed (ps_error s)
     | Some m \<Rightarrow> if truthy_s (ps_error s) \<noteq> None then ps_failed (ps_error s) else ps_page m s)"

subsection \<open>Facts\<close>

text \<open>A key that leaves the page passes the server's validation, e-mail keys apart.\<close>

lemma save_calls:
  "Call c \<in> set (snd (ps_begin ev s)) \<Longrightarrow> ev = PsSave \<and> c = PUpdatePixKey (js_trim (ps_value s)) (ps_type s) \<and>
     validatePixKey (ps_value s) (ps_type s) = None"
  by (induction ev s rule: ps_begin.induct) (auto simp: handleUpdatePixKey_def split: option.splits)

definition ps_owns_loading :: "settings \<Rightarrow> partner_call \<Rightarrow> bool" where
  "ps_owns_loading s c \<longleftrightarrow> c = PMe"

definition ps_owns_saving :: "settings \<Rightarrow> partner_call \<Rightarrow> bool" where
  "ps_owns_saving s c \<longleftrightarrow> (\<exists>k t. c = PUpdatePixKey k t)"

lemma ps_begin_cases:
  "ps_begin ev s = (s', es) \<Longrightarrow> ps_loading s' = ps_loading s \<and>
     (ps_saving s' = ps_saving s \<and> calls es = [] \<or> (\<exists>k t. calls es = [PUpdatePixKey k t]))"
  by (induction ev s rule: ps_begin.induct) (auto simp: handleUpdatePixKey_def split: option.splits)

lemma ps_finish_cases:
  "ps_finish d s = (s', es) \<Longrightarrow> calls es = [] \<and>
     (ps_opof d = PMe \<and> \<not> ps_loading s' \<and> ps_saving s' = ps_saving s \<or>
      (\<exists>k t. ps_opof d = PUpdatePixKey k t) \<and> ps_loading s' = ps_loading s \<and> \<not> ps_saving s')"
  by (induction d s rule: ps_finish.induct) auto

interpretation psL: spinner ps_begin ps_finish ps_opof ps_init ps_owns_loading ps_loading
proof unfold_locales
  show "ps_loading (fst ps_init) \<Longrightarrow> \<exists>c\<in>set (snd ps_init). ps_owns_loading (fst ps_init) c"
    by (simp add: ps_init_def ps_owns_loading_def)
qed (use ps_begin_cases ps_finish_cases in \<open>fastforce simp: ps_owns_loading_def\<close>)+

interpretation psS: spinner ps_begin ps_finish ps_opof ps_init ps_owns_saving ps_saving
proof unfold_locales
  show "ps_saving (fst ps_init) \<Longrightarrow> \<exists>c\<in>set (snd ps_init). ps_owns_saving (fst ps_init) c"
    by (simp add: ps_init_def)
qed (use ps_begin_cases ps_finish_cases in \<open>fastforce simp: ps_owns_saving_def\<close>)+

end
