(* ===== verification/NovaIndicacao.thy ===== *)
theory NovaIndicacao imports PartnerApi React View PixKey begin

text \<open>
  \<open>apps/partner/app/(app)/parceiro/indicacoes/nova/page.tsx\<close>: a partner registers a lead and, where
  the programme allows it, splits the benefit between commission and discount. The rule that splits
  a sale on the server (\<open>FlexibleSplitEvaluator\<close> of \<open>internal/domain/rules/evaluators.go\<close>) is modelled
  beside it: the split the page lets through is one the server accepts.

  The effect that copies the preset into the two percentages runs after the render that changed one
  of its inputs; \<open>ni_sync\<close> is that effect, applied by every handler that changes them.
\<close>

definition normalizePhone :: "jstr \<Rightarrow> jstr" where
  "normalizePhone raw = (let digits = js_onlyDigits raw in
     if digits = [] then []
     else if length digits = 10 \<or> length digits = 11 then U ''+55'' @ digits
     else U ''+'' @ digits)"

record split_preset =
  sx_key :: jstr
  sx_label :: jstr
  sx_description :: jstr
  sx_build :: "jsnum \<Rightarrow> split_choice"

definition presets :: "split_preset list" where
  "presets = [
     \<lparr> sx_key = U ''all_commission'', sx_label = U ''Tudo como comiss~00e3o'',
       sx_description = U ''Voc~00ea fica com o benef~00edcio inteiro.'',
       sx_build = (\<lambda>m. \<lparr> sc_commission_pct = m, sc_discount_pct = Fin 0 \<rparr>) \<rparr>,
     \<lparr> sx_key = U ''half'', sx_label = U ''Meio a meio'',
       sx_description = U ''Metade pra voc~00ea, metade desconto pro cliente.'',
       sx_build = (\<lambda>m. \<lparr> sc_commission_pct = js_div m (Fin 2), sc_discount_pct = js_div m (Fin 2) \<rparr>) \<rparr>,
     \<lparr> sx_key = U ''all_discount'', sx_label = U ''Tudo como desconto'',
       sx_description = U ''Cliente paga menos. Bom argumento de venda.'',
       sx_build = (\<lambda>m. \<lparr> sc_commission_pct = Fin 0, sc_discount_pct = m \<rparr>) \<rparr>]"

subsection \<open>State and handlers\<close>

record nova =
  ni_me :: "partner_me option"
  ni_loadingMe :: bool
  ni_nome :: jstr
  ni_phone :: jstr
  ni_email :: jstr
  ni_notes :: jstr
  ni_isLoading :: bool
  ni_presetKey :: jstr
  ni_customMode :: bool
  ni_commissionPct :: jsnum
  ni_discountPct :: jsnum

definition ni_reward :: "nova \<Rightarrow> reward_rules option" where
  "ni_reward s = Option.bind (Option.bind (ni_me s) pm_program_rules) pl_reward"

definition isFlexible :: "nova \<Rightarrow> bool" where
  "isFlexible s \<longleftrightarrow> map_option rr_type (ni_reward s) = Some (U ''flexible_split'')"

definition maxPct :: "nova \<Rightarrow> jsnum" where
  "maxPct s = orelse (Option.bind (ni_reward s) rr_max_pct) (Fin 0)"

definition ni_sync :: "nova \<Rightarrow> nova" where
  "ni_sync s = (if \<not> isFlexible s \<or> ni_customMode s then s
     else case List.find (\<lambda>p. sx_key p = ni_presetKey s) presets of None \<Rightarrow> s
       | Some p \<Rightarrow> (let c = sx_build p (maxPct s) in
           s\<lparr> ni_commissionPct := sc_commission_pct c, ni_discountPct := sc_discount_pct c \<rparr>))"

definition totalSplit :: "nova \<Rightarrow> jsnum" where
  "totalSplit s = js_add (ni_commissionPct s) (ni_discountPct s)"

definition tolerance :: jsnum where
  "tolerance = mk (1 / 1000)"

definition splitInvalid :: "nova \<Rightarrow> bool" where
  "splitInvalid s \<longleftrightarrow> isFlexible s \<and> js_lt (js_add (maxPct s) tolerance) (totalSplit s)"

definition computedSplit :: "nova \<Rightarrow> split_choice option" where
  "computedSplit s = (if \<not> isFlexible s then None
     else Some \<lparr> sc_commission_pct = ni_commissionPct s, sc_discount_pct = ni_discountPct s \<rparr>)"

definition ni_request :: "nova \<Rightarrow> create_partner_lead" where
  "ni_request s = \<lparr> cl_name = nonempty (ni_nome s), cl_phone_e164 = normalizePhone (ni_phone s),
     cl_email = nonempty (ni_email s), cl_notes = nonempty (ni_notes s), cl_split_choice = computedSplit s \<rparr>"

definition handleSubmit :: "nova \<Rightarrow> nova \<times> partner_call eff list" where
  "handleSubmit s =
     (if js_trim (ni_phone s) = [] then
        (s, [Toast (toast_of (U ''WhatsApp obrigat~00f3rio'') (Some (U ''Informe o telefone da pessoa.'')) VError)])
      else if splitInvalid s then
        (s, [Toast (toast_of (U ''Divis~00e3o inv~00e1lida'')
               (Some (U ''Comiss~00e3o + desconto n~00e3o pode passar de '' @ num_str (maxPct s) @ U ''%.'')) VError)])
      else (s\<lparr> ni_isLoading := True \<rparr>, [Call (PCreateLead (ni_request s))]))"

datatype ni_event = NiNome jstr | NiPhone jstr | NiEmail jstr | NiNotes jstr | NiPreset jstr | NiCustom
  | NiCommission jstr | NiDiscount jstr | NiSubmit

definition ni_num :: "jstr \<Rightarrow> jsnum" where
  "ni_num v = (let n = js_Number v in if num_truthy n then n else Fin 0)"

fun ni_begin :: "ni_event \<Rightarrow> nova \<Rightarrow> nova \<times> partner_call eff list" where
  "ni_begin (NiNome v) s = (s\<lparr> ni_nome := v \<rparr>, [])"
| "ni_begin (NiPhone v) s = (s\<lparr> ni_phone := v \<rparr>, [])"
| "ni_begin (NiEmail v) s = (s\<lparr> ni_email := v \<rparr>, [])"
| "ni_begin (NiNotes v) s = (s\<lparr> ni_notes := v \<rparr>, [])"
| "ni_begin (NiPreset k) s = (ni_sync (s\<lparr> ni_customMode := False, ni_presetKey := k \<rparr>), [])"
| "ni_begin NiCustom s = (ni_sync (s\<lparr> ni_customMode := True \<rparr>), [])"
| "ni_begin (NiCommission v) s = (s\<lparr> ni_commissionPct := ni_num v \<rparr>, [])"
| "ni_begin (NiDiscount v) s = (s\<lparr> ni_discountPct := ni_num v \<rparr>, [])"
| "ni_begin NiSubmit s = handleSubmit s"

datatype ni_done = NiMe "api_err + partner_me" | NiCreated create_partner_lead "api_err + unit"

fun ni_opof :: "ni_done \<Rightarrow> partner_call" where
  "ni_opof (NiMe _) = PMe" | "ni_opof (NiCreated d _) = PCreateLead d"

fun ni_finish :: "ni_done \<Rightarrow> nova \<Rightarrow> nova \<times> partner_call eff list" where
  "ni_finish (NiMe (Inr m)) s = (ni_sync (s\<lparr> ni_me := Some m, ni_loadingMe := False \<rparr>), [])"
| "ni_finish (NiMe (Inl e)) s = (ni_sync (s\<lparr> ni_me := None, ni_loadingMe := False \<rparr>), [])"
| "ni_finish (NiCreated d (Inr _)) s =
     (s, [Toast (toast_of (U ''Indica~00e7~00e3o cadastrada!'') None VSuccess), PushLater 600 (U ''/parceiro/indicacoes'')])"
| "ni_finish (NiCreated d (Inl e)) s = (s\<lparr> ni_isLoading := False \<rparr>,
     [Toast (toast_of (U ''N~00e3o foi poss~00edvel cadastrar'') (Some (api_message e (U ''Erro inesperado''))) VError)])"

definition ni_init :: "nova \<times> partner_call list" where
  "ni_init = (\<lparr> ni_me = None, ni_loadingMe = True, ni_nome = [], ni_phone = [], ni_email = [], ni_notes = [],
     ni_isLoading = False, ni_presetKey = U ''all_commission'', ni_customMode = False,
     ni_commissionPct = Fin 0, ni_discountPct = Fin 0 \<rparr>, [PMe])"

subsection \<open>The page\<close>

definition card_class :: "bool \<Rightarrow> jstr" where
  "card_class b = (if b then U ''border-primary bg-primary-light''
     else U ''border-neutral-200 hover:border-neutral-300 dark:border-neutral-800'')"

definition preset_button :: "nova \<Rightarrow> split_preset \<Rightarrow> ni_event view" where
  "preset_button s p = (let c = sx_build p (maxPct s) in
     N ''button'' [A ''key'' (sx_key p), A ''type'' (U ''button''), On ''onClick'' (\<lambda>_. NiPreset (sx_key p)),
         A ''className'' (card_class (\<not> ni_customMode s \<and> ni_presetKey s = sx_key p))]
       [N ''div'' [] [txt_el ''span'' (sx_label p),
          txt_el ''span'' (num_str (sc_commission_pct c) @ U ''% pra voc~00ea ~00b7 '' @ num_str (sc_discount_pct c) @ U ''% desconto'')],
        txt_el ''p'' (sx_description p)])"

definition pct_input :: "nova \<Rightarrow> jstr \<Rightarrow> jsnum \<Rightarrow> (jstr \<Rightarrow> ni_event) \<Rightarrow> ni_event view" where
  "pct_input s label v h = N ''div'' [] [txt_el ''label'' label,
     N ''Input'' [A ''type'' (U ''number''), A ''min'' (U ''0''), A ''max'' (num_str (maxPct s)), A ''step'' (U ''0.5''),
       A ''value'' (num_str v), On ''onChange'' h] []]"

definition split_section :: "nova \<Rightarrow> ni_event view" where
  "split_section s = N ''div'' []
     ([txt_el ''p'' (U ''Como voc~00ea quer usar o benef~00edcio?''),
       N ''p'' [] [T (U ''Este programa libera at~00e9 ''), N ''b'' [] [T (num_str (maxPct s) @ U ''%'')],
         T (U '' sobre cada venda. Voc~00ea escolhe quanto pega de comiss~00e3o e quanto vira desconto pro cliente.'')],
       N ''div'' [] (map (preset_button s) presets @
         [N ''button'' [A ''type'' (U ''button''), On ''onClick'' (\<lambda>_. NiCustom), A ''className'' (card_class (ni_customMode s))]
            [N ''div'' [] (txt_el ''span'' (U ''Personalizar'') #
               whenl (ni_customMode s) [txt_el ''span'' (U ''soma deve ficar ~2264 '' @ num_str (maxPct s) @ U ''%'')])]])] @
      whenl (ni_customMode s)
        [N ''div'' [] [pct_input s (U ''Comiss~00e3o pra voc~00ea (%)'') (ni_commissionPct s) NiCommission,
           pct_input s (U ''Desconto pro cliente (%)'') (ni_discountPct s) NiDiscount]] @
      [N ''div'' [A ''className'' (if splitInvalid s then U ''bg-error/10 text-error''
           else U ''bg-neutral-100 text-neutral-600 dark:bg-neutral-800 dark:text-neutral-400'')]
         ([T (U ''Total escolhido: ''), N ''b'' [] [T (toFixed 1 (totalSplit s) @ U ''%'')],
           T (U '' de '' @ num_str (maxPct s) @ U ''%'')] @
          whenl (splitInvalid s) [T (U '' ~2014 passou do teto'')])])"

definition ni_view :: "nova \<Rightarrow> ni_event view" where
  "ni_view s = N ''div'' []
     [N ''div'' [] [N ''Link'' [A ''href'' (U ''/parceiro/indicacoes'')] [N ''Button'' [] [T (U ''~2190 Voltar'')]],
        txt_el ''h1'' (U ''Nova indica~00e7~00e3o'')],
      N ''div'' [] [txt_el ''h2'' (U ''Quem voc~00ea est~00e1 indicando?''),
        N ''form'' [On ''onSubmit'' (\<lambda>_. NiSubmit)]
          ([N ''div'' [] [txt_el ''label'' (U ''Nome da pessoa''),
              N ''Input'' [A ''placeholder'' (U ''Nome completo''), A ''value'' (ni_nome s), On ''onChange'' NiNome] []],
            N ''div'' [] [txt_el ''label'' (U ''WhatsApp (com DDD)''),
              N ''Input'' [A ''placeholder'' (U ''(11) 99999-0000''), A ''value'' (ni_phone s), On ''onChange'' NiPhone,
                Flag ''required'' True] []],
            N ''div'' [] [txt_el ''label'' (U ''E-mail (opcional)''),
              N ''Input'' [A ''type'' (U ''email''), A ''placeholder'' (U ''email@exemplo.com''), A ''value'' (ni_email s),
                On ''onChange'' NiEmail] []]] @
           whenl (ni_loadingMe s) [txt_el ''p'' (U ''Carregando programa...'')] @
           whenl (isFlexible s) [split_section s] @
           [N ''div'' [] [txt_el ''label'' (U ''Notas (opcional)''),
              N ''textarea'' [A ''placeholder'' (U ''Alguma observa~00e7~00e3o...''), A ''value'' (ni_notes s), On ''onChange'' NiNotes] []],
            N ''Button'' [A ''type'' (U ''submit''), Flag ''disabled'' (ni_isLoading s \<or> splitInvalid s)]
              [T (if ni_isLoading s then U ''Cadastrando...'' else U ''Cadastrar indica~00e7~00e3o'')]])]]"

subsection \<open>The split on the server\<close>

text \<open>
  \<open>FlexibleSplitEvaluator.Evaluate\<close>: the cents of commission and of discount for a sale, or the
  error. \<open>math.Round\<close> rounds halves away from zero.
\<close>

definition go_round :: "jsnum \<Rightarrow> int option" where
  "go_round x = (case x of Fin a \<Rightarrow> Some (if 0 \<le> a then \<lfloor>a + 1 / 2\<rfloor> else - \<lfloor>- a + 1 / 2\<rfloor>) | _ \<Rightarrow> None)"

definition go_share :: "int \<Rightarrow> jsnum \<Rightarrow> int option" where
  "go_share sale p = go_round (js_div (js_mul (num_int sale) p) (Fin 100))"

definition go_flexible_split :: "jsnum \<Rightarrow> int \<Rightarrow> split_choice option \<Rightarrow> jstr + (int option \<times> int option)" where
  "go_flexible_split mx sale choice =
     (if sale \<le> 0 then Inl (U ''sale amount required for flexible_split'')
      else let c = orelse choice \<lparr> sc_commission_pct = mx, sc_discount_pct = Fin 0 \<rparr>;
               total = js_add (sc_commission_pct c) (sc_discount_pct c)
           in if js_lt mx total then Inl (U ''split total exceeds max'')
              else Inr (go_share sale (sc_commission_pct c), go_share sale (sc_discount_pct c)))"

subsection \<open>Telephone numbers\<close>

lemma phone_shape:
  "normalizePhone raw = [] \<or> (\<exists>d. normalizePhone raw = 43 # d \<and> d \<noteq> [] \<and> (\<forall>c \<in> set d. isDigit c))"
  by (auto simp: normalizePhone_def Let_def U.simps js_onlyDigits_def) (simp_all add: isDigit_def)

lemma phone_digits: "js_onlyDigits (normalizePhone raw) =
   (if length (js_onlyDigits raw) = 10 \<or> length (js_onlyDigits raw) = 11
    then [53, 53] @ js_onlyDigits raw else js_onlyDigits raw)"
proof -
  have "isDigit 53" "\<not> isDigit 43" by (simp_all add: isDigit_def)
  then show ?thesis by (auto simp: normalizePhone_def Let_def U.simps js_onlyDigits_def)
qed

lemma phone_idem: "normalizePhone (normalizePhone raw) = normalizePhone raw"
proof -
  have "normalizePhone (normalizePhone raw) = (let d = js_onlyDigits (normalizePhone raw) in
     if d = [] then [] else if length d = 10 \<or> length d = 11 then U ''+55'' @ d else U ''+'' @ d)"
    by (simp only: normalizePhone_def [of "normalizePhone raw"])
  then show ?thesis unfolding phone_digits by (auto simp: normalizePhone_def Let_def U.simps)
qed

lemma phone_e164:
  assumes "10 \<le> length (js_onlyDigits raw)" "length (js_onlyDigits raw) \<le> 15"
  shows "matches (pixKeyRegex KPhone) (normalizePhone raw)"
proof -
  have d: "\<forall>c \<in> set (js_onlyDigits raw). isDigit c" by (simp add: js_onlyDigits_def)
  have "normalizePhone raw = 43 # (if length (js_onlyDigits raw) = 10 \<or> length (js_onlyDigits raw) = 11
     then 53 # 53 # js_onlyDigits raw else js_onlyDigits raw)"
    using assms by (auto simp: normalizePhone_def Let_def U.simps)
  then show ?thesis unfolding phone_lang using assms d by (auto simp: isDigit_def)
qed

subsection \<open>Presets\<close>

text \<open>A ceiling a programme can have: a number of the format, positive, at most a hundred.\<close>

definition ceiling_ok :: "rat \<Rightarrow> bool" where
  "ceiling_ok q \<longleftrightarrow> fl q = q \<and> 1 / 100 \<le> q \<and> q \<le> 100"

lemma ceiling_mk: "ceiling_ok q \<Longrightarrow> mk q = Fin q"
  using mk_finite [of q] by (simp add: ceiling_ok_def)

lemma ceiling_half:
  assumes "ceiling_ok q"
  shows "js_div (Fin q) (Fin 2) = Fin (q / 2)"
proof -
  have "(2::rat) powi (- 1021) \<le> 2 powi (- 7)" by (rule power_int_increasing) simp_all
  also have "\<dots> = 1 / 128" by (simp add: power_int_minus)
  also have "\<dots> \<le> \<bar>q\<bar>" using assms by (simp add: ceiling_ok_def)
  finally have "fl (q / 2) = q / 2" using assms by (intro fl_half) (auto simp: ceiling_ok_def)
  then show ?thesis using assms mk_finite [of "q / 2"] by (simp add: ceiling_ok_def)
qed

lemma preset_total:
  assumes "ceiling_ok q" "p \<in> set presets"
  shows "js_add (sc_commission_pct (sx_build p (Fin q))) (sc_discount_pct (sx_build p (Fin q))) = Fin q"
  using assms ceiling_mk [OF assms(1)] ceiling_half [OF assms(1)] by (auto simp: presets_def)

lemma tolerance_bounds: "\<exists>t. tolerance = Fin t \<and> 1 / 1024 \<le> t \<and> t \<le> 2 / 1000"
proof -
  have "fl (1 / 1000) < 1 / 1000 + 1 / 10 ^ 10" "1 / 1000 - 1 / 10 ^ 10 < fl (1 / 1000)"
    by (rule fl_close [of "1/1000"]; simp)+
  then show ?thesis using mk_finite [of "1/1000"] by (simp add: tolerance_def)
qed

lemma ceiling_slack:
  assumes "ceiling_ok q"
  obtains u where "js_add (Fin q) tolerance = Fin u" "q < u" "u < q + 1 / 100"
proof -
  obtain t where t: "tolerance = Fin t" "1 / 1024 \<le> t" "t \<le> 2 / 1000" using tolerance_bounds by blast
  have b: "1 / 1024 \<le> \<bar>q + t\<bar>" "\<bar>q + t\<bar> \<le> 1024" using t assms by (simp_all add: ceiling_ok_def)
  note fc = fl_close [OF b]
  have u: "q < fl (q + t)" "fl (q + t) < q + 1 / 100" using fc t by simp_all
  have "\<bar>fl (q + t)\<bar> \<le> 2048" using u assms by (simp add: ceiling_ok_def)
  then have "js_add (Fin q) tolerance = Fin (fl (q + t))" by (simp add: t(1) mk_finite)
  then show ?thesis using u by (rule that)
qed

lemma split_within:
  assumes "ceiling_ok q" "t \<le> q"
  shows "\<not> js_lt (js_add (Fin q) tolerance) (Fin t)"
proof -
  obtain u where "js_add (Fin q) tolerance = Fin u" "q < u" by (rule ceiling_slack [OF assms(1)])
  then show ?thesis using assms(2) by simp
qed

lemma server_accepts:
  assumes "0 < sale" "\<not> js_lt mx (js_add (sc_commission_pct c) (sc_discount_pct c))"
  shows "\<exists>r. go_flexible_split mx sale (Some c) = Inr r"
  using assms by (simp add: go_flexible_split_def Let_def)

text \<open>With a ceiling and percentages in steps of one half, as the inputs have them, the page and the
  server agree on which splits are within the ceiling.\<close>

lemma half_steps_agree:
  assumes "1 \<le> m" "m \<le> 200" "\<bar>a\<bar> \<le> 2 ^ 50" "\<bar>b\<bar> \<le> 2 ^ 50"
  defines "mx \<equiv> Fin (of_int m / 2)"
  shows "js_lt (js_add mx tolerance) (js_add (Fin (of_int a / 2)) (Fin (of_int b / 2))) \<longleftrightarrow>
         js_lt mx (js_add (Fin (of_int a / 2)) (Fin (of_int b / 2)))"
proof -
  have m: "of_int 1 \<le> (of_int m::rat)" "(of_int m::rat) \<le> of_int 200"
    using assms(1,2) by (simp_all only: of_int_le_iff)
  have "\<bar>m\<bar> \<le> 2 ^ 53" using assms(1,2) by simp
  then have "fl (of_int m / 2) = of_int m / 2"
    by (intro fl_exact [of _ m "- 1"]) (auto simp: power_int_minus)
  then have c: "ceiling_ok (of_int m / 2)" using m by (simp add: ceiling_ok_def)
  obtain u where u: "js_add mx tolerance = Fin u" "of_int m / 2 < u" "u < of_int m / 2 + 1 / 100"
    using ceiling_slack [OF c] unfolding mx_def by metis
  have "\<bar>a + b\<bar> \<le> 2 ^ 53" using assms(3,4) by simp
  then have s: "js_add (Fin (of_int a / 2)) (Fin (of_int b / 2)) = Fin (of_int (a + b) / 2)"
    using mk_half_int [of "a + b"] by (simp add: add_divide_distrib)
  have "u < of_int (a + b) / 2 \<longleftrightarrow> m < a + b"
  proof
    assume "u < of_int (a + b) / 2"
    with u(2) have "(of_int m::rat) < of_int (a + b)" by simp
    then show "m < a + b" by (simp only: of_int_less_iff)
  next
    assume "m < a + b"
    then have "(of_int (m + 1)::rat) \<le> of_int (a + b)" by (simp only: of_int_le_iff)
    then show "u < of_int (a + b) / 2" using u(3) by simp
  qed
  moreover have "(of_int m / 2 < (of_int (a + b) / 2 :: rat)) \<longleftrightarrow> m < a + b"
    by (simp add: divide_less_cancel del: of_int_add)
  ultimately show ?thesis unfolding u(1) s by (simp add: mx_def del: of_int_add)
qed

subsection \<open>Outside the custom mode the split is never invalid\<close>

text \<open>The server validates a programme before it stores it: a flexible split has a ceiling.\<close>

definition me_ok :: "partner_me \<Rightarrow> bool" where
  "me_ok m \<longleftrightarrow> (\<forall>r. Option.bind (pm_program_rules m) pl_reward = Some r \<longrightarrow> rr_type r = U ''flexible_split'' \<longrightarrow>
     (\<exists>q. rr_max_pct r = Some (Fin q) \<and> ceiling_ok q))"

fun reply_ok :: "ni_done \<Rightarrow> bool" where
  "reply_ok (NiMe (Inr m)) = me_ok m" | "reply_ok _ = True"

inductive ni_reach :: "nova \<Rightarrow> bool" where
  start: "ni_reach (fst ni_init)"
| user: "ni_reach s \<Longrightarrow> causes (ni_view s) ev \<Longrightarrow> ni_reach (fst (ni_begin ev s))"
| reply: "ni_reach s \<Longrightarrow> reply_ok d \<Longrightarrow> ni_reach (fst (ni_finish d s))"

definition by_preset :: "nova \<Rightarrow> bool" where
  "by_preset s \<longleftrightarrow> (\<exists>p \<in> set presets. ni_commissionPct s = sc_commission_pct (sx_build p (maxPct s)) \<and>
     ni_discountPct s = sc_discount_pct (sx_build p (maxPct s)))"

definition ni_inv :: "nova \<Rightarrow> bool" where
  "ni_inv s \<longleftrightarrow> (\<exists>p \<in> set presets. sx_key p = ni_presetKey s) \<and>
     (isFlexible s \<longrightarrow> (\<exists>q. maxPct s = Fin q \<and> ceiling_ok q)) \<and>
     (isFlexible s \<longrightarrow> \<not> ni_customMode s \<longrightarrow> by_preset s)"

lemma by_preset_total:
  assumes "by_preset s" "maxPct s = Fin q" "ceiling_ok q"
  shows "totalSplit s = maxPct s"
  using assms preset_total [OF assms(3)] by (auto simp: by_preset_def totalSplit_def)

text \<open>The two percentages are shares of the ceiling.\<close>

lemma by_preset_shares:
  assumes "by_preset s" "maxPct s = Fin q" "ceiling_ok q"
  obtains a b where "ni_commissionPct s = Fin a" "ni_discountPct s = Fin b" "0 \<le> a" "0 \<le> b" "a + b = q"
proof -
  have "0 \<le> q" "0 \<le> q / 2" "q / 2 + q / 2 = q" using assms(3) by (simp_all add: ceiling_ok_def)
  moreover have "js_div (Fin q) (Fin 2) = Fin (q / 2)" by (rule ceiling_half [OF assms(3)])
  ultimately show ?thesis using assms(1,2) that [of q 0] that [of "q / 2" "q / 2"] that [of 0 q]
    by (auto simp: by_preset_def presets_def simp del: js_div.simps)
qed

lemma sync_fields [simp]:
  "ni_me (ni_sync s) = ni_me s" "ni_customMode (ni_sync s) = ni_customMode s" "ni_presetKey (ni_sync s) = ni_presetKey s"
  by (simp_all add: ni_sync_def Let_def split: option.splits)

lemma derived_me:
  "ni_me s = ni_me t \<Longrightarrow> isFlexible s = isFlexible t" "ni_me s = ni_me t \<Longrightarrow> maxPct s = maxPct t"
  by (simp_all add: isFlexible_def maxPct_def ni_reward_def)

lemma sync_by_preset:
  assumes "\<exists>p \<in> set presets. sx_key p = ni_presetKey s" "isFlexible s" "\<not> ni_customMode s"
  shows "by_preset (ni_sync s)"
proof -
  obtain p where p: "List.find (\<lambda>p. sx_key p = ni_presetKey s) presets = Some p"
    using assms(1) find_None_all [of "\<lambda>p. sx_key p = ni_presetKey s" presets]
    by (cases "List.find (\<lambda>p. sx_key p = ni_presetKey s) presets") blast+
  then have "p \<in> set presets" by (simp add: find_Some_in)
  moreover have "maxPct (ni_sync s) = maxPct s" by (rule derived_me) simp
  ultimately show ?thesis using assms(2,3) p unfolding by_preset_def
    by (intro bexI [of _ p]) (simp_all add: ni_sync_def Let_def)
qed

lemma sync_inv:
  assumes "\<exists>p \<in> set presets. sx_key p = ni_presetKey s"
    and "isFlexible s \<Longrightarrow> \<exists>q. maxPct s = Fin q \<and> ceiling_ok q"
  shows "ni_inv (ni_sync s)"
proof -
  have d: "isFlexible (ni_sync s) = isFlexible s" "maxPct (ni_sync s) = maxPct s"
    by (rule derived_me; simp)+
  have "by_preset (ni_sync s)" if "isFlexible s" "\<not> ni_customMode s"
    using sync_by_preset [OF assms(1) that] .
  then show ?thesis unfolding ni_inv_def sync_fields d using assms by blast
qed

lemma inv_frame:
  assumes "ni_inv s" "ni_me t = ni_me s" "ni_presetKey t = ni_presetKey s" "ni_customMode t = ni_customMode s"
    and "ni_customMode s \<or> (ni_commissionPct t = ni_commissionPct s \<and> ni_discountPct t = ni_discountPct s)"
  shows "ni_inv t"
proof -
  have d: "isFlexible t = isFlexible s" "maxPct t = maxPct s" by (rule derived_me; use assms(2) in simp)+
  have "ni_customMode s \<or> by_preset t = by_preset s" using assms(5) unfolding by_preset_def d by metis
  then show ?thesis using assms(1) unfolding ni_inv_def assms(3,4) d by auto
qed

lemma ni_custom_events:
  assumes "causes (ni_view s) ev"
  shows "\<And>v. ev = NiCommission v \<Longrightarrow> ni_customMode s" "\<And>v. ev = NiDiscount v \<Longrightarrow> ni_customMode s"
    "\<And>k. ev = NiPreset k \<Longrightarrow> \<exists>p \<in> set presets. sx_key p = k"
  using assms
  by (auto simp: ni_view_def causes_N split_section_def preset_button_def pct_input_def Let_def split: if_splits)

lemma ni_begin_inv:
  assumes "ni_inv s" "causes (ni_view s) ev"
  shows "ni_inv (fst (ni_begin ev s))"
proof (cases ev)
  case (NiPreset k)
  let ?t = "s\<lparr> ni_customMode := False, ni_presetKey := k \<rparr>"
  have "\<exists>p \<in> set presets. sx_key p = k" using ni_custom_events(3) [OF assms(2) NiPreset] .
  moreover have "isFlexible ?t = isFlexible s" "maxPct ?t = maxPct s" by (rule derived_me; simp)+
  ultimately have "ni_inv (ni_sync ?t)" using assms(1) by (intro sync_inv) (simp_all add: ni_inv_def)
  then show ?thesis using NiPreset by simp
next
  case NiCustom
  let ?t = "s\<lparr> ni_customMode := True \<rparr>"
  have "isFlexible ?t = isFlexible s" "maxPct ?t = maxPct s" by (rule derived_me; simp)+
  then have "ni_inv (ni_sync ?t)" using assms(1) by (intro sync_inv) (simp_all add: ni_inv_def)
  then show ?thesis using NiCustom by simp
next
  case (NiCommission v)
  then show ?thesis using assms ni_custom_events(1) [OF assms(2) NiCommission] by (auto intro: inv_frame)
next
  case (NiDiscount v)
  then show ?thesis using assms ni_custom_events(2) [OF assms(2) NiDiscount] by (auto intro: inv_frame)
next
  case NiSubmit
  then show ?thesis using assms(1) by (auto simp: handleSubmit_def intro: inv_frame)
qed (use assms(1) in \<open>auto intro: inv_frame\<close>)

lemma me_ceiling:
  assumes "me_ok m" "ni_me t = Some m" "isFlexible t"
  shows "\<exists>q. maxPct t = Fin q \<and> ceiling_ok q"
proof -
  have r: "ni_reward t = Option.bind (pm_program_rules m) pl_reward" using assms(2) by (simp add: ni_reward_def)
  obtain r where "ni_reward t = Some r" "rr_type r = U ''flexible_split''"
    using assms(3) by (auto simp: isFlexible_def)
  then show ?thesis using assms(1) r by (auto simp: me_ok_def maxPct_def)
qed

lemma ni_finish_inv:
  assumes "ni_inv s" "reply_ok d"
  shows "ni_inv (fst (ni_finish d s))"
  using assms
proof (induction d s rule: ni_finish.induct)
  case (1 m s)
  let ?t = "s\<lparr> ni_me := Some m, ni_loadingMe := False \<rparr>"
  have "ni_inv (ni_sync ?t)"
    by (rule sync_inv) (use 1 me_ceiling [of m ?t] in \<open>auto simp: ni_inv_def\<close>)
  then show ?case by simp
next
  case (2 e s)
  let ?t = "s\<lparr> ni_me := None, ni_loadingMe := False \<rparr>"
  have "ni_inv (ni_sync ?t)"
    by (rule sync_inv) (use 2 in \<open>auto simp: ni_inv_def isFlexible_def ni_reward_def\<close>)
  then show ?case by simp
qed (auto intro: inv_frame)

lemma ni_reach_inv: "ni_reach s \<Longrightarrow> ni_inv s"
proof (induction rule: ni_reach.induct)
  case start
  show ?case by (simp add: ni_init_def ni_inv_def isFlexible_def ni_reward_def presets_def)
qed (simp_all add: ni_begin_inv ni_finish_inv)

lemma ni_inv_valid:
  assumes "ni_inv s" "\<not> ni_customMode s"
  shows "\<not> splitInvalid s"
  using assms split_within by_preset_total by (fastforce simp: ni_inv_def splitInvalid_def)

lemma ni_inv_total:
  assumes "ni_inv s" "isFlexible s" "\<not> ni_customMode s"
  shows "\<exists>q. maxPct s = Fin q \<and> ceiling_ok q \<and> totalSplit s = Fin q \<and> by_preset s"
  using assms by_preset_total by (auto simp: ni_inv_def)

subsection \<open>A page with a flexible programme\<close>

definition flexible_me :: partner_me where
  "flexible_me = \<lparr> pm_partner_id = [112], pm_name = [65], pm_email = None, pm_phone_e164 = None, pm_status = [],
     pm_program_id = [], pm_program_name = [80],
     pm_program_rules = Some \<lparr> pl_schemaVersion = None, pl_trigger = None, pl_attributionWindowDays = None,
       pl_reward = Some \<lparr> rr_type = U ''flexible_split'', rr_max_pct = Some (Fin 20), rr_amount_brl = None, rr_pct = None,
         rr_metric = None, rr_tiers = None \<rparr>, pl_payout = None, pl_limits = None \<rparr>,
     pm_link_url = None, pm_clicks = Fin 0, pm_referrals = Fin 0, pm_pending_rewards_cents = Fin 0,
     pm_approved_rewards_cents = Fin 0, pm_paid_rewards_cents = Fin 0, pm_created_at = [] \<rparr>"

definition flexible_page :: nova where
  "flexible_page = fst (ni_finish (NiMe (Inr flexible_me)) (fst ni_init))"

lemma flexible_page_reach: "ni_reach flexible_page"
proof -
  have "fl 20 = 20" using fl_of_int [of 20] by simp
  then have "me_ok flexible_me" by (simp add: me_ok_def flexible_me_def ceiling_ok_def)
  then show ?thesis unfolding flexible_page_def by (intro ni_reach.reply ni_reach.start) simp
qed

lemma flexible_page_flexible: "isFlexible flexible_page" "\<not> ni_customMode flexible_page" "maxPct flexible_page = Fin 20"
proof -
  have m: "ni_me flexible_page = Some flexible_me" by (simp add: flexible_page_def)
  show "isFlexible flexible_page" "maxPct flexible_page = Fin 20"
    using m by (simp_all add: isFlexible_def maxPct_def ni_reward_def flexible_me_def)
  show "\<not> ni_customMode flexible_page" by (simp add: flexible_page_def ni_init_def)
qed

end
