(* ===== verification/Access.thy ===== *)
theory Access imports DashboardApi PartnerApi React View begin

text \<open>
  How a user gets in: the guards of the two applications (\<open>app/components/auth-guard.tsx\<close>), sign-in,
  registration and password recovery of the dashboard (\<open>apps/dashboard/app/(auth)\<close>), and the magic
  link of the partners (\<open>apps/partner/app/(auth)\<close>).

  The forms of the dashboard are run by react-hook-form with a zod schema. The library calls
  \<open>onSubmit\<close> on data the schema accepts; \<open>emailOk\<close> stands for zod's e-mail check. These pages call
  \<open>fetch\<close> themselves, so their replies are raw outcomes.
\<close>

subsection \<open>The guards\<close>

datatype guard = GuardLoading | GuardOpen

text \<open>\<open>e.status\<close>: only an \<open>ApiError\<close> has one.\<close>

fun err_status :: "api_err \<Rightarrow> nat option" where
  "err_status (ApiErr _ n) = Some n"
| "err_status _ = None"

fun guard_finish :: "api_err + 'a \<Rightarrow> guard \<Rightarrow> guard \<times> dash_call eff list" where
  "guard_finish (Inr _) g = (GuardOpen, [])"
| "guard_finish (Inl e) g = (if err_status e = Some 401 then (g, [Replace (U ''/login'')]) else (GuardOpen, []))"

definition guard_view :: "'e view list \<Rightarrow> guard \<Rightarrow> 'e view list" where
  "guard_view children g = (case g of
     GuardLoading \<Rightarrow> [N ''div'' [] [txt_el ''p'' (U ''Carregando...'')]] | GuardOpen \<Rightarrow> children)"

subsection \<open>Sign-in\<close>

record login_form =
  lf_email :: jstr
  lf_senha :: jstr

definition loginSchema :: "(jstr \<Rightarrow> bool) \<Rightarrow> login_form \<Rightarrow> jstr option \<times> jstr option" where
  "loginSchema emailOk d =
     (if emailOk (lf_email d) then None else Some (U ''Informe um e-mail v~00e1lido''),
      if 8 \<le> length (lf_senha d) then None else Some (U ''A senha deve ter pelo menos 8 caracteres''))"

datatype auth_op = FetchLogin jstr jstr | FetchRegister jstr jstr jstr

fun auth_op_req :: "jstr \<Rightarrow> auth_op \<Rightarrow> http_req" where
  "auth_op_req base (FetchLogin e p) = \<lparr> rq_method = ''POST'', rq_url = base @ U ''/api/auth/login'',
     rq_credentials = ''include'', rq_headers = json_type,
     rq_body = Some (json (JObj [(''email'', JStr e), (''password'', JStr p)])) \<rparr>"
| "auth_op_req base (FetchRegister e p n) = \<lparr> rq_method = ''POST'', rq_url = base @ U ''/api/auth/register'',
     rq_credentials = ''include'', rq_headers = json_type,
     rq_body = Some (json (JObj [(''email'', JStr e), (''password'', JStr p), (''name'', JStr n)])) \<rparr>"

text \<open>What the handlers do with a refused reply: \<open>err.error || d\<close>; reading it from null throws.\<close>

definition refusal :: "http_reply \<Rightarrow> jstr \<Rightarrow> jstr option" where
  "refusal r d = map_option (\<lambda>v. error_text v d)
     (member (case rp_json r of Some v \<Rightarrow> v | None \<Rightarrow> JObj [(''error'', JStr (U ''Erro''))]) ''error'')"

definition network_toast :: toast_input where
  "network_toast = toast_of (U ''Erro de rede'') (Some (U ''N~00e3o foi poss~00edvel conectar ao servidor'')) VDestructive"

definition refused_toast :: "jstr \<Rightarrow> jstr \<Rightarrow> http_reply \<Rightarrow> toast_input" where
  "refused_toast title d r = (case refusal r d of
     Some m \<Rightarrow> toast_of title (Some m) VDestructive | None \<Rightarrow> network_toast)"

record login =
  lg_loading :: bool

datatype lg_event = LgSubmit login_form
datatype lg_done = LgReplied login_form outcome

definition lg_init :: "login \<times> auth_op list" where
  "lg_init = (\<lparr> lg_loading = False \<rparr>, [])"

fun lg_begin :: "(jstr \<Rightarrow> bool) \<Rightarrow> lg_event \<Rightarrow> login \<Rightarrow> login \<times> auth_op eff list" where
  "lg_begin emailOk (LgSubmit d) s =
     (if loginSchema emailOk d = (None, None)
      then (s\<lparr> lg_loading := True \<rparr>, [Call (FetchLogin (lf_email d) (lf_senha d))]) else (s, []))"

fun lg_opof :: "lg_done \<Rightarrow> auth_op" where
  "lg_opof (LgReplied d _) = FetchLogin (lf_email d) (lf_senha d)"

fun lg_finish :: "lg_done \<Rightarrow> login \<Rightarrow> login \<times> auth_op eff list" where
  "lg_finish (LgReplied d (NetworkFailure m)) s = (s\<lparr> lg_loading := False \<rparr>, [Toast network_toast])"
| "lg_finish (LgReplied d (Reply r)) s =
     (if \<not> res_ok r
      then (s\<lparr> lg_loading := False \<rparr>, [Toast (refused_toast (U ''Erro ao entrar'') (U ''Credenciais inv~00e1lidas'') r)])
      else (s, [Toast (toast_of (U ''Bem-vindo de volta!'') (Some (U ''Redirecionando...'')) VSuccess),
                PushLater 600 (U ''/dashboard'')]))"

definition form_field :: "jstr \<Rightarrow> (string \<times> jstr) list \<Rightarrow> jstr option \<Rightarrow> 'e view" where
  "form_field label as err = N ''div'' [] ([txt_el ''label'' label, N ''Input'' (map (\<lambda>(k, v). A k v) as) []] @
     (case err of None \<Rightarrow> [] | Some m \<Rightarrow> [txt_el ''p'' m]))"

definition link_el :: "jstr \<Rightarrow> jstr \<Rightarrow> 'e view" where
  "link_el href s = N ''Link'' [A ''href'' href] [T s]"

text \<open>The values of the fields and the errors under them are the form library's.\<close>

definition lg_view :: "login_form \<Rightarrow> jstr option \<times> jstr option \<Rightarrow> login \<Rightarrow> lg_event view" where
  "lg_view d errs s = N ''div'' []
     [N ''div'' [] [txt_el ''h1'' (U ''Entrar''), txt_el ''p'' (U ''Acesse o painel da sua empresa''),
        N ''form'' ([On ''onSubmit'' (\<lambda>_. LgSubmit d)])
          [form_field (U ''E-mail'') [(''type'', U ''email''), (''placeholder'', U ''voce@email.com'')] (fst errs),
           form_field (U ''Senha'') [(''type'', U ''password''), (''placeholder'', U ''~2022~2022~2022~2022~2022~2022~2022~2022'')] (snd errs),
           N ''div'' [] [N ''label'' [] [N ''input'' [A ''type'' (U ''checkbox'')] [], txt_el ''span'' (U ''Lembrar-me'')],
             link_el (U ''/forgot-password'') (U ''Esqueci a senha'')],
           N ''Button'' [A ''type'' (U ''submit''), Flag ''disabled'' (lg_loading s)]
             [T (if lg_loading s then U ''Entrando...'' else U ''Entrar'')]],
        N ''p'' [] [T (U ''N~00e3o tem conta? ''), link_el (U ''/register'') (U ''Cadastre-se'')]],
      N ''Toaster'' [] []]"

subsection \<open>Registration\<close>

record register_form =
  rf_nome :: jstr
  rf_email :: jstr
  rf_senha :: jstr

definition registerSchema :: "(jstr \<Rightarrow> bool) \<Rightarrow> register_form \<Rightarrow> jstr option \<times> jstr option \<times> jstr option" where
  "registerSchema emailOk d =
     (if 2 \<le> length (rf_nome d) then None else Some (U ''Informe seu nome completo''),
      if emailOk (rf_email d) then None else Some (U ''Informe um e-mail v~00e1lido''),
      if 8 \<le> length (rf_senha d) then None else Some (U ''A senha deve ter pelo menos 8 caracteres''))"

record registration =
  rg_loading :: bool

datatype rg_event = RgSubmit register_form | RgGoogle
datatype rg_done = RgRegistered register_form outcome | RgLoggedIn register_form outcome

definition rg_init :: "registration \<times> auth_op list" where
  "rg_init = (\<lparr> rg_loading = False \<rparr>, [])"

fun rg_begin :: "(jstr \<Rightarrow> bool) \<Rightarrow> rg_event \<Rightarrow> registration \<Rightarrow> registration \<times> auth_op eff list" where
  "rg_begin emailOk (RgSubmit d) s =
     (if registerSchema emailOk d = (None, None, None)
      then (s\<lparr> rg_loading := True \<rparr>, [Call (FetchRegister (rf_email d) (rf_senha d) (rf_nome d))]) else (s, []))"
| "rg_begin emailOk RgGoogle s = (s, [Toast (toast_of (U ''Google OAuth'')
     (Some (U ''Integra~00e7~00e3o com Google ser~00e1 implementada no backend.'')) VDefault)])"

fun rg_opof :: "rg_done \<Rightarrow> auth_op" where
  "rg_opof (RgRegistered d _) = FetchRegister (rf_email d) (rf_senha d) (rf_nome d)"
| "rg_opof (RgLoggedIn d _) = FetchLogin (rf_email d) (rf_senha d)"

fun rg_finish :: "rg_done \<Rightarrow> registration \<Rightarrow> registration \<times> auth_op eff list" where
  "rg_finish (RgRegistered d (NetworkFailure m)) s = (s\<lparr> rg_loading := False \<rparr>, [Toast network_toast])"
| "rg_finish (RgRegistered d (Reply r)) s =
     (if \<not> res_ok r
      then (s\<lparr> rg_loading := False \<rparr>, [Toast (refused_toast (U ''Erro ao criar conta'') (U ''Tente novamente'') r)])
      else (s, [Call (FetchLogin (rf_email d) (rf_senha d))]))"
| "rg_finish (RgLoggedIn d (NetworkFailure m)) s = (s\<lparr> rg_loading := False \<rparr>, [Toast network_toast])"
| "rg_finish (RgLoggedIn d (Reply r)) s =
     (if \<not> res_ok r
      then (s, [Toast (toast_of (U ''Conta criada!'') (Some (U ''Fa~00e7a login pra entrar'')) VSuccess),
                PushLater 600 (U ''/login'')])
      else (s, [Toast (toast_of (U ''Conta criada!'') (Some (U ''Bem-vindo ao Indica A~00cd! Redirecionando...'')) VSuccess),
                PushLater 600 (U ''/dashboard'')]))"

definition rg_view :: "register_form \<Rightarrow> jstr option \<times> jstr option \<times> jstr option \<Rightarrow> registration \<Rightarrow> rg_event view" where
  "rg_view d errs s = (case errs of (nome, email, senha) \<Rightarrow> N ''div'' []
     [N ''div'' [] [txt_el ''h1'' (U ''Crie sua conta gratuita''),
        N ''Button'' [On ''onClick'' (\<lambda>_. RgGoogle)] [T (U ''Entrar com Google'')],
        txt_el ''span'' (U ''ou continue com e-mail''),
        N ''form'' [On ''onSubmit'' (\<lambda>_. RgSubmit d)]
          [form_field (U ''Nome completo'') [(''placeholder'', U ''Seu nome'')] nome,
           form_field (U ''E-mail'') [(''type'', U ''email''), (''placeholder'', U ''voce@email.com'')] email,
           form_field (U ''Senha (m~00edn. 8 caracteres)'') [(''type'', U ''password''), (''placeholder'', U ''~2022~2022~2022~2022~2022~2022~2022~2022'')] senha,
           N ''div'' [] [N ''input'' [A ''type'' (U ''checkbox'')] [],
             N ''label'' [] [T (U ''Li e aceito os ''), link_el (U ''/termos'') (U ''Termos de Uso''), T (U '' e a ''),
               link_el (U ''/privacidade'') (U ''Pol~00edtica de Privacidade'')]],
           N ''Button'' [A ''type'' (U ''submit''), Flag ''disabled'' (rg_loading s)]
             [T (if rg_loading s then U ''Criando conta...'' else U ''Criar conta'')]],
        N ''p'' [] [T (U ''J~00e1 tem conta? ''), link_el (U ''/login'') (U ''Entrar'')]],
      N ''Toaster'' [] []])"

subsection \<open>Password recovery\<close>

record recovery =
  fp_email :: jstr
  fp_sent :: bool

datatype fp_event = FpEmail jstr | FpSubmit | FpBack

definition fp_init :: recovery where
  "fp_init = \<lparr> fp_email = [], fp_sent = False \<rparr>"

fun fp_begin :: "fp_event \<Rightarrow> recovery \<Rightarrow> recovery \<times> auth_op eff list" where
  "fp_begin (FpEmail v) s = (s\<lparr> fp_email := v \<rparr>, [])"
| "fp_begin FpSubmit s = (if fp_email s = [] then (s, [])
     else (s\<lparr> fp_sent := True \<rparr>, [Toast (toast_of (U ''E-mail enviado'')
       (Some (U ''Instru~00e7~00f5es de recupera~00e7~00e3o foram enviadas para '' @ fp_email s)) VSuccess)]))"
| "fp_begin FpBack s = (s\<lparr> fp_sent := False, fp_email := [] \<rparr>, [])"

definition fp_view :: "recovery \<Rightarrow> fp_event view" where
  "fp_view s = N ''div'' [] [N ''div'' []
     (if \<not> fp_sent s then
        [txt_el ''h1'' (U ''Recuperar senha''),
         txt_el ''p'' (U ''Informe seu e-mail e enviaremos um link para redefinir sua senha.''),
         N ''form'' [On ''onSubmit'' (\<lambda>_. FpSubmit)]
           [N ''div'' [] [txt_el ''label'' (U ''E-mail''),
              N ''Input'' [A ''type'' (U ''email''), A ''placeholder'' (U ''seu@email.com''), A ''value'' (fp_email s),
                On ''onChange'' FpEmail, Flag ''required'' True] []],
            N ''Button'' [A ''type'' (U ''submit'')] [T (U ''Enviar link de recupera~00e7~00e3o'')]],
         N ''p'' [] [T (U ''Lembrou a senha? ''), link_el (U ''/login'') (U ''Voltar ao login'')]]
      else
        [txt_el ''div'' (U ''~2713''), txt_el ''h2'' (U ''Verifique seu e-mail''),
         N ''p'' [] [T (U ''Enviamos um link para ''), txt_el ''span'' (fp_email s)],
         txt_el ''p'' (U ''Clique nele em at~00e9 15 minutos para redefinir sua senha.''),
         N ''Button'' [On ''onClick'' (\<lambda>_. FpBack)] [T (U ''Voltar'')]]),
      N ''Toaster'' [] []]"


subsection \<open>The partners' magic link\<close>

record magic =
  pl_email :: jstr
  pl_sent :: bool
  pl_loading :: bool
  pl_devToken :: "jstr option"

datatype pl_event = PlEmail jstr | PlSubmit | PlDevConfirm | PlBack
datatype pl_done = PlRequested jstr "api_err + jsval" | PlVerified jstr "api_err + jsval"

definition pl_init :: "magic \<times> partner_call list" where
  "pl_init = (\<lparr> pl_email = [], pl_sent = False, pl_loading = False, pl_devToken = None \<rparr>, [])"

fun pl_begin :: "pl_event \<Rightarrow> magic \<Rightarrow> magic \<times> partner_call eff list" where
  "pl_begin (PlEmail v) s = (s\<lparr> pl_email := v \<rparr>, [])"
| "pl_begin PlSubmit s = (if pl_email s = [] then (s, [])
     else (s\<lparr> pl_loading := True \<rparr>, [Call (RequestMagicLink (pl_email s))]))"
| "pl_begin PlDevConfirm s = (case truthy_s (pl_devToken s) of None \<Rightarrow> (s, [])
     | Some t \<Rightarrow> (s\<lparr> pl_loading := True \<rparr>, [Call (VerifyMagicLink t)]))"
| "pl_begin PlBack s = (s\<lparr> pl_sent := False, pl_devToken := None \<rparr>, [])"

fun pl_opof :: "pl_done \<Rightarrow> partner_call" where
  "pl_opof (PlRequested e _) = RequestMagicLink e"
| "pl_opof (PlVerified t _) = VerifyMagicLink t"

definition pl_failed :: "jstr \<Rightarrow> jstr \<Rightarrow> partner_call eff" where
  "pl_failed title m = Toast (toast_of title (Some m) VError)"

text \<open>\<open>res.dev_token\<close> of a reply without a body throws after \<open>setSent(true)\<close>.\<close>

fun pl_finish :: "pl_done \<Rightarrow> magic \<Rightarrow> magic \<times> partner_call eff list" where
  "pl_finish (PlRequested e (Inr v)) s = (case member v ''dev_token'' of
      None \<Rightarrow> (s\<lparr> pl_sent := True, pl_loading := False \<rparr>, [pl_failed (U ''Falha ao solicitar'') (U ''Erro de rede'')])
    | Some t \<Rightarrow> (if js_truthy t
        then (s\<lparr> pl_sent := True, pl_devToken := Some (js_String t), pl_loading := False \<rparr>, [])
        else (s\<lparr> pl_sent := True, pl_loading := False \<rparr>,
              [Toast (toast_of (U ''Link enviado!'') (Some (U ''Enviamos um link de acesso para '' @ e)) VSuccess)])))"
| "pl_finish (PlRequested e (Inl err)) s = (s\<lparr> pl_loading := False \<rparr>,
     [pl_failed (U ''Falha ao solicitar'') (api_message err (U ''Erro de rede''))])"
| "pl_finish (PlVerified t (Inr _)) s = (s, [Push (U ''/parceiro'')])"
| "pl_finish (PlVerified t (Inl err)) s = (s\<lparr> pl_loading := False \<rparr>,
     [pl_failed (U ''Falha ao confirmar'') (api_message err (U ''Erro de rede''))])"

definition pl_form :: "magic \<Rightarrow> pl_event view list" where
  "pl_form s = [N ''div'' [] [txt_el ''h1'' (U ''Ol~00e1! Bom ver voc~00ea de volta''),
       txt_el ''p'' (U ''Acesse seu painel de parceiro'')],
     N ''form'' [On ''onSubmit'' (\<lambda>_. PlSubmit)]
       [N ''div'' [] [txt_el ''label'' (U ''E-mail''),
          N ''Input'' [A ''type'' (U ''email''), A ''placeholder'' (U ''seu@email.com''), A ''value'' (pl_email s),
            On ''onChange'' PlEmail, Flag ''required'' True] []],
        N ''Button'' [A ''type'' (U ''submit''), Flag ''disabled'' (pl_loading s)]
          [T (if pl_loading s then U ''Enviando...'' else U ''Enviar link de acesso'')]],
     N ''p'' [] [T (U ''Sem senha pra lembrar ~2014 s~00f3 email.''),
       T (U ''Enviaremos um link m~00e1gico para voc~00ea entrar.'')]]"

definition pl_dev_box :: "magic \<Rightarrow> pl_event view list" where
  "pl_dev_box s = (case truthy_s (pl_devToken s) of None \<Rightarrow> []
     | Some t \<Rightarrow> [N ''div'' [] [txt_el ''p'' (U ''Modo dev ~2014 sem servidor de e-mail''),
         txt_el ''p'' (U ''Use o bot~00e3o abaixo para simular o clique no link.''),
         N ''Button'' [On ''onClick'' (\<lambda>_. PlDevConfirm), Flag ''disabled'' (pl_loading s)]
           [T (if pl_loading s then U ''Entrando...'' else U ''Confirmar acesso (dev)'')]]])"

definition pl_view :: "magic \<Rightarrow> pl_event view" where
  "pl_view s = N ''div'' []
     [N ''div'' [] (if \<not> pl_sent s then pl_form s
        else [N ''div'' [] ([txt_el ''div'' (U ''~2709~fe0f''), txt_el ''h2'' (U ''Verifique seu e-mail''),
            N ''p'' [] [T (U ''Enviamos um link para ''), txt_el ''span'' (pl_email s)],
            txt_el ''p'' (U ''Clique nele em at~00e9 15 minutos para acessar.'')] @ pl_dev_box s @
            [N ''Button'' [On ''onClick'' (\<lambda>_. PlBack)] [T (U ''Voltar'')]])]),
      N ''Toaster'' [] []]"

text \<open>The page the link opens: the token is a parameter of its address.\<close>

record verify =
  vf_error :: "jstr option"

datatype vf_done = VfVerified jstr "api_err + jsval"

definition vf_init :: "jstr option \<Rightarrow> verify \<times> partner_call list" where
  "vf_init token = (case truthy_s token of
      None \<Rightarrow> (\<lparr> vf_error = Some (U ''Token ausente. Solicite um novo link.'') \<rparr>, [])
    | Some t \<Rightarrow> (\<lparr> vf_error = None \<rparr>, [VerifyMagicLink t]))"

fun vf_finish :: "vf_done \<Rightarrow> verify \<Rightarrow> verify \<times> partner_call eff list" where
  "vf_finish (VfVerified t (Inr _)) s = (s, [Replace (U ''/parceiro'')])"
| "vf_finish (VfVerified t (Inl e)) s =
     (s\<lparr> vf_error := Some (js_or (err_message e) (U ''Link inv~00e1lido ou expirado.'')) \<rparr>, [])"

definition vf_view :: "verify \<Rightarrow> 'e view" where
  "vf_view s = N ''div'' [] [N ''div'' [] (case truthy_s (vf_error s) of
      Some e \<Rightarrow> [txt_el ''h2'' (U ''Falhou''), txt_el ''p'' e,
                  N ''a'' [A ''href'' (U ''/login'')] [T (U ''Voltar para login'')]]
    | None \<Rightarrow> [txt_el ''p'' (U ''Confirmando acesso...'')])]"

subsection \<open>Facts\<close>

text \<open>A guard sends the user to the sign-in page on a refusal with status 401 whose body is not null, and only then.\<close>

lemma guard_redirects:
  "snd (guard_finish (app_settle eng x) g) = [Replace (U ''/login'')] \<longleftrightarrow>
     (\<exists>r. x = Reply r \<and> rp_status r = 401 \<and> rp_json r \<noteq> Some JNull \<and> rp_json r \<noteq> Some JUndef)"
proof (cases x)
  case (Reply r)
  then show ?thesis
    by (cases "rp_json r") (auto simp: res_ok_def member_None split: option.splits)
qed simp

text \<open>Everything else opens it, a network failure and a refusal with another status included.\<close>

lemma guard_opens:
  "fst (guard_finish r g) = GuardOpen \<or> (fst (guard_finish r g) = g \<and> snd (guard_finish r g) = [Replace (U ''/login'')])"
  by (cases r) auto

lemma lg_settles:
  "lg_finish (LgReplied d x) s = (s', es) \<Longrightarrow>
     (if \<exists>r. x = Reply r \<and> res_ok r then s' = s \<and> PushLater 600 (U ''/dashboard'') \<in> set es
      else \<not> lg_loading s' \<and> (\<exists>t. es = [Toast t] \<and> ti_variant t = Some VDestructive))"
  by (cases x) (auto simp: network_toast_def refused_toast_def toast_of_def split: if_splits option.splits)

text \<open>Registration: what each pair of outcomes leads to.\<close>

lemma rg_first:
  "rg_finish (RgRegistered d x) s = (s', es) \<Longrightarrow>
     (if \<exists>r. x = Reply r \<and> res_ok r then s' = s \<and> es = [Call (FetchLogin (rf_email d) (rf_senha d))]
      else \<not> rg_loading s' \<and> (\<exists>t. es = [Toast t] \<and> ti_variant t = Some VDestructive))"
  by (cases x) (auto simp: network_toast_def refused_toast_def toast_of_def split: if_splits option.splits)

lemma rg_second:
  "rg_finish (RgLoggedIn d x) s = (s', es) \<Longrightarrow> (case x of
      NetworkFailure m \<Rightarrow> \<not> rg_loading s' \<and> es = [Toast network_toast]
    | Reply r \<Rightarrow> s' = s \<and> (\<exists>t. es = [Toast t, PushLater 600 (if res_ok r then U ''/dashboard'' else U ''/login'')]))"
  by (cases x) (auto split: if_splits)

lemma fp_sends_nothing: "calls (snd (fp_begin ev s)) = []"
  by (cases ev) auto

lemma pl_finish_loading:
  "pl_finish d s = (s', es) \<Longrightarrow> \<not> pl_loading s' \<or> Push (U ''/parceiro'') \<in> set es"
  by (induction d s rule: pl_finish.induct) (auto split: option.splits if_splits)

text \<open>The page the link opens goes to the panel, or says why not.\<close>

lemma vf_outcome:
  "vf_finish (VfVerified t r) s = (s', es) \<Longrightarrow>
     (\<exists>v. r = Inr v) \<and> es = [Replace (U ''/parceiro'')] \<or>
     (\<exists>e. r = Inl e) \<and> es = [] \<and> truthy_s (vf_error s') \<noteq> None"
  by (cases r) (auto simp: truthy_s_def js_or_def nonempty_def ustr)

end
