(* ===== verification/Nav.thy ===== *)
theory Nav imports DashboardApi React View begin

text \<open>
  The menus: the sidebar of the dashboard (\<open>app/components/sidebar.tsx\<close>), the menu of the administration
  area (\<open>app/(admin)/layout.tsx\<close>) and the partners' (\<open>app/components/partner-nav.tsx\<close>). Which entry is
  marked active is a function of the path; the state of the sidebar is who is signed in, the mobile
  drawer and the sign-out in progress.
\<close>

subsection \<open>Entries\<close>

type_synonym nav_item = "jstr \<times> jstr"

definition navigation :: "nav_item list" where
  "navigation = [(U ''Vis~00e3o geral'', U ''/dashboard''), (U ''Programas'', U ''/programas''), (U ''Parceiros'', U ''/parceiros''),
     (U ''Indica~00e7~00f5es'', U ''/indicacoes''), (U ''Comiss~00f5es'', U ''/comissoes''), (U ''Saques'', U ''/saques''),
     (U ''Auditoria'', U ''/auditoria'')]"

definition bottomNavigation :: "nav_item list" where
  "bottomNavigation = [(U ''Configura~00e7~00f5es'', U ''/configuracoes'')]"

definition adminNavigation :: "nav_item list" where
  "adminNavigation = [(U ''M~00e9tricas'', U ''/admin''), (U ''Tenants'', U ''/admin/tenants'')]"

definition partner_items :: "nav_item list" where
  "partner_items = [(U ''Painel'', U ''/parceiro''), (U ''Indica~00e7~00f5es'', U ''/parceiro/indicacoes''),
     (U ''Extrato'', U ''/parceiro/extrato''), (U ''Config'', U ''/parceiro/configuracoes'')]"

subsection \<open>The active entry\<close>

text \<open>The home of an area matches exactly, any other entry also its descendants.\<close>

definition active_under :: "jstr \<Rightarrow> jstr \<Rightarrow> jstr \<Rightarrow> bool" where
  "active_under home pathname href \<longleftrightarrow>
     (if href = home then pathname = home else pathname = href \<or> js_startsWith pathname (href @ U ''/''))"

definition side_active :: "jstr \<Rightarrow> jstr \<Rightarrow> bool" where
  "side_active = active_under (U ''/dashboard'')"

definition admin_active :: "jstr \<Rightarrow> jstr \<Rightarrow> bool" where
  "admin_active = active_under (U ''/admin'')"

definition exact_active :: "jstr \<Rightarrow> jstr \<Rightarrow> bool" where
  "exact_active pathname href \<longleftrightarrow> pathname = href"

definition nav_link :: "jstr \<times> jstr \<Rightarrow> ('e attr list) \<Rightarrow> bool \<Rightarrow> nav_item \<Rightarrow> 'e view" where
  "nav_link classes hs act it = N ''Link''
     ([A ''href'' (snd it), A ''className'' (if act then fst classes else snd classes)] @ hs) [T (fst it)]"

definition vertical_classes :: "jstr \<times> jstr" where
  "vertical_classes = (U ''bg-primary-light text-primary'',
     U ''text-neutral-600 hover:bg-neutral-100 hover:text-neutral-900 dark:text-neutral-400 dark:hover:bg-neutral-800'')"

definition horizontal_classes :: "jstr \<times> jstr" where
  "horizontal_classes = (U ''text-primary'', U ''text-neutral-500'')"

subsection \<open>The sidebar\<close>

record sidebar =
  sb_mobileOpen :: bool
  sb_me :: "me option"
  sb_loggingOut :: bool

datatype sb_event = SbOpen | SbClose | SbLogout
datatype sb_done = SbMe "api_err + me" | SbLoggedOut "api_err + unit"

definition sb_init :: "sidebar \<times> dash_call list" where
  "sb_init = (\<lparr> sb_mobileOpen = False, sb_me = None, sb_loggingOut = False \<rparr>, [AuthMe])"

fun sb_begin :: "sb_event \<Rightarrow> sidebar \<Rightarrow> sidebar \<times> dash_call eff list" where
  "sb_begin SbOpen s = (s\<lparr> sb_mobileOpen := True \<rparr>, [])"
| "sb_begin SbClose s = (s\<lparr> sb_mobileOpen := False \<rparr>, [])"
| "sb_begin SbLogout s = (s\<lparr> sb_loggingOut := True \<rparr>, [Call AuthLogout])"

fun sb_opof :: "sb_done \<Rightarrow> dash_call" where
  "sb_opof (SbMe _) = AuthMe" | "sb_opof (SbLoggedOut _) = AuthLogout"

text \<open>A failed sign-out is ignored: the page leaves either way.\<close>

fun sb_finish :: "sb_done \<Rightarrow> sidebar \<Rightarrow> sidebar \<times> dash_call eff list" where
  "sb_finish (SbMe (Inr m)) s = (s\<lparr> sb_me := Some m \<rparr>, [])"
| "sb_finish (SbMe (Inl e)) s = (s\<lparr> sb_me := None \<rparr>, [])"
| "sb_finish (SbLoggedOut r) s = (s, [Push (U ''/login'')])"

definition initial_of :: "jstr option \<Rightarrow> jstr option" where
  "initial_of x = truthy_s (map_option (\<lambda>s. js_toUpperCase (js_charAt0 s)) x)"

definition tenantInitial :: "me option \<Rightarrow> jstr" where
  "tenantInitial m = (case initial_of (Option.bind m me_tenant_name) of Some s \<Rightarrow> s
     | None \<Rightarrow> (case initial_of (map_option me_name m) of Some s \<Rightarrow> s | None \<Rightarrow> U ''?''))"

definition sb_links :: "(jstr \<Rightarrow> bool) \<Rightarrow> nav_item list \<Rightarrow> sb_event view list" where
  "sb_links act items = map (\<lambda>it. nav_link vertical_classes [On ''onClick'' (\<lambda>_. SbClose)] (act (snd it)) it) items"

definition sb_content :: "jstr \<Rightarrow> sidebar \<Rightarrow> sb_event view list" where
  "sb_content pathname s =
     [txt_el ''span'' (U ''Indica A~00cd!''),
      N ''nav'' [] (sb_links (side_active pathname) navigation),
      N ''div'' [] (sb_links (exact_active pathname) bottomNavigation @
        [N ''div'' []
          [txt_el ''div'' (tenantInitial (sb_me s)),
           txt_el ''p'' (or_str (Option.bind (sb_me s) me_tenant_name) (U ''~2014'')),
           txt_el ''p'' (or_str (map_option me_email (sb_me s)) []),
           N ''button'' [On ''onClick'' (\<lambda>_. SbLogout), Flag ''disabled'' (sb_loggingOut s)]
             [T (if sb_loggingOut s then U ''Saindo...'' else U ''Sair'')]]])]"

definition sb_view :: "jstr \<Rightarrow> sidebar \<Rightarrow> sb_event view" where
  "sb_view pathname s = N ''Fragment'' []
     ([N ''button'' [On ''onClick'' (\<lambda>_. SbOpen), A ''aria-label'' (U ''Abrir menu'')] []] @
      whenl (sb_mobileOpen s) [N ''div'' [On ''onClick'' (\<lambda>_. SbClose)] []] @
      [N ''aside'' [A ''className'' (if sb_mobileOpen s then U ''translate-x-0'' else U ''-translate-x-full'')]
         (N ''button'' [On ''onClick'' (\<lambda>_. SbClose), A ''aria-label'' (U ''Fechar menu'')] [] # sb_content pathname s),
       N ''aside'' [] (sb_content pathname s)])"

subsection \<open>The other menus\<close>

definition admin_layout :: "jstr \<Rightarrow> 'e view list \<Rightarrow> 'e view" where
  "admin_layout pathname children = N ''div'' []
     [N ''aside'' []
        [N ''div'' [] [txt_el ''span'' (U ''Indica A~00cd!''), txt_el ''span'' (U ''Admin'')],
         N ''nav'' [] (map (\<lambda>it. nav_link vertical_classes [] (admin_active pathname (snd it)) it) adminNavigation),
         N ''div'' [] [N ''Link'' [A ''href'' (U ''/dashboard'')] [T (U ''Voltar ao app'')]]],
      N ''main'' [] children, N ''Toaster'' [] []]"

definition PartnerNav :: "bool \<Rightarrow> jstr \<Rightarrow> 'e view" where
  "PartnerNav horizontal pathname = N ''div'' []
     (map (\<lambda>it. nav_link (if horizontal then horizontal_classes else vertical_classes) []
        (exact_active pathname (snd it)) it) partner_items)"

subsection \<open>Facts\<close>

text \<open>Two entries that are not one below the other are never both active.\<close>

lemma side_active_prefix:
  "active_under home p h \<Longrightarrow> p = h \<or> prefix (h @ U ''/'') p"
  by (auto simp: active_under_def startsWith_prefix split: if_splits)

definition apart :: "jstr \<Rightarrow> jstr \<Rightarrow> bool" where
  "apart a b \<longleftrightarrow> \<not> prefix (a @ U ''/'') (b @ U ''/'') \<and> \<not> prefix (b @ U ''/'') (a @ U ''/'')"

lemma apart_exclusive:
  assumes "apart a b" "active_under home p a" "active_under home p b"
  shows False
proof -
  have "prefix (a @ U ''/'') (p @ U ''/'')" "prefix (b @ U ''/'') (p @ U ''/'')"
    using side_active_prefix [OF assms(2)] side_active_prefix [OF assms(3)] by (auto intro: prefix_order.trans)
  then show False using assms(1) prefix_same_cases by (auto simp: apart_def)
qed

lemma one_of_distinct:
  assumes "distinct xs" "\<And>x y. x \<in> set xs \<Longrightarrow> y \<in> set xs \<Longrightarrow> P x \<Longrightarrow> P y \<Longrightarrow> x = y"
  shows "length (filter P xs) \<le> 1"
proof (cases "filter P xs")
  case (Cons a ys)
  have "b = a" if "b \<in> set ys" for b
  proof -
    have "a \<in> set (filter P xs)" "b \<in> set (filter P xs)" using that Cons by auto
    then show ?thesis using assms(2) [of b a] by simp
  qed
  moreover have "distinct (a # ys)" using assms(1) Cons distinct_filter by metis
  ultimately have "ys = []" by (cases ys) auto
  then show ?thesis using Cons by simp
qed simp

definition sb_active :: "jstr \<Rightarrow> jstr \<Rightarrow> bool" where
  "sb_active p h \<longleftrightarrow> (if h \<in> snd ` set bottomNavigation then exact_active p h else side_active p h)"

lemma apart_segments:
  assumes "47 \<notin> set s" "47 \<notin> set t" "s \<noteq> t"
  shows "apart (47 # s) (47 # t)"
proof -
  have ne: "\<not> prefix (u @ [47]) (v @ [47])" if "47 \<notin> set v" "u \<noteq> v" "47 \<notin> set u" for u v :: jstr
  proof
    assume "prefix (u @ [47]) (v @ [47])"
    then have "u @ [47] = v @ [47] \<or> prefix (u @ [47]) v" by simp
    then show False using that by (auto simp: prefix_def)
  qed
  show ?thesis using ne [of s t] ne [of t s] assms by (simp add: apart_def ustr)
qed

lemma entries_segments:
  "x \<in> set (navigation @ bottomNavigation) \<Longrightarrow> \<exists>s. snd x = 47 # s \<and> 47 \<notin> set s"
  unfolding navigation_def bottomNavigation_def by (auto simp: ustr)

lemma entries_distinct: "distinct (map snd (navigation @ bottomNavigation))"
  by (simp add: navigation_def bottomNavigation_def ustr)

lemma entries_apart:
  assumes "x \<in> set (navigation @ bottomNavigation)" "y \<in> set (navigation @ bottomNavigation)"
  shows "x = y \<or> apart (snd x) (snd y)"
proof (cases "x = y")
  case False
  then have "snd x \<noteq> snd y" using entries_distinct assms by (metis distinct_map inj_on_def)
  moreover obtain s t where "snd x = 47 # s" "47 \<notin> set s" "snd y = 47 # t" "47 \<notin> set t"
    using entries_segments assms by metis
  ultimately show ?thesis using apart_segments by simp
qed simp

lemma sidebar_one_active: "length (filter (sb_active p \<circ> snd) (navigation @ bottomNavigation)) \<le> 1"
proof (rule one_of_distinct)
  show "distinct (navigation @ bottomNavigation)"
    by (simp add: navigation_def bottomNavigation_def ustr)
next
  fix x y assume xy: "x \<in> set (navigation @ bottomNavigation)" "y \<in> set (navigation @ bottomNavigation)"
    "(sb_active p \<circ> snd) x" "(sb_active p \<circ> snd) y"
  have "active_under (U ''/dashboard'') p (snd z)" if "(sb_active p \<circ> snd) z" for z
    using that by (auto simp: sb_active_def exact_active_def side_active_def active_under_def split: if_splits)
  then show "x = y" using entries_apart [OF xy(1,2)] apart_exclusive xy(3,4) by blast
qed

text \<open>The administration's menu: its home matches exactly, so its two entries exclude each other too.\<close>

lemma admin_one_active:
  assumes "(a, h) \<in> set adminNavigation" "(b, k) \<in> set adminNavigation" "admin_active p h" "admin_active p k"
  shows "h = k"
  using assms by (auto simp: adminNavigation_def admin_active_def active_under_def startsWith_prefix ustr)

text \<open>The partners' menu has no active entry below one of its pages.\<close>

lemma partner_inactive_below: "\<not> exact_active (h @ 47 # p) h"
  by (simp add: exact_active_def)

lemma sb_logout_leaves: "snd (sb_finish (SbLoggedOut r) s) = [Push (U ''/login'')]"
  by simp

lemma tenantInitial_not_Nil: "tenantInitial m \<noteq> []"
  by (auto simp: tenantInitial_def initial_of_def truthy_s_def nonempty_def ustr split: option.splits if_splits)

end
