(* ===== verification/Toasts.thy ===== *)
theory Toasts imports React View begin

text \<open>
  \<open>packages/ui/src/hooks/use-toast.ts\<close> and \<open>components/ui/sonner.tsx\<close>: the module-wide list of
  toasts, its listeners and its counter, and the component that shows them.

  The module state holds, besides the three variables of the source, what the source keeps
  elsewhere: the list each mounted component shows (its \<open>useState\<close>) and the removals scheduled
  with \<open>setTimeout\<close>. The initialiser passed to \<open>useState\<close> runs once, when the component mounts;
  the function it returns is the initial state, not a cleanup, so unmounting removes no listener.
\<close>

record toast =
  to_id :: jstr
  to_title :: "jstr option"
  to_description :: "jstr option"
  to_variant :: toast_variant
  to_duration :: jsnum

record toast_state =
  globalToasts :: "toast list"
  globalListeners :: "nat list"
  toast_counter :: nat
  shown :: "nat \<Rightarrow> toast list"
  timers :: "jstr multiset"

definition toast_init :: toast_state where
  "toast_init = \<lparr> globalToasts = [], globalListeners = [], toast_counter = 0, shown = (\<lambda>_. []), timers = {#} \<rparr>"

definition notify :: "toast_state \<Rightarrow> toast_state" where
  "notify s = fold (\<lambda>l t. t\<lparr> shown := (shown t)(l := globalToasts t) \<rparr>) (globalListeners s) s"

text \<open>\<open>toast(...)\<close>: the new state and the identifier returned.\<close>

definition toast_fn :: "toast_input \<Rightarrow> toast_state \<Rightarrow> toast_state \<times> jstr" where
  "toast_fn i s =
     (let n = Suc (toast_counter s); i' = dec n; d = orelse (ti_duration i) (num_int 4000);
          t = \<lparr> to_id = i', to_title = ti_title i, to_description = ti_description i,
                to_variant = orelse (ti_variant i) VDefault, to_duration = d \<rparr>;
          s1 = notify (s\<lparr> toast_counter := n, globalToasts := globalToasts s @ [t] \<rparr>)
      in (if js_lt (Fin 0) d then s1\<lparr> timers := timers s1 + {#i'#} \<rparr> else s1, i'))"

definition dismissToast :: "jstr \<Rightarrow> toast_state \<Rightarrow> toast_state" where
  "dismissToast i s = notify (s\<lparr> globalToasts := filter (\<lambda>t. to_id t \<noteq> i) (globalToasts s) \<rparr>)"

text \<open>A scheduled removal runs; a component that calls \<open>useToast\<close> mounts, and unmounts.\<close>

definition timer_fires :: "jstr \<Rightarrow> toast_state \<Rightarrow> toast_state" where
  "timer_fires i s = dismissToast i (s\<lparr> timers := timers s - {#i#} \<rparr>)"

definition mount_useToast :: "nat \<Rightarrow> toast_state \<Rightarrow> toast_state" where
  "mount_useToast l s = s\<lparr> shown := (shown s)(l := globalToasts s), globalListeners := globalListeners s @ [l] \<rparr>"

definition unmount_useToast :: "nat \<Rightarrow> toast_state \<Rightarrow> toast_state" where
  "unmount_useToast l s = s"

inductive toast_reach :: "toast_state \<Rightarrow> bool" where
  init: "toast_reach toast_init"
| raised: "toast_reach s \<Longrightarrow> toast_reach (fst (toast_fn i s))"
| dismissed: "toast_reach s \<Longrightarrow> toast_reach (dismissToast k s)"
| fired: "toast_reach s \<Longrightarrow> k \<in># timers s \<Longrightarrow> toast_reach (timer_fires k s)"
| mounted: "toast_reach s \<Longrightarrow> toast_reach (mount_useToast l s)"
| unmounted: "toast_reach s \<Longrightarrow> toast_reach (unmount_useToast l s)"

subsection \<open>Facts\<close>

lemma notify_fold:
  "fold (\<lambda>l t. t\<lparr> shown := (shown t)(l := globalToasts t) \<rparr>) ls s =
   s\<lparr> shown := (\<lambda>l. if l \<in> set ls then globalToasts s else shown s l) \<rparr>"
  by (induction ls arbitrary: s) (auto simp: fun_eq_iff)

lemma notify_simps [simp]:
  "globalToasts (notify s) = globalToasts s"
  "globalListeners (notify s) = globalListeners s"
  "toast_counter (notify s) = toast_counter s"
  "timers (notify s) = timers s"
  "shown (notify s) = (\<lambda>l. if l \<in> set (globalListeners s) then globalToasts s else shown s l)"
  by (simp_all add: notify_def notify_fold)

text \<open>
  What holds in every state: identifiers are numbers up to the counter, no two toasts share one,
  every toast that is meant to go away has its removal scheduled, and every mounted component shows
  the list of the module.
\<close>

definition toast_inv :: "toast_state \<Rightarrow> bool" where
  "toast_inv s \<longleftrightarrow>
     distinct (map to_id (globalToasts s)) \<and>
     (\<forall>t \<in> set (globalToasts s). \<exists>k. 0 < k \<and> k \<le> toast_counter s \<and> to_id t = dec k) \<and>
     (\<forall>t \<in> set (globalToasts s). js_lt (Fin 0) (to_duration t) \<longrightarrow> to_id t \<in># timers s) \<and>
     (\<forall>l \<in> set (globalListeners s). shown s l = globalToasts s)"

lemma toast_inv_filter:
  "toast_inv s \<Longrightarrow> toast_inv (dismissToast k s)"
  by (auto simp: toast_inv_def dismissToast_def distinct_map_filter)

lemma toast_inv_raise:
  assumes "toast_inv s"
  shows "toast_inv (fst (toast_fn i s))"
proof -
  have "dec (Suc (toast_counter s)) \<notin> to_id ` set (globalToasts s)"
    using assms by (force simp: toast_inv_def)
  then show ?thesis
    using assms by (auto simp: toast_inv_def toast_fn_def Let_def intro: exI [of _ "Suc (toast_counter s)"] le_SucI)
qed

lemma toast_inv_fire:
  assumes "toast_inv s"
  shows "toast_inv (timer_fires k s)"
  using assms by (auto simp: toast_inv_def timer_fires_def dismissToast_def distinct_map_filter in_diff_count)

lemma toast_reach_inv: "toast_reach s \<Longrightarrow> toast_inv s"
proof (induction rule: toast_reach.induct)
  case init
  show ?case by (simp add: toast_inv_def toast_init_def)
next
  case (mounted s l)
  then show ?case by (auto simp: toast_inv_def mount_useToast_def)
qed (simp_all add: toast_inv_raise toast_inv_filter toast_inv_fire unmount_useToast_def)

subsection \<open>The component\<close>

text \<open>\<open>variantStyles[v]\<close>: the record has no entry for \<open>destructive\<close>.\<close>

fun variantStyles :: "toast_variant \<Rightarrow> jstr option" where
  "variantStyles VDefault = Some (U ''border-neutral-200 bg-white text-neutral-900 dark:border-neutral-800 dark:bg-neutral-900 dark:text-neutral-50'')"
| "variantStyles VSuccess = Some (U ''border-success/30 bg-success-light text-success dark:bg-success/20'')"
| "variantStyles VError = Some (U ''border-error/30 bg-error-light text-error dark:bg-error/20'')"
| "variantStyles VWarning = Some (U ''border-warning/30 bg-warning-light text-warning dark:bg-warning/20'')"
| "variantStyles VDestructive = None"

definition toast_item_view :: "toast \<Rightarrow> jstr view" where
  "toast_item_view t = N ''div'' (case variantStyles (to_variant t) of Some c \<Rightarrow> [A ''className'' c] | None \<Rightarrow> [])
     [N ''div'' []
        ((case truthy_s (to_title t) of None \<Rightarrow> [] | Some s \<Rightarrow> [txt_el ''p'' s]) @
         (case truthy_s (to_description t) of None \<Rightarrow> [] | Some s \<Rightarrow> [txt_el ''p'' s])),
      N ''button'' [On ''onClick'' (\<lambda>_. to_id t), A ''aria-label'' (U ''Fechar notifica~00e7~00e3o'')] []]"

definition toaster_view :: "toast list \<Rightarrow> jstr view option" where
  "toaster_view ts = (if ts = [] then None else Some (N ''div'' [] (map toast_item_view ts)))"

text \<open>The close buttons of the toaster carry the identifiers of the toasts, in order.\<close>

lemma toaster_clicks:
  "toaster_view ts = Some v \<Longrightarrow> clicks ''onClick'' v = map to_id ts"
proof -
  have item: "reachable_handlers (toast_item_view t) = [(''onClick'', \<lambda>_. to_id t)]" for t
    by (cases "to_title t"; cases "to_description t"; cases "variantStyles (to_variant t)")
       (auto simp: toast_item_view_def truthy_s_def nonempty_def)
  assume "toaster_view ts = Some v"
  then have "v = N ''div'' [] (map toast_item_view ts)" by (simp add: toaster_view_def split: if_splits)
  then show ?thesis
    by (induction ts arbitrary: v) (simp_all add: clicks_def item del: map_map)
qed

end
