(* ===== verification/Widget.thy ===== *)
theory Widget imports Uri JsFormat JsValue begin

unbundle bit_operations_syntax

text \<open>
  The tracking script the customers embed (\<open>packages/tracking/src/widget.ts\<close>). What it reads of the
  browser is a record: the cookie jar, the address, the referrer, the clock, the values of the
  inputs named \<open>referral_code\<close>, whether there is a beacon. \<open>Math.random\<close> is a parameter, the sequence
  of its results. A function that throws returns \<open>Inl\<close>.
\<close>

subsection \<open>The browser\<close>

text \<open>
  The jar as \<open>document.cookie\<close> lists it. Assigning to \<open>document.cookie\<close> stores the pair before the
  first semicolon (RFC 6265, section 5.2): a cookie of that name is replaced where it stands, a new
  one comes last.
\<close>

type_synonym jar = "(jstr \<times> jstr) list"

definition cookie_pair :: "jstr \<times> jstr \<Rightarrow> jstr" where
  "cookie_pair p = (if fst p = [] then snd p else fst p @ [61] @ snd p)"

definition document_cookie :: "jar \<Rightarrow> jstr" where
  "document_cookie jar = js_join (U ''; '') (map cookie_pair jar)"

definition wsp_trim :: "jstr \<Rightarrow> jstr" where
  "wsp_trim s = (let f = dropWhile (\<lambda>c. c = 32 \<or> c = 9) in rev (f (rev (f s))))"

definition store_cookie :: "jstr \<Rightarrow> jar \<Rightarrow> jar" where
  "store_cookie text jar = (let p = takeWhile (\<lambda>c. c \<noteq> 59) text in
     if 61 \<in> set p
     then set_key (wsp_trim (takeWhile (\<lambda>c. c \<noteq> 61) p)) (wsp_trim (drop 1 (dropWhile (\<lambda>c. c \<noteq> 61) p))) jar
     else set_key [] (wsp_trim p) jar)"

record browser =
  wb_jar :: jar
  wb_search :: jstr
  wb_href :: jstr
  wb_referrer :: jstr
  wb_now :: jsnum
  wb_inputs :: "jstr list"
  wb_beacon :: bool

datatype uri_error = URIError

subsection \<open>Cookies\<close>

definition COOKIE_NAME :: jstr where
  "COOKIE_NAME = U ''_iaref''"

definition COOKIE_MAX_AGE :: int where
  "COOKIE_MAX_AGE = 365 * 24 * 60 * 60"

text \<open>
  The first match of the regular expression \<open>(^| )name=([^;]+)\<close>, leftmost and greedy; the name is
  taken literally, as the only name the script uses has no special character.
\<close>

definition cookie_here :: "jstr \<Rightarrow> jstr \<Rightarrow> jstr option" where
  "cookie_here name s =
     (if js_startsWith s (name @ [61])
      then nonempty (takeWhile (\<lambda>c. c \<noteq> 59) (drop (length name + 1) s)) else None)"

fun cookie_after_space :: "jstr \<Rightarrow> jstr \<Rightarrow> jstr option" where
  "cookie_after_space name [] = None"
| "cookie_after_space name (c # s) =
     (if c = 32 then (case cookie_here name s of Some v \<Rightarrow> Some v | None \<Rightarrow> cookie_after_space name s)
      else cookie_after_space name s)"

definition cookie_match :: "jstr \<Rightarrow> jstr \<Rightarrow> jstr option" where
  "cookie_match name s = (case cookie_here name s of Some v \<Rightarrow> Some v | None \<Rightarrow> cookie_after_space name s)"

definition getCookie :: "jstr \<Rightarrow> jar \<Rightarrow> uri_error + jstr option" where
  "getCookie name jar = (case cookie_match name (document_cookie jar) of None \<Rightarrow> Inr None
     | Some m \<Rightarrow> (case decodeURIComponent m of None \<Rightarrow> Inl URIError | Some v \<Rightarrow> Inr (Some v)))"

definition setCookie :: "jstr \<Rightarrow> jstr \<Rightarrow> int \<Rightarrow> jar \<Rightarrow> uri_error + jar" where
  "setCookie name value maxAge jar = (case encodeURIComponent value of None \<Rightarrow> Inl URIError
     | Some e \<Rightarrow> Inr (store_cookie (name @ [61] @ e @ U ''; max-age='' @ num_str (num_int maxAge) @
         U ''; path=/; SameSite=Lax; Secure'') jar))"

subsection \<open>The visitor\<close>

definition hex_lower :: "nat \<Rightarrow> nat" where
  "hex_lower n = (if n < 10 then 48 + n else 87 + n)"

text \<open>\<open>(Math.random() * 16) | 0\<close> for a result in the unit interval.\<close>

definition draw16 :: "rat \<Rightarrow> nat" where
  "draw16 x = nat \<lfloor>x * 16\<rfloor>"

fun fill_template :: "(nat \<Rightarrow> rat) \<Rightarrow> nat \<Rightarrow> jstr \<Rightarrow> jstr" where
  "fill_template random k [] = []"
| "fill_template random k (c # s) =
     (let r = draw16 (random k) in
      if c = 120 then hex_lower r # fill_template random (Suc k) s
      else if c = 121 then hex_lower ((r AND 3) OR 8) # fill_template random (Suc k) s
      else c # fill_template random k s)"

definition generateVisitorId :: "(nat \<Rightarrow> rat) \<Rightarrow> jstr" where
  "generateVisitorId random = fill_template random 0 (U ''xxxxxxxx-xxxx-4xxx-yxxx-xxxxxxxxxxxx'')"

definition getVisitorId :: "(nat \<Rightarrow> rat) \<Rightarrow> jar \<Rightarrow> uri_error + jstr \<times> jar" where
  "getVisitorId random jar = (case getCookie COOKIE_NAME jar of Inl e \<Rightarrow> Inl e
     | Inr c \<Rightarrow> (case truthy_s c of
         Some existing \<Rightarrow> Inr (js_or (hd (js_split 58 existing)) (generateVisitorId random), jar)
       | None \<Rightarrow> (let i = generateVisitorId random in
           case setCookie COOKIE_NAME i COOKIE_MAX_AGE jar of Inl e \<Rightarrow> Inl e | Inr jar' \<Rightarrow> Inr (i, jar'))))"

subsection \<open>The referral code\<close>

text \<open>
  UTF-8 decoding with replacement, as the URL standard has it: \<open>n\<close> bytes still needed, the value so
  far, the range of the next byte. A byte outside the range ends the sequence and is read again.
\<close>

fun utf8_lossy :: "nat \<Rightarrow> nat \<Rightarrow> nat \<Rightarrow> nat \<Rightarrow> nat list \<Rightarrow> jstr" where
  "utf8_lossy n cp lo hi [] = (if n = 0 then [] else [65533])"
| "utf8_lossy 0 cp lo hi (b # bs) =
     (if b < 128 then b # utf8_lossy 0 0 128 191 bs
      else if 194 \<le> b \<and> b \<le> 223 then utf8_lossy 1 (b - 192) 128 191 bs
      else if 224 \<le> b \<and> b \<le> 239 then utf8_lossy 2 (b - 224) (if b = 224 then 160 else 128) (if b = 237 then 159 else 191) bs
      else if 240 \<le> b \<and> b \<le> 244 then utf8_lossy 3 (b - 240) (if b = 240 then 144 else 128) (if b = 244 then 143 else 191) bs
      else 65533 # utf8_lossy 0 0 128 191 bs)"
| "utf8_lossy (Suc n) cp lo hi (b # bs) =
     (if lo \<le> b \<and> b \<le> hi
      then (if n = 0 then units (cp * 64 + (b - 128)) @ utf8_lossy 0 0 128 191 bs
            else utf8_lossy n (cp * 64 + (b - 128)) 128 191 bs)
      else 65533 # utf8_lossy 0 0 128 191 (b # bs))"

text \<open>\<open>new URLSearchParams(search).get(key)\<close>.\<close>

definition search_pairs :: "jstr \<Rightarrow> (jstr \<times> jstr) list" where
  "search_pairs search =
     (let q = (case search of c # s \<Rightarrow> if c = 63 then s else search | [] \<Rightarrow> []);
          dec = utf8_lossy 0 0 128 191
      in map (\<lambda>p. case read_pair p of (k, v) \<Rightarrow> (dec k, dec v)) (filter (\<lambda>p. p \<noteq> []) (js_split 38 q)))"

definition params_get :: "jstr \<Rightarrow> (jstr \<times> jstr) list \<Rightarrow> jstr option" where
  "params_get key ps = map_of ps key"

definition getReferralCode :: "jstr \<Rightarrow> jar \<Rightarrow> uri_error + jstr option" where
  "getReferralCode search jar = (case truthy_s (params_get (U ''ref'') (search_pairs search)) of
       Some r \<Rightarrow> Inr (Some r)
     | None \<Rightarrow> (case getCookie COOKIE_NAME jar of Inl e \<Rightarrow> Inl e
         | Inr c \<Rightarrow> (case truthy_s c of None \<Rightarrow> Inr None
             | Some s \<Rightarrow> Inr (case js_split 58 s of _ # p # _ \<Rightarrow> nonempty p | _ \<Rightarrow> None))))"

subsection \<open>init\<close>

record click_event =
  ce_slug :: jstr
  ce_visitorId :: jstr
  ce_referrer :: "jstr option"
  ce_url :: jstr
  ce_timestamp :: jsnum

datatype sent = Beacon jstr click_event | Post jstr click_event

definition click_url :: "jstr \<Rightarrow> jstr" where
  "click_url apiUrl = apiUrl @ U ''/events/click''"

definition fill_input :: "jstr option \<Rightarrow> jstr \<Rightarrow> jstr" where
  "fill_input code v = (case code of None \<Rightarrow> v | Some r \<Rightarrow> if v = [] then r else v)"

definition click_of :: "jstr \<Rightarrow> jstr option \<Rightarrow> browser \<Rightarrow> click_event" where
  "click_of visitor code w = \<lparr> ce_slug = or_str code (U ''direct''), ce_visitorId = visitor,
     ce_referrer = nonempty (wb_referrer w), ce_url = wb_href w, ce_timestamp = wb_now w \<rparr>"

text \<open>The browser after the script has run, and what it sent.\<close>

definition widget_init :: "(nat \<Rightarrow> rat) \<Rightarrow> jstr \<Rightarrow> browser \<Rightarrow> uri_error + browser \<times> sent" where
  "widget_init random apiUrl w = (case getVisitorId random (wb_jar w) of Inl e \<Rightarrow> Inl e
     | Inr (visitor, jar) \<Rightarrow> (case getReferralCode (wb_search w) jar of Inl e \<Rightarrow> Inl e
         | Inr code \<Rightarrow> (let ev = click_of visitor code w in
             Inr (w\<lparr> wb_jar := jar, wb_inputs := map (fill_input (truthy_s code)) (wb_inputs w) \<rparr>,
               if wb_beacon w then Beacon (click_url apiUrl) ev else Post (click_url apiUrl) ev))))"


subsection \<open>What is stored is what is read\<close>

definition token :: "jstr \<Rightarrow> bool" where
  "token n \<longleftrightarrow> n \<noteq> [] \<and> 61 \<notin> set n \<and> 59 \<notin> set n \<and> 32 \<notin> set n \<and> 9 \<notin> set n"

text \<open>The cookies as RFC 6265 asks servers to write them: no space or semicolon, one per name.\<close>

definition plain_jar :: "jar \<Rightarrow> bool" where
  "plain_jar jar \<longleftrightarrow> list_all (\<lambda>(n, v). token n \<and> 59 \<notin> set v \<and> 32 \<notin> set v) jar \<and> distinct (map fst jar)"

lemma takeWhile_sep [simp]: "c \<notin> set v \<Longrightarrow> takeWhile (\<lambda>x. x \<noteq> c) (v @ c # r) = v"
  "c \<notin> set v \<Longrightarrow> takeWhile (\<lambda>x. x \<noteq> c) v = v"
  by (induction v) auto

lemma dropWhile_sep [simp]: "c \<notin> set v \<Longrightarrow> dropWhile (\<lambda>x. x \<noteq> c) (v @ c # r) = c # r"
  by (induction v) auto

lemma after_space_skip: "32 \<notin> set s \<Longrightarrow> cookie_after_space n (s @ t) = cookie_after_space n t"
  by (induction s) auto

lemma here_other:
  assumes "token n" "61 \<notin> set m" "m \<noteq> n"
  shows "cookie_here n (m @ 61 # v) = None"
proof -
  have "\<not> prefix (n @ [61]) (m @ 61 # v)"
  proof
    assume "prefix (n @ [61]) (m @ 61 # v)"
    then obtain r where e: "m @ 61 # v = n @ 61 # r" by (auto simp: prefix_def)
    have "61 \<notin> set n" using assms(1) by (simp add: token_def)
    then have "takeWhile (\<lambda>c. c \<noteq> 61) (n @ 61 # r) = n" by simp
    moreover have "takeWhile (\<lambda>c. c \<noteq> 61) (m @ 61 # v) = m" using assms(2) by simp
    ultimately have "m = n" using e by simp
    then show False using assms(3) by simp
  qed
  then show ?thesis by (simp add: cookie_here_def startsWith_prefix)
qed

lemma here_same:
  assumes "59 \<notin> set v" "r = [] \<or> (\<exists>r'. r = 59 # r')"
  shows "cookie_here n (n @ 61 # v @ r) = nonempty v"
proof -
  have "takeWhile (\<lambda>c. c \<noteq> 59) (v @ r) = v" using assms by auto
  then show ?thesis by (simp add: cookie_here_def startsWith_prefix prefix_def)
qed

lemma document_cookie_Cons:
  "document_cookie (p # ps) = cookie_pair p @ (if ps = [] then [] else 59 # 32 # document_cookie ps)"
  by (cases ps) (simp_all add: document_cookie_def ustr)

lemma here_Nil [simp]: "cookie_here n [] = None"
  by (cases n) (simp_all add: cookie_here_def)

lemma cookie_match_jar:
  assumes "token n" "plain_jar jar"
  shows "cookie_match n (document_cookie jar) = truthy_s (map_of jar n)"
  using assms(2)
proof (induction jar)
  case Nil
  then show ?case by (simp add: cookie_match_def document_cookie_def truthy_s_def)
next
  case (Cons p ps)
  obtain m v where p: "p = (m, v)" by fastforce
  have m: "token m" "59 \<notin> set v" "32 \<notin> set v" "m \<notin> fst ` set ps" and ps: "plain_jar ps"
    using Cons.prems by (auto simp: plain_jar_def p)
  define r where "r = (if ps = [] then [] else 59 # 32 # document_cookie ps)"
  have doc: "document_cookie (p # ps) = m @ 61 # v @ r"
    using m(1) by (auto simp: document_cookie_Cons cookie_pair_def p r_def token_def)
  have nosp: "32 \<notin> set (m @ 61 # v)" using m by (auto simp: token_def)
  have rest: "cookie_after_space n (m @ 61 # v @ r) = truthy_s (map_of ps n)"
    using after_space_skip [OF nosp, of n r] Cons.IH [OF ps]
    by (auto simp: r_def cookie_match_def truthy_s_def)
  show ?case
  proof (cases "m = n")
    case True
    have "cookie_here n (m @ 61 # v @ r) = nonempty v"
      using here_same [of v r n] m True by (auto simp: r_def)
    moreover have "map_of ps n = None" using m(4) True by (simp add: map_of_eq_None_iff)
    ultimately show ?thesis
      using rest True unfolding cookie_match_def doc by (cases v) (simp_all add: p truthy_s_def)
  next
    case False
    then show ?thesis
      using here_other [OF assms(1), of m "v @ r"] m(1) rest
      unfolding cookie_match_def doc by (simp add: p token_def)
  qed
qed

lemma set_key_set: "set (set_key k v ms) \<subseteq> insert (k, v) (set ms)"
  by (induction k v ms rule: set_key.induct) auto

lemma set_key_fst: "fst ` set (set_key k v ms) = insert k (fst ` set ms)"
  by (induction k v ms rule: set_key.induct) auto

lemma set_key_distinct: "distinct (map fst ms) \<Longrightarrow> distinct (map fst (set_key k v ms))"
  by (induction k v ms rule: set_key.induct) (auto simp: set_key_fst)

lemma plain_jar_set_key:
  assumes "plain_jar jar" "token n" "59 \<notin> set v" "32 \<notin> set v"
  shows "plain_jar (set_key n v jar)"
  using assms set_key_set [of n v jar] set_key_distinct [of jar n v]
  by (fastforce simp: plain_jar_def list_all_iff)

lemma wsp_trim_id: "32 \<notin> set s \<Longrightarrow> 9 \<notin> set s \<Longrightarrow> wsp_trim s = s"
proof -
  assume s: "32 \<notin> set s" "9 \<notin> set s"
  have "dropWhile (\<lambda>c. c = 32 \<or> c = 9) t = t" if "32 \<notin> set t" "9 \<notin> set t" for t :: jstr
    using that by (cases t) auto
  then show ?thesis using s by (simp add: wsp_trim_def Let_def)
qed

lemma uri_safe_clean: "uri_safe c \<or> c = 37 \<Longrightarrow> c \<noteq> 59 \<and> c \<noteq> 61 \<and> c \<noteq> 32 \<and> c \<noteq> 9 \<and> c < 128"
  by (auto simp: uri_safe_def alnum_def isDigit_def)

lemma store_cookie_attrs:
  assumes "token n" "\<forall>c \<in> set e. uri_safe c \<or> c = 37"
  shows "store_cookie (n @ [61] @ e @ 59 # attrs) jar = set_key n e jar"
proof -
  have e: "59 \<notin> set e" "61 \<notin> set e" "32 \<notin> set e" "9 \<notin> set e" using assms(2) uri_safe_clean by blast+
  have n: "59 \<notin> set n" "61 \<notin> set n" "32 \<notin> set n" "9 \<notin> set n" using assms(1) by (auto simp: token_def)
  have "takeWhile (\<lambda>c. c \<noteq> 59) (n @ [61] @ e @ 59 # attrs) = n @ 61 # e"
    using takeWhile_sep(1) [of 59 "n @ 61 # e" attrs] e n by simp
  moreover have "takeWhile (\<lambda>c. c \<noteq> 61) (n @ 61 # e) = n" "dropWhile (\<lambda>c. c \<noteq> 61) (n @ 61 # e) = 61 # e"
    using n by simp_all
  ultimately show ?thesis using e n by (simp add: store_cookie_def Let_def wsp_trim_id)
qed

text \<open>\<open>getCookie\<close> reads back what \<open>setCookie\<close> stored, whatever the other cookies are.\<close>

lemma setCookie_stores:
  assumes "token n" "well_formed v"
  obtains e where "encodeURIComponent v = Some e" "setCookie n v a jar = Inr (set_key n e jar)"
    "decodeURIComponent e = Some v" "59 \<notin> set e" "32 \<notin> set e"
proof -
  obtain e where e: "encodeURIComponent v = Some e" "decodeURIComponent e = Some v"
    using decode_encode [OF assms(2)] by blast
  have "\<forall>c \<in> set v. c < 65536" using assms(2) by (simp add: well_formed_def list_all_iff)
  then have safe: "\<forall>c \<in> set e. uri_safe c \<or> c = 37" using encode_chars [OF e(1)] by blast
  have "U ''; max-age='' @ num_str (num_int a) @ U ''; path=/; SameSite=Lax; Secure'' =
      59 # (U '' max-age='' @ num_str (num_int a) @ U ''; path=/; SameSite=Lax; Secure'')"
    by (simp add: ustr)
  then have "setCookie n v a jar = Inr (set_key n e jar)"
    using store_cookie_attrs [OF assms(1) safe] e(1) by (simp add: setCookie_def)
  then show thesis using that e safe uri_safe_clean by blast
qed

lemma get_set_cookie:
  assumes "token n" "well_formed v" "v \<noteq> []" "plain_jar jar"
  shows "\<exists>jar'. setCookie n v a jar = Inr jar' \<and> plain_jar jar' \<and> getCookie n jar' = Inr (Some v)"
proof -
  obtain e where e: "encodeURIComponent v = Some e" "setCookie n v a jar = Inr (set_key n e jar)"
    "decodeURIComponent e = Some v" "59 \<notin> set e" "32 \<notin> set e"
    by (rule setCookie_stores [OF assms(1,2)])
  have ne: "e \<noteq> []" using e(3) assms(3) by (auto simp: decodeURIComponent_def)
  have plain: "plain_jar (set_key n e jar)"
    using plain_jar_set_key [OF assms(4,1)] e(4,5) by blast
  then have "cookie_match n (document_cookie (set_key n e jar)) = Some e"
    using cookie_match_jar [OF assms(1) plain] ne by (simp add: map_of_set_key truthy_s_def nonempty_def)
  then show ?thesis using e plain by (simp add: getCookie_def)
qed

subsection \<open>Visitors\<close>

definition unit_interval :: "(nat \<Rightarrow> rat) \<Rightarrow> bool" where
  "unit_interval random \<longleftrightarrow> (\<forall>k. 0 \<le> random k \<and> random k < 1)"

lemma draw16_less: "unit_interval random \<Longrightarrow> draw16 (random k) < 16"
proof -
  assume "unit_interval random"
  then have "0 \<le> random k" "random k < 1" by (auto simp: unit_interval_def)
  then have "\<lfloor>random k * 16\<rfloor> < 16" "0 \<le> \<lfloor>random k * 16\<rfloor>" by (auto simp: floor_less_iff)
  then show ?thesis by (simp add: draw16_def nat_less_iff)
qed

lemma variant_digit: "n < 16 \<Longrightarrow> (n AND 3) OR 8 \<in> {8, 9, 10, 11 :: nat}"
proof -
  assume "n < 16"
  moreover have "list_all (\<lambda>n. (n AND 3) OR 8 \<in> {8, 9, 10, 11 :: nat}) [0..<16]" by code_simp
  ultimately show ?thesis by (simp add: list_all_iff)
qed

lemma hex_lower_safe: "n < 16 \<Longrightarrow> uri_safe (hex_lower n)"
  by (auto simp: hex_lower_def uri_safe_def alnum_def isDigit_def)

lemma fill_length [simp]: "length (fill_template random k s) = length s"
  by (induction random k s rule: fill_template.induct) (auto simp: Let_def)

lemma fill_safe:
  assumes "unit_interval random" "\<forall>c \<in> set s. uri_safe c"
  shows "\<forall>c \<in> set (fill_template random k s). uri_safe c"
  using assms
proof (induction random k s rule: fill_template.induct)
  case (2 random k c s)
  have d: "draw16 (random k) < 16" by (rule draw16_less [OF 2(4)])
  have v: "uri_safe (hex_lower ((draw16 (random k) AND 3) OR 8))"
    using variant_digit [OF d] by (intro hex_lower_safe) auto
  show ?case using 2 hex_lower_safe [OF d] v by (auto simp: Let_def)
qed simp

lemma visitor_chars:
  assumes "unit_interval random"
  shows "\<forall>c \<in> set (generateVisitorId random). uri_safe c" "length (generateVisitorId random) = 36"
proof -
  have "\<forall>c \<in> set (U ''xxxxxxxx-xxxx-4xxx-yxxx-xxxxxxxxxxxx''). uri_safe c"
    by (simp add: ustr uri_safe_def alnum_def)
  then show "\<forall>c \<in> set (generateVisitorId random). uri_safe c"
    using fill_safe [OF assms] by (simp add: generateVisitorId_def)
  show "length (generateVisitorId random) = 36" by (simp add: generateVisitorId_def ustr)
qed

lemma ascii_points: "\<forall>c \<in> set s. c < 128 \<Longrightarrow> points s = map Some s"
  by (induction s rule: points.induct) (auto simp: is_high_def is_low_def)

lemma ascii_well_formed: "\<forall>c \<in> set s. c < 128 \<Longrightarrow> well_formed s"
  by (auto simp: well_formed_def ascii_points list_all_iff)

lemma token_COOKIE_NAME: "token COOKIE_NAME"
  by (simp add: token_def COOKIE_NAME_def ustr)

text \<open>A first visit draws an identifier and stores it; every later visit reads that one.\<close>

lemma visitor_persists:
  assumes "unit_interval random" "plain_jar jar" "getCookie COOKIE_NAME jar = Inr None"
  shows "\<exists>jar'. getVisitorId random jar = Inr (generateVisitorId random, jar') \<and> plain_jar jar' \<and>
           getCookie COOKIE_NAME jar' = Inr (Some (generateVisitorId random)) \<and>
           getVisitorId random' jar' = Inr (generateVisitorId random, jar')"
proof -
  let ?i = "generateVisitorId random"
  have ascii: "\<forall>c \<in> set ?i. c < 128 \<and> c \<noteq> 58"
    using visitor_chars(1) [OF assms(1)] by (auto simp: uri_safe_def alnum_def isDigit_def)
  have ne: "?i \<noteq> []" using visitor_chars(2) [OF assms(1)] by auto
  obtain jar' where j: "setCookie COOKIE_NAME ?i COOKIE_MAX_AGE jar = Inr jar'" "plain_jar jar'"
    "getCookie COOKIE_NAME jar' = Inr (Some ?i)"
    using get_set_cookie [OF token_COOKIE_NAME ascii_well_formed ne assms(2)] ascii by blast
  have "js_split 58 ?i = [?i]" using ascii by (intro split_no_sep) auto
  then have "getVisitorId random' jar' = Inr (?i, jar')"
    using j(3) ne by (simp add: getVisitorId_def truthy_s_def nonempty_def js_or_def)
  then show ?thesis using j assms(3) by (simp add: getVisitorId_def truthy_s_def)
qed

subsection \<open>The referral code\<close>

text \<open>The parameter of the address wins over the cookie, which is not even read.\<close>

lemma referral_from_url:
  "params_get (U ''ref'') (search_pairs search) = Some r \<Longrightarrow> r \<noteq> [] \<Longrightarrow> getReferralCode search jar = Inr (Some r)"
  by (simp add: getReferralCode_def truthy_s_def nonempty_def)

lemma referral_from_cookie:
  assumes "truthy_s (params_get (U ''ref'') (search_pairs search)) = None"
    "getCookie COOKIE_NAME jar = Inr (Some (visitor @ 58 # slug @ 58 # rest))"
    "58 \<notin> set visitor" "58 \<notin> set slug"
  shows "getReferralCode search jar = Inr (nonempty slug)"
proof -
  have "js_split 58 (visitor @ 58 # slug @ 58 # rest) = visitor # slug # js_split 58 rest"
    using assms(3,4) by (simp add: split_append_sep)
  then show ?thesis using assms(1,2) by (cases visitor) (simp_all add: getReferralCode_def truthy_s_def)
qed

text \<open>\<open>init\<close> throws exactly when the cookie cannot be decoded.\<close>

lemma setCookie_visitor:
  assumes "unit_interval random"
  shows "\<exists>jar'. setCookie n (generateVisitorId random) a jar = Inr jar'"
proof -
  have "\<forall>c \<in> set (generateVisitorId random). c < 128"
    using visitor_chars(1) [OF assms] uri_safe_clean by blast
  then obtain e where "encodeURIComponent (generateVisitorId random) = Some e"
    using decode_encode [OF ascii_well_formed] by blast
  then show ?thesis by (simp add: setCookie_def)
qed

lemma init_outcome:
  assumes "getCookie COOKIE_NAME (wb_jar w) = Inr (Some c)" "c \<noteq> []"
  shows "\<exists>w' e. widget_init random apiUrl w = Inr (w', e) \<and> wb_jar w' = wb_jar w"
  using assms
  by (cases "truthy_s (params_get (U ''ref'') (search_pairs (wb_search w)))")
     (simp_all add: widget_init_def getVisitorId_def getReferralCode_def truthy_s_def nonempty_def Let_def)

lemma init_throws:
  "getCookie COOKIE_NAME (wb_jar w) = Inl e \<Longrightarrow> widget_init random apiUrl w = Inl e"
  by (simp add: widget_init_def getVisitorId_def)

end
