(* ===== verification/ClientApi.thy ===== *)
theory ClientApi imports DashboardApi begin

text \<open>
  The calls of \<open>packages/api-client/src/{auth,leads,partners,programs}.ts\<close>, over the client of
  \<open>createClient\<close>. Request bodies are dynamic values here: the package types them with interfaces
  that the functions only pass on.
\<close>

datatype pkg_call =
    CLogin jsval | CLogout | CMe | CRequestMagicLink jstr | CVerifyMagicLink jstr
  | CLeadsList "jstr option" "lead_status option" "jstr option" | CLeadsGet jstr | CLeadsCreate jsval
  | CLeadsUpdateStatus jstr jsval | CLeadsRewards jstr | CMyReferrals | CMyRewards
  | CPartnersList "jstr option" | CPartnersGet jstr | CPartnersCreate jsval | CPartnersUpdate jstr jsval
  | CPartnersStats jstr | CPartnersMe | CMyStats
  | CProgramsList | CProgramsGet jstr | CProgramsCreate jsval | CProgramsUpdate jstr jsval
  | CProgramsDelete jstr

fun pkg_params :: "pkg_call \<Rightarrow> params" where
  "pkg_params (CLeadsList pid st part) =
     set_if (U ''partnerId'') part (set_if (U ''status'') (map_option lead_status_str st)
       (set_if (U ''programId'') pid []))"
| "pkg_params _ = []"

text \<open>\<open>authApi(client)\<close>.\<close>

fun auth_req :: "client_options \<Rightarrow> pkg_call \<Rightarrow> http_req option" where
  "auth_req c (CLogin d) = Some (client_post c (U ''/auth/login'') d [])"
| "auth_req c CLogout = Some (client_post c (U ''/auth/logout'') JUndef [])"
| "auth_req c CMe = Some (client_get c (U ''/auth/me'') [])"
| "auth_req c (CRequestMagicLink e) =
     Some (client_post c (U ''/auth/magic-link'') (JObj [(''email'', JStr e)]) [])"
| "auth_req c (CVerifyMagicLink t) =
     Some (client_post c (U ''/auth/magic-link/verify'') (JObj [(''token'', JStr t)]) [])"
| "auth_req c _ = None"

text \<open>\<open>leadsApi(client)\<close>.\<close>

fun leads_req :: "client_options \<Rightarrow> pkg_call \<Rightarrow> http_req option" where
  "leads_req c (CLeadsList p s t) =
     Some (client_get c (with_query (U ''/leads'') (pkg_params (CLeadsList p s t))) [])"
| "leads_req c (CLeadsGet i) = Some (client_get c (U ''/leads/'' @ i) [])"
| "leads_req c (CLeadsCreate d) = Some (client_post c (U ''/leads'') d [])"
| "leads_req c (CLeadsUpdateStatus i d) = Some (client_patch c (U ''/leads/'' @ i @ U ''/status'') d [])"
| "leads_req c (CLeadsRewards i) = Some (client_get c (U ''/leads/'' @ i @ U ''/rewards'') [])"
| "leads_req c CMyReferrals = Some (client_get c (U ''/partners/me/referrals'') [])"
| "leads_req c CMyRewards = Some (client_get c (U ''/partners/me/rewards'') [])"
| "leads_req c _ = None"

text \<open>\<open>partnersApi(client)\<close>; the identifier of \<open>list\<close> goes into the query as it is.\<close>

fun partners_req :: "client_options \<Rightarrow> pkg_call \<Rightarrow> http_req option" where
  "partners_req c (CPartnersList p) = Some (client_get c (U ''/partners'' @
     (case truthy_s p of None \<Rightarrow> [] | Some i \<Rightarrow> U ''?programId='' @ i)) [])"
| "partners_req c (CPartnersGet i) = Some (client_get c (U ''/partners/'' @ i) [])"
| "partners_req c (CPartnersCreate d) = Some (client_post c (U ''/partners'') d [])"
| "partners_req c (CPartnersUpdate i d) = Some (client_patch c (U ''/partners/'' @ i) d [])"
| "partners_req c (CPartnersStats i) = Some (client_get c (U ''/partners/'' @ i @ U ''/stats'') [])"
| "partners_req c CPartnersMe = Some (client_get c (U ''/partners/me'') [])"
| "partners_req c CMyStats = Some (client_get c (U ''/partners/me/stats'') [])"
| "partners_req c _ = None"

text \<open>\<open>programsApi(client)\<close>.\<close>

fun programs_req :: "client_options \<Rightarrow> pkg_call \<Rightarrow> http_req option" where
  "programs_req c CProgramsList = Some (client_get c (U ''/programs'') [])"
| "programs_req c (CProgramsGet i) = Some (client_get c (U ''/programs/'' @ i) [])"
| "programs_req c (CProgramsCreate d) = Some (client_post c (U ''/programs'') d [])"
| "programs_req c (CProgramsUpdate i d) = Some (client_patch c (U ''/programs/'' @ i) d [])"
| "programs_req c (CProgramsDelete i) = Some (client_delete c (U ''/programs/'' @ i) [])"
| "programs_req c _ = None"

end
