(* ===== verification/Routes.thy ===== *)
theory Routes imports PartnerApi ClientApi begin

text \<open>
  The route table of the API server (\<open>internal/api/routes.go\<close>) as data, and which of its handlers a
  request of the clients reaches. A pattern is a list of path segments, each a literal or a
  parameter; the nested \<open>Route\<close> groups of the source are flattened into full paths. The routes are
  looked up by method and pattern; no order between them is assumed, because the theorems show that
  exactly one matches.
\<close>

datatype seg = L string | Param

type_synonym route = "string \<times> seg list \<times> string"

text \<open>Method, pattern under the root, handler.\<close>

definition api_routes :: "route list" where
  "api_routes = [
     (''POST'', [L ''auth'', L ''login''], ''auth.Login''),
     (''POST'', [L ''auth'', L ''magic-link''], ''auth.RequestMagicLink''),
     (''POST'', [L ''auth'', L ''magic-link'', L ''verify''], ''auth.VerifyMagicLink''),
     (''POST'', [L ''auth'', L ''register''], ''auth.Register''),
     (''POST'', [L ''auth'', L ''refresh''], ''auth.RefreshToken''),
     (''POST'', [L ''auth'', L ''logout''], ''auth.Logout''),
     (''POST'', [L ''events'', L ''click''], ''tracking.HandleClick''),
     (''POST'', [L ''programs''], ''programs.Create''),
     (''GET'', [L ''programs''], ''programs.List''),
     (''GET'', [L ''programs'', Param], ''programs.Get''),
     (''PATCH'', [L ''programs'', Param, L ''status''], ''programs.UpdateStatus''),
     (''GET'', [L ''partners''], ''partners.AdminList''),
     (''POST'', [L ''partners''], ''partners.AdminCreate''),
     (''GET'', [L ''dashboard'', L ''overview''], ''dashboard.Overview''),
     (''GET'', [L ''tenants'', L ''me'', L ''payouts''], ''payouts.List''),
     (''POST'', [L ''tenants'', L ''me'', L ''payouts'', L ''create-job''], ''payouts.CreatePayoutsJob''),
     (''POST'', [L ''tenants'', L ''me'', L ''payouts'', Param, L ''confirm''], ''payouts.Confirm''),
     (''POST'', [L ''tenants'', L ''me'', L ''payouts'', Param, L ''paid''], ''payouts.Paid''),
     (''POST'', [L ''tenants'', L ''me'', L ''payouts'', Param, L ''cancel''], ''payouts.Cancel''),
     (''GET'', [L ''partners'', L ''me'', L ''wallet''], ''partners.Wallet''),
     (''GET'', [L ''partners'', L ''me'', L ''payouts''], ''partners.Payouts''),
     (''PATCH'', [L ''partners'', L ''me'', L ''pix-key''], ''partners.UpdatePixKey''),
     (''GET'', [L ''partner'', L ''me''], ''partners.Me''),
     (''GET'', [L ''partner'', L ''referrals''], ''partners.Referrals''),
     (''POST'', [L ''partner'', L ''leads''], ''partners.CreateLead''),
     (''GET'', [L ''leads''], ''leads.List''),
     (''PATCH'', [L ''leads'', Param, L ''status''], ''leads.UpdateStatus''),
     (''GET'', [L ''rewards''], ''rewards.List''),
     (''GET'', [L ''rewards'', L ''summary''], ''rewards.Summary''),
     (''PATCH'', [L ''rewards'', Param, L ''approve''], ''rewards.Approve''),
     (''PATCH'', [L ''rewards'', Param, L ''reject''], ''rewards.Reject''),
     (''GET'', [L ''me''], ''auth.Me''),
     (''POST'', [L ''me'', L ''lgpd'', L ''export''], ''lgpd.RequestExport''),
     (''POST'', [L ''me'', L ''lgpd'', L ''erase''], ''lgpd.RequestErase''),
     (''GET'', [L ''me'', L ''lgpd'', L ''requests''], ''lgpd.ListRequests''),
     (''GET'', [L ''me'', L ''consents''], ''lgpd.ListConsents''),
     (''POST'', [L ''me'', L ''consents''], ''lgpd.Grant''),
     (''DELETE'', [L ''me'', L ''consents'', Param], ''lgpd.Revoke''),
     (''GET'', [L ''me'', L ''sessions''], ''sessions.List''),
     (''POST'', [L ''me'', L ''sessions'', L ''revoke-all''], ''sessions.RevokeAll''),
     (''POST'', [L ''me'', L ''sessions'', Param, L ''revoke''], ''sessions.Revoke''),
     (''GET'', [L ''audit-log''], ''audit.List''),
     (''GET'', [L ''audit-log'', L ''summary''], ''audit.Summary''),
     (''GET'', [L ''audit-log'', L ''fraud-evaluations''], ''audit.FraudEvaluations''),
     (''GET'', [L ''admin'', L ''tenants''], ''admin.tenants'')]"

fun seg_matches :: "seg \<Rightarrow> jstr \<Rightarrow> bool" where
  "seg_matches (L l) s = (s = U l)"
| "seg_matches Param s = (s \<noteq> [])"

text \<open>The handlers a request on the API server can reach, by its path without the origin.\<close>

definition reach :: "string \<Rightarrow> jstr list \<Rightarrow> route \<Rightarrow> string list" where
  "reach m ss r = (case r of (m', pat, h) \<Rightarrow> whenl (m = m' \<and> list_all2 seg_matches pat ss) [h])"

definition lookup_route :: "string \<Rightarrow> jstr list \<Rightarrow> string list" where
  "lookup_route m ss = concat (map (reach m ss) api_routes)"

definition served_by :: "string \<Rightarrow> jstr \<Rightarrow> string list" where
  "served_by m path = (case segments path of
      r # a # ss \<Rightarrow> if r = [] \<and> a = U ''api'' then lookup_route m ss else []
    | _ \<Rightarrow> [])"

definition served :: "http_req \<Rightarrow> string list" where
  "served q = served_by (rq_method q) (rq_url q)"

text \<open>The handler each call of the two applications is meant for.\<close>

fun dash_handler :: "dash_call \<Rightarrow> string" where
  "dash_handler DashboardOverview = ''dashboard.Overview''"
| "dash_handler PartnersList = ''partners.AdminList''"
| "dash_handler (PartnersCreate _) = ''partners.AdminCreate''"
| "dash_handler (LeadsList _) = ''leads.List''"
| "dash_handler (LeadsUpdateStatus _ _) = ''leads.UpdateStatus''"
| "dash_handler AuthMe = ''auth.Me''"
| "dash_handler AuthLogout = ''auth.Logout''"
| "dash_handler (RewardsList _) = ''rewards.List''"
| "dash_handler RewardsSummary = ''rewards.Summary''"
| "dash_handler (RewardsApprove _) = ''rewards.Approve''"
| "dash_handler (RewardsReject _ _) = ''rewards.Reject''"
| "dash_handler ProgramsList = ''programs.List''"
| "dash_handler (ProgramsGet _) = ''programs.Get''"
| "dash_handler (ProgramsCreate _) = ''programs.Create''"
| "dash_handler (ProgramsUpdateStatus _ _) = ''programs.UpdateStatus''"
| "dash_handler (AuditList _ _ _) = ''audit.List''"
| "dash_handler AuditSummary = ''audit.Summary''"
| "dash_handler (AuditFraudEvaluations _ _) = ''audit.FraudEvaluations''"
| "dash_handler SessionsList = ''sessions.List''"
| "dash_handler (SessionsRevoke _) = ''sessions.Revoke''"
| "dash_handler SessionsRevokeAll = ''sessions.RevokeAll''"
| "dash_handler (PayoutsList _ _ _) = ''payouts.List''"
| "dash_handler PayoutsCreateJob = ''payouts.CreatePayoutsJob''"
| "dash_handler (PayoutsConfirm _) = ''payouts.Confirm''"
| "dash_handler (PayoutsPaid _ _) = ''payouts.Paid''"
| "dash_handler (PayoutsCancel _ _) = ''payouts.Cancel''"

fun partner_handler :: "partner_call \<Rightarrow> string" where
  "partner_handler (RequestMagicLink _) = ''auth.RequestMagicLink''"
| "partner_handler (VerifyMagicLink _) = ''auth.VerifyMagicLink''"
| "partner_handler PLogout = ''auth.Logout''"
| "partner_handler PAuthMe = ''auth.Me''"
| "partner_handler PMe = ''partners.Me''"
| "partner_handler PReferrals = ''partners.Referrals''"
| "partner_handler (PCreateLead _) = ''partners.CreateLead''"
| "partner_handler PWallet = ''partners.Wallet''"
| "partner_handler (PPayouts _ _) = ''partners.Payouts''"
| "partner_handler (PUpdatePixKey _ _) = ''partners.UpdatePixKey''"

text \<open>The identifiers a call puts into its path.\<close>

fun dash_ids :: "dash_call \<Rightarrow> jstr list" where
  "dash_ids (LeadsUpdateStatus i _) = [i]"
| "dash_ids (RewardsApprove i) = [i]" | "dash_ids (RewardsReject i _) = [i]"
| "dash_ids (ProgramsGet i) = [i]" | "dash_ids (ProgramsUpdateStatus i _) = [i]"
| "dash_ids (SessionsRevoke i) = [i]"
| "dash_ids (PayoutsConfirm i) = [i]" | "dash_ids (PayoutsPaid i _) = [i]"
| "dash_ids (PayoutsCancel i _) = [i]"
| "dash_ids _ = []"

lemma takeWhile_seg: "63 \<notin> set i \<Longrightarrow> takeWhile (\<lambda>c. c \<noteq> (63::nat)) (i @ s) = i @ takeWhile (\<lambda>c. c \<noteq> 63) s"
  by (induction i) auto

lemma takeWhile_seg_end: "63 \<notin> set i \<Longrightarrow> takeWhile (\<lambda>c. c \<noteq> (63::nat)) i = i"
  by (auto simp: takeWhile_eq_all_conv)

lemma split_end: "47 \<notin> set i \<Longrightarrow> js_split 47 i = [i]"
  by (rule split_no_sep)

lemmas path_eval = path_only_def takeWhile_seg takeWhile_seg_end split_append_sep split_end is_segment_def

lemma served_query:
  "63 \<notin> set p \<Longrightarrow> served_by m (with_query p ps) = served_by m p"
  by (simp add: served_by_def segments_def path_only_query) (simp add: path_only_def takeWhile_seg_end)

lemma served_get: "served (api_get [] p) = served_by ''GET'' p"
  by (simp add: served_def request_defs)

lemma served_post: "served (api_post [] p b) = served_by ''POST'' p"
  by (simp add: served_def request_defs)

lemma served_patch: "served (api_patch [] p b) = served_by ''PATCH'' p"
  by (simp add: served_def request_defs)

text \<open>The lookup with the table and its literals evaluated once.\<close>

definition lit_matches :: "jstr \<Rightarrow> jstr \<Rightarrow> bool" where
  "lit_matches l s = (s = l)"

lemma seg_matches_lit: "seg_matches (L l) = lit_matches (U l)" "seg_matches Param = (\<lambda>s. s \<noteq> [])"
  by (auto simp: lit_matches_def)

fun all2 :: "('a \<Rightarrow> bool) list \<Rightarrow> 'a list \<Rightarrow> bool" where
  "all2 [] [] = True" | "all2 (p # ps) (x # xs) = (p x \<and> all2 ps xs)" | "all2 _ _ = False"

lemma list_all2_all2: "list_all2 P xs ys = all2 (map P xs) ys"
proof (induction xs arbitrary: ys)
  case Nil
  then show ?case by (cases ys) auto
next
  case (Cons x xs)
  then show ?case by (cases ys) auto
qed

lemmas lookup_num = lookup_route_def [unfolded api_routes_def list.map concat.simps reach_def
  prod.case list_all2_all2 seg_matches_lit U_eval, simplified]

lemmas route_eval = served_get served_post served_patch served_by_def segments_def path_eval
  lookup_num lit_matches_def

lemma static_query:
  "served_by ''GET'' (with_query (U ''/api/leads'') ps) = [''leads.List'']"
  "served_by ''GET'' (with_query (U ''/api/rewards'') ps) = [''rewards.List'']"
  "served_by ''GET'' (with_query (U ''/api/audit-log'') ps) = [''audit.List'']"
  "served_by ''GET'' (with_query (U ''/api/audit-log/fraud-evaluations'') ps) = [''audit.FraudEvaluations'']"
  "served_by ''GET'' (with_query (U ''/api/tenants/me/payouts'') ps) = [''payouts.List'']"
  "served_by ''GET'' (with_query (U ''/api/partners/me/payouts'') ps) = [''partners.Payouts'']"
  by (subst served_query, simp add: ustr, simp add: ustr route_eval)+

lemma dash_routes:
  assumes "list_all is_segment (dash_ids c)"
  shows "served (dash_req [] c) = [dash_handler c]"
proof (cases c)
  case (LeadsList x) then show ?thesis by (simp add: served_get static_query)
next
  case (RewardsList x) then show ?thesis by (simp add: served_get static_query)
next
  case (AuditList a e l) then show ?thesis by (simp add: served_get static_query)
next
  case (AuditFraudEvaluations a l) then show ?thesis by (simp add: served_get static_query)
next
  case (PayoutsList a b l) then show ?thesis by (simp add: served_get static_query)
qed (use assms in \<open>simp_all add: ustr route_eval\<close>)

lemma partner_routes: "served (partner_req [] c) = [partner_handler c]"
proof (cases c)
  case (PPayouts l off) then show ?thesis by (simp add: served_get static_query)
qed (simp_all add: ustr route_eval)

end
