(* ===== verification/ClickServer.thy ===== *)
theory ClickServer imports Widget GoRules Routes begin

text \<open>
  The other end of the tracking script: the body it posts, and what the click handler of the server
  reads of it (\<open>ClickEventRequest\<close> of \<open>internal/api/dto/dto.go\<close>, \<open>HandleClick\<close> of
  \<open>internal/api/handlers/tracking/handler.go\<close>). Go matches the members of a JSON object to the tags of
  a struct without regard to case.
\<close>

definition click_json :: "click_event \<Rightarrow> jsval" where
  "click_json e = JObj [(''slug'', JStr (ce_slug e)), (''visitorId'', JStr (ce_visitorId e)),
     (''referrer'', opt_str (ce_referrer e)), (''url'', JStr (ce_url e)), (''timestamp'', JNum (ce_timestamp e))]"

definition ci_lower :: "string \<Rightarrow> string" where
  "ci_lower k = map (\<lambda>c. let n = of_char c :: nat in if 65 \<le> n \<and> n \<le> 90 then char_of (n + 32) else c) k"

text \<open>The member a tag takes: the last that matches.\<close>

definition go_member :: "jsval \<Rightarrow> string \<Rightarrow> jsval option" where
  "go_member v tag = (case v of JObj ms \<Rightarrow> map_of (rev (map (\<lambda>(k, x). (ci_lower k, x)) ms)) (ci_lower tag) | _ \<Rightarrow> None)"

record click_request =
  cq_Slug :: jstr
  cq_VisitorID :: jstr
  cq_Fingerprint :: jstr
  cq_IP :: jstr
  cq_UA :: jstr
  cq_AcceptLang :: jstr
  cq_Referer :: jstr

definition decode_click :: "jsval \<Rightarrow> click_request option" where
  "decode_click v = (case (go_string (go_member v ''slug''), go_string (go_member v ''visitor_id''),
       go_string (go_member v ''fingerprint''), go_string (go_member v ''ip''), go_string (go_member v ''ua''),
       go_string (go_member v ''accept_lang''), go_string (go_member v ''referer'')) of
       (Some s, Some i, Some f, Some ip, Some ua, Some al, Some r) \<Rightarrow>
         Some \<lparr> cq_Slug = s, cq_VisitorID = i, cq_Fingerprint = f, cq_IP = ip, cq_UA = ua, cq_AcceptLang = al, cq_Referer = r \<rparr>
     | _ \<Rightarrow> None)"

text \<open>
  \<open>HandleClick\<close>: the slug and the visitor it records, when the slug is that of an active link.
  \<open>parse\<close> stands for \<open>uuid.Parse\<close>, \<open>fresh\<close> for \<open>uuid.NewV7\<close>. The status is 202 for an unknown slug.
\<close>

definition srv_click :: "(jstr \<Rightarrow> jstr option) \<Rightarrow> jstr \<Rightarrow> jstr set \<Rightarrow> jsval \<Rightarrow> nat \<times> (jstr \<times> jstr) option" where
  "srv_click parse fresh links v = (case decode_click v of None \<Rightarrow> (400, None)
     | Some q \<Rightarrow> if cq_Slug q \<notin> links then (202, None)
         else (202, Some (cq_Slug q, orelse (parse (cq_VisitorID q)) fresh)))"

lemma click_decoded:
  "decode_click (json (click_json e)) =
     Some \<lparr> cq_Slug = ce_slug e, cq_VisitorID = [], cq_Fingerprint = [], cq_IP = [], cq_UA = [], cq_AcceptLang = [], cq_Referer = [] \<rparr>"
  by (cases "ce_referrer e") (simp_all add: decode_click_def click_json_def go_member_def ci_lower_def opt_str_def)

lemma click_recorded:
  "srv_click parse fresh links (json (click_json e)) =
     (202, if ce_slug e \<in> links then Some (ce_slug e, orelse (parse []) fresh) else None)"
  by (simp add: srv_click_def click_decoded)

text \<open>The route of the handler is under \<open>/api\<close>.\<close>

lemma click_route:
  "served_by ''POST'' (click_url (U ''/api'')) = [''tracking.HandleClick'']"
  "served_by ''POST'' (click_url []) = []"
  by (simp_all add: click_url_def ustr route_eval)

end
