(* ===== verification/ClientRoutes.thy ===== *)
theory ClientRoutes imports Routes begin

text \<open>
  The calls of the client package against the route table of the server. The four endpoint modules
  are put together as \<open>pkg_req\<close>; the base address is the one under which the server has its routes.
\<close>

definition pkg_req :: "client_options \<Rightarrow> pkg_call \<Rightarrow> http_req option" where
  "pkg_req c k = (case auth_req c k of Some q \<Rightarrow> Some q | None \<Rightarrow>
     (case leads_req c k of Some q \<Rightarrow> Some q | None \<Rightarrow>
       (case partners_req c k of Some q \<Rightarrow> Some q | None \<Rightarrow> programs_req c k)))"

text \<open>The calls the server has a handler for, and the identifiers a call puts into its path.\<close>

fun pkg_served :: "pkg_call \<Rightarrow> bool" where
  "pkg_served (CLogin _) = True" | "pkg_served CLogout = True" | "pkg_served (CRequestMagicLink _) = True"
| "pkg_served (CVerifyMagicLink _) = True" | "pkg_served (CLeadsList _ _ _) = True"
| "pkg_served (CLeadsUpdateStatus _ _) = True" | "pkg_served (CPartnersList _) = True"
| "pkg_served (CPartnersCreate _) = True" | "pkg_served CProgramsList = True"
| "pkg_served (CProgramsGet _) = True" | "pkg_served (CProgramsCreate _) = True"
| "pkg_served _ = False"

fun pkg_ids :: "pkg_call \<Rightarrow> jstr list" where
  "pkg_ids (CLeadsGet i) = [i]" | "pkg_ids (CLeadsUpdateStatus i _) = [i]" | "pkg_ids (CLeadsRewards i) = [i]"
| "pkg_ids (CPartnersGet i) = [i]" | "pkg_ids (CPartnersUpdate i _) = [i]" | "pkg_ids (CPartnersStats i) = [i]"
| "pkg_ids (CProgramsGet i) = [i]" | "pkg_ids (CProgramsUpdate i _) = [i]" | "pkg_ids (CProgramsDelete i) = [i]"
| "pkg_ids _ = []"

lemma served_client:
  "served (client_get c p hs) = served_by ''GET'' (co_baseUrl c @ p)"
  "served (client_post c p b hs) = served_by ''POST'' (co_baseUrl c @ p)"
  "served (client_patch c p b hs) = served_by ''PATCH'' (co_baseUrl c @ p)"
  "served (client_delete c p hs) = served_by ''DELETE'' (co_baseUrl c @ p)"
  by (simp_all add: served_def request_defs)

lemma leads_path: "U ''/api'' @ with_query (U ''/leads'') ps = with_query (U ''/api/leads'') ps"
  by (simp add: with_query_def ustr)

lemma pkg_routes:
  assumes "co_baseUrl c = U ''/api''" "list_all is_segment (pkg_ids k)"
  shows "\<exists>q. pkg_req c k = Some q \<and> (served q \<noteq> [] \<longleftrightarrow> pkg_served k)"
proof (cases k)
  case (CLeadsList p s t)
  then show ?thesis using assms(1)
    by (simp add: pkg_req_def served_client leads_path static_query)
next
  case (CPartnersList p)
  have "served_by ''GET'' (U ''/api'' @ U ''/partners'' @ (case truthy_s p of None \<Rightarrow> [] | Some i \<Rightarrow> U ''?programId='' @ i))
      = [''partners.AdminList'']"
    by (cases "truthy_s p") (simp_all add: ustr route_eval)
  then show ?thesis using CPartnersList assms(1) by (simp add: pkg_req_def served_client)
qed (use assms in \<open>simp_all add: pkg_req_def served_client ustr route_eval\<close>)

end
