(* ===== verification/Queries.thy ===== *)
theory Queries imports DashboardApi PartnerApi JsFormat begin

text \<open>
  The queries of the list calls of both applications, read back as the server reads them. What is
  put into a query are the words of the enumerations, numbers as \<open>String\<close> prints them, and two
  texts of the audit page.
\<close>

subsection \<open>Numbers print in ASCII\<close>

lemma digit_ascii: "isDigit c \<Longrightarrow> c < 128"
  by (simp add: isDigit_def)

lemma dec_ascii: "c \<in> set (dec n) \<Longrightarrow> c < 128"
  using dec_digits digit_ascii by blast

lemma shortest_ascii: "c \<in> set (fst (shortest q k f)) \<Longrightarrow> c < 128"
  by (induction q k f rule: shortest.induct) (auto simp: dec_ascii split: option.splits)

lemma strip0_set: "set (strip0 s) \<subseteq> set s"
  by (auto simp: strip0_def dest: set_dropWhileD)

lemma layout_set: "set (layout_digits ds n) \<subseteq> set ds \<union> {43, 45, 46, 48, 101} \<union> set (dec (nat (n - 1))) \<union> set (dec (nat (1 - n)))"
  by (auto simp: layout_digits_def dec_int_def Let_def dest: in_set_takeD in_set_dropD)

lemma num_str_ascii: "c \<in> set (num_str n) \<Longrightarrow> c < 128"
proof (induction n rule: num_str.induct)
  case (1 q)
  obtain ds k where d: "shortest \<bar>q\<bar> 1 17 = (ds, k)" by fastforce
  have "x < 128" if "x \<in> set (layout_digits (strip0 ds) k)" for x
  proof -
    have "x \<in> set ds \<or> x \<in> {43, 45, 46, 48, 101} \<or> x \<in> set (dec (nat (k - 1))) \<or> x \<in> set (dec (nat (1 - k)))"
      using that layout_set [of "strip0 ds" k] strip0_set [of ds] by blast
    then show ?thesis using shortest_ascii [of x "\<bar>q\<bar>" 1 17] d dec_ascii by auto
  qed
  then show ?case using 1 dec_ascii by (auto simp: d [unfolded One_nat_def] dec_int_def sign_str_def split: if_splits)
qed auto

lemma U_lead_ascii: "u \<in> set (lead_status_str st) \<Longrightarrow> u < 128"
  by (cases st) (auto simp: U.simps)

lemma U_reward_ascii: "u \<in> set (reward_status_str st) \<Longrightarrow> u < 128"
  by (cases st) (auto simp: U.simps)

lemma U_payout_ascii: "u \<in> set (payout_status_str st) \<Longrightarrow> u < 128"
  by (cases st) (auto simp: U.simps)

subsection \<open>The pairs of a call\<close>

lemma params_set_subset: "set (params_set k v ps) \<subseteq> insert (k, v) (set ps)"
  by (auto simp: params_set_def extract_Some_iff split: option.splits)

lemma units16_set_if:
  assumes "units16 ps" "\<forall>u \<in> set k. u < 65536" "\<And>s u. v = Some s \<Longrightarrow> u \<in> set s \<Longrightarrow> u < 65536"
  shows "units16 (set_if k v ps)"
  using assms params_set_subset [of k _ ps]
  by (fastforce simp: set_if_def units16_def truthy_s_def nonempty_Some split: option.splits)

lemma num_param_ascii: "num_param x = Some s \<Longrightarrow> u \<in> set s \<Longrightarrow> u < 128"
  by (auto simp: num_param_def num_str_ascii split: option.splits if_splits)

lemma below16: "u < 128 \<Longrightarrow> u < (65536 :: nat)"
  by simp

lemma dash_units16: "call_text16 c \<Longrightarrow> units16 (dash_params c)"
  by (cases c) (auto intro!: units16_set_if simp: U.simps units16_def [of "[]"]
      dest!: num_param_ascii U_lead_ascii U_reward_ascii U_payout_ascii)

lemma dash_query:
  assumes "list_call c"
  shows "query_of (rq_url (dash_req [] c)) = params_str (dash_params c)"
  using assms by (cases c) (simp_all add: api_get_def app_request_def query_of_with U.simps)

lemma dash_query_read:
  assumes "list_call c" "call_text16 c"
  shows "read_query (query_of (rq_url (dash_req [] c))) = map (\<lambda>(k, v). (bytes_of k, bytes_of v)) (dash_params c)"
  unfolding dash_query [OF assms(1)] by (rule read_query_params [OF dash_units16 [OF assms(2)]])

end
