(* ===== verification/Cards.thy ===== *)
theory Cards imports React View JsFormat begin

text \<open>
  The small components of \<open>packages/ui\<close> the pages share: \<open>StatCard\<close>, \<open>CommissionAmount\<close>,
  \<open>EmptyState\<close>, \<open>CopyLinkButton\<close> and the classes of \<open>Badge\<close>.
\<close>

subsection \<open>StatCard\<close>

record stat_delta =
  dl_value :: jstr
  dl_positive :: bool
  dl_neutral :: bool

definition delta_class :: "stat_delta \<Rightarrow> jstr list" where
  "delta_class d = whenl (dl_positive d) [U ''text-success''] @ whenl (dl_neutral d) [U ''text-neutral-500''] @
     whenl (\<not> dl_positive d \<and> \<not> dl_neutral d) [U ''text-error'']"

definition StatCard :: "jstr \<Rightarrow> jstr \<Rightarrow> stat_delta option \<Rightarrow> 'e view option \<Rightarrow> bool \<Rightarrow> 'e view" where
  "StatCard label v delta icon loading =
     (if loading then box ''div'' [box ''div'' [], box ''div'' [], box ''div'' []]
      else box ''div'' (box ''div'' (txt_el ''p'' label # (case icon of None \<Rightarrow> [] | Some i \<Rightarrow> [box ''div'' [i]])) #
        txt_el ''p'' v #
        (case delta of None \<Rightarrow> []
         | Some d \<Rightarrow> [N ''p'' [A ''className'' (js_join [32] (delta_class d))] [T (dl_value d)]])))"

subsection \<open>CommissionAmount\<close>

datatype amount_status = AmPending | AmApproved | AmPaid | AmCancelled

fun statusColors :: "amount_status \<Rightarrow> jstr" where
  "statusColors AmPending = U ''text-warning''"
| "statusColors AmApproved = U ''text-success''"
| "statusColors AmPaid = U ''text-success''"
| "statusColors AmCancelled = U ''text-error''"

fun amountLabels :: "amount_status \<Rightarrow> jstr" where
  "amountLabels AmPending = U ''pendente''"
| "amountLabels AmApproved = U ''aprovada''"
| "amountLabels AmPaid = U ''paga''"
| "amountLabels AmCancelled = U ''cancelada''"

definition CommissionAmount :: "jsnum \<Rightarrow> amount_status \<Rightarrow> bool \<Rightarrow> 'e view" where
  "CommissionAmount amount st loading =
     (if loading then box ''div'' [box ''div'' [], box ''div'' []]
      else box ''div'' [N ''p'' [A ''className'' (statusColors st)] [T (fmt_brl amount)],
             N ''p'' [A ''className'' (statusColors st)] [T (amountLabels st)]])"

subsection \<open>EmptyState\<close>

definition EmptyState :: "jstr \<Rightarrow> jstr option \<Rightarrow> (jstr \<times> 'e) option \<Rightarrow> 'e view option \<Rightarrow> 'e view" where
  "EmptyState title description action icon = N ''div'' [A ''aria-live'' (U ''polite'')]
     ((case icon of None \<Rightarrow> [] | Some i \<Rightarrow> [box ''div'' [i]]) @ [txt_el ''h3'' title] @
      (case Option.bind description nonempty of None \<Rightarrow> [] | Some d \<Rightarrow> [txt_el ''p'' d]) @
      (case action of None \<Rightarrow> [] | Some (label, e) \<Rightarrow> [N ''Button'' [On ''onClick'' (\<lambda>_. e)] [T label]]))"

subsection \<open>CopyLinkButton\<close>

text \<open>
  Its state is the flag \<open>copied\<close>. A click asks the browser to write the clipboard; when that
  settles, after the fallback where it was refused, the flag goes up, and a timer of two seconds
  takes it down.
\<close>

record copy_link =
  cb_copied :: bool

datatype cb_event = CbCopy | CbSelect | CbTimer
datatype cb_done = CbWritten jstr bool

definition cb_init :: "copy_link \<times> jstr list" where
  "cb_init = (\<lparr> cb_copied = False \<rparr>, [])"

fun cb_begin :: "jstr \<Rightarrow> cb_event \<Rightarrow> copy_link \<Rightarrow> copy_link \<times> jstr eff list" where
  "cb_begin url CbCopy s = (s, [WriteClipboard url, Call url])"
| "cb_begin url CbSelect s = (s, [Callback ''select''])"
| "cb_begin url CbTimer s = (s\<lparr> cb_copied := False \<rparr>, [])"

fun cb_opof :: "cb_done \<Rightarrow> jstr" where
  "cb_opof (CbWritten url _) = url"

fun cb_finish :: "cb_done \<Rightarrow> copy_link \<Rightarrow> copy_link \<times> jstr eff list" where
  "cb_finish (CbWritten url ok) s = (s\<lparr> cb_copied := True \<rparr>,
     whenl (\<not> ok) [Callback ''execCommand(copy)''] @ [Timer 2000 ''copied''])"

definition CopyLinkButton :: "jstr \<Rightarrow> copy_link \<Rightarrow> cb_event view" where
  "CopyLinkButton url s = box ''div''
     [box ''div'' [txt_el ''span'' (U ''~d83d~dd17''),
        N ''Input'' [Flag ''readOnly'' True, A ''value'' url, On ''onClick'' (\<lambda>_. CbSelect)] []],
      N ''Button'' [A ''variant'' (if cb_copied s then U ''secondary'' else U ''default''), On ''onClick'' (\<lambda>_. CbCopy),
          A ''aria-label'' (if cb_copied s then U ''Link copiado'' else U ''Copiar link de indica~00e7~00e3o'')]
        [T (if cb_copied s then U ''~2713 Copiado!'' else U ''Copiar'')]]"

subsection \<open>Badge\<close>

definition badge_classes :: "(jstr \<times> jstr) list" where
  "badge_classes = [(U ''default'', U ''bg-primary-light text-primary-dark''), (U ''success'', U ''bg-success-light text-success''),
     (U ''warning'', U ''bg-warning-light text-warning''), (U ''destructive'', U ''bg-error-light text-error''),
     (U ''secondary'', U ''bg-secondary-light text-secondary''), (U ''outline'', U ''border border-neutral-300 text-neutral-600'')]"

definition Badge :: "jstr \<Rightarrow> 'e view list \<Rightarrow> 'e view" where
  "Badge variant vs = N ''div'' [A ''className'' (orelse (map_of badge_classes variant) [])] vs"

subsection \<open>Facts\<close>

lemma stat_card_texts:
  "texts (StatCard label v delta None False) = label # v # (case delta of None \<Rightarrow> [] | Some d \<Rightarrow> [dl_value d])"
  by (simp add: StatCard_def box_def txt_el_def split: option.splits)

lemma stat_card_inert: "\<not> causes (StatCard label v delta None loading) e"
  by (auto simp: StatCard_def causes_N split: option.splits)

lemma empty_state_causes: "causes (EmptyState t d action None) e \<longleftrightarrow> (\<exists>label. action = Some (label, e))"
  by (auto simp: EmptyState_def causes_N split: option.splits)

lemma copied_after_write: "cb_copied (fst (cb_finish d s)) \<and> Timer 2000 ''copied'' \<in> set (snd (cb_finish d s))"
  by (cases d) simp

end
