(* ===== verification/JsonText.thy ===== *)
theory JsonText imports JsValue Uri begin

text \<open>
  JSON as text: \<open>JSON.stringify(v, null, 2)\<close>, which the audit page prints, and a reader of JSON
  texts (the grammar of ECMA-404), so that what is printed can be said to denote the value.
\<close>

subsection \<open>Printing\<close>

definition hex4 :: "nat \<Rightarrow> jstr" where
  "hex4 c = (let h = (\<lambda>n. if n < 10 then 48 + n else 87 + n)
     in [h (c div 4096 mod 16), h (c div 256 mod 16), h (c div 16 mod 16), h (c mod 16)])"

definition quote_unit :: "nat \<Rightarrow> jstr" where
  "quote_unit c = (if c = 34 then [92, 34] else if c = 92 then [92, 92] else if c = 8 then [92, 98]
     else if c = 12 then [92, 102] else if c = 10 then [92, 110] else if c = 13 then [92, 114]
     else if c = 9 then [92, 116] else if c < 32 \<or> is_high c \<or> is_low c then [92, 117] @ hex4 c else [c])"

fun quote_units :: "jstr \<Rightarrow> jstr" where
  "quote_units [] = []"
| "quote_units [c] = quote_unit c"
| "quote_units (c # d # s) =
     (if is_high c \<and> is_low d then [c, d] @ quote_units s else quote_unit c @ quote_units (d # s))"

definition quote_str :: "jstr \<Rightarrow> jstr" where
  "quote_str s = 34 # quote_units s @ [34]"

definition nl :: "nat \<Rightarrow> jstr" where
  "nl d = 10 # replicate d 32"

definition key_str :: "string \<Rightarrow> jstr" where
  "key_str k = map of_char k"

text \<open>The text of a JSON value inside \<open>d\<close> columns of indentation.\<close>

fun jtext :: "nat \<Rightarrow> jsval \<Rightarrow> jstr" where
  "jtext d (JBool b) = (if b then U ''true'' else U ''false'')"
| "jtext d (JNum x) = num_str x"
| "jtext d (JStr s) = quote_str s"
| "jtext d (JArr vs) = (if vs = [] then [91, 93]
     else 91 # nl (d + 2) @ js_join (44 # nl (d + 2)) (map (jtext (d + 2)) vs) @ nl d @ [93])"
| "jtext d (JObj ms) = (if ms = [] then [123, 125]
     else 123 # nl (d + 2) @
       js_join (44 # nl (d + 2)) (map (\<lambda>(k, v). quote_str (key_str k) @ [58, 32] @ jtext (d + 2) v) ms) @ nl d @ [125])"
| "jtext d _ = U ''null''"

definition stringify2 :: "jsval \<Rightarrow> jstr option" where
  "stringify2 v = (if v = JUndef then None else Some (jtext 0 (json v)))"

subsection \<open>Reading\<close>

fun skip_ws :: "jstr \<Rightarrow> jstr" where
  "skip_ws (c # s) = (if c = 32 \<or> c = 10 \<or> c = 13 \<or> c = 9 then skip_ws s else c # s)"
| "skip_ws [] = []"

definition unhex4 :: "nat \<Rightarrow> nat \<Rightarrow> nat \<Rightarrow> nat \<Rightarrow> nat" where
  "unhex4 a b c d = (let v = (\<lambda>h. if h < 58 then h - 48 else if h < 97 then h - 55 else h - 87)
     in 4096 * v a + 256 * v b + 16 * v c + v d)"

definition unescape :: "nat \<Rightarrow> nat option" where
  "unescape e = map_of [(34, 34), (92, 92), (47, 47), (98, 8), (102, 12), (110, 10), (114, 13), (116, 9)] e"

text \<open>The rest of a string after its opening quote.\<close>

fun read_str :: "jstr \<Rightarrow> (jstr \<times> jstr) option" where
  "read_str [] = None"
| "read_str (c # s) =
     (if c = 34 then Some ([], s)
      else if c = 92 then (case s of
          e # a # b # g # h # t \<Rightarrow>
            if e = 117 then map_option (\<lambda>(x, r). (unhex4 a b g h # x, r)) (read_str t)
            else Option.bind (unescape e) (\<lambda>u. map_option (\<lambda>(x, r). (u # x, r)) (read_str (a # b # g # h # t)))
        | e # t \<Rightarrow> Option.bind (unescape e) (\<lambda>u. map_option (\<lambda>(x, r). (u # x, r)) (read_str t))
        | [] \<Rightarrow> None)
      else if c < 32 then None else map_option (\<lambda>(x, r). (c # x, r)) (read_str s))"

definition num_char :: "nat \<Rightarrow> bool" where
  "num_char c \<longleftrightarrow> isDigit c \<or> c \<in> {43, 45, 46, 69, 101}"

definition read_num :: "jstr \<Rightarrow> (jsval \<times> jstr) option" where
  "read_num s = (let t = takeWhile num_char s in
     if t = [] then None else Some (JNum (js_Number t), dropWhile num_char s))"

definition key_of :: "jstr \<Rightarrow> string" where
  "key_of s = map char_of s"

definition word :: "jstr \<Rightarrow> jsval \<Rightarrow> jstr \<Rightarrow> (jsval \<times> jstr) option" where
  "word w v s = (if take (length w) s = w then Some (v, drop (length w) s) else None)"

definition expect :: "nat \<Rightarrow> jstr \<Rightarrow> jstr option" where
  "expect c s = (case skip_ws s of [] \<Rightarrow> None | h # t \<Rightarrow> if h = c then Some t else None)"

fun read_val :: "nat \<Rightarrow> jstr \<Rightarrow> (jsval \<times> jstr) option"
  and read_items :: "nat \<Rightarrow> jstr \<Rightarrow> (jsval list \<times> jstr) option"
  and read_members :: "nat \<Rightarrow> jstr \<Rightarrow> ((string \<times> jsval) list \<times> jstr) option" where
  "read_val 0 s = None"
| "read_val (Suc n) s = (case skip_ws s of
     [] \<Rightarrow> None
   | c # r \<Rightarrow>
       if c = 34 then map_option (\<lambda>(x, t). (JStr x, t)) (read_str r)
       else if c = 91 then (case expect 93 r of
           Some t \<Rightarrow> Some (JArr [], t)
         | None \<Rightarrow> map_option (\<lambda>(x, t). (JArr x, t)) (read_items n r))
       else if c = 123 then (case expect 125 r of
           Some t \<Rightarrow> Some (JObj [], t)
         | None \<Rightarrow> map_option (\<lambda>(x, t). (JObj x, t)) (read_members n r))
       else if c = 116 then word (U ''true'') (JBool True) (c # r)
       else if c = 102 then word (U ''false'') (JBool False) (c # r)
       else if c = 110 then word (U ''null'') JNull (c # r)
       else read_num (c # r))"
| "read_items 0 s = None"
| "read_items (Suc n) s = Option.bind (read_val n s) (\<lambda>(v, r). case expect 44 r of
     Some t \<Rightarrow> map_option (\<lambda>(vs, u). (v # vs, u)) (read_items n t)
   | None \<Rightarrow> map_option (\<lambda>t. ([v], t)) (expect 93 r))"
| "read_members 0 s = None"
| "read_members (Suc n) s = Option.bind (expect 34 s) (\<lambda>q. Option.bind (read_str q) (\<lambda>(k, r1).
     Option.bind (expect 58 r1) (\<lambda>r2. Option.bind (read_val n r2) (\<lambda>(v, r3). case expect 44 r3 of
       Some t \<Rightarrow> map_option (\<lambda>(ms, u). ((key_of k, v) # ms, u)) (read_members n t)
     | None \<Rightarrow> map_option (\<lambda>t. ([(key_of k, v)], t)) (expect 125 r3)))))"

text \<open>A whole text: one value, then nothing but white space. Each step reads a character, so the
  length of the text is fuel enough.\<close>

definition json_parse :: "jstr \<Rightarrow> jsval option" where
  "json_parse s = (case read_val (Suc (length s)) s of Some (v, r) \<Rightarrow> if skip_ws r = [] then Some v else None
     | None \<Rightarrow> None)"

subsection \<open>Strings read back\<close>

lemma unhex4_hex4:
  assumes "c < 65536"
  shows "\<exists>a b d e. hex4 c = [a, b, d, e] \<and> unhex4 a b d e = c"
proof -
  have v: "(let h = if n < 10 then 48 + n else 87 + n in if h < 58 then h - 48 else if h < 97 then h - 55 else h - 87) = n"
    if "n < 16" for n :: nat using that by (simp add: Let_def)
  have "c = 4096 * (c div 4096 mod 16) + 256 * (c div 256 mod 16) + 16 * (c div 16 mod 16) + c mod 16"
  proof -
    have "c = 16 * (c div 16) + c mod 16" "c div 16 = 16 * (c div 256) + c div 16 mod 16"
      "c div 256 = 16 * (c div 4096) + c div 256 mod 16"
      by (simp_all add: div_mult2_eq [of c 16 16, simplified] div_mult2_eq [of c 256 16, simplified])
    moreover have "c div 4096 mod 16 = c div 4096" using assms by (simp add: less_mult_imp_div_less)
    ultimately show ?thesis by linarith
  qed
  then show ?thesis using v [of "c div 4096 mod 16"] v [of "c div 256 mod 16"] v [of "c div 16 mod 16"] v [of "c mod 16"]
    unfolding hex4_def unhex4_def Let_def by auto
qed

lemma read_quote_unit:
  assumes "c < 65536"
  shows "read_str (quote_unit c @ s) = map_option (\<lambda>(x, r). (c # x, r)) (read_str s)"
proof (cases "c < 32 \<or> is_high c \<or> is_low c")
  case False
  then show ?thesis by (cases s rule: list.exhaust; cases "tl s"; cases "tl (tl s)"; cases "tl (tl (tl s))")
      (auto simp: quote_unit_def unescape_def)
next
  case True
  obtain a b d e where "hex4 c = [a, b, d, e]" "unhex4 a b d e = c" using unhex4_hex4 [OF assms] by blast
  then show ?thesis using True
    by (cases s rule: list.exhaust; cases "tl s"; cases "tl (tl s)"; cases "tl (tl (tl s))")
      (auto simp: quote_unit_def unescape_def)
qed

lemma read_quote_units:
  assumes "\<forall>c \<in> set s. c < 65536"
  shows "read_str (quote_units s @ 34 # r) = Some (s, r)"
  using assms
proof (induction s rule: quote_units.induct)
  case (3 c d s)
  show ?case
  proof (cases "is_high c \<and> is_low d")
    case True
    then have "c \<noteq> 34" "c \<noteq> 92" "\<not> c < 32" "d \<noteq> 34" "d \<noteq> 92" "\<not> d < 32" by (auto simp: is_high_def is_low_def)
    with True 3 show ?thesis by simp
  next
    case False
    with 3 show ?thesis by (auto simp: read_quote_unit)
  qed
qed (simp_all add: read_quote_unit)

subsection \<open>Values read back\<close>

text \<open>The values meant: no undefined, strings of UTF-16 units, numbers that \<open>Number\<close> reads back from what
  \<open>String\<close> prints.\<close>

definition num_readable :: "jsnum \<Rightarrow> bool" where
  "num_readable x \<longleftrightarrow> js_Number (num_str x) = x \<and> num_str x \<noteq> [] \<and> list_all num_char (num_str x)"

fun readable :: "jsval \<Rightarrow> bool" where
  "readable JUndef = False"
| "readable (JNum x) = num_readable x"
| "readable (JStr s) = (\<forall>c \<in> set s. c < 65536)"
| "readable (JArr vs) = list_all readable vs"
| "readable (JObj ms) = list_all (\<lambda>(k, v). readable v) ms"
| "readable _ = True"

lemma skip_nl [simp]: "skip_ws (nl d @ s) = skip_ws s"
proof -
  have "skip_ws (replicate d 32 @ s) = skip_ws s" by (induction d) simp_all
  then show ?thesis by (simp add: nl_def)
qed

lemma read_val_nl [simp]: "read_val n (nl d @ s) = read_val n s"
  by (cases n) simp_all

lemma expect_nl [simp]: "expect c (nl d @ s) = expect c s"
  by (simp add: expect_def)

lemma expect_Cons [simp]: "\<not> (h = 32 \<or> h = 10 \<or> h = 13 \<or> h = 9) \<Longrightarrow> expect c (h # s) = (if h = c then Some s else None)"
  by (simp add: expect_def)

definition num_stop :: "jstr \<Rightarrow> bool" where
  "num_stop r \<longleftrightarrow> (case r of [] \<Rightarrow> True | c # _ \<Rightarrow> \<not> num_char c)"

lemma num_stop_simps [simp]: "num_stop []" "num_stop (nl d @ s)" "num_stop (44 # s)" "num_stop (93 # s)" "num_stop (125 # s)"
  by (simp_all add: num_stop_def nl_def num_char_def isDigit_def)

lemma takeWhile_stop: "list_all P t \<Longrightarrow> (case r of [] \<Rightarrow> True | c # _ \<Rightarrow> \<not> P c) \<Longrightarrow>
    takeWhile P (t @ r) = t \<and> dropWhile P (t @ r) = r"
  by (induction t) (auto split: list.splits)

lemma read_number:
  assumes "num_readable x" "num_stop r"
  shows "read_val (Suc n) (num_str x @ r) = Some (JNum x, r)"
proof -
  obtain c t where t: "num_str x = c # t" using assms(1) by (cases "num_str x") (auto simp: num_readable_def)
  have c: "num_char c" using assms(1) t by (simp add: num_readable_def)
  then have k: "skip_ws (c # t @ r) = c # t @ r" by (auto simp: num_char_def isDigit_def)
  have "read_num (num_str x @ r) = Some (JNum x, r)"
    using takeWhile_stop [of num_char "num_str x" r] assms by (simp add: read_num_def num_readable_def num_stop_def Let_def)
  then show ?thesis using c k t by (auto simp: num_char_def isDigit_def)
qed

lemma jtext_first: "readable v \<Longrightarrow> \<exists>c t. jtext d v = c # t \<and> \<not> (c = 32 \<or> c = 10 \<or> c = 13 \<or> c = 9) \<and> c \<noteq> 93"
proof (cases v)
  case (JNum x)
  then show "readable v \<Longrightarrow> ?thesis"
    by (cases "num_str x") (auto simp: num_readable_def num_char_def isDigit_def)
qed (auto simp: quote_str_def U.simps)

lemma join_Cons_Cons: "js_join sep (x # y # ys) = x @ sep @ js_join sep (y # ys)"
  by simp

lemma key_back [simp]: "key_of (key_str k) = k"
  by (simp add: key_of_def key_str_def comp_def)

lemma key_units: "\<forall>c \<in> set (key_str k). c < 65536"
  by (auto simp: key_str_def intro: less_trans [OF nat_of_char_less_256])

lemma read_items_join:
  assumes "vs \<noteq> []" "\<And>v n r. v \<in> set vs \<Longrightarrow> length (jtext e v) \<le> n \<Longrightarrow> num_stop r \<Longrightarrow> read_val n (jtext e v @ r) = Some (v, r)"
    and "\<And>v. v \<in> set vs \<Longrightarrow> jtext e v \<noteq> []"
    and "length (js_join (44 # nl e) (map (jtext e) vs)) < n"
  shows "read_items n (nl e @ js_join (44 # nl e) (map (jtext e) vs) @ nl d @ 93 # r) = Some (vs, r)"
  using assms
proof (induction vs arbitrary: n)
  case (Cons v vs)
  obtain m where n: "n = Suc m" using Cons.prems(4) by (cases n) simp
  show ?case
  proof (cases vs)
    case Nil
    then show ?thesis using Cons.prems(2) [of v m "nl d @ 93 # r"] Cons.prems(4) by (simp add: n)
  next
    case (Cons w ws)
    let ?rest = "js_join (44 # nl e) (map (jtext e) vs)"
    have l: "length (jtext e v) \<le> m" "length ?rest < m"
      using Cons.prems(4) unfolding n Cons by (simp_all add: nl_def)
    have "read_items m (nl e @ ?rest @ nl d @ 93 # r) = Some (vs, r)"
      by (rule Cons.IH) (use Cons Cons.prems l in auto)
    then show ?thesis using Cons.prems(2) [of v m "44 # nl e @ ?rest @ nl d @ 93 # r"] l
      unfolding n Cons by simp
  qed
qed simp

definition member_text :: "nat \<Rightarrow> string \<times> jsval \<Rightarrow> jstr" where
  "member_text e m = quote_str (key_str (fst m)) @ [58, 32] @ jtext e (snd m)"

lemma read_member_head:
  assumes "read_val n (jtext e v @ r) = Some (v, r)"
  shows "read_members (Suc n) (member_text e (k, v) @ r) = (case expect 44 r of
      Some t \<Rightarrow> map_option (\<lambda>(ms, u). ((k, v) # ms, u)) (read_members n t)
    | None \<Rightarrow> map_option (\<lambda>t. ([(k, v)], t)) (expect 125 r))"
proof -
  have "read_val n (32 # jtext e v @ r) = Some (v, r)" using assms by (cases n) simp_all
  then show ?thesis
    by (simp add: member_text_def quote_str_def read_quote_units [OF key_units] split: option.splits)
qed

lemma read_members_nl: "read_members n (nl d @ s) = read_members n s"
  by (cases n) simp_all

lemma read_members_join:
  assumes "ms \<noteq> []" "\<And>k v n r. (k, v) \<in> set ms \<Longrightarrow> length (jtext e v) \<le> n \<Longrightarrow> num_stop r \<Longrightarrow>
      read_val n (jtext e v @ r) = Some (v, r)"
    and "length (js_join (44 # nl e) (map (member_text e) ms)) < n"
  shows "read_members n (nl e @ js_join (44 # nl e) (map (member_text e) ms) @ nl d @ 125 # r) = Some (ms, r)"
  unfolding read_members_nl using assms
proof (induction ms arbitrary: n)
  case (Cons p ms)
  obtain k v where p: "p = (k, v)" by fastforce
  obtain m where n: "n = Suc m" using Cons.prems(3) by (cases n) simp
  show ?case
  proof (cases ms)
    case Nil
    have "read_val m (jtext e v @ nl d @ 125 # r) = Some (v, nl d @ 125 # r)"
      by (rule Cons.prems(2) [of k]) (use Nil Cons.prems(3) in \<open>simp_all add: p n member_text_def\<close>)
    from read_member_head [OF this, of k] show ?thesis using Nil by (simp add: p n)
  next
    case (Cons q qs)
    let ?rest = "js_join (44 # nl e) (map (member_text e) ms)"
    have l: "length (jtext e v) \<le> m" "length ?rest < m"
      using Cons.prems(3) unfolding n Cons p by (simp_all add: nl_def) (simp_all add: member_text_def)
    have "read_members m (?rest @ nl d @ 125 # r) = Some (ms, r)"
      by (rule Cons.IH) (use Cons Cons.prems l in auto)
    moreover have "read_val m (jtext e v @ 44 # nl e @ ?rest @ nl d @ 125 # r) =
        Some (v, 44 # nl e @ ?rest @ nl d @ 125 # r)"
      by (rule Cons.prems(2) [of k]) (use l in \<open>simp_all add: p\<close>)
    ultimately show ?thesis using read_member_head [of m e v "44 # nl e @ ?rest @ nl d @ 125 # r" k]
      unfolding n p by (simp add: Cons read_members_nl)
  qed
qed simp

lemma read_null: "length (U ''null'') \<le> n \<Longrightarrow> read_val n (U ''null'' @ r) = Some (JNull, r)"
  by (cases n) (simp_all add: U.simps word_def)

lemma read_jtext:
  assumes "readable v" "length (jtext d v) \<le> n" "num_stop r"
  shows "read_val n (jtext d v @ r) = Some (v, r)"
  using assms
proof (induction d v arbitrary: n r rule: jtext.induct)
  case (1 d b)
  then show ?case by (cases n; cases b) (simp_all add: U.simps word_def)
next
  case (2 d x)
  then obtain m where "n = Suc m" by (cases n) (auto simp: num_readable_def)
  then show ?case using 2 read_number [of x r m] by simp
next
  case (3 d s)
  then show ?case by (cases n) (auto simp: quote_str_def read_quote_units)
next
  case (4 d vs)
  show ?case
  proof (cases "vs = []")
    case False
    obtain m where n: "n = Suc m" using 4(3) False by (cases n) simp_all
    let ?j = "js_join (44 # nl (d + 2)) (map (jtext (d + 2)) vs)"
    obtain v ws where vs: "vs = v # ws" using False by (cases vs) simp
    have "readable v" using 4(2) vs by simp
    then obtain c t where c: "?j = c # t" "c \<noteq> 93" "\<not> (c = 32 \<or> c = 10 \<or> c = 13 \<or> c = 9)"
      using jtext_first [of v "d + 2"] vs by (cases ws) auto
    have "read_items m (nl (d + 2) @ ?j @ nl d @ 93 # r) = Some (vs, r)"
    proof (rule read_items_join [OF False])
      show "length ?j < m" using 4(3) False by (simp add: n nl_def)
      show "read_val k (jtext (d + 2) v @ q) = Some (v, q)"
        if "v \<in> set vs" "length (jtext (d + 2) v) \<le> k" "num_stop q" for v k q
        using 4(1) [OF False that(1)] that 4(2) by (simp add: list_all_iff)
      show "jtext (d + 2) v \<noteq> []" if "v \<in> set vs" for v
        using jtext_first [of v "d + 2"] that 4(2) by (auto simp: list_all_iff)
    qed
    moreover have "expect 93 (nl (d + 2) @ ?j @ nl d @ 93 # r) = None" using c by simp
    ultimately show ?thesis using False by (simp add: n del: js_join.simps)
  qed (use 4 in \<open>cases n; simp\<close>)
next
  case (5 d ms)
  show ?case
  proof (cases "ms = []")
    case False
    obtain m where n: "n = Suc m" using 5(3) False by (cases n) simp_all
    let ?j = "js_join (44 # nl (d + 2)) (map (member_text (d + 2)) ms)"
    have t: "jtext d (JObj ms) = 123 # nl (d + 2) @ ?j @ nl d @ [125]"
      using False by (simp add: member_text_def [abs_def] case_prod_unfold)
    obtain c u where c: "?j = 34 # u"
      using False by (cases ms; cases "tl ms") (auto simp: member_text_def quote_str_def)
    have "read_members m (nl (d + 2) @ ?j @ nl d @ 125 # r) = Some (ms, r)"
    proof (rule read_members_join [OF False])
      show "length ?j < m" using 5(3) unfolding t by (simp add: n nl_def)
      show "read_val k (jtext (d + 2) v @ q) = Some (v, q)"
        if "(k', v) \<in> set ms" "length (jtext (d + 2) v) \<le> k" "num_stop q" for k' v k q
        using 5(1) [OF False that(1)] that 5(2) by (auto simp: list_all_iff)
    qed
    moreover have "expect 125 (nl (d + 2) @ ?j @ nl d @ 125 # r) = None" using c by simp
    ultimately show ?thesis unfolding t by (simp add: n del: js_join.simps)
  qed (use 5 in \<open>cases n; simp\<close>)
qed (simp_all add: read_null)

lemma stringify_reads_back:
  assumes "readable (json v)"
  shows "Option.bind (stringify2 v) json_parse = Some (json v)"
proof -
  have "v \<noteq> JUndef" using assms by auto
  then show ?thesis using read_jtext [OF assms, of 0 "Suc (length (jtext 0 (json v)))" "[]"]
    by (simp add: stringify2_def json_parse_def)
qed

text \<open>Whole numbers up to \<open>2 ^ 53\<close> read back.\<close>

lemma whole_readable:
  assumes "n \<le> 2 ^ 53"
  shows "num_readable (num_int (int n))"
proof -
  have "\<bar>int n\<bar> \<le> 2 ^ 53" using assms by simp
  then have i: "num_int (int n) = Fin (of_int (int n))" by (rule num_int_small)
  have "(of_nat n :: rat) \<le> of_nat (2 ^ 53)" using assms by (simp only: of_nat_le_iff)
  then have "num_str (num_int (int n)) = dec n"
    unfolding i by (auto simp: dec_int_def dec.simps [of 0])
  then show ?thesis
    using dec_not_Nil [of n] by (auto simp: num_readable_def js_Number_dec list_all_iff num_char_def dest: dec_digits)
qed

end
