(* ===== verification/Auditoria.thy ===== *)
theory Auditoria imports DashboardApi React View Cards JsonText begin

text \<open>
  \<open>apps/dashboard/app/(app)/auditoria/page.tsx\<close>: the audit log and the decisions against fraud, in
  two tabs, with one row at a time open for its details. The three lists come from one
  \<open>Promise.all\<close>: the operation \<open>AuLoad\<close> settles with all of them or with the first error.
\<close>

subsection \<open>State and handlers\<close>

datatype audit_tab = TabEvents | TabFraud

record auditoria =
  au_tab :: audit_tab
  au_summary :: "audit_summary option"
  au_entries :: "audit_entry list"
  au_fraud :: "fraud_evaluation list"
  au_loading :: bool
  au_error :: "jstr option"
  au_expandedId :: "jstr option"

datatype au_event = AuTab audit_tab | AuToggle jstr

datatype au_op = AuLoad

definition au_calls :: "au_op \<Rightarrow> dash_call list" where
  "au_calls c = [AuditSummary, AuditList None None (Some (Fin 100)), AuditFraudEvaluations None (Some (Fin 100))]"

datatype au_done =
  AuLoaded "api_err + audit_summary option \<times> audit_entry list option \<times> fraud_evaluation list option"

fun au_opof :: "au_done \<Rightarrow> au_op" where
  "au_opof (AuLoaded _) = AuLoad"

definition au_reload :: "auditoria \<Rightarrow> auditoria \<times> au_op eff list" where
  "au_reload s = (s\<lparr> au_loading := True \<rparr>, [Call AuLoad])"

definition au_init :: "auditoria \<times> au_op list" where
  "au_init = (case au_reload \<lparr> au_tab = TabEvents, au_summary = None, au_entries = [], au_fraud = [], au_loading = True,
       au_error = None, au_expandedId = None \<rparr> of (s, es) \<Rightarrow> (s, calls es))"

definition au_toggle :: "jstr option \<Rightarrow> jstr \<Rightarrow> jstr option" where
  "au_toggle opened i = (if opened = Some i then None else Some i)"

fun au_begin :: "au_event \<Rightarrow> auditoria \<Rightarrow> auditoria \<times> au_op eff list" where
  "au_begin (AuTab t) s = (s\<lparr> au_tab := t \<rparr>, [])"
| "au_begin (AuToggle i) s = (s\<lparr> au_expandedId := au_toggle (au_expandedId s) i \<rparr>, [])"

fun au_finish :: "au_done \<Rightarrow> auditoria \<Rightarrow> auditoria \<times> au_op eff list" where
  "au_finish (AuLoaded (Inr (x, e, f))) s =
     (s\<lparr> au_summary := x, au_entries := orelse e [], au_fraud := orelse f [], au_loading := False \<rparr>, [])"
| "au_finish (AuLoaded (Inl err)) s = (s\<lparr> au_error := Some (err_message err), au_loading := False \<rparr>, [])"

definition au_field :: "(audit_summary \<Rightarrow> jsnum) \<Rightarrow> audit_summary option \<Rightarrow> jsnum" where
  "au_field f x = orelse (map_option f x) (Fin 0)"

definition fraudCount :: "audit_summary option \<Rightarrow> jsnum" where
  "fraudCount x = js_add (au_field as_fraud_review x) (au_field as_fraud_block x)"

subsection \<open>The details of a row\<close>

text \<open>\<open>Object.keys(v).length\<close>, for a value that is not null or undefined.\<close>

fun keys_count :: "jsval \<Rightarrow> nat" where
  "keys_count (JObj ms) = length ms"
| "keys_count (JArr vs) = length vs"
| "keys_count (JStr s) = length s"
| "keys_count _ = 0"

definition detail_blocks :: "audit_entry \<Rightarrow> (jstr \<times> jsval) list" where
  "detail_blocks e =
     (case truthy_s (ae_user_agent e) of Some a \<Rightarrow> [(U ''User-Agent'', JStr a)] | None \<Rightarrow> []) @
     whenl (js_truthy (ae_old_values e)) [(U ''Antes'', ae_old_values e)] @
     whenl (js_truthy (ae_new_values e)) [(U ''Depois'', ae_new_values e)] @
     whenl (js_truthy (ae_metadata e) \<and> 0 < keys_count (ae_metadata e)) [(U ''Metadata'', ae_metadata e)]"

definition block_text :: "jsval \<Rightarrow> jstr option" where
  "block_text v = (case v of JStr s \<Rightarrow> Some s | _ \<Rightarrow> stringify2 v)"

definition opt_text :: "jstr option \<Rightarrow> 'e view list" where
  "opt_text x = (case x of None \<Rightarrow> [] | Some s \<Rightarrow> [T s])"

definition DetailGrid :: "audit_entry \<Rightarrow> 'e view" where
  "DetailGrid e = (if detail_blocks e = [] then txt_el ''p'' (U ''Sem detalhes adicionais.'')
     else box ''div'' (map (\<lambda>(label, v). N ''div'' [A ''key'' label]
            [txt_el ''p'' label, box ''pre'' (opt_text (block_text v))]) (detail_blocks e)))"

definition signal_item :: "fraud_signal \<Rightarrow> 'e view" where
  "signal_item s = N ''li'' [A ''key'' (fs_name s)]
     [box ''div'' (txt_el ''p'' (fs_name s) #
        (case fs_evidence s of None \<Rightarrow> []
         | Some v \<Rightarrow> whenl (js_truthy v) [box ''pre'' (opt_text (stringify2 v))])),
      txt_el ''span'' (U ''+'' @ num_str (fs_points s))]"

definition FraudDetail :: "fraud_evaluation \<Rightarrow> 'e view" where
  "FraudDetail f = box ''div''
     (whenl (fe_signals f \<noteq> [])
        [box ''div'' [txt_el ''p'' (U ''Sinais disparados''), box ''ul'' (map signal_item (fe_signals f))]] @
      [box ''div'' [txt_el ''p'' (U ''Evid~00eancia completa''), box ''pre'' (opt_text (stringify2 (fe_evidence f)))]])"

subsection \<open>The tables\<close>

definition chevron :: "bool \<Rightarrow> 'e view" where
  "chevron opened = box ''TableCell'' [N ''ChevronRight'' [A ''className'' (if opened then U ''rotate-90'' else [])] []]"

text \<open>A fragment of a row and, when it is the open one, the row of its details.\<close>

definition open_row :: "jstr option \<Rightarrow> jstr \<Rightarrow> au_event view list \<Rightarrow> au_event view \<Rightarrow> au_event view" where
  "open_row opened i cells detail = N ''Fragment'' [A ''key'' i]
     (N ''TableRow'' [On ''onClick'' (\<lambda>_. AuToggle i)] (chevron (opened = Some i) # cells) #
      whenl (opened = Some i) [box ''TableRow'' [N ''TableCell'' [A ''colSpan'' (U ''6'')] [detail]]])"

definition entity_cell :: "audit_entry \<Rightarrow> 'e view" where
  "entity_cell e = box ''TableCell'' (T (ae_entity_type e) #
     (case truthy_s (ae_entity_id e) of None \<Rightarrow> []
      | Some i \<Rightarrow> [txt_el ''span'' (U ''('' @ js_slice 8 i @ U '')'')]))"

definition event_cells :: "(jstr \<Rightarrow> jstr) \<Rightarrow> audit_entry \<Rightarrow> 'e view list" where
  "event_cells fmtDate e =
     [txt_el ''TableCell'' (fmtDate (ae_created_at e)),
      box ''TableCell'' [case ae_user_email e of Some m \<Rightarrow> T m | None \<Rightarrow> txt_el ''span'' (U ''sistema'')],
      box ''TableCell'' [N ''Badge'' [A ''variant'' (U ''default'')] [T (ae_action e)]],
      entity_cell e,
      txt_el ''TableCell'' (or_str (ae_ip_address e) (U ''~2014''))]"

definition EventsTable :: "(jstr \<Rightarrow> jstr) \<Rightarrow> jstr option \<Rightarrow> audit_entry list \<Rightarrow> au_event view" where
  "EventsTable fmtDate opened entries = table_el [[], U ''Quando'', U ''Quem'', U ''A~00e7~00e3o'', U ''Entidade'', U ''IP'']
     (map (\<lambda>e. open_row opened (ae_id e) (event_cells fmtDate e) (DetailGrid e)) entries @
      whenl (entries = []) [box ''TableRow'' [N ''TableCell'' [A ''colSpan'' (U ''6'')]
        [T (U ''Nenhum evento ainda. A~00e7~00f5es como aprovar comiss~00e3o, criar parceiro, marcar pago etc. aparecem aqui automaticamente.'')]]])"

fun fraud_label :: "fraud_action \<Rightarrow> jstr \<times> jstr" where
  "fraud_label FOk = (U ''Aprovado'', U ''success'')"
| "fraud_label FReview = (U ''Revisar'', U ''warning'')"
| "fraud_label FBlock = (U ''Bloqueado'', U ''destructive'')"

definition score_class :: "jsnum \<Rightarrow> jstr" where
  "score_class n = (if js_le (Fin 61) n then U ''text-error'' else if js_le (Fin 31) n then U ''text-warning''
     else U ''text-neutral-500'')"

definition score_cell :: "jsnum \<Rightarrow> 'e view" where
  "score_cell n = box ''TableCell''
     [if js_lt (Fin 0) n then N ''span'' [A ''className'' (score_class n)] [T (num_str n)] else txt_el ''span'' (U ''0'')]"

definition fraud_cells :: "(jstr \<Rightarrow> jstr) \<Rightarrow> fraud_evaluation \<Rightarrow> 'e view list" where
  "fraud_cells fmtDate f =
     [txt_el ''TableCell'' (fmtDate (fe_created_at f)), txt_el ''TableCell'' (fe_partner_name f), score_cell (fe_score f),
      box ''TableCell'' [N ''Badge'' [A ''variant'' (snd (fraud_label (fe_action f)))] [T (fst (fraud_label (fe_action f)))]],
      box ''TableCell'' [if fe_signals f \<noteq> []
        then txt_el ''span'' (js_join (U '', '') (map fs_name (fe_signals f))) else T (U ''~2014'')]]"

definition FraudTable :: "(jstr \<Rightarrow> jstr) \<Rightarrow> jstr option \<Rightarrow> fraud_evaluation list \<Rightarrow> au_event view" where
  "FraudTable fmtDate opened fs = table_el [[], U ''Quando'', U ''Parceiro'', U ''Score'', U ''Decis~00e3o'', U ''Sinais'']
     (map (\<lambda>f. open_row opened (fe_id f) (fraud_cells fmtDate f) (FraudDetail f)) fs @
      whenl (fs = []) [box ''TableRow'' [N ''TableCell'' [A ''colSpan'' (U ''6'')]
        [T (U ''Nenhuma decis~00e3o de antifraude ainda. As checagens rodam toda vez que um parceiro cadastra um lead.'')]]])"

subsection \<open>The page\<close>

definition tab_class :: "bool \<Rightarrow> jstr" where
  "tab_class b = (if b then U ''border-primary text-primary''
     else U ''border-transparent text-neutral-500 hover:text-neutral-900 dark:hover:text-neutral-100'')"

definition au_cards :: "audit_summary option \<Rightarrow> (jstr \<times> jstr) list" where
  "au_cards x = [(U ''Eventos (30 dias)'', num_str (au_field as_entries_last_30_days x)),
     (U ''Aprovados (fraude)'', num_str (au_field as_fraud_ok x)),
     (U ''Em revis~00e3o'', num_str (au_field as_fraud_review x)),
     (U ''Bloqueados'', num_str (au_field as_fraud_block x))]"

definition au_tabs :: "auditoria \<Rightarrow> au_event view" where
  "au_tabs s = box ''div''
     [N ''button'' [On ''onClick'' (\<lambda>_. AuTab TabEvents), A ''className'' (tab_class (au_tab s = TabEvents))]
        [T (U ''Eventos ('' @ num_str (num_int (int (length (au_entries s)))) @ U '')'')],
      N ''button'' [On ''onClick'' (\<lambda>_. AuTab TabFraud), A ''className'' (tab_class (au_tab s = TabFraud))]
        (T (U ''Antifraude '') # whenl (js_lt (Fin 0) (fraudCount (au_summary s)))
           [txt_el ''span'' (U ''('' @ num_str (fraudCount (au_summary s)) @ U '')'')])]"

definition au_view :: "(jstr \<Rightarrow> jstr) \<Rightarrow> auditoria \<Rightarrow> au_event view" where
  "au_view fmtDate s = box ''div''
     ([box ''div'' [txt_el ''h1'' (U ''Auditoria''), txt_el ''p''
         (U ''Toda a~00e7~00e3o sens~00edvel no seu tenant fica registrada aqui. Filtre por tipo ou revise decis~00f5es de antifraude.'')],
       box ''div'' (map (\<lambda>(l, v). stat_card_el l v) (au_cards (au_summary s)))] @
      (case truthy_s (au_error s) of None \<Rightarrow> [] | Some e \<Rightarrow> [txt_el ''div'' e]) @
      [au_tabs s,
       if au_loading s then txt_el ''p'' (U ''Carregando...'')
       else if au_tab s = TabEvents then EventsTable fmtDate (au_expandedId s) (au_entries s)
       else FraudTable fmtDate (au_expandedId s) (au_fraud s)])"

subsection \<open>Facts\<close>

lemma toggle_twice: "opened \<noteq> Some i \<Longrightarrow> au_toggle (au_toggle opened i) i = None"
  by (simp add: au_toggle_def)

lemma detail_inert [simp]: "\<not> causes (DetailGrid e) ev" "\<not> causes (FraudDetail f) ev"
  by (auto simp: DetailGrid_def FraudDetail_def signal_item_def opt_text_def causes_N split: option.splits if_splits)

lemma cells_inert [simp]:
  "v \<in> set (event_cells fmtDate e) \<Longrightarrow> \<not> causes v ev" "v \<in> set (fraud_cells fmtDate f) \<Longrightarrow> \<not> causes v ev"
  by (auto simp: event_cells_def fraud_cells_def entity_cell_def score_cell_def causes_N split: option.splits if_splits)

lemma open_row_causes:
  assumes "\<And>v. v \<in> set cells \<Longrightarrow> \<not> causes v ev" "\<not> causes detail ev"
  shows "causes (open_row opened i cells detail) ev \<longleftrightarrow> ev = AuToggle i"
  using assms by (auto simp: open_row_def chevron_def causes_N)

lemma tables_cause:
  "causes (EventsTable fmtDate opened es) ev \<longleftrightarrow> (\<exists>e \<in> set es. ev = AuToggle (ae_id e))"
  "causes (FraudTable fmtDate opened fs) ev \<longleftrightarrow> (\<exists>f \<in> set fs. ev = AuToggle (fe_id f))"
  unfolding EventsTable_def FraudTable_def
  by (auto simp: bex_Un open_row_causes causes_N)

text \<open>What is printed in a block denotes the value.\<close>

lemma block_reads_back:
  assumes "(l, v) \<in> set (detail_blocks e)" "readable (json v)" "\<And>s. v \<noteq> JStr s"
  shows "Option.bind (block_text v) json_parse = Some (json v)"
  using assms stringify_reads_back [of v] by (cases v) (auto simp: block_text_def)

interpretation auL: loader au_begin au_finish au_opof au_init AuLoad au_loading
proof unfold_locales
  show "snd au_init = [AuLoad]" by (simp add: au_init_def au_reload_def)
  show "AuLoad \<in> range au_opof" by (metis rangeI au_opof.simps)
next
  fix ev s s' es c assume b: "au_begin ev s = (s', es)"
  then show "au_loading s' \<Longrightarrow> au_loading s" "c \<in> set (calls es) \<Longrightarrow> c \<in> range au_opof" by (cases ev; auto)+
next
  fix d s s' es assume f: "au_finish d s = (s', es)"
  then show "au_loading s' \<Longrightarrow> au_loading s \<and> au_opof d \<noteq> AuLoad" "calls es = []" by (induction d s rule: au_finish.induct; auto)+
qed

end
