(* ===== verification/Configuracoes.thy ===== *)
theory Configuracoes imports React View begin

text \<open>
  \<open>apps/dashboard/app/(app)/configuracoes/page.tsx\<close>: the settings of the dashboard. Its six tabs
  (\<open>Tabs\<close> of Radix: the one value chosen shows its content) hold forms whose fields are not
  controlled and whose buttons raise toasts; no call is made.
\<close>

datatype cf_event = CfTab jstr | CfToast toast_input

record config_page =
  cf_tab :: jstr

definition cf_init :: "config_page \<times> unit list" where
  "cf_init = (\<lparr> cf_tab = U ''perfil'' \<rparr>, [])"

fun cf_begin :: "cf_event \<Rightarrow> config_page \<Rightarrow> config_page \<times> unit eff list" where
  "cf_begin (CfTab v) s = (s\<lparr> cf_tab := v \<rparr>, [])"
| "cf_begin (CfToast t) s = (s, [Toast t])"

definition cf_tabs :: "(jstr \<times> jstr) list" where
  "cf_tabs = [(U ''perfil'', U ''Perfil''), (U ''empresa'', U ''Empresa''), (U ''whatsapp'', U ''WhatsApp''),
     (U ''webhooks'', U ''Webhooks''), (U ''equipe'', U ''Equipe''), (U ''billing'', U ''Billing'')]"

definition toast_button :: "jstr \<Rightarrow> jstr \<Rightarrow> jstr option \<Rightarrow> toast_variant \<Rightarrow> cf_event view" where
  "toast_button label title desc v = N ''Button'' [On ''onClick'' (\<lambda>_. CfToast (toast_of title desc v))] [T label]"

definition cf_field :: "jstr \<Rightarrow> jstr \<Rightarrow> cf_event view list \<Rightarrow> cf_event view" where
  "cf_field label v buttons = box ''div'' [txt_el ''label'' label,
     box ''div'' (N ''Input'' [A ''defaultValue'' v] [] # buttons)]"

definition cf_perfil :: "cf_event view" where
  "cf_perfil = box ''div''
     [box ''div'' [txt_el ''h2'' (U ''Perfil''), box ''div''
        [cf_field (U ''Nome'') (U ''Leonardo Groff'') [],
         cf_field (U ''E-mail'') (U ''leonardo@email.com'') [toast_button (U ''Alterar'') (U ''E-mail atualizado'') None VSuccess],
         cf_field (U ''Telefone'') (U ''(11) 99999-0000'') [toast_button (U ''Alterar'') (U ''Telefone atualizado'') None VSuccess],
         cf_field (U ''Senha'') (U ''********'') [toast_button (U ''Alterar senha'') (U ''Senha alterada'') None VSuccess]],
       toast_button (U ''Salvar altera~00e7~00f5es'') (U ''Perfil salvo'') (Some (U ''Suas altera~00e7~00f5es foram salvas.'')) VSuccess],
      box ''div'' [txt_el ''h2'' (U ''Zona de perigo''),
        txt_el ''p'' (U ''A~00e7~00f5es irrevers~00edveis que afetam permanentemente sua conta.''),
        toast_button (U ''Excluir minha conta'') (U ''Tem certeza?'') (Some (U ''Esta a~00e7~00e3o n~00e3o pode ser desfeita.'')) VWarning]]"

definition cf_empresa :: "cf_event view" where
  "cf_empresa = box ''div'' [txt_el ''h2'' (U ''Dados da empresa''), box ''div''
     [cf_field (U ''Nome da empresa'') (U ''Minha Empresa'') [],
      cf_field (U ''CNPJ'') (U ''12.345.678/0001-99'') [],
      cf_field (U ''Subdom~00ednio'') (U ''minha-empresa'') [txt_el ''p'' (U ''minha-empresa.indica.ai'')]],
     toast_button (U ''Salvar'') (U ''Empresa atualizada'') None VSuccess]"

definition cf_whatsapp :: "cf_event view" where
  "cf_whatsapp = box ''div'' [txt_el ''h2'' (U ''WhatsApp''),
     txt_el ''p'' (U ''Configure o n~00famero de WhatsApp e a mensagem pr~00e9-preenchida para indica~00e7~00f5es.''),
     box ''div'' [cf_field (U ''N~00famero do WhatsApp'') (U ''+55 (11) 99999-0000'') [],
       box ''div'' [txt_el ''label'' (U ''Mensagem padr~00e3o''),
         N ''textarea'' [A ''defaultValue'' (U ''Ol~00e1! Indiquei voc~00ea para o programa. Acesse: {{link}}'')] []]],
     toast_button (U ''Salvar'') (U ''WhatsApp configurado'') None VSuccess]"

definition cf_hook :: "jstr \<Rightarrow> cf_event view" where
  "cf_hook name = box ''div'' [box ''div'' [txt_el ''p'' name, txt_el ''p'' (U ''https://api.empresa.com/webhook'')],
     toast_button (U ''Remover'') (U ''Webhook removido'') None VWarning]"

definition cf_webhooks :: "cf_event view" where
  "cf_webhooks = box ''div'' [txt_el ''h2'' (U ''Webhooks''),
     txt_el ''p'' (U ''Configure endpoints para receber notifica~00e7~00f5es de eventos.''),
     box ''div'' [cf_hook (U ''lead.created''), cf_hook (U ''commission.paid'')],
     toast_button (U ''+ Adicionar webhook'') (U ''Formul~00e1rio de webhook'') (Some (U ''Em breve: adicionar novo webhook.'')) VDefault]"

definition cf_member :: "jstr \<Rightarrow> jstr \<Rightarrow> jstr \<Rightarrow> cf_event view \<Rightarrow> cf_event view" where
  "cf_member letter name role end_el = box ''div''
     [box ''div'' [txt_el ''div'' letter, box ''div'' [txt_el ''p'' name, txt_el ''p'' role]], end_el]"

definition cf_equipe :: "cf_event view" where
  "cf_equipe = box ''div'' [txt_el ''h2'' (U ''Equipe''), txt_el ''p'' (U ''Gerencie membros da equipe e permiss~00f5es.''),
     box ''div'' [cf_member (U ''L'') (U ''Leonardo Groff'') (U ''Admin ~00b7 leonardo@email.com'') (txt_el ''span'' (U ''Voc~00ea'')),
       cf_member (U ''M'') (U ''Maria Helena'') (U ''Editor ~00b7 maria@empresa.com'')
         (toast_button (U ''Remover'') (U ''Membro removido'') None VWarning)],
     toast_button (U ''+ Convidar membro'') (U ''Convite enviado'') (Some (U ''O membro receber~00e1 um e-mail de convite.'')) VSuccess]"

definition cf_invoice :: "jstr \<Rightarrow> cf_event view" where
  "cf_invoice mes = N ''div'' [A ''key'' mes] [box ''div'' [txt_el ''p'' mes, txt_el ''p'' (U ''R$ 297,00'')],
     toast_button (U ''Baixar'') (U ''Download iniciado'') (Some (U ''Fatura '' @ mes @ U '' sendo baixada.'')) VDefault]"

definition cf_billing :: "cf_event view" where
  "cf_billing = box ''div''
     [box ''div'' [txt_el ''h2'' (U ''Plano atual''),
        box ''div'' [box ''div'' [txt_el ''p'' (U ''Pro''), txt_el ''p'' (U ''R$ 297,00/m~00eas'')],
          toast_button (U ''Alterar plano'') (U ''Upgrade'') (Some (U ''Redirecionando para o portal de billing...'')) VDefault],
        box ''div'' [box ''div'' [txt_el ''p'' (U ''Parceiros''), txt_el ''p'' (U ''12 / 50'')],
          box ''div'' [txt_el ''p'' (U ''Indica~00e7~00f5es/m~00eas''), txt_el ''p'' (U ''145 / 500'')]]],
      box ''div'' [txt_el ''h2'' (U ''Hist~00f3rico de faturas''),
        box ''div'' (map cf_invoice [U ''Mai 2026'', U ''Abr 2026'', U ''Mar 2026''])]]"

definition cf_contents :: "(jstr \<times> cf_event view) list" where
  "cf_contents = [(U ''perfil'', cf_perfil), (U ''empresa'', cf_empresa), (U ''whatsapp'', cf_whatsapp),
     (U ''webhooks'', cf_webhooks), (U ''equipe'', cf_equipe), (U ''billing'', cf_billing)]"

definition cf_view :: "config_page \<Rightarrow> cf_event view" where
  "cf_view s = box ''div'' [txt_el ''h1'' (U ''Configura~00e7~00f5es''),
     N ''Tabs'' [A ''defaultValue'' (U ''perfil'')]
       (box ''TabsList'' (map (\<lambda>(v, label). N ''TabsTrigger'' [A ''value'' v, On ''onSelect'' (\<lambda>_. CfTab v)] [T label]) cf_tabs) #
        (case map_of cf_contents (cf_tab s) of None \<Rightarrow> [] | Some c \<Rightarrow> [box ''TabsContent'' [c]]))]"

subsection \<open>Facts\<close>

text \<open>Every tab has a content; nothing on the page makes a call.\<close>

lemma cf_tab_contents: "map fst cf_tabs = map fst cf_contents"
  by (simp add: cf_tabs_def cf_contents_def)

lemma cf_inert: "calls (snd (cf_begin ev s)) = []"
  by (cases ev) simp_all

lemma cf_tab_causes: "causes (cf_view s) (CfTab v) \<longleftrightarrow> v \<in> fst ` set cf_tabs"
proof -
  have "\<not> causes c (CfTab v)" if "map_of cf_contents (cf_tab s) = Some c" for c
    using map_of_SomeD [OF that]
    by (auto simp: cf_contents_def cf_perfil_def cf_empresa_def cf_whatsapp_def cf_webhooks_def cf_equipe_def cf_billing_def
        cf_field_def cf_hook_def cf_member_def cf_invoice_def toast_button_def causes_N)
  then show ?thesis by (auto simp: cf_view_def causes_N split_beta image_iff split: option.splits)
qed

end
