(* ===== verification/Parceiros.thy ===== *)
theory Parceiros imports DashboardApi React View Cards GoRules begin

text \<open>
  \<open>apps/dashboard/app/(app)/parceiros\<close>: the table of partners with its search and its programme
  filter (\<open>table.tsx\<close>), the sheet of one partner (\<open>sheet.tsx\<close>), the sheet that registers one
  (\<open>convidar-sheet.tsx\<close>), the page that mounts them (\<open>page.tsx\<close>), and the handler of the server
  that receives a registration (\<open>AdminCreate\<close> of \<open>internal/api/handlers/partners/handler.go\<close>).
\<close>

subsection \<open>The table\<close>

fun pt_status_variant :: "partner_status \<Rightarrow> jstr" where
  "pt_status_variant TActive = U ''success''"
| "pt_status_variant TPending = U ''warning''"
| "pt_status_variant TSuspended = U ''destructive''"

fun pt_status_label :: "partner_status \<Rightarrow> jstr" where
  "pt_status_label TActive = U ''Ativo''"
| "pt_status_label TPending = U ''Pendente''"
| "pt_status_label TSuspended = U ''Suspenso''"

record parceiros =
  pa_partners :: "partner list"
  pa_loading :: bool
  pa_error :: "jstr option"
  pa_selected :: "partner option"
  pa_search :: jstr
  pa_filter :: jstr

datatype pa_event = PaSearch jstr | PaFilter jstr | PaSelect partner | PaCopy partner | PaClose

datatype pa_done = PaListed "api_err + partner list option"

fun pa_opof :: "pa_done \<Rightarrow> dash_call" where
  "pa_opof (PaListed _) = PartnersList"

definition pa_init :: "parceiros \<times> dash_call list" where
  "pa_init = (\<lparr> pa_partners = [], pa_loading = True, pa_error = None, pa_selected = None, pa_search = [],
     pa_filter = U ''all'' \<rparr>, [PartnersList])"

definition copyLink :: "partner \<Rightarrow> dash_call eff list" where
  "copyLink p = (case truthy_s (pt_link_url p) of
      None \<Rightarrow> [Toast (toast_of (U ''Sem link gerado'') (Some (U ''Esse parceiro ainda n~00e3o tem link de indica~00e7~00e3o.'')) VWarning)]
    | Some url \<Rightarrow> [WriteClipboard url, Toast (toast_of (U ''Link copiado!'') (Some url) VSuccess)])"

fun pa_begin :: "pa_event \<Rightarrow> parceiros \<Rightarrow> parceiros \<times> dash_call eff list" where
  "pa_begin (PaSearch v) s = (s\<lparr> pa_search := v \<rparr>, [])"
| "pa_begin (PaFilter v) s = (s\<lparr> pa_filter := v \<rparr>, [])"
| "pa_begin (PaSelect p) s = (s\<lparr> pa_selected := Some p \<rparr>, [])"
| "pa_begin (PaCopy p) s = (s, copyLink p)"
| "pa_begin PaClose s = (s\<lparr> pa_selected := None \<rparr>, [])"

fun pa_finish :: "pa_done \<Rightarrow> parceiros \<Rightarrow> parceiros \<times> dash_call eff list" where
  "pa_finish (PaListed (Inr data)) s = (s\<lparr> pa_partners := orelse data [], pa_loading := False \<rparr>, [])"
| "pa_finish (PaListed (Inl e)) s = (s\<lparr> pa_error := Some (err_message e), pa_loading := False \<rparr>, [])"

text \<open>\<open>Array.from(new Set(xs))\<close>: the first occurrence of each.\<close>

fun first_of_each :: "'a list \<Rightarrow> 'a list" where
  "first_of_each [] = []"
| "first_of_each (x # xs) = x # first_of_each (removeAll x xs)"

definition programas :: "parceiros \<Rightarrow> jstr list" where
  "programas s = first_of_each (map pt_program_name (pa_partners s))"

definition pa_match :: "jstr \<Rightarrow> jstr \<Rightarrow> partner \<Rightarrow> bool" where
  "pa_match prog q p \<longleftrightarrow>
     js_includes (js_toLowerCase (js_join (U '' '') (filter_Boolean [Some (pt_name p), pt_email p, pt_phone_e164 p])))
       (js_toLowerCase q) \<and>
     (prog = U ''all'' \<or> pt_program_name p = prog)"

definition pa_filtered :: "parceiros \<Rightarrow> partner list" where
  "pa_filtered s = filter (pa_match (pa_filter s) (pa_search s)) (pa_partners s)"

definition pa_cents :: "jsnum \<Rightarrow> jstr" where
  "pa_cents c = fmt_brl (js_div c (Fin 100))"

definition pa_row :: "partner \<Rightarrow> pa_event view" where
  "pa_row p = N ''TableRow'' [A ''key'' (pt_id p), On ''onClick'' (\<lambda>_. PaSelect p)]
     [box ''TableCell'' (txt_el ''div'' (pt_name p) #
        (case truthy_s (pt_email p) of Some e \<Rightarrow> [txt_el ''div'' e]
         | None \<Rightarrow> (case truthy_s (pt_phone_e164 p) of Some t \<Rightarrow> [txt_el ''div'' t] | None \<Rightarrow> []))),
      txt_el ''TableCell'' (pt_program_name p),
      txt_el ''TableCell'' (num_str (pt_referrals p)),
      txt_el ''TableCell'' (toLocaleString (pt_clicks p)),
      txt_el ''TableCell'' (pa_cents (pt_commission_cents p)),
      box ''TableCell'' [N ''Badge'' [A ''variant'' (pt_status_variant (pt_status p))] [T (pt_status_label (pt_status p))]],
      box ''TableCell'' [box ''DropdownMenu'' [N ''Button'' [A ''aria-label'' (U ''A~00e7~00f5es'')] [],
        box ''DropdownMenuContent'' [menu_item (PaCopy p) (U ''Copiar link''), menu_item (PaSelect p) (U ''Ver detalhes'')]]]]"

definition pa_count_text :: "nat \<Rightarrow> jstr" where
  "pa_count_text n = num_str (num_int (int n)) @ U '' '' @ (if n = 1 then U ''parceiro'' else U ''parceiros'')"

definition pa_view :: "(partner \<Rightarrow> pa_event view) \<Rightarrow> parceiros \<Rightarrow> pa_event view" where
  "pa_view sheet s =
     (if pa_loading s then txt_el ''p'' (U ''Carregando parceiros...'')
      else case truthy_s (pa_error s) of Some e \<Rightarrow> txt_el ''div'' e
      | None \<Rightarrow> box ''Fragment''
         (box ''div''
            [box ''div'' [text_input (U ''Buscar por nome, email ou telefone...'') (pa_search s) PaSearch,
               select_el (pa_filter s) PaFilter ((U ''all'', U ''Todos os programas'') # map (\<lambda>p. (p, p)) (programas s))],
             table_el [U ''Parceiro'', U ''Programa'', U ''Indic.'', U ''Cliques'', U ''Comiss~00e3o'', U ''Status'', U ''A~00e7~00f5es'']
               (map pa_row (pa_filtered s) @
                whenl (pa_filtered s = [])
                  [box ''TableRow'' [txt_el ''TableCell''
                     (if pa_partners s = [] then U ''Nenhum parceiro cadastrado ainda.''
                      else U ''Nenhum parceiro encontrado com os filtros aplicados.'')]]),
             box ''div'' [txt_el ''p'' (pa_count_text (length (pa_filtered s)))]] #
          (case pa_selected s of Some p \<Rightarrow> [sheet p] | None \<Rightarrow> [])))"

subsection \<open>The sheet of a partner\<close>

datatype ps_sheet_event = SheetClose | SheetCopy cb_event | SheetToast toast_input

definition partner_sheet_facts :: "partner \<Rightarrow> 'e view list" where
  "partner_sheet_facts p =
     [box ''div'' [txt_el ''p'' (U ''Indica~00e7~00f5es''), txt_el ''p'' (num_str (pt_referrals p))],
      box ''div'' [txt_el ''p'' (U ''Cliques''), txt_el ''p'' (toLocaleString (pt_clicks p))],
      box ''div'' [txt_el ''p'' (U ''Comiss~00e3o''), txt_el ''p'' (pa_cents (pt_commission_cents p))]]"

definition mail_toast :: "partner \<Rightarrow> toast_input" where
  "mail_toast p = toast_of (U ''E-mail enviado'')
     (Some (U ''Notifica~00e7~00e3o enviada para '' @ or_str (pt_email p) (U ''~2014''))) VSuccess"

definition suspend_toast :: toast_input where
  "suspend_toast = toast_of (U ''Em breve'') (Some (U ''Suspens~00e3o de parceiro ser~00e1 implementada.'')) VWarning"

definition ParceiroSheet :: "(jstr \<Rightarrow> jstr) \<Rightarrow> copy_link \<Rightarrow> partner \<Rightarrow> ps_sheet_event view" where
  "ParceiroSheet fmtDate cb p = N ''Sheet'' [On ''onOpenChange'' (\<lambda>_. SheetClose)]
     [box ''div''
       ([txt_el ''h2'' (U ''Parceiro: '' @ pt_name p),
         box ''div'' [txt_el ''span'' (U ''Programa: '' @ pt_program_name p),
           N ''Badge'' [A ''variant'' (pt_status_variant (pt_status p))] [T (pt_status_label (pt_status p))]],
         box ''div'' [txt_el ''p'' (U ''E-mail: '' @ or_str (pt_email p) (U ''~2014'')),
           txt_el ''p'' (U ''Telefone: '' @ or_str (pt_phone_e164 p) (U ''~2014'')),
           txt_el ''p'' (U ''Cadastrado em: '' @ fmtDate (pt_created_at p))]] @
        (case truthy_s (pt_link_url p) of None \<Rightarrow> []
         | Some url \<Rightarrow> [box ''div'' [txt_el ''h3'' (U ''Link de indica~00e7~00e3o''), map_view SheetCopy (CopyLinkButton url cb)]]) @
        [box ''div'' (partner_sheet_facts p),
         box ''div'' (N ''Button'' [On ''onClick'' (\<lambda>_. SheetToast (mail_toast p))] [T (U ''Enviar e-mail'')] #
           whenl (pt_status p \<noteq> TSuspended)
             [N ''Button'' [On ''onClick'' (\<lambda>_. SheetToast suspend_toast)] [T (U ''Suspender'')]])])]"

subsection \<open>The sheet that registers a partner\<close>

record convidar =
  cv_nome :: jstr
  cv_email :: jstr
  cv_telefone :: jstr
  cv_programs :: "program list"
  cv_programId :: jstr
  cv_submitting :: bool

datatype cv_event = CvNome jstr | CvEmail jstr | CvTelefone jstr | CvProgram jstr | CvSubmit | CvCancel

datatype cv_done = CvPrograms "api_err + program list option" | CvCreated create_partner "api_err + unit"

fun cv_opof :: "cv_done \<Rightarrow> dash_call" where
  "cv_opof (CvPrograms _) = ProgramsList"
| "cv_opof (CvCreated d _) = PartnersCreate d"

definition cv_init :: "convidar \<times> dash_call list" where
  "cv_init = (\<lparr> cv_nome = [], cv_email = [], cv_telefone = [], cv_programs = [], cv_programId = [],
     cv_submitting = False \<rparr>, [ProgramsList])"

definition cv_request :: "convidar \<Rightarrow> create_partner" where
  "cv_request s = \<lparr> ct_name = cv_nome s, ct_email = nonempty (cv_email s), ct_phone_e164 = nonempty (cv_telefone s),
     ct_program_id = cv_programId s \<rparr>"

definition cv_handleSubmit :: "convidar \<Rightarrow> convidar \<times> dash_call eff list" where
  "cv_handleSubmit s = (if cv_nome s = [] then (s, [])
     else if cv_programId s = [] then (s, [Toast (toast_of (U ''Programa obrigat~00f3rio'')
            (Some (U ''Crie um programa antes de cadastrar parceiros.'')) VDestructive)])
     else (s\<lparr> cv_submitting := True \<rparr>, [Call (PartnersCreate (cv_request s))]))"

fun cv_begin :: "cv_event \<Rightarrow> convidar \<Rightarrow> convidar \<times> dash_call eff list" where
  "cv_begin (CvNome v) s = (s\<lparr> cv_nome := v \<rparr>, [])"
| "cv_begin (CvEmail v) s = (s\<lparr> cv_email := v \<rparr>, [])"
| "cv_begin (CvTelefone v) s = (s\<lparr> cv_telefone := v \<rparr>, [])"
| "cv_begin (CvProgram v) s = (s\<lparr> cv_programId := v \<rparr>, [])"
| "cv_begin CvSubmit s = cv_handleSubmit s"
| "cv_begin CvCancel s = (s, [Callback ''onClose''])"

fun cv_finish :: "cv_done \<Rightarrow> convidar \<Rightarrow> convidar \<times> dash_call eff list" where
  "cv_finish (CvPrograms (Inr data)) s = (let l = orelse data [] in
     (case l of [] \<Rightarrow> s\<lparr> cv_programs := [] \<rparr> | p # _ \<Rightarrow> s\<lparr> cv_programs := l, cv_programId := pg_id p \<rparr>, []))"
| "cv_finish (CvPrograms (Inl e)) s = (s\<lparr> cv_programs := [] \<rparr>, [])"
| "cv_finish (CvCreated d (Inr _)) s = (s,
     [Toast (toast_of (U ''Parceiro cadastrado!'') (Some (ct_name d @ U '' foi adicionado ao programa.'')) VSuccess),
      Callback ''onCreated'', Callback ''onClose''])"
| "cv_finish (CvCreated d (Inl e)) s = (s\<lparr> cv_submitting := False \<rparr>,
     [Toast (toast_of (U ''Falha ao cadastrar'') (Some (api_message e (U ''Erro inesperado''))) VDestructive)])"

definition cv_field :: "jstr \<Rightarrow> jstr \<Rightarrow> jstr \<Rightarrow> bool \<Rightarrow> (jstr \<Rightarrow> cv_event) \<Rightarrow> cv_event view" where
  "cv_field label ph v req h = box ''div'' [txt_el ''label'' label,
     N ''Input'' [A ''placeholder'' ph, A ''value'' v, On ''onChange'' h, Flag ''required'' req] []]"

definition cv_view :: "convidar \<Rightarrow> cv_event view" where
  "cv_view s = N ''Sheet'' [On ''onOpenChange'' (\<lambda>_. CvCancel)]
     [txt_el ''h2'' (U ''Cadastrar parceiro''),
      txt_el ''p'' (U ''Cadastre um novo parceiro e gere o link de indica~00e7~00e3o dele.''),
      N ''form'' [On ''onSubmit'' (\<lambda>_. CvSubmit)]
        [cv_field (U ''Nome completo'') (U ''Nome do parceiro'') (cv_nome s) True CvNome,
         cv_field (U ''E-mail'') (U ''parceiro@email.com'') (cv_email s) False CvEmail,
         cv_field (U ''Telefone (E.164)'') (U ''+5511999990000'') (cv_telefone s) False CvTelefone,
         box ''div'' [txt_el ''label'' (U ''Programa''),
           if cv_programs s = [] then txt_el ''p'' (U ''Nenhum programa cadastrado. Crie um em /programas/novo.'')
           else select_el (cv_programId s) CvProgram (map (\<lambda>p. (pg_id p, pg_name p)) (cv_programs s))],
         box ''div'' [N ''Button'' [A ''type'' (U ''button''), On ''onClick'' (\<lambda>_. CvCancel)] [T (U ''Cancelar'')],
           N ''Button'' [A ''type'' (U ''submit''), Flag ''disabled'' (cv_submitting s \<or> cv_programs s = [])]
             [T (if cv_submitting s then U ''Cadastrando...'' else U ''Cadastrar'')]]]]"

subsection \<open>The page\<close>

record partners_page =
  pp_showConvidar :: bool
  pp_reloadKey :: nat

datatype pp_event = PpOpen | PpClosed | PpCreated

fun pp_begin :: "pp_event \<Rightarrow> partners_page \<Rightarrow> partners_page" where
  "pp_begin PpOpen s = s\<lparr> pp_showConvidar := True \<rparr>"
| "pp_begin PpClosed s = s\<lparr> pp_showConvidar := False \<rparr>"
| "pp_begin PpCreated s = s\<lparr> pp_reloadKey := Suc (pp_reloadKey s) \<rparr>"

definition pp_view :: "(nat \<Rightarrow> pp_event view) \<Rightarrow> pp_event view \<Rightarrow> partners_page \<Rightarrow> pp_event view" where
  "pp_view table sheet s = box ''div''
     ([box ''div'' [txt_el ''h1'' (U ''Parceiros''),
         txt_el ''p'' (U ''Cadastre e acompanhe quem est~00e1 trazendo indica~00e7~00f5es pra voc~00ea.''),
         N ''Button'' [On ''onClick'' (\<lambda>_. PpOpen)] [T (U ''Novo parceiro'')]],
       table (pp_reloadKey s)] @ whenl (pp_showConvidar s) [sheet])"

subsection \<open>The server's handler\<close>

text \<open>
  \<open>AdminCreate\<close> on the JSON body, with the programmes of the tenant and its table of partners: the
  HTTP status and the new table. \<open>parse\<close> stands for \<open>uuid.Parse\<close>. The table has one e-mail and one
  telephone per programme: its unique indexes are on hashes of the lower-case texts, which are
  compared here as texts. Failures of the database and the link of the partner are left out.
\<close>

record partner_row =
  tp_program :: jstr
  tp_name :: jstr
  tp_email :: "jstr option"
  tp_phone :: "jstr option"

definition goSpace :: "nat \<Rightarrow> bool" where
  "goSpace c \<longleftrightarrow> isSpace c \<and> c \<noteq> 65279 \<or> c = 133"

definition go_TrimSpace :: "jstr \<Rightarrow> jstr" where
  "go_TrimSpace s = rev (dropWhile goSpace (rev (dropWhile goSpace s)))"

definition same_hash :: "jstr option \<Rightarrow> jstr option \<Rightarrow> bool" where
  "same_hash a b \<longleftrightarrow> a \<noteq> None \<and> map_option js_toLowerCase a = map_option js_toLowerCase b"

definition row_clash :: "partner_row \<Rightarrow> partner_row \<Rightarrow> bool" where
  "row_clash a b \<longleftrightarrow> tp_program a = tp_program b \<and> (same_hash (tp_email a) (tp_email b) \<or> same_hash (tp_phone a) (tp_phone b))"

definition new_row :: "jstr \<Rightarrow> jstr \<Rightarrow> jstr \<Rightarrow> jstr \<Rightarrow> partner_row" where
  "new_row program name email phone = \<lparr> tp_program = program, tp_name = name,
     tp_email = map_option (\<lambda>e. js_toLowerCase (go_TrimSpace e)) (nonempty email),
     tp_phone = map_option go_TrimSpace (nonempty phone) \<rparr>"

definition srv_create_partner ::
  "(jstr \<Rightarrow> jstr option) \<Rightarrow> jstr set \<Rightarrow> jsval \<Rightarrow> partner_row list \<Rightarrow> nat \<times> partner_row list" where
  "srv_create_partner parse programs body rows =
     (case (go_struct (Some body), go_string (jfield body ''name''), go_string (jfield body ''email''),
            go_string (jfield body ''phone_e164''), go_string (jfield body ''program_id'')) of
        (Some _, Some name, Some email, Some phone, Some program) \<Rightarrow>
          if go_TrimSpace name = [] then (400, rows)
          else (case parse program of None \<Rightarrow> (400, rows)
            | Some i \<Rightarrow>
                if i \<notin> programs then (404, rows)
                else let r = new_row i (go_TrimSpace name) email phone in
                  if list_ex (row_clash r) rows then (409, rows) else (201, rows @ [r]))
      | _ \<Rightarrow> (400, rows))"

subsection \<open>Facts\<close>

lemma set_first_of_each [simp]: "set (first_of_each xs) = set xs"
  by (induction xs rule: first_of_each.induct) auto

lemma distinct_first_of_each [simp]: "distinct (first_of_each xs)"
  by (induction xs rule: first_of_each.induct) auto

text \<open>Choosing a programme of the menu shows its partners and no others.\<close>

lemma programme_filter:
  assumes "prog \<in> set (programas s)" "prog \<noteq> U ''all''" "pa_filter s = prog" "pa_search s = []"
  shows "pa_filtered s = filter (\<lambda>p. pt_program_name p = prog) (pa_partners s)" "pa_filtered s \<noteq> []"
proof -
  show f: "pa_filtered s = filter (\<lambda>p. pt_program_name p = prog) (pa_partners s)"
    using assms(2-4) by (simp add: pa_filtered_def pa_match_def cong: filter_cong)
  show "pa_filtered s \<noteq> []" using assms(1) unfolding f by (auto simp: programas_def filter_empty_conv)
qed

text \<open>
  The sheet sends the identifier of a programme it lists. The list of programmes is asked for once,
  so its reply finds none; the menu offers the programmes of the list.
\<close>

inductive cv_reach :: "convidar \<Rightarrow> bool" where
  start: "cv_reach (fst cv_init)"
| user: "cv_reach s \<Longrightarrow> (\<And>v. ev = CvProgram v \<Longrightarrow> v \<in> pg_id ` set (cv_programs s)) \<Longrightarrow> cv_reach (fst (cv_begin ev s))"
| reply: "cv_reach s \<Longrightarrow> cv_programs s = [] \<or> (\<exists>d r. x = CvCreated d r) \<Longrightarrow> cv_reach (fst (cv_finish x s))"

definition cv_inv :: "convidar \<Rightarrow> bool" where
  "cv_inv s \<longleftrightarrow> cv_programId s = [] \<or> cv_programId s \<in> pg_id ` set (cv_programs s)"

lemma cv_begin_inv:
  assumes "cv_inv s" "\<And>v. ev = CvProgram v \<Longrightarrow> v \<in> pg_id ` set (cv_programs s)"
  shows "cv_inv (fst (cv_begin ev s))"
  using assms by (cases ev) (auto simp: cv_inv_def cv_handleSubmit_def)

lemma cv_finish_inv:
  assumes "cv_inv s" "cv_programs s = [] \<or> (\<exists>d r. x = CvCreated d r)"
  shows "cv_inv (fst (cv_finish x s))"
  using assms by (induction x s rule: cv_finish.induct) (auto simp: cv_inv_def Let_def split: list.splits)

lemma cv_reach_inv: "cv_reach s \<Longrightarrow> cv_inv s"
proof (induction rule: cv_reach.induct)
  case start
  show ?case by (simp add: cv_init_def cv_inv_def)
qed (simp_all add: cv_begin_inv cv_finish_inv)

lemma cv_sends_listed:
  assumes "cv_reach s" "Call c \<in> set (snd (cv_begin ev s))"
  shows "ev = CvSubmit \<and> c = PartnersCreate (cv_request s) \<and> cv_nome s \<noteq> [] \<and>
    ct_program_id (cv_request s) \<in> pg_id ` set (cv_programs s)"
  using cv_reach_inv [OF assms(1)] assms(2)
  by (cases ev) (auto simp: cv_handleSubmit_def cv_inv_def cv_request_def split: if_splits)

lemma create_partner_decoded:
  "srv_create_partner parse programs (json (create_partner_json d)) rows =
     (if go_TrimSpace (ct_name d) = [] then (400, rows)
      else case parse (ct_program_id d) of None \<Rightarrow> (400, rows)
        | Some i \<Rightarrow> if i \<notin> programs then (404, rows)
            else let r = new_row i (go_TrimSpace (ct_name d)) (orelse (ct_email d) []) (orelse (ct_phone_e164 d) []) in
              if list_ex (row_clash r) rows then (409, rows) else (201, rows @ [r]))"
  by (cases "ct_email d"; cases "ct_phone_e164 d")
    (simp_all add: srv_create_partner_def create_partner_json_def opt_str_def jfield_def split: option.splits)

text \<open>No two partners of a programme share an e-mail or a telephone.\<close>

definition rows_ok :: "partner_row list \<Rightarrow> bool" where
  "rows_ok rows \<longleftrightarrow> (\<forall>i < length rows. \<forall>j < i. \<not> row_clash (rows ! i) (rows ! j))"

lemma rows_ok_snoc: "rows_ok (rows @ [r]) \<longleftrightarrow> rows_ok rows \<and> \<not> list_ex (row_clash r) rows"
  by (auto simp: rows_ok_def nth_append list_ex_length less_Suc_eq)

lemma create_partner_rows:
  "rows_ok rows \<Longrightarrow> rows_ok (snd (srv_create_partner parse programs body rows))"
  by (auto simp: srv_create_partner_def rows_ok_snoc Let_def split: option.splits)

interpretation paL: loader pa_begin pa_finish pa_opof pa_init PartnersList pa_loading
proof unfold_locales
  show "snd pa_init = [PartnersList]" by (simp add: pa_init_def)
  show "PartnersList \<in> range pa_opof" by (metis rangeI pa_opof.simps)
next
  fix ev s s' es c assume b: "pa_begin ev s = (s', es)"
  then show "pa_loading s' \<Longrightarrow> pa_loading s" "c \<in> set (calls es) \<Longrightarrow> c \<in> range pa_opof" by (cases ev; auto simp: copyLink_def split: option.splits)+
next
  fix d s s' es assume f: "pa_finish d s = (s', es)"
  then show "pa_loading s' \<Longrightarrow> pa_loading s \<and> pa_opof d \<noteq> PartnersList" "calls es = []" by (induction d s rule: pa_finish.induct; auto)+
qed

end
