(* ===== verification/Programas.thy ===== *)
theory Programas imports NovoPrograma Cards begin

text \<open>
  \<open>apps/dashboard/app/(app)/programas\<close>: the list of programmes with the summary of their rules
  (\<open>page.tsx\<close>), and the page of one programme (\<open>[id]/page.tsx\<close>), which edits nothing.
\<close>

subsection \<open>The summary of a rule\<close>

text \<open>\<open>v?.k\<close>, \<open>a || b\<close>, \<open>a ?? b\<close> and \<open>v.length\<close> on dynamic values.\<close>

definition opt_member :: "jsval \<Rightarrow> string \<Rightarrow> jsval" where
  "opt_member v k = orelse (member v k) JUndef"

definition js_or_val :: "jsval \<Rightarrow> jsval \<Rightarrow> jsval" where
  "js_or_val a b = (if js_truthy a then a else b)"

definition nullish :: "jsval \<Rightarrow> jsval \<Rightarrow> jsval" where
  "nullish a b = (if a = JUndef \<or> a = JNull then b else a)"

definition length_of :: "jsval \<Rightarrow> jsval" where
  "length_of v = (case v of JArr vs \<Rightarrow> JNum (num_int (int (length vs))) | JStr s \<Rightarrow> JNum (num_int (int (length s)))
     | _ \<Rightarrow> opt_member v ''length'')"

text \<open>What \<open>Intl.NumberFormat\<close> makes of a value: it is converted to a number.\<close>

definition to_number :: "jsval \<Rightarrow> jsnum" where
  "to_number v = (case v of JNum n \<Rightarrow> n | JBool b \<Rightarrow> Fin (if b then 1 else 0) | JNull \<Rightarrow> Fin 0 | JUndef \<Rightarrow> NaN
     | _ \<Rightarrow> js_Number (js_String v))"

text \<open>\<open>summarizeRule\<close>; \<open>rules\<close> is an object.\<close>

definition summarizeRule :: "jsval \<Rightarrow> jstr" where
  "summarizeRule rules =
     (let reward = opt_member rules ''reward'';
          ty = js_or_val (opt_member reward ''type'') (opt_member rules ''type'')
      in if \<not> js_truthy ty then U ''Regra customizada''
      else if ty = JStr (U ''tiered'') then
        (let n = length_of (js_or_val (opt_member reward ''tiers'') (JArr []))
         in js_String n @ U '' '' @ (if n = JNum (Fin 1) then U ''n~00edvel'' else U ''n~00edveis'') @ U '' de recompensa'')
      else if ty = JStr (U ''flexible_split'') then
        (if js_truthy (opt_member reward ''max_pct'')
         then U ''Split flex~00edvel (at~00e9 '' @ js_String (opt_member reward ''max_pct'') @ U ''%)'' else U ''Split flex~00edvel'')
      else if ty = JStr (U ''commission_fixed'') \<or> ty = JStr (U ''fixed'') then
        (let a = nullish (opt_member reward ''amount_brl'') (opt_member rules ''amount'')
         in if js_truthy a then fmt_brl (to_number a) @ U '' por venda'' else U ''Comiss~00e3o fixa'')
      else if ty = JStr (U ''commission_pct'') \<or> ty = JStr (U ''percentage'') then
        (let p = nullish (opt_member reward ''pct'') (opt_member rules ''pct'')
         in if js_truthy p then js_String p @ U ''% por venda'' else U ''Comiss~00e3o percentual'')
      else if ty = JStr (U ''goal_based'') \<or> ty = JStr (U ''goal'') then U ''Recompensa por meta''
      else js_String ty)"

subsection \<open>The list\<close>

definition programLink :: "program \<Rightarrow> jstr" where
  "programLink p = U ''indica.ai/r/'' @ js_slice 8 (pg_id p)"

record programas_page =
  pl_programs :: "program list"
  pl_list_loading :: bool
  pl_list_error :: "jstr option"

datatype prog_event = PrCopy jstr cb_event | PrNothing

datatype prog_done = PrListed "api_err + program list option"

fun pr_opof :: "prog_done \<Rightarrow> dash_call" where
  "pr_opof (PrListed _) = ProgramsList"

definition pr_init :: "programas_page \<times> dash_call list" where
  "pr_init = (\<lparr> pl_programs = [], pl_list_loading = True, pl_list_error = None \<rparr>, [ProgramsList])"

fun pr_finish :: "prog_done \<Rightarrow> programas_page \<Rightarrow> programas_page \<times> dash_call eff list" where
  "pr_finish (PrListed (Inr data)) s = (s\<lparr> pl_programs := orelse data [], pl_list_loading := False \<rparr>, [])"
| "pr_finish (PrListed (Inl e)) s = (s\<lparr> pl_list_error := Some (err_message e), pl_list_loading := False \<rparr>, [])"

definition program_badge :: "program \<Rightarrow> 'e view" where
  "program_badge p = N ''Badge'' [A ''variant'' (if pg_status p = PActive then U ''success'' else U ''warning'')]
     [T (if pg_status p = PActive then U ''Ativo'' else if pg_status p = PPaused then U ''Pausado'' else U ''Rascunho'')]"

text \<open>\<open>cb\<close> gives the state of the copy button of each programme.\<close>

definition program_card :: "(jstr \<Rightarrow> copy_link) \<Rightarrow> program \<Rightarrow> prog_event view" where
  "program_card cb p = N ''div'' [A ''key'' (pg_id p)]
     [box ''div'' ([txt_el ''h2'' (pg_name p),
         box ''div'' [program_badge p, txt_el ''span'' (pg_redirect_type p)]] @
        (case truthy_s (pg_description p) of None \<Rightarrow> [] | Some d \<Rightarrow> [txt_el ''p'' d]) @
        [txt_el ''p'' (U ''Regra: '' @ summarizeRule (pg_rules p))]),
      box ''div'' [map_view (PrCopy (pg_id p)) (CopyLinkButton (U ''https://'' @ programLink p) (cb (pg_id p))),
        box ''div'' [N ''Link'' [A ''href'' (U ''/programas/'' @ pg_id p)] [box ''Button'' [T (U ''Editar'')]],
          box ''Button'' [T (U ''~00b7~00b7~00b7'')]]]]"

definition pr_view :: "(jstr \<Rightarrow> copy_link) \<Rightarrow> programas_page \<Rightarrow> prog_event view" where
  "pr_view cb s = box ''div''
     ([box ''div'' [txt_el ''h1'' (U ''Programas''),
         N ''Link'' [A ''href'' (U ''/programas/novo'')] [box ''Button'' [T (U ''+ Novo programa'')]]]] @
      whenl (pl_list_loading s) [txt_el ''p'' (U ''Carregando programas...'')] @
      (case truthy_s (pl_list_error s) of None \<Rightarrow> [] | Some e \<Rightarrow> [txt_el ''div'' e]) @
      whenl (\<not> pl_list_loading s \<and> truthy_s (pl_list_error s) = None \<and> pl_programs s = [])
        [box ''div'' [txt_el ''p'' (U ''Nenhum programa ainda. Crie o primeiro pra come~00e7ar a indicar.''),
           N ''Link'' [A ''href'' (U ''/programas/novo'')] [box ''Button'' [T (U ''+ Criar primeiro programa'')]]]] @
      [box ''div'' (map (program_card cb) (pl_programs s))])"

subsection \<open>The page of one programme\<close>

text \<open>Its fields hold fixed texts and its buttons raise toasts, whatever programme the address names.\<close>

datatype edit_event = EdToast toast_input | EdCopy cb_event

fun ed_begin :: "edit_event \<Rightarrow> unit \<Rightarrow> unit \<times> dash_call eff list" where
  "ed_begin (EdToast t) s = (s, [Toast t])"
| "ed_begin (EdCopy e) s = (s, [])"

definition ed_button :: "jstr \<Rightarrow> jstr \<Rightarrow> toast_variant \<Rightarrow> edit_event view" where
  "ed_button label title v = N ''Button'' [On ''onClick'' (\<lambda>_. EdToast (toast_of title None v))] [T label]"

definition EditarProgramaPage :: "copy_link \<Rightarrow> jstr \<Rightarrow> edit_event view" where
  "EditarProgramaPage cb i = box ''div''
     [box ''div'' [box ''div'' [txt_el ''h1'' (U ''Editar programa''), txt_el ''p'' (U ''ID: '' @ i)],
        N ''Link'' [A ''href'' (U ''/programas'')] [box ''Button'' [T (U ''Voltar'')]]],
      box ''div'' [txt_el ''h2'' (U ''Dados do programa''),
        box ''div'' [box ''div'' [txt_el ''label'' (U ''Nome''),
            N ''Input'' [A ''defaultValue'' (U ''Programa de Indica~00e7~00e3o Wenox'')] []],
          box ''div'' [txt_el ''label'' (U ''Descri~00e7~00e3o''),
            N ''textarea'' [A ''defaultValue'' (U ''Programa de indica~00e7~00e3o com split flex~00edvel'')] []],
          box ''div'' [txt_el ''label'' (U ''Status''), N ''Badge'' [A ''variant'' (U ''success'')] [T (U ''Ativo'')]],
          box ''div'' [txt_el ''label'' (U ''Link de indica~00e7~00e3o''),
            map_view EdCopy (CopyLinkButton (U ''https://indica.ai/r/wenox-abc123'') cb)]],
        box ''div'' [ed_button (U ''Salvar altera~00e7~00f5es'') (U ''Programa atualizado'') VSuccess,
          ed_button (U ''Pausar programa'') (U ''Programa pausado'') VWarning]]]"

subsection \<open>Facts\<close>

lemma type_strings_more:
  "U ''recurring_commission'' \<noteq> U ''tiered''" "U ''recurring_commission'' \<noteq> U ''fixed''"
  "U ''recurring_commission'' \<noteq> U ''percentage''" "U ''recurring_commission'' \<noteq> U ''goal''"
  "U ''flexible_split'' \<noteq> U ''tiered''" "U ''goal_based'' \<noteq> U ''tiered''" "U ''goal_based'' \<noteq> U ''fixed''"
  "U ''goal_based'' \<noteq> U ''percentage''" "U ''commission_fixed'' \<noteq> U ''tiered''" "U ''commission_pct'' \<noteq> U ''tiered''"
  "U ''commission_pct'' \<noteq> U ''fixed''"
  by (simp_all add: ustr)

text \<open>The summary of the rules the wizard sends, once the server has accepted them.\<close>

lemma wizard_reward: "opt_member (json (buildBackendRules s)) ''reward'' = json (buildReward s)"
proof -
  have "buildReward s \<noteq> JUndef" by (simp add: buildReward_def)
  then show ?thesis by (simp add: buildBackendRules_def opt_member_def)
qed

text \<open>The summary by the type of the reward.\<close>

lemma summary_of_type:
  assumes "opt_member rules ''reward'' = r" "opt_member r ''type'' = JStr t"
  shows "t = U ''flexible_split'' \<Longrightarrow> js_truthy (opt_member r ''max_pct'') \<Longrightarrow>
      summarizeRule rules = U ''Split flex~00edvel (at~00e9 '' @ js_String (opt_member r ''max_pct'') @ U ''%)''"
    and "t = U ''commission_fixed'' \<Longrightarrow> js_truthy (opt_member r ''amount_brl'') \<Longrightarrow>
      summarizeRule rules = fmt_brl (to_number (opt_member r ''amount_brl'')) @ U '' por venda''"
    and "t = U ''commission_pct'' \<Longrightarrow> js_truthy (opt_member r ''pct'') \<Longrightarrow>
      summarizeRule rules = js_String (opt_member r ''pct'') @ U ''% por venda''"
    and "t = U ''goal_based'' \<Longrightarrow> summarizeRule rules = U ''Recompensa por meta''"
    and "t = U ''recurring_commission'' \<Longrightarrow> summarizeRule rules = U ''recurring_commission''"
  using assms by (auto simp: summarizeRule_def Let_def js_or_val_def nullish_def type_strings type_strings_more)

lemma wizard_summary:
  assumes "reward_ok s"
  shows "summarizeRule (json (buildBackendRules s)) = (case np_preset s of
      Commission \<Rightarrow> (let n = value_if_number (first_tier (np_tiers s)) in
        if map_option tr_type (first_tier (np_tiers s)) = Some CommissionFixed
        then fmt_brl n @ U '' por venda'' else num_str n @ U ''% por venda'')
    | Recurring \<Rightarrow> U ''recurring_commission''
    | Goal \<Rightarrow> U ''Recompensa por meta''
    | FlexibleSplit \<Rightarrow> U ''Split flex~00edvel (at~00e9 '' @ num_str (np_flexMaxPct s) @ U ''%)'')"
proof (cases "np_preset s")
  case Commission
  define n where "n = value_if_number (first_tier (np_tiers s))"
  have "above_num n \<or> pct_num n"
    by (cases "map_option tr_type (first_tier (np_tiers s)) = Some CommissionFixed")
      (use assms Commission in \<open>simp_all only: reward_ok_def preset.case if_True if_False simp_thms n_def\<close>)
  then have n: "num_truthy n" "js_isFinite n" by (cases n; auto simp: pct_num_def above_num_def)+
  show ?thesis
  proof (cases "map_option tr_type (first_tier (np_tiers s)) = Some CommissionFixed")
    case True
    then have "json (buildReward s) = JObj [(''type'', JStr (U ''commission_fixed'')), (''amount_brl'', JNum n)]"
      using Commission n(2) by (simp add: buildReward_def n_def)
    note r = wizard_reward [of s, unfolded this]
    show ?thesis using summary_of_type(2) [OF r] n True Commission by (simp add: opt_member_def to_number_def n_def Let_def)
  next
    case False
    then have "json (buildReward s) = JObj [(''type'', JStr (U ''commission_pct'')), (''pct'', JNum n)]"
      using Commission n(2) by (simp add: buildReward_def n_def)
    note r = wizard_reward [of s, unfolded this]
    show ?thesis using summary_of_type(3) [OF r] n False Commission by (auto simp: opt_member_def n_def Let_def)
  qed
next
  case FlexibleSplit
  then have n: "num_truthy (np_flexMaxPct s)" "js_isFinite (np_flexMaxPct s)" using assms
    by (cases "np_flexMaxPct s"; simp add: reward_ok_def pct_num_def)+
  then have "json (buildReward s) = JObj [(''type'', JStr (U ''flexible_split'')), (''max_pct'', JNum (np_flexMaxPct s))]"
    using FlexibleSplit by (simp add: buildReward_def)
  note r = wizard_reward [of s, unfolded this]
  show ?thesis using summary_of_type(1) [OF r] n FlexibleSplit by (simp add: opt_member_def)
next
  case Goal
  have "opt_member (json (buildReward s)) ''type'' = JStr (U ''goal_based'')" using Goal by (simp add: buildReward_def opt_member_def)
  then show ?thesis using summary_of_type(4) [OF wizard_reward] Goal by simp
next
  case Recurring
  have "opt_member (json (buildReward s)) ''type'' = JStr (U ''recurring_commission'')"
    using Recurring by (simp add: buildReward_def opt_member_def)
  then show ?thesis using summary_of_type(5) [OF wizard_reward] Recurring by simp
qed

lemma editing_makes_no_call: "calls (snd (ed_begin e s)) = []"
  by (cases e) simp_all

interpretation prL: loader "\<lambda>(_ :: unit) s. (s, [])" pr_finish pr_opof pr_init ProgramsList pl_list_loading
proof unfold_locales
  show "snd pr_init = [ProgramsList]" by (simp add: pr_init_def)
  show "ProgramsList \<in> range pr_opof" by (metis rangeI pr_opof.simps)
next
  fix ev and s s' :: programas_page and es :: "dash_call eff list" and c assume b: "(\<lambda>(_ :: unit) s. (s, [])) ev s = (s', es)"
  then show "pl_list_loading s' \<Longrightarrow> pl_list_loading s" "c \<in> set (calls es) \<Longrightarrow> c \<in> range pr_opof" by (auto)+
next
  fix d s s' es assume f: "pr_finish d s = (s', es)"
  then show "pl_list_loading s' \<Longrightarrow> pl_list_loading s \<and> pr_opof d \<noteq> ProgramsList" "calls es = []" by (induction d s rule: pr_finish.induct; auto)+
qed

end
