(* ===== verification/Overview.thy ===== *)
theory Overview imports DashboardApi React View Cards begin

text \<open>
  \<open>apps/dashboard/app/(app)/dashboard\<close>: the overview of the dashboard (\<open>page.tsx\<close>) with its chart
  (\<open>clicks-chart.tsx\<close>), which draws the pairs it is given.
\<close>

subsection \<open>Texts\<close>

definition fmtDelta :: "jsnum \<Rightarrow> stat_delta" where
  "fmtDelta p = (if js_eq p (Fin 0)
     then \<lparr> dl_value = U ''~2192 0% vs semana passada'', dl_positive = False, dl_neutral = True \<rparr>
     else let positive = js_lt (Fin 0) p in
       \<lparr> dl_value = (if positive then U ''~2191'' else U ''~2193'') @ U '' '' @ toFixed 0 (js_abs p) @ U ''% vs semana passada'',
         dl_positive = positive, dl_neutral = False \<rparr>)"

definition ov_statusLabel :: "jstr \<Rightarrow> jstr" where
  "ov_statusLabel st = (if st = U ''closed'' \<or> st = U ''won'' then U ''Fechado''
     else if st = U ''contacted'' then U ''Em atendimento'' else if st = U ''lost'' then U ''Perdido'' else U ''Novo'')"

definition ov_statusBadge :: "jstr \<Rightarrow> jstr" where
  "ov_statusBadge st = (if st = U ''closed'' \<or> st = U ''won'' then U ''success''
     else if st = U ''contacted'' then U ''warning'' else if st = U ''lost'' then U ''destructive'' else U ''default'')"

subsection \<open>State and handlers\<close>

record overview_page =
  op_data :: "dashboard_overview option"
  op_loading :: bool
  op_error :: "jstr option"

datatype ov_done = OvLoaded "api_err + dashboard_overview option"

fun ov_opof :: "ov_done \<Rightarrow> dash_call" where
  "ov_opof (OvLoaded _) = DashboardOverview"

definition ov_init :: "overview_page \<times> dash_call list" where
  "ov_init = (\<lparr> op_data = None, op_loading = True, op_error = None \<rparr>, [DashboardOverview])"

fun ov_finish :: "ov_done \<Rightarrow> overview_page \<Rightarrow> overview_page \<times> dash_call eff list" where
  "ov_finish (OvLoaded (Inr d)) s = (s\<lparr> op_data := d, op_loading := False \<rparr>, [])"
| "ov_finish (OvLoaded (Inl e)) s = (s\<lparr> op_error := Some (err_message e), op_loading := False \<rparr>, [])"

subsection \<open>The page\<close>

definition ov_money :: "jsnum \<Rightarrow> jstr" where
  "ov_money c = fmt_brl (js_div c (Fin 100))"

definition ov_cards :: "dashboard_overview \<Rightarrow> (jstr \<times> jstr \<times> stat_delta option) list" where
  "ov_cards d = [(U ''Cliques nos ~00faltimos 7 dias'', toLocaleString (ov_clicks_last_7_days d), Some (fmtDelta (ov_clicks_delta_pct d))),
     (U ''Indica~00e7~00f5es novas'', toLocaleString (ov_new_leads_last_7_days d), Some (fmtDelta (ov_leads_delta_pct d))),
     (U ''Comiss~00e3o a pagar'', ov_money (ov_pending_rewards_cents d), None),
     (U ''Parceiros ativos'', toLocaleString (ov_active_partners d), None)]"

text \<open>The chart: one bar per day, the day below it.\<close>

definition ClicksChart :: "(jstr \<times> jsnum) list \<Rightarrow> 'e view" where
  "ClicksChart data = box ''BarChart'' (map (\<lambda>(day, cliques). N ''Bar'' [A ''day'' day, A ''cliques'' (num_str cliques)] []) data)"

definition ov_top :: "nat \<times> jstr \<times> jsnum \<times> jsnum \<Rightarrow> 'e view" where
  "ov_top x = (case x of (i, name, referrals, amount) \<Rightarrow>
     N ''div'' [A ''key'' (name @ num_str (num_int (int i)))]
       [box ''div'' [txt_el ''span'' (num_str (num_int (int i + 1))), txt_el ''span'' name],
        box ''div'' [txt_el ''p'' (num_str referrals @ U '' ind.''), txt_el ''p'' (ov_money amount)]])"

definition ov_lead :: "(jstr \<Rightarrow> jstr) \<Rightarrow> recent_lead \<Rightarrow> 'e view" where
  "ov_lead fmtDate l = N ''div'' [A ''key'' (rl_id l)]
     [box ''div'' [txt_el ''span'' (rl_name l), txt_el ''span'' (rl_partner_name l)],
      box ''div'' [N ''Badge'' [A ''variant'' (ov_statusBadge (rl_status l))] [T (ov_statusLabel (rl_status l))],
        txt_el ''span'' (fmtDate (rl_created_at l))]]"

definition ov_page :: "(jstr \<Rightarrow> jstr) \<Rightarrow> dashboard_overview \<Rightarrow> 'e view" where
  "ov_page fmtDate d = box ''div''
     [box ''div'' [txt_el ''h1'' (U ''Vis~00e3o geral''),
        box ''select'' (map (txt_el ''option'') [U ''7 dias'', U ''30 dias'', U ''90 dias''])],
      box ''div'' (map (\<lambda>(label, v, delta). StatCard label v delta None False) (ov_cards d)),
      box ''div'' [box ''div'' [txt_el ''h2'' (U ''Cliques por dia''), box ''div'' [ClicksChart (ov_clicks_per_day d)]],
        box ''div'' [txt_el ''h2'' (U ''Top parceiros''),
          if ov_top_partners d = [] then txt_el ''p'' (U ''Nenhum parceiro ainda.'')
          else box ''div'' (map ov_top (enumerate 0 (ov_top_partners d)))]],
      box ''div'' [box ''div'' [txt_el ''h2'' (U ''Indica~00e7~00f5es recentes''),
          N ''Link'' [A ''href'' (U ''/indicacoes'')] [box ''Button'' [T (U ''Ver tudo'')]]],
        if ov_recent_leads d = [] then txt_el ''p'' (U ''Nenhuma indica~00e7~00e3o ainda. Compartilhe seu link para come~00e7ar.'')
        else box ''div'' (map (ov_lead fmtDate) (ov_recent_leads d))]]"

definition ov_view :: "(jstr \<Rightarrow> jstr) \<Rightarrow> overview_page \<Rightarrow> 'e view option" where
  "ov_view fmtDate s = (if op_loading s then Some (txt_el ''p'' (U ''Carregando dashboard...''))
     else case truthy_s (op_error s) of Some e \<Rightarrow> Some (txt_el ''div'' e)
     | None \<Rightarrow> map_option (ov_page fmtDate) (op_data s))"

subsection \<open>Facts\<close>

text \<open>The statuses a lead can have (\<open>lead_status\<close>) and what the overview calls them.\<close>

lemma overview_status_names:
  "ov_statusLabel (lead_status_str st) = (case st of LClosed \<Rightarrow> U ''Fechado'' | LLost \<Rightarrow> U ''Perdido'' | _ \<Rightarrow> U ''Novo'')"
  by (cases st) (simp_all add: ov_statusLabel_def ustr)

text \<open>A change is red exactly when it is not above zero and not zero.\<close>

lemma delta_classes:
  "delta_class (fmtDelta p) =
     [if js_eq p (Fin 0) then U ''text-neutral-500'' else if js_lt (Fin 0) p then U ''text-success'' else U ''text-error'']"
  by (simp add: fmtDelta_def delta_class_def Let_def)

interpretation ovL: loader "\<lambda>(_ :: unit) s. (s, [])" ov_finish ov_opof ov_init DashboardOverview op_loading
proof unfold_locales
  show "snd ov_init = [DashboardOverview]" by (simp add: ov_init_def)
  show "DashboardOverview \<in> range ov_opof" by (metis rangeI ov_opof.simps)
next
  fix ev and s s' :: overview_page and es :: "dash_call eff list" and c assume b: "(\<lambda>(_ :: unit) s. (s, [])) ev s = (s', es)"
  then show "op_loading s' \<Longrightarrow> op_loading s" "c \<in> set (calls es) \<Longrightarrow> c \<in> range ov_opof" by (auto)+
next
  fix d s s' es assume f: "ov_finish d s = (s', es)"
  then show "op_loading s' \<Longrightarrow> op_loading s \<and> ov_opof d \<noteq> DashboardOverview" "calls es = []" by (induction d s rule: ov_finish.induct; auto)+
qed

end
