(* ===== verification/PartnerPages.thy ===== *)
theory PartnerPages imports PartnerApi React View Cards begin

text \<open>
  The pages a partner sees: the start page (\<open>apps/partner/app/(app)/parceiro/page.tsx\<close>), the
  partner's leads (\<open>indicacoes/page.tsx\<close>) and the statement of payments (\<open>extrato/page.tsx\<close>), with
  the reply of the server's \<open>Payouts\<close> handler (\<open>internal/api/handlers/partners/handler.go\<close>).
\<close>

subsection \<open>Shared texts\<close>

fun referral_label :: "referral_status \<Rightarrow> jstr \<times> jstr" where
  "referral_label FClosed = (U ''Fechado'', U ''success'')"
| "referral_label FInProgress = (U ''Em atendimento'', U ''warning'')"
| "referral_label FQualified = (U ''Qualificado'', U ''default'')"
| "referral_label FNew = (U ''Novo'', U ''default'')"
| "referral_label FLost = (U ''N~00e3o fechou'', U ''destructive'')"

definition referral_badge :: "referral_status \<Rightarrow> 'e view" where
  "referral_badge st = N ''Badge'' [A ''variant'' (snd (referral_label st))] [T (fst (referral_label st))]"

definition brl_of_cents :: "jsnum \<Rightarrow> jstr" where
  "brl_of_cents c = fmt_brl (js_div c (Fin 100))"

text \<open>\<open>error?.toLowerCase().includes("partner not found")\<close>.\<close>

definition missing_partner :: "jstr option \<Rightarrow> bool" where
  "missing_partner e \<longleftrightarrow> (case e of None \<Rightarrow> False | Some m \<Rightarrow> js_includes (js_toLowerCase m) (U ''partner not found''))"

subsection \<open>The start page\<close>

record partner_home =
  hm_me :: "partner_me option"
  hm_referrals :: "partner_referral list"
  hm_loading :: bool
  hm_error :: "jstr option"
  hm_loggingOut :: bool

datatype hm_event = HmLogout | HmShare | HmCopy cb_event
datatype hm_op = HmLoad | HmLeave

fun hm_calls :: "hm_op \<Rightarrow> partner_call list" where
  "hm_calls HmLoad = [PMe, PReferrals]"
| "hm_calls HmLeave = [PLogout]"

datatype hm_done = HmLoaded "api_err + partner_me \<times> partner_referral list option" | HmLeft "api_err + unit"

fun hm_opof :: "hm_done \<Rightarrow> hm_op" where
  "hm_opof (HmLoaded _) = HmLoad" | "hm_opof (HmLeft _) = HmLeave"

definition hm_init :: "partner_home \<times> hm_op list" where
  "hm_init = (\<lparr> hm_me = None, hm_referrals = [], hm_loading = True, hm_error = None, hm_loggingOut = False \<rparr>, [HmLoad])"

text \<open>\<open>whatsappShare\<close>; where \<open>encodeURIComponent\<close> throws, nothing is opened.\<close>

definition whatsappShare :: "partner_home \<Rightarrow> hm_op eff list" where
  "whatsappShare s = (case Option.bind (hm_me s) (\<lambda>m. truthy_s (pm_link_url m)) of None \<Rightarrow> []
     | Some url \<Rightarrow> (case encodeURIComponent (U ''Oi! Olha esse desconto/oferta especial: '' @ url) of
           None \<Rightarrow> [] | Some t \<Rightarrow> [OpenWindow (U ''https://wa.me/?text='' @ t)]))"

fun hm_begin :: "hm_event \<Rightarrow> partner_home \<Rightarrow> partner_home \<times> hm_op eff list" where
  "hm_begin HmLogout s = (s\<lparr> hm_loggingOut := True \<rparr>, [Call HmLeave])"
| "hm_begin HmShare s = (s, whatsappShare s)"
| "hm_begin (HmCopy e) s = (s, [])"

fun hm_finish :: "hm_done \<Rightarrow> partner_home \<Rightarrow> partner_home \<times> hm_op eff list" where
  "hm_finish (HmLoaded (Inr (m, refs))) s =
     (s\<lparr> hm_me := Some m, hm_referrals := orelse refs [], hm_loading := False \<rparr>, [])"
| "hm_finish (HmLoaded (Inl e)) s = (s\<lparr> hm_error := Some (err_message e), hm_loading := False \<rparr>, [])"
| "hm_finish (HmLeft r) s = (s, [Push (U ''/login'')])"

definition leave_button :: "bool \<Rightarrow> jstr \<Rightarrow> 'e \<Rightarrow> 'e view" where
  "leave_button leaving label e = N ''Button'' [Flag ''disabled'' leaving, On ''onClick'' (\<lambda>_. e)]
     [T (if leaving then U ''Saindo...'' else label)]"

definition hm_failed :: "partner_home \<Rightarrow> hm_event view" where
  "hm_failed s = box ''div''
     [txt_el ''h2'' (if missing_partner (hm_error s) then U ''Esta conta n~00e3o ~00e9 de parceiro'' else U ''N~00e3o foi poss~00edvel carregar''),
      box ''p'' (if missing_partner (hm_error s)
        then [T (U ''Voc~00ea est~00e1 autenticado, mas o e-mail dessa sess~00e3o n~00e3o est~00e1 vinculado a nenhum parceiro. Saia e entre com o e-mail do parceiro.'')]
        else (case hm_error s of None \<Rightarrow> [] | Some e \<Rightarrow> [T e])),
      leave_button (hm_loggingOut s) (U ''Sair e entrar como parceiro'') HmLogout]"

definition hm_link :: "copy_link \<Rightarrow> partner_me \<Rightarrow> hm_event view" where
  "hm_link cb m = box ''div'' (txt_el ''p'' (U ''Seu link de indica~00e7~00e3o'') #
     (case truthy_s (pm_link_url m) of
        Some url \<Rightarrow> [map_view HmCopy (CopyLinkButton url cb),
          N ''Button'' [On ''onClick'' (\<lambda>_. HmShare)] [T (U ''Compartilhar via WhatsApp'')]]
      | None \<Rightarrow> [txt_el ''p'' (U ''Link ainda n~00e3o gerado pra este parceiro.'')]) @
     [txt_el ''p'' (U ''Programa: '' @ pm_program_name m)])"

definition hm_cards :: "partner_me \<Rightarrow> (jstr \<times> jstr) list" where
  "hm_cards m = [(U ''A receber'', brl_of_cents (js_add (pm_pending_rewards_cents m) (pm_approved_rewards_cents m))),
     (U ''Indica~00e7~00f5es'', toLocaleString (pm_referrals m)), (U ''Cliques no link'', toLocaleString (pm_clicks m))]"

definition hm_recent :: "(jstr \<Rightarrow> jstr) \<Rightarrow> partner_referral \<Rightarrow> 'e view" where
  "hm_recent fmtDate r = N ''div'' [A ''key'' (rf_lead_id r)]
     [box ''div'' [txt_el ''p'' (or_str (rf_lead_name r) (U ''~2014'')), txt_el ''p'' (fmtDate (rf_created_at r))],
      box ''div'' [referral_badge (rf_status r), txt_el ''span'' (case rf_sale_amount_cents r of
          Some n \<Rightarrow> if num_truthy n then brl_of_cents n else U ''~2014'' | None \<Rightarrow> U ''~2014'')]]"

definition hm_page :: "(jstr \<Rightarrow> jstr) \<Rightarrow> copy_link \<Rightarrow> partner_me \<Rightarrow> partner_home \<Rightarrow> hm_event view" where
  "hm_page fmtDate cb m s = box ''div''
     [box ''div'' [txt_el ''h1'' (U ''Ol~00e1, '' @ hd (js_split 32 (pm_name m)) @ U ''!''),
        leave_button (hm_loggingOut s) (U ''Sair'') HmLogout],
      hm_link cb m,
      box ''div'' (map (\<lambda>(l, v). stat_card_el l v) (hm_cards m)),
      box ''div'' [box ''div'' [txt_el ''h2'' (U ''~00daltimas indica~00e7~00f5es''),
          N ''Link'' [A ''href'' (U ''/parceiro/indicacoes'')] [box ''Button'' [T (U ''Ver todas'')]]],
        if take 5 (hm_referrals s) = [] then txt_el ''p'' (U ''Voc~00ea ainda n~00e3o tem indica~00e7~00f5es. Compartilhe seu link!'')
        else box ''div'' (map (hm_recent fmtDate) (take 5 (hm_referrals s)))],
      N ''Link'' [A ''href'' (U ''/parceiro/indicacoes/nova'')] [box ''Button'' [T (U ''+ Cadastrar indica~00e7~00e3o manual'')]]]"

definition hm_view :: "(jstr \<Rightarrow> jstr) \<Rightarrow> copy_link \<Rightarrow> partner_home \<Rightarrow> hm_event view" where
  "hm_view fmtDate cb s = (if hm_loading s then txt_el ''p'' (U ''Carregando...'')
     else case (truthy_s (hm_error s), hm_me s) of (None, Some m) \<Rightarrow> hm_page fmtDate cb m s | _ \<Rightarrow> hm_failed s)"

subsection \<open>The partner's leads\<close>

record my_leads =
  mi_items :: "partner_referral list"
  mi_loading :: bool
  mi_error :: "jstr option"
  mi_filter :: jstr
  mi_loggingOut :: bool

datatype mi_event = MiFilter jstr | MiLogout
datatype mi_done = MiLoaded "api_err + partner_referral list option" | MiLeft "api_err + unit"

fun mi_opof :: "mi_done \<Rightarrow> partner_call" where
  "mi_opof (MiLoaded _) = PReferrals" | "mi_opof (MiLeft _) = PLogout"

definition mi_init :: "my_leads \<times> partner_call list" where
  "mi_init = (\<lparr> mi_items = [], mi_loading = True, mi_error = None, mi_filter = U ''all'', mi_loggingOut = False \<rparr>, [PReferrals])"

fun mi_begin :: "mi_event \<Rightarrow> my_leads \<Rightarrow> my_leads \<times> partner_call eff list" where
  "mi_begin (MiFilter v) s = (s\<lparr> mi_filter := v \<rparr>, [])"
| "mi_begin MiLogout s = (s\<lparr> mi_loggingOut := True \<rparr>, [Call PLogout])"

fun mi_finish :: "mi_done \<Rightarrow> my_leads \<Rightarrow> my_leads \<times> partner_call eff list" where
  "mi_finish (MiLoaded (Inr d)) s = (s\<lparr> mi_items := orelse d [], mi_loading := False \<rparr>, [])"
| "mi_finish (MiLoaded (Inl e)) s = (s\<lparr> mi_error := Some (err_message e), mi_loading := False \<rparr>, [])"
| "mi_finish (MiLeft r) s = (s, [Push (U ''/login'')])"

definition mi_filtered :: "my_leads \<Rightarrow> partner_referral list" where
  "mi_filtered s = filter (\<lambda>r. mi_filter s = U ''all'' \<or> referral_status_str (rf_status r) = mi_filter s) (mi_items s)"

definition mi_options :: "(jstr \<times> jstr) list" where
  "mi_options = [(U ''all'', U ''Status: Todos''), (U ''new'', U ''Novo''), (U ''in_progress'', U ''Em atendimento''),
     (U ''qualified'', U ''Qualificado''), (U ''closed'', U ''Fechado''), (U ''lost'', U ''N~00e3o fechou'')]"

definition rewardStatusLabels :: "(jstr \<times> jstr) list" where
  "rewardStatusLabels = [(U ''pending'', U ''comiss~00e3o pendente''), (U ''approved'', U ''comiss~00e3o aprovada''),
     (U ''paid'', U ''comiss~00e3o paga''), (U ''rejected'', U ''comiss~00e3o rejeitada''), (U ''cancelled'', U ''comiss~00e3o cancelada'')]"

definition mi_card :: "(jstr \<Rightarrow> jstr) \<Rightarrow> partner_referral \<Rightarrow> 'e view" where
  "mi_card fmtDate r = N ''div'' [A ''key'' (rf_lead_id r)]
     ([txt_el ''p'' (or_str (rf_lead_name r) (U ''~2014'')),
       box ''div'' (referral_badge (rf_status r) #
         (case rf_sale_amount_cents r of None \<Rightarrow> [] | Some n \<Rightarrow> [txt_el ''span'' (U ''Venda: '' @ brl_of_cents n)]))] @
      (case (rf_reward_cents r, truthy_s (rf_reward_status r)) of
         (Some n, Some st) \<Rightarrow> [txt_el ''p'' (brl_of_cents n @ U '' ~2014 '' @ or_str (map_of rewardStatusLabels st) st)]
       | _ \<Rightarrow> []) @
      [txt_el ''p'' (U ''Cadastrada: '' @ fmtDate (rf_created_at r))])"

definition mi_error_box :: "jstr \<Rightarrow> bool \<Rightarrow> mi_event view" where
  "mi_error_box e leaving = (if js_includes (js_toLowerCase e) (U ''partner not found'')
     then box ''div'' [txt_el ''h2'' (U ''Esta conta n~00e3o ~00e9 de parceiro''),
       txt_el ''p'' (U ''Saia e entre com o e-mail do parceiro pra ver as indica~00e7~00f5es.''),
       leave_button leaving (U ''Sair e entrar como parceiro'') MiLogout]
     else txt_el ''div'' e)"

definition mi_view :: "(jstr \<Rightarrow> jstr) \<Rightarrow> my_leads \<Rightarrow> mi_event view" where
  "mi_view fmtDate s = box ''div''
     ([txt_el ''h1'' (U ''Minhas indica~00e7~00f5es''), box ''div'' [select_el (mi_filter s) MiFilter mi_options]] @
      whenl (mi_loading s) [txt_el ''p'' (U ''Carregando...'')] @
      (case truthy_s (mi_error s) of None \<Rightarrow> [] | Some e \<Rightarrow> [mi_error_box e (mi_loggingOut s)]) @
      [box ''div'' (map (mi_card fmtDate) (mi_filtered s) @
         whenl (\<not> mi_loading s \<and> mi_filtered s = [])
           [box ''div'' [txt_el ''p'' (if mi_items s = [] then U ''Voc~00ea ainda n~00e3o tem indica~00e7~00f5es.''
              else U ''Nenhuma indica~00e7~00e3o com este filtro.'')]])])"

subsection \<open>The statement of payments\<close>

text \<open>
  The page reads the member \<open>items\<close> of the reply to its call for payments, so that reply is kept as
  the JSON value it is; \<open>decode\<close> stands for reading an element of the list as a payment.
\<close>

record extrato =
  ex_wallet :: "wallet option"
  ex_payouts :: "ppayout list"
  ex_loading :: bool
  ex_error :: "jstr option"

datatype ex_op = ExLoad

definition ex_calls :: "ex_op \<Rightarrow> partner_call list" where
  "ex_calls c = [PWallet, PPayouts (Some (Fin 50)) None]"

datatype ex_done = ExLoaded "api_err + wallet option \<times> jsval"

definition ex_opof :: "ex_done \<Rightarrow> ex_op" where
  "ex_opof d = ExLoad"

definition ex_init :: "extrato \<times> ex_op list" where
  "ex_init = (\<lparr> ex_wallet = None, ex_payouts = [], ex_loading = True, ex_error = None \<rparr>, [ExLoad])"

text \<open>\<open>p.items || []\<close>: reading a member of null throws, which the \<open>catch\<close> shows.\<close>

definition ex_items :: "(jsval \<Rightarrow> ppayout) \<Rightarrow> jsval \<Rightarrow> ppayout list option" where
  "ex_items decode p = map_option (\<lambda>v. case v of JArr vs \<Rightarrow> map decode vs | _ \<Rightarrow> []) (member p ''items'')"

fun ex_finish :: "(jsval \<Rightarrow> ppayout) \<Rightarrow> engine \<Rightarrow> ex_done \<Rightarrow> extrato \<Rightarrow> extrato \<times> ex_op eff list" where
  "ex_finish decode eng (ExLoaded (Inr (w, p))) s = (case ex_items decode p of
      Some l \<Rightarrow> (s\<lparr> ex_wallet := w, ex_payouts := l, ex_loading := False \<rparr>, [])
    | None \<Rightarrow> (s\<lparr> ex_wallet := w, ex_error := Some (eng ''TypeError''), ex_loading := False \<rparr>, []))"
| "ex_finish decode eng (ExLoaded (Inl e)) s = (s\<lparr> ex_error := Some (err_message e), ex_loading := False \<rparr>, [])"

definition ex_field :: "(wallet \<Rightarrow> jsnum) \<Rightarrow> wallet option \<Rightarrow> jstr" where
  "ex_field f w = brl_of_cents (orelse (map_option f w) (Fin 0))"

definition ex_cards :: "wallet option \<Rightarrow> (jstr \<times> jstr) list" where
  "ex_cards w = [(U ''Saldo dispon~00edvel'', ex_field wa_available_cents w), (U ''Em hold'', ex_field wa_hold_cents w),
     (U ''Pendente'', ex_field wa_pending_cents w), (U ''Total j~00e1 pago'', ex_field wa_total_paid_cents w)]"

fun ex_status :: "ppayout_status \<Rightarrow> jstr \<times> jstr" where
  "ex_status QPending = (U ''Aguardando processamento'', U ''warning'')"
| "ex_status QProcessing = (U ''Em processamento'', U ''warning'')"
| "ex_status QPaid = (U ''Pago'', U ''success'')"
| "ex_status QFailed = (U ''Falhou'', U ''destructive'')"
| "ex_status QCancelled = (U ''Cancelado'', U ''default'')"

definition ex_row :: "(jstr \<Rightarrow> jstr) \<Rightarrow> ppayout \<Rightarrow> 'e view" where
  "ex_row fmtDate p = N ''div'' [A ''key'' (pp_id p)]
     [box ''div'' (txt_el ''p'' (fmtDate (pp_created_at p) @ U '' ~00b7 Pagamento'') #
        (case truthy_s (pp_pix_key p) of None \<Rightarrow> [] | Some k \<Rightarrow> [txt_el ''p'' (U ''Chave: '' @ k)])),
      box ''div'' [txt_el ''p'' (brl_of_cents (pp_amount_cents p)),
        N ''Badge'' [A ''variant'' (snd (ex_status (pp_status p)))] [T (fst (ex_status (pp_status p)))]]]"

definition ex_view :: "(jstr \<Rightarrow> jstr) \<Rightarrow> extrato \<Rightarrow> 'e view" where
  "ex_view fmtDate s = (if ex_loading s then txt_el ''p'' (U ''Carregando...'')
     else case truthy_s (ex_error s) of Some e \<Rightarrow> txt_el ''div'' e
     | None \<Rightarrow> box ''div''
        [txt_el ''h1'' (U ''Extrato''),
         box ''div'' (map (\<lambda>(l, v). stat_card_el l v) (ex_cards (ex_wallet s))),
         box ''div'' [txt_el ''p'' (U ''Sobre os pagamentos''), txt_el ''p'' (U ''Os pagamentos s~00e3o processados automaticamente quando suas comiss~00f5es saem do per~00edodo de hold (geralmente 7 dias ap~00f3s aprova~00e7~00e3o). Voc~00ea ver~00e1 o pagamento aparecer aqui com status ~0022Aguardando processamento~0022.'')],
         box ''div'' [box ''div'' [txt_el ''h2'' (U ''Hist~00f3rico de pagamentos'')],
           if ex_payouts s = [] then txt_el ''p'' (U ''Nenhum pagamento ainda. Quando voc~00ea acumular comiss~00f5es e o per~00edodo de hold expirar, um pagamento ser~00e1 criado automaticamente.'')
           else box ''div'' (map (ex_row fmtDate) (ex_payouts s))]])"

subsection \<open>The server's list of payments\<close>

text \<open>
  \<open>Payouts\<close> of the partners handler: the page and the limit it reads from the query (a limit outside
  1 to 100 becomes 20), and the JSON of its reply on the rows of the partner, latest first.
\<close>

definition srv_page_limit :: "int option \<Rightarrow> int option \<Rightarrow> int \<times> int" where
  "srv_page_limit page limit =
     (let p = orelse page 0; l = orelse limit 0
      in (if p \<le> 0 then 1 else p, if l \<le> 0 \<or> 100 < l then 20 else l))"

definition srv_partner_payouts :: "int option \<Rightarrow> int option \<Rightarrow> jsval list \<Rightarrow> jsval" where
  "srv_partner_payouts page limit rows = (case srv_page_limit page limit of (p, l) \<Rightarrow>
     JObj [(''payouts'', JArr (take (nat l) (drop (nat ((p - 1) * l)) rows))),
           (''total_count'', JNum (num_int (int (length rows)))), (''page'', JNum (num_int p)), (''limit'', JNum (num_int l))])"

subsection \<open>Facts\<close>

text \<open>The page lists none of the payments the server sends.\<close>

lemma statement_empty:
  "fst (ex_finish decode eng (ExLoaded (Inr (w, srv_partner_payouts page limit rows))) s) =
     s\<lparr> ex_wallet := w, ex_payouts := [], ex_loading := False \<rparr>"
  by (simp add: srv_partner_payouts_def ex_items_def split: prod.splits)

lemma page_limit_bounds: "srv_page_limit page limit = (p, l) \<Longrightarrow> 1 \<le> p \<and> 1 \<le> l \<and> l \<le> 100"
  by (auto simp: srv_page_limit_def Let_def split: if_splits)

text \<open>Whatever the reply to the sign-out, the partner leaves.\<close>

lemma partner_leaves: "snd (hm_finish (HmLeft r) s) = [Push (U ''/login'')]" "snd (mi_finish (MiLeft r) t) = [Push (U ''/login'')]"
  by simp_all

lemma well_formed_ascii: "c < 128 \<Longrightarrow> well_formed (c # s) \<longleftrightarrow> well_formed s"
  by (cases s) (auto simp: well_formed_def is_high_def is_low_def)

lemma whatsapp_link:
  assumes "well_formed url" "url \<noteq> []" "hm_me s = Some m" "pm_link_url m = Some url"
  shows "\<exists>t. whatsappShare s = [OpenWindow (U ''https://wa.me/?text='' @ t)] \<and>
    decodeURIComponent t = Some (U ''Oi! Olha esse desconto/oferta especial: '' @ url)"
proof -
  have "well_formed (U ''Oi! Olha esse desconto/oferta especial: '' @ url)"
    using assms(1) by (simp add: well_formed_ascii ustr)
  from decode_encode [OF this] show ?thesis using assms(2-4) by (auto simp: whatsappShare_def truthy_s_def nonempty_def)
qed

lemma leaves_answered: "HmLeave \<in> range hm_opof" "PLogout \<in> range mi_opof" "PReferrals \<in> range mi_opof"
  by (metis rangeI hm_opof.simps mi_opof.simps)+

interpretation hmL: loader hm_begin hm_finish hm_opof hm_init HmLoad hm_loading
proof unfold_locales
  show "snd hm_init = [HmLoad]" by (simp add: hm_init_def)
  show "HmLoad \<in> range hm_opof" by (metis rangeI hm_opof.simps)
next
  fix ev s s' es c assume b: "hm_begin ev s = (s', es)"
  then show "hm_loading s' \<Longrightarrow> hm_loading s" "c \<in> set (calls es) \<Longrightarrow> c \<in> range hm_opof" by (cases ev; auto simp: whatsappShare_def leaves_answered split: option.splits)+
next
  fix d s s' es assume f: "hm_finish d s = (s', es)"
  then show "hm_loading s' \<Longrightarrow> hm_loading s \<and> hm_opof d \<noteq> HmLoad" "calls es = []" by (induction d s rule: hm_finish.induct; auto)+
qed

interpretation miL: loader mi_begin mi_finish mi_opof mi_init PReferrals mi_loading
proof unfold_locales
  show "snd mi_init = [PReferrals]" by (simp add: mi_init_def)
  show "PReferrals \<in> range mi_opof" by (metis rangeI mi_opof.simps)
next
  fix ev s s' es c assume b: "mi_begin ev s = (s', es)"
  then show "mi_loading s' \<Longrightarrow> mi_loading s" "c \<in> set (calls es) \<Longrightarrow> c \<in> range mi_opof" by (cases ev; auto simp: leaves_answered)+
next
  fix d s s' es assume f: "mi_finish d s = (s', es)"
  then show "mi_loading s' \<Longrightarrow> mi_loading s \<and> mi_opof d \<noteq> PReferrals" "calls es = []" by (induction d s rule: mi_finish.induct; auto)+
qed

text \<open>The statement and the lists have no events of their own.\<close>

interpretation exL: loader "\<lambda>(_ :: unit) s. (s, [])" "ex_finish decode eng" ex_opof ex_init ExLoad ex_loading for decode eng
proof unfold_locales
  show "snd ex_init = [ExLoad]" by (simp add: ex_init_def)
  show "ExLoad \<in> range ex_opof" by (metis rangeI ex_opof_def)
next
  fix ev and s s' :: extrato and es :: "ex_op eff list" and c assume b: "(\<lambda>(_ :: unit) s. (s, [])) ev s = (s', es)"
  then show "ex_loading s' \<Longrightarrow> ex_loading s" "c \<in> set (calls es) \<Longrightarrow> c \<in> range ex_opof" by (auto)+
next
  fix d s s' es assume f: "(ex_finish decode eng) d s = (s', es)"
  then show "ex_loading s' \<Longrightarrow> ex_loading s \<and> ex_opof d \<noteq> ExLoad" "calls es = []" by (induction decode eng d s rule: ex_finish.induct; auto split: option.splits)+
qed

end
