(* ===== verification/LeadServer.thy ===== *)
theory LeadServer imports Indicacoes GoRules begin

text \<open>
  The status of a lead on the server: the handler \<open>UpdateStatus\<close> of \<open>internal/api/handlers/leads/handler.go\<close>
  on the rows of the tenant, and the transitions \<open>internal/domain/types.go\<close> declares valid, which the
  handler does not consult. \<open>parse\<close> stands for \<open>uuid.Parse\<close>, \<open>now\<close> for the clock of the database.
\<close>

subsection \<open>The declared transitions\<close>

fun ValidTransitions :: "lead_status \<Rightarrow> lead_status list" where
  "ValidTransitions LNew = [LInProgress, LLost]"
| "ValidTransitions LInProgress = [LQualified, LClosed, LLost]"
| "ValidTransitions LQualified = [LClosed, LLost]"
| "ValidTransitions LClosed = []"
| "ValidTransitions LLost = []"

definition CanTransition :: "lead_status \<Rightarrow> lead_status \<Rightarrow> bool" where
  "CanTransition a b \<longleftrightarrow> b \<in> set (ValidTransitions a)"

subsection \<open>The handler\<close>

record lead_row =
  lr_id :: jstr
  lr_status :: lead_status
  lr_closed_at :: "jstr option"

definition valid_lead_status :: "jstr \<Rightarrow> lead_status option" where
  "valid_lead_status v = List.find (\<lambda>st. lead_status_str st = v) [LNew, LInProgress, LQualified, LClosed, LLost]"

definition set_lead_status :: "jstr \<Rightarrow> lead_status \<Rightarrow> lead_row \<Rightarrow> lead_row" where
  "set_lead_status now st r = r\<lparr> lr_status := st,
     lr_closed_at := (if st = LClosed \<or> st = LLost then Some (orelse (lr_closed_at r) now) else lr_closed_at r) \<rparr>"

definition srv_lead_status ::
  "(jstr \<Rightarrow> jstr option) \<Rightarrow> jstr \<Rightarrow> jstr \<Rightarrow> jsval option \<Rightarrow> lead_row list \<Rightarrow> nat \<times> lead_row list" where
  "srv_lead_status parse now idStr body rows = (case parse idStr of
      None \<Rightarrow> (400, rows)
    | Some i \<Rightarrow> (case Option.bind (Option.bind body (\<lambda>b. go_struct (Some b))) (\<lambda>b. go_string (jfield b ''status'')) of
        None \<Rightarrow> (400, rows)
      | Some v \<Rightarrow> (case valid_lead_status v of
          None \<Rightarrow> (400, rows)
        | Some st \<Rightarrow> if list_ex (\<lambda>r. lr_id r = i) rows
            then (200, map (\<lambda>r. if lr_id r = i then set_lead_status now st r else r) rows) else (404, rows))))"

subsection \<open>Facts\<close>

lemma valid_own: "valid_lead_status (lead_status_str st) = Some st"
  by (cases st) (simp_all add: valid_lead_status_def ustr)

lemma status_body: "rq_body (dash_req b (LeadsUpdateStatus i st)) = Some (JObj [(''status'', JStr (lead_status_str st))])"
  by (simp add: api_patch_def app_request_def body_of_def)

text \<open>What a request of the dashboard leads to.\<close>

lemma status_request_stored:
  assumes "parse i = Some i" "r \<in> set rows" "lr_id r = i"
  shows "srv_lead_status parse now i (rq_body (dash_req b (LeadsUpdateStatus i st))) rows =
    (200, map (\<lambda>r. if lr_id r = i then set_lead_status now st r else r) rows)"
  using assms unfolding srv_lead_status_def status_body by (auto simp: jfield_def valid_own list_ex_iff)

text \<open>The moment of closing is set with a final status and then never changes.\<close>

lemma closed_at_kept: "lr_closed_at r = Some t \<Longrightarrow> lr_closed_at (set_lead_status now st r) = Some t"
  by (simp add: set_lead_status_def)

lemma closed_at_set: "st = LClosed \<or> st = LLost \<Longrightarrow> lr_closed_at (set_lead_status now st r) \<noteq> None"
  by (auto simp: set_lead_status_def)

text \<open>Statuses that the domain calls final are left by the handler.\<close>

lemma final_statuses: "\<not> CanTransition LClosed st" "\<not> CanTransition LLost st"
  by (simp_all add: CanTransition_def)

text \<open>A row with a final status has its moment of closing, whatever requests came.\<close>

definition closed_ok :: "lead_row \<Rightarrow> bool" where
  "closed_ok r \<longleftrightarrow> (lr_status r = LClosed \<or> lr_status r = LLost \<longrightarrow> lr_closed_at r \<noteq> None)"

lemma srv_lead_status_closed_ok:
  "list_all closed_ok rows \<Longrightarrow> list_all closed_ok (snd (srv_lead_status parse now i body rows))"
  by (auto simp: srv_lead_status_def list_all_iff closed_ok_def set_lead_status_def split: option.splits if_splits)

end
