(* ===== verification/AdminPages.thy ===== *)
theory AdminPages imports React View Cards begin

text \<open>
  The administration of the platform (\<open>apps/dashboard/app/(admin)/admin\<close>): its start page and the
  table of tenants. Both show the sample tenants of \<open>packages/api-client/src/mocks/tenants.mock.ts\<close>;
  the figures of the start page are constants of the source.
\<close>

subsection \<open>The sample tenants\<close>

datatype tenant_plan = PlFree | PlStarter | PlPro | PlEnterprise
datatype tenant_status = TnActive | TnTrial | TnSuspended

fun tenant_plan_str :: "tenant_plan \<Rightarrow> jstr" where
  "tenant_plan_str PlFree = U ''Free''"
| "tenant_plan_str PlStarter = U ''Starter''"
| "tenant_plan_str PlPro = U ''Pro''"
| "tenant_plan_str PlEnterprise = U ''Enterprise''"

fun tenant_status_str :: "tenant_status \<Rightarrow> jstr" where
  "tenant_status_str TnActive = U ''active''"
| "tenant_status_str TnTrial = U ''trial''"
| "tenant_status_str TnSuspended = U ''suspended''"

record tenant =
  tn_id :: jstr
  tn_nome :: jstr
  tn_subdominio :: jstr
  tn_cnpj :: jstr
  tn_plano :: tenant_plan
  tn_status :: tenant_status
  tn_parceiros :: jsnum
  tn_leads :: jsnum
  tn_mrr :: jsnum
  tn_criadoEm :: jstr
  tn_dono :: jstr
  tn_donoEmail :: jstr

definition mock_tenant :: "jstr \<Rightarrow> jstr \<Rightarrow> jstr \<Rightarrow> jstr \<Rightarrow> tenant_plan \<Rightarrow> tenant_status \<Rightarrow> int \<Rightarrow> int \<Rightarrow> int \<Rightarrow>
    jstr \<Rightarrow> jstr \<Rightarrow> jstr \<Rightarrow> tenant" where
  "mock_tenant i nome sub cnpj plano status parceiros leads mrr criado dono mail =
     \<lparr> tn_id = i, tn_nome = nome, tn_subdominio = sub, tn_cnpj = cnpj, tn_plano = plano, tn_status = status,
       tn_parceiros = num_int parceiros, tn_leads = num_int leads, tn_mrr = num_int mrr, tn_criadoEm = criado,
       tn_dono = dono, tn_donoEmail = mail \<rparr>"

definition mockTenants :: "tenant list" where
  "mockTenants =
    [mock_tenant (U ''t1'') (U ''Wenox Inox'') (U ''wenox'') (U ''12.345.678/0001-99'')
       PlPro TnActive 12 145 297 (U ''2026-02-15'') (U ''Carlos Wenox'') (U ''carlos@wenox.com.br''),
     mock_tenant (U ''t2'') (U ''~00d3tica Vis~00e3o+'') (U ''otica-visao'') (U ''23.456.789/0001-00'')
       PlStarter TnActive 8 312 97 (U ''2026-03-01'') (U ''Maria Helena'') (U ''maria@otvisao.com.br''),
     mock_tenant (U ''t3'') (U ''Academia Ferro+'') (U ''ferro-mais'') (U ''34.567.890/0001-11'')
       PlPro TnActive 12 520 297 (U ''2026-01-20'') (U ''Jo~00e3o Ferreira'') (U ''joao@ferromais.com.br''),
     mock_tenant (U ''t4'') (U ''Cl~00ednica Sorria'') (U ''clinica-sorria'') (U ''45.678.901/0001-22'')
       PlStarter TnActive 5 89 97 (U ''2026-04-05'') (U ''Dra. Patricia'') (U ''patricia@sorria.com.br''),
     mock_tenant (U ''t5'') (U ''Provedor NetMais'') (U ''netmais'') (U ''56.789.012/0001-33'')
       PlEnterprise TnActive 25 890 297 (U ''2026-01-05'') (U ''Roberto Net'') (U ''roberto@netmais.com.br''),
     mock_tenant (U ''t6'') (U ''Loja Estilo Moda'') (U ''estilo-moda'') (U ''67.890.123/0001-44'')
       PlFree TnTrial 2 15 0 (U ''2026-05-01'') (U ''Ana Estilo'') (U ''ana@estilomoda.com.br''),
     mock_tenant (U ''t7'') (U ''Escola Crescer'') (U ''escola-crescer'') (U ''78.901.234/0001-55'')
       PlFree TnTrial 1 8 0 (U ''2026-05-03'') (U ''Prof. Marcos'') (U ''marcos@crescer.edu.br''),
     mock_tenant (U ''t8'') (U ''Est~00e9tica Beleza Pura'') (U ''beleza-pura'') (U ''89.012.345/0001-66'')
       PlStarter TnActive 6 120 97 (U ''2026-03-15'') (U ''Fernanda Beleza'') (U ''fernanda@belezapura.com.br''),
     mock_tenant (U ''t9'') (U ''Imobili~00e1ria Lar Doce Lar'') (U ''lar-doce-lar'') (U ''90.123.456/0001-77'')
       PlPro TnActive 10 67 297 (U ''2026-02-28'') (U ''Ricardo Im~00f3veis'') (U ''ricardo@lardocelar.com.br''),
     mock_tenant (U ''t10'') (U ''Pet Shop Amigo Fi~00e9l'') (U ''amigo-fiel'') (U ''01.234.567/0001-88'')
       PlFree TnSuspended 0 3 0 (U ''2026-04-20'') (U ''Lucia Pet'') (U ''lucia@amigofiel.com.br'')]"

subsection \<open>The start page\<close>

definition mrrHistory :: "(jstr \<times> jsnum) list" where
  "mrrHistory = [(U ''Dez'', num_int 18200), (U ''Jan'', num_int 19800), (U ''Fev'', num_int 21400),
     (U ''Mar'', num_int 22100), (U ''Abr'', num_int 23500), (U ''Mai'', num_int 24580)]"

definition recentTenants :: "tenant list" where
  "recentTenants = take 5 mockTenants"

definition rising :: "jstr \<Rightarrow> stat_delta option" where
  "rising v = Some \<lparr> dl_value = v, dl_positive = True, dl_neutral = False \<rparr>"

definition ad_cards :: "(jstr \<times> jstr \<times> stat_delta option) list" where
  "ad_cards = [(U ''MRR'', fmt_brl (num_int 24580), rising (U ''~2191 4.6% vs m~00eas passado'')),
     (U ''Tenants ativos'', U ''87'', rising (U ''~2191 5 novos este m~00eas'')),
     (U ''Tenants em trial'', U ''12'', rising (U ''~2191 3 novos esta semana'')),
     (U ''Churn 30 dias'', U ''2.3%'', rising (U ''~2193 0.5% vs m~00eas passado''))]"

definition mrr_tick :: "jsnum \<Rightarrow> jstr" where
  "mrr_tick v = U ''R$'' @ toFixed 0 (js_div v (num_int 1000)) @ U ''k''"

definition mrr_tooltip :: "jsnum \<Rightarrow> jstr \<times> jstr" where
  "mrr_tooltip v = (fmt_brl v, U ''MRR'')"

definition MrrChart :: "'e view" where
  "MrrChart = box ''BarChart'' (map (\<lambda>(mes, mrr). N ''Bar'' [A ''mes'' mes, A ''mrr'' (num_str mrr)] []) mrrHistory)"

fun tenant_colours :: "tenant_status \<Rightarrow> jstr" where
  "tenant_colours TnActive = U ''bg-success-light text-success''"
| "tenant_colours TnTrial = U ''bg-warning-light text-warning''"
| "tenant_colours TnSuspended = U ''bg-error-light text-error''"

fun tn_statusLabel :: "tenant_status \<Rightarrow> jstr" where
  "tn_statusLabel TnActive = U ''Ativo''"
| "tn_statusLabel TnTrial = U ''Trial''"
| "tn_statusLabel TnSuspended = U ''Suspenso''"

definition ad_tenant :: "tenant \<Rightarrow> 'e view" where
  "ad_tenant t = N ''div'' [A ''key'' (tn_id t)]
     [box ''div'' [txt_el ''p'' (tn_nome t), txt_el ''p'' (tenant_plan_str (tn_plano t) @ U '' ~00b7 '' @ tn_criadoEm t)],
      N ''span'' [A ''className'' (tenant_colours (tn_status t))] [T (tn_statusLabel (tn_status t))]]"

definition nav_to :: "jstr \<Rightarrow> 'e view list \<Rightarrow> 'e view" where
  "nav_to href vs = N ''Link'' [A ''href'' href] vs"

definition AdminPage :: "'e view" where
  "AdminPage = box ''div''
     [box ''div'' [txt_el ''h1'' (U ''Admin ~2014 M~00e9tricas da Plataforma''),
        nav_to (U ''/admin/tenants'') [txt_el ''Button'' (U ''Ver todos os tenants'')]],
      box ''div'' (map (\<lambda>(l, v, d). StatCard l v d None False) ad_cards),
      box ''div''
        [box ''div'' [txt_el ''h2'' (U ''Evolu~00e7~00e3o MRR (6 meses)''), MrrChart],
         box ''div'' [txt_el ''h2'' (U ''~00daltimos tenants criados''), box ''div'' (map ad_tenant recentTenants),
           nav_to (U ''/admin/tenants'') [txt_el ''Button'' (U ''Ver todos os tenants'')]]]]"

subsection \<open>The table of tenants\<close>

fun tn_statusVariant :: "tenant_status \<Rightarrow> jstr" where
  "tn_statusVariant TnActive = U ''success''"
| "tn_statusVariant TnTrial = U ''warning''"
| "tn_statusVariant TnSuspended = U ''destructive''"

record tenants_page =
  tn_search :: jstr
  tn_statusFilter :: jstr

datatype tn_event = TnSearch jstr | TnFilter jstr | TnInvite | TnImpersonate tenant | TnSuspend tenant

definition tn_init :: tenants_page where
  "tn_init = \<lparr> tn_search = [], tn_statusFilter = U ''all'' \<rparr>"

definition handleImpersonate :: "tenant \<Rightarrow> unit eff list" where
  "handleImpersonate t = [Toast (toast_of (U ''Impersonate simulado'')
     (Some (U ''Acessando como '' @ tn_nome t @ U ''...'')) VDefault)]"

definition handleSuspend :: "tenant \<Rightarrow> unit eff list" where
  "handleSuspend t = [Toast (toast_of (U ''A~00e7~00e3o simulada'')
     (Some (U ''Tenant '' @ tn_nome t @ U '' suspenso.'')) VWarning)]"

fun tn_begin :: "tn_event \<Rightarrow> tenants_page \<Rightarrow> tenants_page \<times> unit eff list" where
  "tn_begin (TnSearch v) s = (s\<lparr> tn_search := v \<rparr>, [])"
| "tn_begin (TnFilter v) s = (s\<lparr> tn_statusFilter := v \<rparr>, [])"
| "tn_begin TnInvite s = (s, [Toast \<lparr> ti_title = Some (U ''Convite simulado''),
     ti_description = Some (U ''Formul~00e1rio de convite ser~00e1 aberto.''), ti_variant = None, ti_duration = None \<rparr>])"
| "tn_begin (TnImpersonate t) s = (s, handleImpersonate t)"
| "tn_begin (TnSuspend t) s = (s, handleSuspend t)"

definition tn_match :: "tenants_page \<Rightarrow> tenant \<Rightarrow> bool" where
  "tn_match s t \<longleftrightarrow> js_includes (js_toLowerCase (tn_nome t)) (js_toLowerCase (tn_search s)) \<and>
     (tn_statusFilter s = U ''all'' \<or> tenant_status_str (tn_status t) = tn_statusFilter s)"

definition tn_filtered :: "tenants_page \<Rightarrow> tenant list" where
  "tn_filtered s = filter (tn_match s) mockTenants"

definition tn_options :: "(jstr \<times> jstr) list" where
  "tn_options = [(U ''all'', U ''Status: Todos''), (U ''active'', U ''Ativo''), (U ''trial'', U ''Trial''),
     (U ''suspended'', U ''Suspenso'')]"

definition tn_row :: "tenant \<Rightarrow> tn_event view" where
  "tn_row t = N ''TableRow'' [A ''key'' (tn_id t)]
     [box ''TableCell'' [txt_el ''p'' (tn_nome t), txt_el ''p'' (tn_subdominio t @ U ''.indica.ai'')],
      box ''TableCell'' [Badge (U ''outline'') [T (tenant_plan_str (tn_plano t))]],
      box ''TableCell'' [Badge (tn_statusVariant (tn_status t)) [T (tn_statusLabel (tn_status t))]],
      txt_el ''TableCell'' (num_str (tn_parceiros t)),
      txt_el ''TableCell'' (fmt_brl (tn_mrr t)),
      txt_el ''TableCell'' (tn_criadoEm t),
      box ''TableCell'' (N ''Button'' [On ''onClick'' (\<lambda>_. TnImpersonate t)] [T (U ''Acessar'')] #
        whenl (tn_status t \<noteq> TnSuspended) [N ''Button'' [On ''onClick'' (\<lambda>_. TnSuspend t)] [T (U ''Suspender'')]])]"

definition tn_count_text :: "nat \<Rightarrow> jstr" where
  "tn_count_text n = U ''Mostrando 1-'' @ num_str (num_int (int n)) @ U '' de '' @ num_str (num_int (int n))"

definition tn_view :: "tenants_page \<Rightarrow> tn_event view" where
  "tn_view s = box ''div''
     [box ''div'' [txt_el ''h1'' (U ''Empresas''),
        N ''Button'' [On ''onClick'' (\<lambda>_. TnInvite)] [T (U ''Convidar tenant'')]],
      box ''div'' [text_input (U ''Buscar por nome...'') (tn_search s) TnSearch,
        select_el (tn_statusFilter s) TnFilter tn_options],
      box ''div''
        [table_el [U ''Nome'', U ''Plano'', U ''Status'', U ''Parceiros'', U ''MRR'', U ''Criado em'', U ''A~00e7~00f5es'']
          (map tn_row (tn_filtered s) @ whenl (tn_filtered s = [])
             [box ''TableRow'' [N ''TableCell'' [A ''colSpan'' (U ''7'')] [T (U ''Nenhum tenant encontrado com os filtros aplicados.'')]]]),
         box ''div'' [txt_el ''p'' (tn_count_text (length (tn_filtered s)))]]]"

subsection \<open>Facts\<close>

text \<open>The administration is a display: no event of it makes a call.\<close>

lemma admin_no_calls: "calls (snd (tn_begin e s)) = []"
  by (cases e) (simp_all add: handleImpersonate_def handleSuspend_def)

text \<open>Each entry of the filter that is a status shows the tenants of that status.\<close>

lemma status_filter:
  "tn_filtered \<lparr> tn_search = [], tn_statusFilter = tenant_status_str st \<rparr> = filter (\<lambda>t. tn_status t = st) mockTenants"
proof -
  have "tenant_status_str a = tenant_status_str b \<longleftrightarrow> a = b" "tenant_status_str b \<noteq> U ''all''" for a b
    by (cases a; cases b; simp add: ustr)+
  then show ?thesis by (simp add: tn_filtered_def tn_match_def cong: filter_cong)
qed

text \<open>Suspending is offered for the tenants that are not suspended, and acting as them for all.\<close>

lemma row_causes:
  "causes (tn_row t) ev \<longleftrightarrow> ev = TnImpersonate t \<or> ev = TnSuspend t \<and> tn_status t \<noteq> TnSuspended"
  by (auto simp: tn_row_def Badge_def causes_N)

text \<open>
  The list of the latest tenants takes the first five of the sample, whatever their dates: the
  tenants created in May are not in it.
\<close>

lemma recent_not_latest:
  "filter (\<lambda>t. js_startsWith (tn_criadoEm t) (U ''2026-05'')) recentTenants = []"
  "length (filter (\<lambda>t. js_startsWith (tn_criadoEm t) (U ''2026-05'')) mockTenants) = 2"
  by (simp_all add: recentTenants_def mockTenants_def mock_tenant_def ustr)

end
