(* ===== verification/PublicSite.thy ===== *)
theory PublicSite imports React View JsonText begin

text \<open>
  The public site (\<open>apps/public/app\<close>): the banner that asks for consent to cookies
  (\<open>components/cookie-banner.tsx\<close>), the redirect of a referral link (\<open>r/[slug]/page.tsx\<close>), the landing
  page of a programme (\<open>p/[slug]/page.tsx\<close>), the start page, the form for data subjects
  (\<open>lgpd/contact/page.tsx\<close>), and what crawlers are told (\<open>robots.ts\<close>, \<open>sitemap.ts\<close>).
\<close>

subsection \<open>Consent to cookies\<close>

text \<open>
  The banner's state and the item the browser stores under \<open>indica_cookie_consent\<close>; \<open>now\<close> is
  \<open>new Date().toISOString()\<close>. The stored text is \<open>JSON.stringify\<close> of three members, without white space.
\<close>

definition STORAGE_KEY :: jstr where
  "STORAGE_KEY = U ''indica_cookie_consent''"

record cookie_banner =
  ck_visible :: bool
  ck_analytics :: bool

datatype consent_type = Essential | AllCookies
datatype ck_event = CkAnalytics bool | CkAccept consent_type

fun json_line :: "jsval \<Rightarrow> jstr" where
  "json_line (JBool b) = (if b then U ''true'' else U ''false'')"
| "json_line (JNum x) = num_str x"
| "json_line (JStr s) = quote_str s"
| "json_line (JArr vs) = 91 # js_join [44] (map json_line vs) @ [93]"
| "json_line (JObj ms) = 123 # js_join [44] (map (\<lambda>(k, v). quote_str (key_str k) @ [58] @ json_line v) ms) @ [125]"
| "json_line _ = U ''null''"

definition consent_value :: "consent_type \<Rightarrow> bool \<Rightarrow> jstr \<Rightarrow> jsval" where
  "consent_value ty analytics now = JObj [(''essential'', JBool True),
     (''analytics'', JBool (if ty = AllCookies then True else analytics)), (''timestamp'', JStr now)]"

definition ck_start :: cookie_banner where
  "ck_start = \<lparr> ck_visible = False, ck_analytics = False \<rparr>"

definition ck_mount :: "jstr option \<Rightarrow> cookie_banner \<Rightarrow> cookie_banner" where
  "ck_mount stored s = (if truthy_s stored = None then s\<lparr> ck_visible := True \<rparr> else s)"

definition handleAccept :: "jstr \<Rightarrow> consent_type \<Rightarrow> cookie_banner \<Rightarrow> cookie_banner \<times> jstr option" where
  "handleAccept now ty s = (s\<lparr> ck_visible := False \<rparr>, Some (json_line (consent_value ty (ck_analytics s) now)))"

fun ck_begin :: "jstr \<Rightarrow> ck_event \<Rightarrow> cookie_banner \<times> jstr option \<Rightarrow> cookie_banner \<times> jstr option" where
  "ck_begin now (CkAnalytics b) (s, stored) = (s\<lparr> ck_analytics := b \<rparr>, stored)"
| "ck_begin now (CkAccept ty) (s, stored) = handleAccept now ty s"

definition CookieBanner :: "cookie_banner \<Rightarrow> ck_event view option" where
  "CookieBanner s = (if \<not> ck_visible s then None else Some (box ''div''
     [txt_el ''p'' (U ''~d83c~df6a Este site usa cookies''),
      txt_el ''p'' (U ''Usamos cookies essenciais para o funcionamento do site e cookies de an~00e1lise para melhorar sua experi~00eancia.''),
      box ''label''
        [N ''input'' [A ''type'' (U ''checkbox''), Flag ''checked'' (ck_analytics s), On ''onChange'' (\<lambda>_. CkAnalytics (\<not> ck_analytics s))] [],
         txt_el ''span'' (U ''Cookies de an~00e1lise (opcionais)'')],
      box ''div''
        [N ''Button'' [On ''onClick'' (\<lambda>_. CkAccept Essential)] [T (U ''Aceitar essenciais'')],
         N ''Button'' [On ''onClick'' (\<lambda>_. CkAccept AllCookies)] [T (U ''Aceitar todos'')],
         N ''a'' [A ''href'' (U ''/privacidade'')] [T (U ''Saiba mais'')]]]))"

subsection \<open>Referral links\<close>

text \<open>A search parameter is a text, a list of texts or undefined; only texts are passed on.\<close>

datatype search_value = SvText jstr | SvList "jstr list" | SvUndef

definition utmParams :: "(jstr \<times> search_value) list \<Rightarrow> params" where
  "utmParams search = fold (\<lambda>(k, v) ps. case v of SvText s \<Rightarrow> params_set k s ps | _ \<Rightarrow> ps) search []"

definition TrackingPage :: "jstr \<Rightarrow> (jstr \<times> search_value) list \<Rightarrow> jstr" where
  "TrackingPage slug search = with_query (U ''/p/'' @ slug) (utmParams search)"

definition program_metadata :: "jstr \<Rightarrow> jstr \<times> jstr" where
  "program_metadata slug = (U ''Programa de Indica~00e7~00e3o ~2014 '' @ slug, U ''Indique amigos e ganhe benef~00edcios!'')"

definition ProgramPage :: "jstr \<Rightarrow> 'e view" where
  "ProgramPage slug = box ''main'' [box ''div'' [box ''div'' [box ''div'' [txt_el ''div'' (js_toUpperCase (js_charAt0 slug))],
          txt_el ''h1'' (U ''Programa de Indica~00e7~00e3o''),
          txt_el ''p'' slug,
          txt_el ''p'' (U ''Indique amigos e ganhe benef~00edcios!''),
          box ''div'' [box ''div'' [txt_el ''span'' (U ''1''),
            box ''div'' [txt_el ''p'' (U ''Compartilhe seu link exclusivo''),
             txt_el ''p'' (U ''Envie para amigos e familiares'')]],
           box ''div'' [txt_el ''span'' (U ''2''),
            box ''div'' [txt_el ''p'' (U ''Seu amigo realiza uma compra''),
             txt_el ''p'' (U ''A indica~00e7~00e3o ~00e9 registrada automaticamente'')]],
           box ''div'' [txt_el ''span'' (U ''3''),
            box ''div'' [txt_el ''p'' (U ''Voc~00ea recebe sua comiss~00e3o no Pix''),
             txt_el ''p'' (U ''R~00e1pido e sem burocracia'')]]],
          box ''div'' [txt_el ''Button'' (U ''Quero participar''),
           N ''Link'' [A ''href'' (U ''/parceiro/login'')] [txt_el ''Button'' (U ''J~00e1 sou parceiro ~2014 acessar meu painel'')]]],
         box ''p'' [T (U ''Powered by''),
          T (U '' ''),
          N ''a'' [A ''href'' (U ''https://indica.ai'')] [T (U ''Indica A~00cd!'')],
          T (U '' ''),
          T (U ''~00b7''),
          T (U '' ''),
          N ''a'' [A ''href'' (U ''/termos'')] [T (U ''Termos'')],
          T (U '' ''),
          T (U ''~00b7''),
          T (U '' ''),
          N ''a'' [A ''href'' (U ''/privacidade'')] [T (U ''Privacidade'')]]]]"

subsection \<open>Crawlers\<close>

record robots_rules =
  rb_allow :: jstr
  rb_disallow :: "jstr list"
  rb_sitemap :: jstr
  rb_host :: jstr

definition robots :: "jstr \<Rightarrow> robots_rules" where
  "robots site = \<lparr> rb_allow = U ''/'', rb_disallow = [U ''/r/'', U ''/p/'', U ''/lgpd/contact''],
     rb_sitemap = site @ U ''/sitemap.xml'', rb_host = site \<rparr>"

record sitemap_entry =
  sm_url :: jstr
  sm_lastModified :: jstr
  sm_changeFrequency :: jstr
  sm_priority :: rat

definition staticRoutes :: "(jstr \<times> rat \<times> jstr) list" where
  "staticRoutes = [(U ''/'', 1, U ''weekly''), (U ''/precos'', 9 / 10, U ''monthly''), (U ''/lgpd/contact'', 3 / 10, U ''yearly'')]"

definition sitemap :: "jstr \<Rightarrow> jstr \<Rightarrow> sitemap_entry list" where
  "sitemap site now = map (\<lambda>(path, priority, freq). \<lparr> sm_url = site @ path, sm_lastModified = now,
     sm_changeFrequency = freq, sm_priority = priority \<rparr>) staticRoutes"

definition disallowed :: "robots_rules \<Rightarrow> jstr \<Rightarrow> bool" where
  "disallowed r path \<longleftrightarrow> list_ex (js_startsWith path) (rb_disallow r)"

subsection \<open>Start page\<close>

definition PricingCard :: "jstr \<Rightarrow> jstr \<Rightarrow> jstr list \<Rightarrow> jstr \<Rightarrow> jstr \<Rightarrow> bool \<Rightarrow> 'e view" where
  "PricingCard name price features cta ctaHref highlighted =
     N ''div'' [A ''className'' (if highlighted then U ''border-primary shadow-lg ring-2 ring-primary''
         else U ''border-neutral-200 dark:border-neutral-800'')]
       [txt_el ''h3'' name, txt_el ''p'' price,
        box ''ul'' (map (\<lambda>f. N ''li'' [A ''key'' f] [txt_el ''span'' (U ''~2713''), T f]) features),
        N ''Link'' [A ''href'' ctaHref]
          [N ''Button'' [A ''variant'' (if highlighted then U ''default'' else U ''outline'')] [T cta]]]"

definition HomePage :: "'e view" where
  "HomePage = box ''main'' [box ''header'' [box ''div'' [txt_el ''span'' (U ''Indica A~00cd!''),
          box ''nav'' [N ''a'' [A ''href'' (U ''#funcionalidades'')] [T (U ''Funcionalidades'')],
           N ''a'' [A ''href'' (U ''#precos'')] [T (U ''Pre~00e7os'')],
           N ''a'' [A ''href'' (U ''#contato'')] [T (U ''Contato'')]],
          N ''Link'' [A ''href'' (U ''/login'')] [txt_el ''Button'' (U ''Entrar'')]]],
        box ''section'' [box ''div'' [box ''h1'' [T (U ''Transforme seus clientes''),
           box ''br'' [],
           T (U ''em canais de venda.'')],
          txt_el ''p'' (U ''Crie programas de indica~00e7~00e3o, acompanhe resultados e pague comiss~00f5es ~2014 tudo autom~00e1tico.''),
          box ''div'' [N ''Link'' [A ''href'' (U ''/register'')] [txt_el ''Button'' (U ''Come~00e7ar gr~00e1tis'')],
           N ''a'' [A ''href'' (U ''#funcionalidades'')] [txt_el ''Button'' (U ''Ver como funciona'')]]]],
        N ''section'' [A ''id'' (U ''funcionalidades'')] [box ''div'' [txt_el ''h2'' (U ''Como funciona''),
          box ''div'' [box ''div'' [txt_el ''div'' (U ''1''),
            txt_el ''h3'' (U ''Crie seu programa''),
            txt_el ''p'' (U ''Configure regras de comiss~00e3o em minutos. Sem complica~00e7~00e3o t~00e9cnica.'')],
           box ''div'' [txt_el ''div'' (U ''2''),
            txt_el ''h3'' (U ''Convide parceiros''),
            txt_el ''p'' (U ''Parceiros recebem links exclusivos e compartilham com seus contatos.'')],
           box ''div'' [txt_el ''div'' (U ''3''),
            txt_el ''h3'' (U ''Venda mais''),
            txt_el ''p'' (U ''Acompanhe indica~00e7~00f5es, pague comiss~00f5es e cres~00e7a com seus parceiros.'')]]]],
        box ''section'' [box ''div'' [txt_el ''h2'' (U ''Para quem ~00e9''),
          txt_el ''p'' (U ''~00d3ticas ~00b7 Cl~00ednicas ~00b7 Academias ~00b7 Lojas ~00b7 Imobili~00e1rias ~00b7 Escolas ~00b7 Est~00e9ticas ~00b7 Infoprodutores ~00b7 Ag~00eancias'')]],
        N ''section'' [A ''id'' (U ''precos'')] [box ''div'' [txt_el ''h2'' (U ''Pre~00e7os''),
          box ''div'' [PricingCard (U ''Free'') (U ''R$ 0/m~00eas'')
         [U ''1 programa'', U ''3 parceiros'', U ''Suporte e-mail''] (U ''Come~00e7ar'') (U ''/register'') False,
           PricingCard (U ''Starter'') (U ''R$ 97/m~00eas'')
         [U ''5 programas'', U ''50 parceiros'', U ''Suporte chat''] (U ''Assinar'') (U ''/register'') True,
           PricingCard (U ''Pro'') (U ''R$ 297/m~00eas'')
         [U ''Ilimitado'', U ''Ilimitado'', U ''Suporte priorit~00e1rio''] (U ''Fale conosco'') (U ''#contato'') False]]],
        box ''footer'' [box ''div'' [txt_el ''p'' (U ''Indica A~00cd!''),
          box ''div'' [N ''a'' [A ''href'' (U ''/termos'')] [T (U ''Termos de Uso'')],
           N ''a'' [A ''href'' (U ''/privacidade'')] [T (U ''Privacidade'')],
           N ''a'' [A ''href'' (U ''/lgpd/contact'')] [T (U ''LGPD'')],
           N ''a'' [A ''href'' (U ''mailto:privacidade@indica.ai'')] [T (U ''privacidade@indica.ai'')]]]]]"

subsection \<open>The form for data subjects\<close>

definition LGPDContactPage :: "'e view" where
  "LGPDContactPage = box ''main'' [box ''div'' [box ''div'' [txt_el ''h1'' (U ''Seus dados pessoais''),
          txt_el ''p'' (U ''De acordo com a LGPD (Lei 13.709/2018), voc~00ea tem direito a:''),
          box ''ul'' [box ''li'' [txt_el ''span'' (U ''~2022''), T (U ''Acessar seus dados'')],
           box ''li'' [txt_el ''span'' (U ''~2022''), T (U ''Corrigir dados incorretos'')],
           box ''li'' [txt_el ''span'' (U ''~2022''), T (U ''Solicitar a exclus~00e3o'')],
           box ''li'' [txt_el ''span'' (U ''~2022''), T (U ''Exportar seus dados'')],
           box ''li'' [txt_el ''span'' (U ''~2022''), T (U ''Revogar consentimentos'')]],
          box ''form'' [box ''div'' [txt_el ''label'' (U ''E-mail''),
            N ''Input'' [A ''type'' (U ''email''), A ''placeholder'' (U ''seu@email.com'')] []],
           box ''div'' [txt_el ''label'' (U ''Tipo de solicita~00e7~00e3o''),
            box ''select'' [txt_el ''option'' (U ''Selecione''),
             txt_el ''option'' (U ''Acessar meus dados''),
             txt_el ''option'' (U ''Corrigir meus dados''),
             txt_el ''option'' (U ''Excluir minha conta''),
             txt_el ''option'' (U ''Exportar meus dados''),
             txt_el ''option'' (U ''Revogar consentimento'')]],
           box ''div'' [txt_el ''label'' (U ''Descri~00e7~00e3o''),
            N ''textarea'' [A ''placeholder'' (U ''Descreva sua solicita~00e7~00e3o...'')] []],
           N ''Button'' [A ''type'' (U ''submit'')] [T (U ''Enviar solicita~00e7~00e3o'')]],
          box ''div'' [txt_el ''p'' (U ''Encarregado de Prote~00e7~00e3o de Dados (DPO):''),
           N ''a'' [A ''href'' (U ''mailto:privacidade@indica.ai'')] [T (U ''privacidade@indica.ai'')]]]]]"

subsection \<open>Facts\<close>

text \<open>Once answered, the banner is not shown again on any later visit.\<close>

lemma consent_truthy: "truthy_s (Some (json_line (consent_value ty a now))) \<noteq> None"
  by (simp add: consent_value_def truthy_s_def nonempty_def)

lemma consent_remembered:
  "ck_begin now (CkAccept ty) (s, stored) = (t, st) \<Longrightarrow>
     CookieBanner t = None \<and> CookieBanner (ck_mount st ck_start) = None"
  by (auto simp: handleAccept_def ck_mount_def ck_start_def CookieBanner_def consent_value_def truthy_s_def nonempty_def)

lemma read_quoted: "\<forall>c \<in> set s. c < 65536 \<Longrightarrow> read_str (quote_units s @ 34 # r) = Some (s, r)"
  by (rule read_quote_units)

lemma read_bool: "read_val (Suc n) (json_line (JBool b) @ r) = Some (JBool b, r)"
  by (cases b) (simp_all add: U.simps word_def)

lemma read_text: "\<forall>c \<in> set s. c < 65536 \<Longrightarrow> read_val (Suc n) (json_line (JStr s) @ r) = Some (JStr s, r)"
  by (simp add: quote_str_def read_quote_units)

lemma read_line_member:
  assumes "read_val n (json_line v @ r) = Some (v, r)"
  shows "read_members (Suc n) (quote_str (key_str k) @ 58 # json_line v @ r) = (case expect 44 r of
      Some t \<Rightarrow> map_option (\<lambda>(ms, u). ((k, v) # ms, u)) (read_members n t)
    | None \<Rightarrow> map_option (\<lambda>t. ([(k, v)], t)) (expect 125 r))"
  using assms by (simp add: quote_str_def read_quote_units [OF key_units] split: option.splits)

text \<open>What is stored says what was chosen: all cookies, or the essential ones and the state of the box.\<close>

lemma consent_reads_back:
  assumes "\<forall>c \<in> set now. c < 65536"
  shows "json_parse (json_line (consent_value ty a now)) = Some (consent_value ty a now)"
proof -
  let ?b = "json_line (JBool (ty = AllCookies \<or> a))"
  let ?c = "quote_str (key_str ''timestamp'') @ 58 # json_line (JStr now) @ [125]"
  let ?t = "quote_str (key_str ''analytics'') @ 58 # ?b @ 44 # ?c"
  have c: "read_members (Suc (Suc n)) ?c = Some ([(''timestamp'', JStr now)], [])" for n
    using read_line_member [OF read_text [OF assms, of n "[125]"], of "''timestamp''"] by simp
  have b: "read_members (Suc (Suc (Suc n))) ?t = Some ([(''analytics'', JBool (ty = AllCookies \<or> a)), (''timestamp'', JStr now)], [])" for n
    using read_line_member [OF read_bool [of "Suc n" "ty = AllCookies \<or> a" "44 # ?c"], of "''analytics''"] c [of n] by simp
  have e: "read_members (Suc (Suc (Suc (Suc n)))) (quote_str (key_str ''essential'') @ 58 # json_line (JBool True) @ 44 # ?t) =
      Some ([(''essential'', JBool True), (''analytics'', JBool (ty = AllCookies \<or> a)), (''timestamp'', JStr now)], [])" for n
    using read_line_member [OF read_bool [of "Suc (Suc n)" True "44 # ?t"], of "''essential''"] b [of n] by simp
  let ?s = "json_line (consent_value ty a now)"
  let ?m = "quote_str (key_str ''essential'') @ 58 # json_line (JBool True) @ 44 # ?t"
  have s: "?s = 123 # ?m" by (simp add: consent_value_def)
  obtain n where n: "length ?s = Suc (Suc (Suc (Suc n)))"
    by (cases ?s) (auto simp: s quote_str_def key_str_def dest!: arg_cong [of _ _ length])
  have "expect 125 ?m = None" by (simp add: quote_str_def)
  with e [of n] show ?thesis unfolding json_parse_def n unfolding s by (simp add: consent_value_def)
qed

text \<open>The redirect keeps the text parameters, in their order; the names of an object are distinct.\<close>

lemma params_set_new: "k \<notin> fst ` set ps \<Longrightarrow> params_set k v ps = ps @ [(k, v)]"
  by (simp add: params_set_def)

fun text_params :: "(jstr \<times> search_value) list \<Rightarrow> params" where
  "text_params [] = []"
| "text_params ((k, SvText s) # ps) = (k, s) # text_params ps"
| "text_params (_ # ps) = text_params ps"

lemma text_params_names: "fst ` set (text_params ps) \<subseteq> fst ` set ps"
  by (induction ps rule: text_params.induct) auto

lemma utmParams_fold:
  "distinct (map fst search) \<Longrightarrow> fst ` set acc \<inter> fst ` set search = {} \<Longrightarrow>
     fold (\<lambda>(k, v) ps. case v of SvText s \<Rightarrow> params_set k s ps | _ \<Rightarrow> ps) search acc = acc @ text_params search"
proof (induction search arbitrary: acc rule: text_params.induct)
  case (2 k s ps)
  then have "k \<notin> fst ` set acc" "fst ` set (acc @ [(k, s)]) \<inter> fst ` set ps = {}" by auto
  with 2 show ?case by (simp add: params_set_new)
qed auto

lemma redirect_keeps_params:
  assumes "distinct (map fst search)" "units16 (text_params search)"
  shows "\<exists>q. TrackingPage slug search = U ''/p/'' @ slug @ (if q = [] then [] else 63 # q) \<and>
    read_query q = map (\<lambda>(k, v). (bytes_of k, bytes_of v)) (text_params search)"
  using utmParams_fold [OF assms(1), of "[]"] read_query_params [OF assms(2)]
  by (auto simp: TrackingPage_def utmParams_def with_query_def Let_def)

text \<open>The sitemap lists one path that crawlers are told not to visit.\<close>

lemma sitemap_disallowed: "filter (disallowed (robots site)) (map fst staticRoutes) = [U ''/lgpd/contact'']"
  by (simp add: disallowed_def robots_def staticRoutes_def ustr)

text \<open>Nothing on these pages is handled by the site: they have links and a form without a handler.\<close>

lemma public_pages_inert:
  "\<not> causes (ProgramPage slug) ev" "\<not> causes HomePage ev" "\<not> causes LGPDContactPage ev"
  by (simp_all add: ProgramPage_def HomePage_def LGPDContactPage_def PricingCard_def causes_N)

end
