(* ===== verification/PublicPages.thy ===== *)
theory PublicPages imports PublicSite begin

text \<open>
  The pages of the public site that are text: prices (\<open>precos/page.tsx\<close>), and the two legal documents in
  their common frame (\<open>components/legal-page.tsx\<close>, \<open>termos/page.tsx\<close>, \<open>privacidade/page.tsx\<close>), one
  definition per section. Their facts are about the links of the site.
\<close>

subsection \<open>Prices\<close>

record price_tier =
  tier_name :: jstr
  tier_price :: jstr
  tier_annualPrice :: "jstr option"
  tier_blurb :: jstr
  tier_features :: "jstr list"
  tier_cta :: jstr
  tier_ctaHref :: jstr
  tier_highlighted :: bool
  tier_footnote :: "jstr option"

definition tiers :: "price_tier list" where
  "tiers =
    [\<lparr> tier_name = (U ''Trial''), tier_price = (U ''R$ 0''), tier_annualPrice = None,
       tier_blurb = (U ''14 dias com tudo destravado. Sem cart~00e3o de cr~00e9dito.''),
       tier_features = [U ''1 programa de indica~00e7~00e3o'',
         U ''At~00e9 5 parceiros'',
         U ''At~00e9 R$ 500 em comiss~00f5es'',
         U ''Rastreamento Pix + WhatsApp'',
         U ''Documenta~00e7~00e3o e comunidade''],
       tier_cta = (U ''Come~00e7ar trial''), tier_ctaHref = (U ''/register?plan=trial''), tier_highlighted = False, tier_footnote = None \<rparr>,
     \<lparr> tier_name = (U ''Starter''), tier_price = (U ''R$ 97''), tier_annualPrice = Some (U ''R$ 87 no anual''),
       tier_blurb = (U ''Para varejo pequeno e prestadores de servi~00e7o com indica~00e7~00e3o informal.''),
       tier_features = [U ''1 programa de indica~00e7~00e3o'',
         U ''At~00e9 20 parceiros ativos'',
         U ''At~00e9 R$ 2.000 em comiss~00f5es/m~00eas'',
         U ''Pagamento via Pix'',
         U ''Rastreamento por link ~00fanico'',
         U ''Suporte por email em at~00e9 24h''],
       tier_cta = (U ''Assinar Starter''), tier_ctaHref = (U ''/register?plan=starter''), tier_highlighted = False, tier_footnote = None \<rparr>,
     \<lparr> tier_name = (U ''Growth''), tier_price = (U ''R$ 297''), tier_annualPrice = Some (U ''R$ 267 no anual''),
       tier_blurb = (U ''Onde est~00e1 a maioria dos clientes. M~00faltiplos programas + chat humano.''),
       tier_features = [U ''At~00e9 3 programas simult~00e2neos'',
         U ''At~00e9 100 parceiros ativos'',
         U ''At~00e9 R$ 10.000 em comiss~00f5es/m~00eas'',
         U ''Regras configur~00e1veis (comiss~00e3o, split, cashback, meta)'',
         U ''Cupom de desconto autom~00e1tico para indicados'',
         U ''Detec~00e7~00e3o anti-fraude integrada'',
         U ''Chat + email com SLA 4h''],
       tier_cta = (U ''Assinar Growth''), tier_ctaHref = (U ''/register?plan=growth''), tier_highlighted = True, tier_footnote = Some (U ''Plano mais escolhido'') \<rparr>,
     \<lparr> tier_name = (U ''Scale''), tier_price = (U ''R$ 697+''), tier_annualPrice = None,
       tier_blurb = (U ''Volume alto, white-label, integra~00e7~00f5es sob medida. Conversa direta.''),
       tier_features = [U ''Programas ilimitados'',
         U ''Parceiros ilimitados'',
         U ''Volume de comiss~00f5es ilimitado'',
         U ''White-label opcional (dom~00ednio pr~00f3prio)'',
         U ''API completa + webhooks'',
         U ''Canal Slack dedicado + SLA contratual'',
         U ''Onboarding white-glove''],
       tier_cta = (U ''Falar com vendas''), tier_ctaHref = (U ''mailto:vendas@indica.ai?subject=Plano%20Scale''), tier_highlighted = False, tier_footnote = None \<rparr>]"

definition faqs :: "(jstr \<times> jstr) list" where
  "faqs =
    [(U ''Voc~00eas cobram percentual sobre as comiss~00f5es?'',
      U ''N~00e3o. O pre~00e7o do plano ~00e9 fixo. Voc~00ea paga seus parceiros 100% do que combinar com eles ~2014 nada vai para a Indica A~00cd!.''),
     (U ''Posso trocar de plano a qualquer momento?'',
      U ''Sim. Upgrade ~00e9 imediato e cobrado pr~00f3-rata. Downgrade entra em vigor no pr~00f3ximo ciclo. Sem fidelidade, cancela quando quiser.''),
     (U ''O que acontece se eu ultrapassar o limite do plano?'',
      U ''Avisamos por email e no painel quando voc~00ea se aproxima do teto. N~00e3o bloqueamos features e n~00e3o cobramos overage ~2014 sugerimos upgrade no momento certo.''),
     (U ''Como funciona o trial de 14 dias?'',
      U ''Voc~00ea cria a conta sem cart~00e3o, configura seu programa e testa com parceiros reais. No fim do trial, escolhe um plano pago ou a conta pausa (seus dados ficam guardados por 30 dias).''),
     (U ''A Indica A~00cd! processa o Pix dos meus parceiros?'',
      U ''No MVP, a confirma~00e7~00e3o do Pix ~00e9 manual: voc~00ea paga pelo seu banco e marca como pago no painel. Em breve teremos integra~00e7~00e3o autom~00e1tica com Asaas/Stark Bank para Pix autom~00e1tico.''),
     (U ''Voc~00eas emitem nota fiscal?'',
      U ''Sim. NFS-e emitida via mecanismo eletr~00f4nico do munic~00edpio no fechamento do m~00eas.''),
     (U ''Quais formas de pagamento aceitam?'',
      U ''Pix, boleto banc~00e1rio e cart~00e3o de cr~00e9dito. No anual, 10% de desconto ~00e0 vista por Pix ou boleto.'')]"

definition tier_card :: "price_tier \<Rightarrow> 'e view" where
  "tier_card t = N ''article'' [A ''key'' (tier_name t), A ''className'' (if tier_highlighted t
       then U ''border-primary bg-primary/5 shadow-lg'' else U ''border-neutral-200 bg-white dark:border-neutral-800 dark:bg-neutral-900'')]
     ((case truthy_s (tier_footnote t) of None \<Rightarrow> [] | Some f \<Rightarrow> [txt_el ''div'' f]) @
      [txt_el ''h2'' (tier_name t),
       box ''div'' (txt_el ''span'' (tier_price t) # whenl (tier_name t \<noteq> U ''Trial'') [txt_el ''span'' (U ''/m~00eas'')])] @
      (case truthy_s (tier_annualPrice t) of None \<Rightarrow> [] | Some p \<Rightarrow> [txt_el ''p'' p]) @
      [txt_el ''p'' (tier_blurb t),
       box ''ul'' (map (\<lambda>f. N ''li'' [A ''key'' f] [txt_el ''span'' (U ''~2713''), txt_el ''span'' f]) (tier_features t)),
       N ''Link'' [A ''href'' (tier_ctaHref t)]
         [N ''Button'' [A ''variant'' (if tier_highlighted t then U ''default'' else U ''outline'')] [T (tier_cta t)]]])"

definition faq_entry :: "jstr \<times> jstr \<Rightarrow> 'e view" where
  "faq_entry f = N ''div'' [A ''key'' (fst f)] [txt_el ''dt'' (fst f), txt_el ''dd'' (snd f)]"

definition faq_schema :: "(jstr \<times> jstr) list \<Rightarrow> jsval" where
  "faq_schema fs = JObj [(''@context'', JStr (U ''https://schema.org'')), (''@type'', JStr (U ''FAQPage'')),
     (''mainEntity'', JArr (map (\<lambda>f. JObj [(''@type'', JStr (U ''Question'')), (''name'', JStr (fst f)),
        (''acceptedAnswer'', JObj [(''@type'', JStr (U ''Answer'')), (''text'', JStr (snd f))])]) fs))]"

definition PricingPage :: "'e view" where
  "PricingPage = box ''main'' [box ''header'' [box ''div'' [N ''Link'' [A ''href'' (U ''/'')] [T (U ''Indica A~00cd!'')],
          box ''nav'' [N ''Link'' [A ''href'' (U ''/#funcionalidades'')] [T (U ''Funcionalidades'')],
           N ''Link'' [A ''href'' (U ''/precos'')] [T (U ''Pre~00e7os'')],
           N ''Link'' [A ''href'' (U ''/#contato'')] [T (U ''Contato'')]],
          N ''Link'' [A ''href'' (U ''/login'')] [txt_el ''Button'' (U ''Entrar'')]]],
        box ''section'' [box ''div'' [txt_el ''h1'' (U ''Pre~00e7o fixo. Sem percentual sobre comiss~00f5es.''),
          txt_el ''p'' (U ''Voc~00ea paga um valor previs~00edvel por m~00eas. O dinheiro das indica~00e7~00f5es vai inteiro para seus parceiros ~2014 nada fica conosco no meio do caminho.'')]],
        box ''section'' [box ''div'' (map tier_card tiers),
         txt_el ''p'' (U ''Todos os planos incluem: rastreamento por link ~00fanico, suporte LGPD, detec~00e7~00e3o anti-fraude e atualiza~00e7~00f5es cont~00ednuas. Valores em BRL. NFS-e emitida ao final do m~00eas.'')],
        box ''section'' [box ''div'' [txt_el ''h2'' (U ''Perguntas frequentes''),
          box ''dl'' (map faq_entry faqs)]],
        box ''section'' [box ''div'' [txt_el ''h2'' (U ''Pronto pra come~00e7ar?''),
          txt_el ''p'' (U ''14 dias gr~00e1tis. Sem cart~00e3o. Configure seu primeiro programa em menos de 10 minutos.''),
          N ''Link'' [A ''href'' (U ''/register?plan=trial'')] [txt_el ''Button'' (U ''Come~00e7ar trial gratuito'')]]],
        box ''footer'' [box ''div'' [txt_el ''p'' (U ''Indica A~00cd!''),
          box ''div'' [N ''Link'' [A ''href'' (U ''/termos'')] [T (U ''Termos de Uso'')],
           N ''Link'' [A ''href'' (U ''/privacidade'')] [T (U ''Privacidade'')],
           N ''Link'' [A ''href'' (U ''/lgpd/contact'')] [T (U ''LGPD'')],
           N ''a'' [A ''href'' (U ''mailto:privacidade@indica.ai'')] [T (U ''privacidade@indica.ai'')]]]],
        N ''script'' [A ''type'' (U ''application/ld+json'')] [T (json_line (faq_schema faqs))]]"

subsection \<open>Legal documents\<close>

definition LegalPage :: "jstr \<Rightarrow> jstr \<Rightarrow> jstr \<Rightarrow> 'e view list \<Rightarrow> 'e view" where
  "LegalPage title version effectiveDate children = box ''main'' [box ''header'' [box ''div'' [N ''Link'' [A ''href'' (U ''/'')] [T (U ''Indica A~00cd!'')],
          box ''nav'' [N ''Link'' [A ''href'' (U ''/termos'')] [T (U ''Termos'')],
           N ''Link'' [A ''href'' (U ''/privacidade'')] [T (U ''Privacidade'')],
           N ''Link'' [A ''href'' (U ''/lgpd/contact'')] [T (U ''LGPD'')]]]],
        box ''article'' [box ''header'' [txt_el ''h1'' title,
          box ''p'' [T (U ''Vers~00e3o ''),
           txt_el ''span'' version,
           T (U '' ~00b7 em vigor desde ''),
           txt_el ''span'' effectiveDate]],
         box ''div'' (children)],
        box ''footer'' [box ''div'' [box ''p'' [T (U ''D~00favidas? Escreva para''),
           T (U '' ''),
           N ''a'' [A ''href'' (U ''mailto:privacidade@indica.ai'')] [T (U ''privacidade@indica.ai'')]],
          box ''p'' [N ''Link'' [A ''href'' (U ''/'')] [T (U ''~2190 voltar para a p~00e1gina inicial'')]]]]]"

subsubsection \<open>Terms of use\<close>

definition termos_0 :: "'e view list" where
  "termos_0 = [box ''div'' [txt_el ''strong'' (U ''Documento em revis~00e3o jur~00eddica.''),
        T (U '' Este ~00e9 um template baseado em LGPD aplicado a SaaS B2B. Antes de publicar a vers~00e3o p~00fablica definitiva, ser~00e1 revisado por advogado especializado.'')]]"

definition termos_1 :: "'e view list" where
  "termos_1 = [txt_el ''h2'' (U ''1. Quem somos''),
       box ''p'' [txt_el ''strong'' (U ''Indica A~00cd! Tecnologia Ltda.''),
        T (U '' oferece uma plataforma SaaS para cria~00e7~00e3o, gest~00e3o e opera~00e7~00e3o de programas de indica~00e7~00e3o, parceiros e recompensas. Estes Termos regulam o uso da plataforma por ''),
        txt_el ''strong'' (U ''empresas-clientes''),
        T (U '', ''),
        txt_el ''strong'' (U ''parceiros indicadores''),
        T (U '' e''),
        T (U '' ''),
        txt_el ''strong'' (U ''visitantes''),
        T (U '' das p~00e1ginas p~00fablicas.'')],
       box ''p'' [T (U ''Contato:''),
        T (U '' ''),
        N ''a'' [A ''href'' (U ''mailto:contato@indica.ai'')] [T (U ''contato@indica.ai'')],
        T (U '' ~00b7 Encarregado de Dados (DPO):''),
        T (U '' ''),
        N ''a'' [A ''href'' (U ''mailto:privacidade@indica.ai'')] [T (U ''privacidade@indica.ai'')],
        T (U ''.'')]]"

definition termos_2 :: "'e view list" where
  "termos_2 = [txt_el ''h2'' (U ''2. Aceite''),
       box ''p'' [T (U ''Ao se cadastrar, marcar a caixa de aceite ou usar a plataforma de qualquer forma, voc~00ea declara que leu, entendeu e concorda com estes Termos e com a''),
        T (U '' ''),
        N ''a'' [A ''href'' (U ''/privacidade'')] [T (U ''Pol~00edtica de Privacidade'')],
        T (U ''. Se n~00e3o concorda, n~00e3o use a plataforma.'')],
       txt_el ''p'' (U ''Se voc~00ea aceita em nome de uma pessoa jur~00eddica, declara ter poderes para vincul~00e1-la.'')]"

definition termos_3 :: "'e view list" where
  "termos_3 = [txt_el ''h2'' (U ''3. Quem pode usar''),
       box ''ul'' [box ''li'' [T (U ''Pessoas f~00edsicas com ''),
         txt_el ''strong'' (U ''18 anos ou mais''),
         T (U '' e capacidade civil plena.'')],
        txt_el ''li'' (U ''Pessoas jur~00eddicas regularmente constitu~00eddas no Brasil.''),
        txt_el ''li'' (U ''Pessoas Expostas Politicamente (PEPs) precisar~00e3o de cadastro KYC adicional para saque via Pix, quando esse fluxo for ativado.'')]]"

definition termos_4 :: "'e view list" where
  "termos_4 = [txt_el ''h2'' (U ''4. Cadastro e seguran~00e7a da conta''),
       box ''ul'' [txt_el ''li'' (U ''Forne~00e7a informa~00e7~00f5es verdadeiras, completas e atualizadas.''),
        txt_el ''li'' (U ''A conta ~00e9 pessoal e intransfer~00edvel. Voc~00ea ~00e9 respons~00e1vel por toda atividade nela.''),
        box ''li'' [T (U ''Em caso de uso n~00e3o autorizado, escreva imediatamente para''),
         T (U '' ''),
         N ''a'' [A ''href'' (U ''mailto:seguranca@indica.ai'')] [T (U ''seguranca@indica.ai'')],
         T (U ''.'')]]]"

definition termos_5 :: "'e view list" where
  "termos_5 = [txt_el ''h2'' (U ''5. Como a plataforma funciona''),
       txt_el ''p'' (U ''A Indica A~00cd! permite que o Cliente:''),
       box ''ol'' [box ''li'' [T (U ''Crie ''),
         txt_el ''strong'' (U ''programas''),
         T (U '' de indica~00e7~00e3o com regras configur~00e1veis (comiss~00e3o fixa, percentual, meta, split flex~00edvel, recorr~00eancia etc.).'')],
        box ''li'' [T (U ''Convide ou cadastre ''),
         txt_el ''strong'' (U ''Parceiros''),
         T (U '' para divulgar produtos com links rastre~00e1veis.'')],
        box ''li'' [T (U ''Acompanhe ''),
         txt_el ''strong'' (U ''leads''),
         T (U '', ''),
         txt_el ''strong'' (U ''vendas confirmadas''),
         T (U '' e ''),
         txt_el ''strong'' (U ''comiss~00f5es''),
         T (U ''.'')],
        txt_el ''li'' (U ''Processe pagamentos das comiss~00f5es devidas.'')],
       box ''p'' [txt_el ''strong'' (U ''Pagamentos no MVP atual:''),
        T (U '' o repasse de comiss~00f5es ~00e9''),
        T (U '' ''),
        txt_el ''strong'' (U ''operado manualmente''),
        T (U '' pelo Cliente fora da plataforma (por exemplo, Pix banc~00e1rio). A Indica A~00cd! registra o status (''),
        txt_el ''code'' (U ''pendente''),
        T (U '', ''),
        txt_el ''code'' (U ''confirmado''),
        T (U '', ''),
        txt_el ''code'' (U ''pago''),
        T (U '',''),
        T (U '' ''),
        txt_el ''code'' (U ''cancelado''),
        T (U '') e mant~00e9m o hist~00f3rico audit~00e1vel. Vers~00f5es futuras poder~00e3o integrar gateways de pagamento.'')]]"

definition termos_6 :: "'e view list" where
  "termos_6 = [txt_el ''h2'' (U ''6. Obriga~00e7~00f5es do Cliente''),
       box ''ul'' [txt_el ''li'' (U ''Definir regras que respeitem o CDC e a legisla~00e7~00e3o publicit~00e1ria.''),
        txt_el ''li'' (U ''Honrar comiss~00f5es devidas conforme regras publicadas no momento da indica~00e7~00e3o.''),
        txt_el ''li'' (U ''N~00e3o usar a plataforma para promover produtos ilegais, jogos n~00e3o regulamentados, esquemas em pir~00e2mide ou atividades vedadas pela legisla~00e7~00e3o brasileira.''),
        box ''li'' [T (U ''Tratar os dados dos seus Parceiros e leads conforme a LGPD em seu papel de''),
         T (U '' ''),
         txt_el ''strong'' (U ''Controlador''),
         T (U '' (a Indica A~00cd! atua como ''),
         txt_el ''strong'' (U ''Operador''),
         T (U '' para esses dados ~2014 ver ''),
         N ''a'' [A ''href'' (U ''/privacidade'')] [T (U ''Pol~00edtica de Privacidade'')],
         T (U '').'')]]]"

definition termos_7 :: "'e view list" where
  "termos_7 = [txt_el ''h2'' (U ''7. Obriga~00e7~00f5es do Parceiro''),
       box ''ul'' [txt_el ''li'' (U ''Divulgar a oferta com honestidade, sem se passar por funcion~00e1rio do Cliente.''),
        box ''li'' [T (U ''N~00e3o usar t~00e9cnicas de ''),
         txt_el ''strong'' (U ''auto-referral''),
         T (U '', ''),
         txt_el ''strong'' (U ''click farms''),
         T (U '' ou bots. Tais pr~00e1ticas configuram fraude e ensejam rejei~00e7~00e3o da recompensa, encerramento de conta e cobran~00e7a regressiva de comiss~00f5es j~00e1 pagas.'')],
        txt_el ''li'' (U ''Cumprir a LGPD ao coletar contatos de potenciais leads.'')]]"

definition termos_8 :: "'e view list" where
  "termos_8 = [txt_el ''h2'' (U ''8. Antifraude''),
       box ''p'' [T (U ''Monitoramos padr~00f5es de uso, IPs, fingerprint de dispositivo e rela~00e7~00e3o entre contas. Atribui~00e7~00f5es sob suspeita podem ser marcadas em ''),
        txt_el ''strong'' (U ''hold''),
        T (U '', ''),
        txt_el ''strong'' (U ''rejeitadas''),
        T (U '' com justificativa ou disparar bloqueio preventivo. Decis~00f5es podem ser contestadas em at~00e9 30 dias em''),
        T (U '' ''),
        N ''a'' [A ''href'' (U ''mailto:suporte@indica.ai'')] [T (U ''suporte@indica.ai'')],
        T (U ''.'')]]"

definition termos_9 :: "'e view list" where
  "termos_9 = [txt_el ''h2'' (U ''9. Planos, cobran~00e7a e cancelamento''),
       box ''p'' [T (U ''Planos e pre~00e7os est~00e3o em ''),
        N ''a'' [A ''href'' (U ''/precos'')] [T (U ''/precos'')],
        T (U '' e integram estes Termos. Renova~00e7~00e3o autom~00e1tica mensal; cancelamento a qualquer momento pela ~00e1rea de configura~00e7~00f5es. N~00e3o h~00e1 reembolso pr~00f3-rata de mensalidade j~00e1 paga, exceto nos casos previstos no art. 49 do CDC (arrependimento em at~00e9 7 dias).'')]]"

definition termos_10 :: "'e view list" where
  "termos_10 = [txt_el ''h2'' (U ''10. Propriedade intelectual''),
       txt_el ''p'' (U ''A plataforma, marca, layout, c~00f3digo e documenta~00e7~00e3o s~00e3o de propriedade exclusiva da Indica A~00cd!. O Cliente mant~00e9m direitos sobre seu pr~00f3prio conte~00fado (logos, banners, textos de campanha) e concede licen~00e7a n~00e3o-exclusiva para hosped~00e1-lo durante a vig~00eancia do contrato.'')]"

definition termos_11 :: "'e view list" where
  "termos_11 = [txt_el ''h2'' (U ''11. Limita~00e7~00e3o de responsabilidade''),
       box ''ul'' [txt_el ''li'' (U ''A Indica A~00cd! n~00e3o ~00e9 parte das transa~00e7~00f5es comerciais entre Clientes e Parceiros ou entre Clientes e seus leads. Disputas comerciais devem ser resolvidas entre as partes envolvidas.''),
        box ''li'' [T (U ''A plataforma ~00e9 fornecida ''),
         txt_el ''strong'' (U ''~0022como est~00e1~0022''),
         T (U '', com SLA definido no Adendo de SLA (quando contratado).'')],
        box ''li'' [T (U ''A responsabilidade agregada da Indica A~00cd! limita-se ao valor pago pelo Cliente nos''),
         T (U '' ''),
         txt_el ''strong'' (U ''~00faltimos 12 meses''),
         T (U ''.'')]]]"

definition termos_12 :: "'e view list" where
  "termos_12 = [txt_el ''h2'' (U ''12. Suspens~00e3o e encerramento''),
       box ''p'' [T (U ''Podemos suspender contas que violem estes Termos. Encerramento imediato em casos de fraude confirmada, inadimpl~00eancia ou ordem judicial. Em qualquer caso, voc~00ea ter~00e1 ''),
        txt_el ''strong'' (U ''30 dias''),
        T (U '' ''),
        T (U ''para exportar seus dados via ''),
        txt_el ''code'' (U ''/api/me/lgpd/export''),
        T (U '' antes da anonimiza~00e7~00e3o irrevers~00edvel.'')]]"

definition termos_13 :: "'e view list" where
  "termos_13 = [txt_el ''h2'' (U ''13. Altera~00e7~00f5es''),
       txt_el ''p'' (U ''Altera~00e7~00f5es materiais ser~00e3o comunicadas com 30 dias de anteced~00eancia por e-mail. O uso continuado ap~00f3s a vig~00eancia configura aceite da nova vers~00e3o.'')]"

definition termos_14 :: "'e view list" where
  "termos_14 = [txt_el ''h2'' (U ''14. Lei aplic~00e1vel e foro''),
       box ''p'' [T (U ''Aplicam-se as leis da Rep~00fablica Federativa do Brasil. Fica eleito o foro da Comarca de''),
        T (U '' ''),
        txt_el ''strong'' (U ''S~00e3o Paulo/SP''),
        T (U '', com ren~00fancia a qualquer outro.'')]]"

definition TermosPage :: "'e view" where
  "TermosPage = LegalPage (U ''Termos de Uso'') (U ''1.0.0'') (U ''14 de maio de 2026'')
     (termos_0 @ termos_1 @ termos_2 @ termos_3 @ termos_4 @ termos_5 @ termos_6 @ termos_7 @ termos_8 @ termos_9 @ termos_10 @ termos_11 @ termos_12 @ termos_13 @ termos_14)"

subsubsection \<open>Privacy\<close>

definition privacidade_0 :: "'e view list" where
  "privacidade_0 = [box ''div'' [txt_el ''strong'' (U ''Documento em revis~00e3o jur~00eddica.''),
        T (U '' Template baseado nos artigos da LGPD aplic~00e1veis a SaaS B2B. Ser~00e1 revisado antes da publica~00e7~00e3o definitiva.'')]]"

definition privacidade_1 :: "'e view list" where
  "privacidade_1 = [txt_el ''h2'' (U ''1. Quem ~00e9 o controlador''),
       box ''p'' [txt_el ''strong'' (U ''Indica A~00cd! Tecnologia Ltda.''),
        T (U '' ~00e9 a ''),
        txt_el ''strong'' (U ''Controladora''),
        T (U '' dos dados pessoais tratados nas p~00e1ginas p~00fablicas, no fluxo de cadastro e no relacionamento direto com os usu~00e1rios.'')],
       box ''p'' [T (U ''Para os dados de ''),
        txt_el ''strong'' (U ''leads e parceiros das empresas-clientes''),
        T (U '', a empresa-cliente ~00e9 a''),
        T (U '' ''),
        txt_el ''strong'' (U ''Controladora''),
        T (U '' e a Indica A~00cd! atua como ''),
        txt_el ''strong'' (U ''Operadora''),
        T (U '', nos termos do art. 5~00ba, VII da LGPD.'')],
       box ''p'' [txt_el ''strong'' (U ''Encarregado pelo Tratamento de Dados (DPO):''),
        T (U '' ''),
        N ''a'' [A ''href'' (U ''mailto:privacidade@indica.ai'')] [T (U ''privacidade@indica.ai'')],
        T (U ''.'')]]"

definition privacidade_2 :: "'e view list" where
  "privacidade_2 = [txt_el ''h2'' (U ''2. Dados que tratamos''),
       box ''table'' [box ''thead'' [box ''tr'' [txt_el ''th'' (U ''Categoria''),
          txt_el ''th'' (U ''Exemplos''),
          txt_el ''th'' (U ''Base legal''),
          txt_el ''th'' (U ''Reten~00e7~00e3o'')]],
        box ''tbody'' [box ''tr'' [txt_el ''td'' (U ''Cadastro''),
          txt_el ''td'' (U ''nome, e-mail, telefone, senha (hash)''),
          txt_el ''td'' (U ''Execu~00e7~00e3o de contrato (V)''),
          txt_el ''td'' (U ''5 anos ap~00f3s encerramento'')],
         box ''tr'' [txt_el ''td'' (U ''KYC (opcional)''),
          txt_el ''td'' (U ''CPF/CNPJ, chave Pix''),
          txt_el ''td'' (U ''Obriga~00e7~00e3o legal (II) ~2014 Lei 9.613/98''),
          txt_el ''td'' (U ''10 anos'')],
         box ''tr'' [txt_el ''td'' (U ''Uso da plataforma''),
          txt_el ''td'' (U ''logs, IP, user-agent, a~00e7~00f5es''),
          txt_el ''td'' (U ''Leg~00edtimo interesse (IX)''),
          txt_el ''td'' (U ''12 meses (anonimiza~00e7~00e3o ap~00f3s)'')],
         box ''tr'' [txt_el ''td'' (U ''Cliques de divulga~00e7~00e3o''),
          txt_el ''td'' (U ''timestamp, IP, UA, partner_id''),
          txt_el ''td'' (U ''Execu~00e7~00e3o de contrato + leg~00edtimo interesse''),
          txt_el ''td'' (U ''12 meses (anonimiza~00e7~00e3o ap~00f3s)'')],
         box ''tr'' [txt_el ''td'' (U ''Leads de campanha''),
          txt_el ''td'' (U ''nome, e-mail, telefone''),
          txt_el ''td'' (U ''Execu~00e7~00e3o de contrato (V) ~2014 como Operador''),
          txt_el ''td'' (U ''Conforme orienta~00e7~00e3o do Cliente'')],
         box ''tr'' [txt_el ''td'' (U ''Consentimentos''),
          txt_el ''td'' (U ''vers~00e3o aceita, IP, UA, data''),
          txt_el ''td'' (U ''Obriga~00e7~00e3o legal (II)''),
          txt_el ''td'' (U ''5 anos ap~00f3s revoga~00e7~00e3o'')],
         box ''tr'' [txt_el ''td'' (U ''Marketing''),
          txt_el ''td'' (U ''prefer~00eancias de opt-in''),
          txt_el ''td'' (U ''Consentimento (I)''),
          txt_el ''td'' (U ''At~00e9 a revoga~00e7~00e3o'')]]]]"

definition privacidade_3 :: "'e view list" where
  "privacidade_3 = [txt_el ''h2'' (U ''3. Como coletamos''),
       box ''ul'' [box ''li'' [txt_el ''strong'' (U ''Diretamente do titular''),
         T (U '' ~2014 ao cadastrar-se, configurar a conta ou interagir com nossas p~00e1ginas.'')],
        box ''li'' [txt_el ''strong'' (U ''De empresas-clientes''),
         T (U '' ~2014 quando cadastram seus parceiros e leads na plataforma. A Indica A~00cd! age como ''),
         txt_el ''strong'' (U ''Operadora''),
         T (U '' nesses casos.'')],
        box ''li'' [txt_el ''strong'' (U ''Automaticamente''),
         T (U '' ~2014 cookies pr~00f3prios, logs de servidor, par~00e2metros de URL (UTMs).'')]],
       box ''p'' [txt_el ''strong'' (U ''Cookies de terceiros:''),
        T (U '' n~00e3o usamos cookies de terceiros para rastreamento publicit~00e1rio. Apenas cookies estritamente necess~00e1rios para autentica~00e7~00e3o e antifraude.'')]]"

definition privacidade_4 :: "'e view list" where
  "privacidade_4 = [txt_el ''h2'' (U ''4. Para que tratamos''),
       box ''ul'' [txt_el ''li'' (U ''Operar a plataforma (cadastro, autentica~00e7~00e3o, atribui~00e7~00e3o, comiss~00f5es).''),
        txt_el ''li'' (U ''Cumprir obriga~00e7~00f5es legais (notas fiscais, requisi~00e7~00f5es judiciais).''),
        txt_el ''li'' (U ''Prevenir fraude (an~00e1lise de padr~00f5es, detec~00e7~00e3o de auto-referral).''),
        txt_el ''li'' (U ''Melhorar o produto (an~00e1lises agregadas e anonimizadas).''),
        txt_el ''li'' (U ''Comunicar sobre o servi~00e7o (faturas, mudan~00e7as de Termos) ~2014 sem opt-out, s~00e3o transacionais.''),
        txt_el ''li'' (U ''Marketing direto ~2014 somente com consentimento pr~00e9vio e com opt-out em todo e-mail.'')]]"

definition privacidade_5 :: "'e view list" where
  "privacidade_5 = [txt_el ''h2'' (U ''5. Com quem compartilhamos''),
       box ''p'' [T (U ''Compartilhamos dados estritamente necess~00e1rios com operadores subcontratados (cloud, banco de dados, e-mail transacional, CDN). Todos t~00eam ''),
        txt_el ''strong'' (U ''DPA assinado''),
        T (U ''. Nas transfer~00eancias internacionais aplicamos cl~00e1usulas contratuais padr~00e3o (SCC) e o princ~00edpio da minimiza~00e7~00e3o.'')],
       box ''p'' [txt_el ''strong'' (U ''N~00e3o vendemos dados.''),
        T (U '' Compartilhamento com autoridades p~00fablicas ocorre apenas mediante requisi~00e7~00e3o formal fundamentada (art. 23 LGPD) ou ordem judicial.'')]]"

definition privacidade_6 :: "'e view list" where
  "privacidade_6 = [txt_el ''h2'' (U ''6. Direitos do titular (art. 18 LGPD)''),
       txt_el ''p'' (U ''Voc~00ea pode, a qualquer momento:''),
       box ''table'' [box ''thead'' [box ''tr'' [txt_el ''th'' (U ''Direito''), txt_el ''th'' (U ''Como exercer'')]],
        box ''tbody'' [box ''tr'' [txt_el ''td'' (U ''Confirma~00e7~00e3o de tratamento''),
          box ''td'' [txt_el ''code'' (U ''GET /api/me''), T (U '' ou e-mail ao DPO'')]],
         box ''tr'' [txt_el ''td'' (U ''Acesso e portabilidade''),
          box ''td'' [txt_el ''code'' (U ''POST /api/me/lgpd/export'')]],
         box ''tr'' [txt_el ''td'' (U ''Corre~00e7~00e3o''),
          box ''td'' [T (U ''~00e1rea ''),
           txt_el ''code'' (U ''/configuracoes''),
           T (U '' ou e-mail ao DPO'')]],
         box ''tr'' [txt_el ''td'' (U ''Anonimiza~00e7~00e3o / elimina~00e7~00e3o''),
          box ''td'' [txt_el ''code'' (U ''POST /api/me/lgpd/erase''),
           T (U '' (irrevers~00edvel)'')]],
         box ''tr'' [txt_el ''td'' (U ''Revoga~00e7~00e3o de consentimento''),
          box ''td'' [txt_el ''code'' (U ''DELETE /api/me/consents/&#123;id&#125;'')]],
         box ''tr'' [txt_el ''td'' (U ''Oposi~00e7~00e3o''), txt_el ''td'' (U ''e-mail ao DPO'')]]],
       box ''p'' [T (U ''Atendemos solicita~00e7~00f5es em ''),
        txt_el ''strong'' (U ''at~00e9 15 dias''),
        T (U '' corridos da confirma~00e7~00e3o de identidade. Em caso de discord~00e2ncia, voc~00ea pode reclamar ~00e0''),
        T (U '' ''),
        N ''a'' [A ''href'' (U ''https://www.gov.br/anpd/'')] [T (U ''ANPD'')],
        T (U ''.'')]]"

definition privacidade_7 :: "'e view list" where
  "privacidade_7 = [txt_el ''h2'' (U ''7. Seguran~00e7a''),
       box ''ul'' [box ''li'' [T (U ''Senhas armazenadas com ''),
         txt_el ''strong'' (U ''Argon2id''),
         T (U ''.'')],
        box ''li'' [T (U ''Transporte sempre em ''),
         txt_el ''strong'' (U ''TLS 1.2+''),
         T (U ''.'')],
        box ''li'' [T (U ''Banco com ''),
         txt_el ''strong'' (U ''Row-Level Security''),
         T (U '' por tenant.'')],
        txt_el ''li'' (U ''Logs de auditoria append-only com reten~00e7~00e3o m~00ednima de 5 anos.''),
        txt_el ''li'' (U ''Plano de resposta a incidente conforme art. 48 LGPD: notifica~00e7~00e3o ~00e0 ANPD e aos titulares em prazo razo~00e1vel.'')]]"

definition privacidade_8 :: "'e view list" where
  "privacidade_8 = [txt_el ''h2'' (U ''8. Crian~00e7as e adolescentes''),
       box ''p'' [T (U ''A Indica A~00cd! ''),
        txt_el ''strong'' (U ''n~00e3o trata dados de menores de 18 anos''),
        T (U ''. Se identificarmos cadastro de menor, a conta ser~00e1 encerrada e os dados eliminados.'')]]"

definition privacidade_9 :: "'e view list" where
  "privacidade_9 = [txt_el ''h2'' (U ''9. Atualiza~00e7~00f5es''),
       txt_el ''p'' (U ''Mudan~00e7as materiais ser~00e3o notificadas por e-mail com 30 dias de anteced~00eancia. Vers~00f5es anteriores ficam arquivadas para consulta.'')]"

definition privacidade_10 :: "'e view list" where
  "privacidade_10 = [txt_el ''h2'' (U ''10. Contato''),
       box ''p'' [txt_el ''strong'' (U ''DPO:''),
        T (U '' ''),
        N ''a'' [A ''href'' (U ''mailto:privacidade@indica.ai'')] [T (U ''privacidade@indica.ai'')],
        box ''br'' [],
        txt_el ''strong'' (U ''Suporte geral:''),
        T (U '' ''),
        N ''a'' [A ''href'' (U ''mailto:contato@indica.ai'')] [T (U ''contato@indica.ai'')],
        box ''br'' [],
        txt_el ''strong'' (U ''ANPD:''),
        T (U '' ''),
        N ''a'' [A ''href'' (U ''https://www.gov.br/anpd/pt-br/canais_atendimento'')] [T (U ''gov.br/anpd/pt-br/canais_atendimento'')]]]"

definition PrivacidadePage :: "'e view" where
  "PrivacidadePage = LegalPage (U ''Pol~00edtica de Privacidade'') (U ''1.0.0'') (U ''14 de maio de 2026'')
     (privacidade_0 @ privacidade_1 @ privacidade_2 @ privacidade_3 @ privacidade_4 @ privacidade_5 @ privacidade_6 @ privacidade_7 @ privacidade_8 @ privacidade_9 @ privacidade_10)"

subsection \<open>The links of the site\<close>

text \<open>
  The targets of the links of a tree, and its anchors. The pages of the site are those of
  \<open>apps/public/app\<close> with a fixed address; a target with a query or an anchor leads to the page before it.
\<close>

fun attr_values :: "string \<Rightarrow> 'e attr list \<Rightarrow> jstr list" where
  "attr_values k [] = []"
| "attr_values k (A n v # as) = (if n = k then v # attr_values k as else attr_values k as)"
| "attr_values k (_ # as) = attr_values k as"

fun values_of :: "string \<Rightarrow> 'e view \<Rightarrow> jstr list" where
  "values_of k (T s) = []"
| "values_of k (N tag as vs) = attr_values k as @ concat (map (values_of k) vs)"

definition site_pages :: "jstr list" where
  "site_pages = [U ''/'', U ''/precos'', U ''/termos'', U ''/privacidade'', U ''/lgpd/contact'']"

definition dead_link :: "jstr \<Rightarrow> bool" where
  "dead_link h \<longleftrightarrow> js_startsWith h (U ''/'') \<and> takeWhile (\<lambda>c. c \<noteq> 35 \<and> c \<noteq> 63) h \<notin> set site_pages"

lemma values_box [simp]: "values_of k (box tag vs) = concat (map (values_of k) vs)" "values_of k (txt_el tag s) = []"
  by (simp_all add: box_def txt_el_def)

lemma values_whenl [simp]: "concat (map (values_of k) (whenl b [txt_el tag s])) = []"
  by (cases b) simp_all

lemma dead_literals:
  "dead_link (U ''/login'')" "dead_link (U ''/register'')" "dead_link (U ''/parceiro/login'')"
  "dead_link (U ''/register?plan=trial'')" "dead_link (U ''/register?plan=starter'')" "dead_link (U ''/register?plan=growth'')"
  "\<not> dead_link (U ''/'')" "\<not> dead_link (U ''/precos'')" "\<not> dead_link (U ''/termos'')" "\<not> dead_link (U ''/privacidade'')"
  "\<not> dead_link (U ''/lgpd/contact'')" "\<not> dead_link (U ''/#funcionalidades'')" "\<not> dead_link (U ''/#contato'')"
  "\<not> dead_link (U ''#funcionalidades'')" "\<not> dead_link (U ''#contato'')" "\<not> dead_link (U ''#precos'')"
  "\<not> dead_link (U ''mailto:privacidade@indica.ai'')" "\<not> dead_link (U ''https://indica.ai'')"
  "\<not> dead_link (U ''mailto:vendas@indica.ai?subject=Plano%20Scale'')" "\<not> dead_link (U ''mailto:contato@indica.ai'')"
  "\<not> dead_link (U ''mailto:seguranca@indica.ai'')" "\<not> dead_link (U ''mailto:suporte@indica.ai'')"
  "\<not> dead_link (U ''https://www.gov.br/anpd/pt-br/canais_atendimento'')" "\<not> dead_link (U ''https://www.gov.br/anpd/'')"
  by (simp_all add: dead_link_def site_pages_def ustr)

lemma legal_links:
  "filter dead_link (values_of ''href'' TermosPage) = []" "filter dead_link (values_of ''href'' PrivacidadePage) = []"
  by (simp_all add: TermosPage_def PrivacidadePage_def LegalPage_def termos_0_def termos_1_def termos_2_def termos_3_def
      termos_4_def termos_5_def termos_6_def termos_7_def termos_8_def termos_9_def termos_10_def termos_11_def termos_12_def
      termos_13_def termos_14_def privacidade_0_def privacidade_1_def privacidade_2_def privacidade_3_def privacidade_4_def
      privacidade_5_def privacidade_6_def privacidade_7_def privacidade_8_def privacidade_9_def privacidade_10_def dead_literals)

text \<open>The links to signing in and to registration lead nowhere: those pages are in the other applications.\<close>

lemma start_links: "filter dead_link (values_of ''href'' HomePage) = [U ''/login'', U ''/register'', U ''/register'', U ''/register'']"
  by (simp add: HomePage_def PricingCard_def dead_literals)

lemma programme_links: "filter dead_link (values_of ''href'' (ProgramPage slug)) = [U ''/parceiro/login'']"
  by (simp add: ProgramPage_def dead_literals)

lemma price_links: "filter dead_link (values_of ''href'' PricingPage) = [U ''/login'', U ''/register?plan=trial'',
    U ''/register?plan=starter'', U ''/register?plan=growth'', U ''/register?plan=trial'']"
  by (simp add: PricingPage_def tiers_def tier_card_def truthy_s_def nonempty_def faqs_def faq_entry_def dead_literals)

text \<open>The anchor \<open>#contato\<close>, which two links of the start page and one of the prices name, does not exist.\<close>

lemma contact_anchor:
  "U ''#contato'' \<in> set (values_of ''href'' HomePage)" "values_of ''id'' HomePage = [U ''funcionalidades'', U ''precos'']"
  by (simp_all add: HomePage_def PricingCard_def)

end
