(* ===== verification/Shell.thy ===== *)
theory Shell imports Access Nav begin

text \<open>
  What surrounds the pages: the middlewares (\<open>apps/dashboard/middleware.ts\<close>, \<open>apps/partner/middleware.ts\<close>),
  the layouts that put a page behind the guard and beside the menu, the header of the dashboard, the
  partner's guard, the start addresses, the button every page uses, and the store of the interface.
\<close>

subsection \<open>Middlewares\<close>

text \<open>
  Whether Next.js runs the middleware for a path: the expression
  \<open>/((?!_next/static|_next/image|favicon.ico|api/).*)\<close>, whose dot stands for any unit. What the
  middleware then answers: it works out whether the path is public and lets every request through.
\<close>

datatype mw_response = MwNext | MwRedirect jstr

definition mw_matcher :: "jstr \<Rightarrow> bool" where
  "mw_matcher p \<longleftrightarrow> (case p of [] \<Rightarrow> False | c # r \<Rightarrow> c = 47 \<and>
     \<not> js_startsWith r (U ''_next/static'') \<and> \<not> js_startsWith r (U ''_next/image'') \<and>
     \<not> (js_startsWith r (U ''favicon'') \<and> 8 \<le> length r \<and> js_startsWith (drop 8 r) (U ''ico'')) \<and>
     \<not> js_startsWith r (U ''api/''))"

definition dashboard_publicPaths :: "jstr list" where
  "dashboard_publicPaths = [U ''/login'', U ''/register'', U ''/forgot-password'']"

definition partner_publicPaths :: "jstr list" where
  "partner_publicPaths = [U ''/login'', U ''/register'']"

definition isPublicPath :: "jstr list \<Rightarrow> jstr \<Rightarrow> bool" where
  "isPublicPath paths p \<longleftrightarrow> list_ex (js_startsWith p) paths"

definition dashboard_middleware :: "jstr \<Rightarrow> mw_response" where
  "dashboard_middleware p = (let public = isPublicPath dashboard_publicPaths p in MwNext)"

definition partner_middleware :: "jstr \<Rightarrow> mw_response" where
  "partner_middleware p = (let public = isPublicPath partner_publicPaths p in MwNext)"

text \<open>The page at \<open>/\<close> of each application.\<close>

definition dashboard_home :: "'op eff list" where
  "dashboard_home = [Replace (U ''/login'')]"

definition partner_home_redirect :: "'op eff list" where
  "partner_home_redirect = [Replace (U ''/login'')]"

subsection \<open>The partner's guard\<close>

datatype pguard = PGuardLoading | PGuardOpen

fun pguard_finish :: "api_err + 'a \<Rightarrow> pguard \<Rightarrow> pguard \<times> partner_call eff list" where
  "pguard_finish (Inr _) g = (PGuardOpen, [])"
| "pguard_finish (Inl e) g = (if err_status e = Some 401 then (g, [Replace (U ''/login'')]) else (PGuardOpen, []))"

definition pguard_init :: "pguard \<times> partner_call list" where
  "pguard_init = (PGuardLoading, [PAuthMe])"

definition pguard_view :: "'e view list \<Rightarrow> pguard \<Rightarrow> 'e view list" where
  "pguard_view children g = (case g of
     PGuardLoading \<Rightarrow> [box ''div'' [txt_el ''p'' (U ''Carregando...'')]] | PGuardOpen \<Rightarrow> children)"

subsection \<open>Layouts\<close>

text \<open>The header of the dashboard is a display: its field and its buttons have no handlers.\<close>

definition Header :: "'e view" where
  "Header = box ''header''
     [box ''div'' [N ''Input'' [A ''placeholder'' (U ''Buscar...''), A ''aria-label'' (U ''Buscar'')] []],
      box ''div'' [N ''button'' [A ''aria-label'' (U ''Notifica~00e7~00f5es'')] [box ''span'' []],
        N ''button'' [A ''aria-label'' (U ''Menu do usu~00e1rio'')] [txt_el ''div'' (U ''L'')]]]"

text \<open>
  \<open>sidebar\<close> and \<open>toaster\<close> are the trees of those components; their events and the page's are brought
  into one type by the caller.
\<close>

definition dashboard_layout :: "'e view \<Rightarrow> 'e view list \<Rightarrow> 'e view list \<Rightarrow> guard \<Rightarrow> 'e view list" where
  "dashboard_layout sidebar toaster children g = guard_view
     [box ''div'' ([sidebar, box ''div'' [Header, box ''main'' children]] @ toaster)] g"

definition partner_layout :: "jstr \<Rightarrow> 'e view list \<Rightarrow> 'e view list \<Rightarrow> pguard \<Rightarrow> 'e view list" where
  "partner_layout pathname toaster children g = pguard_view
     [box ''div'' ([box ''aside'' [box ''div'' [txt_el ''span'' (U ''Indica A~00cd!'')],
         box ''nav'' [PartnerNav False pathname]],
       box ''header'' [txt_el ''span'' (U ''Indica A~00cd!'')],
       box ''main'' children,
       box ''nav'' [PartnerNav True pathname]] @ toaster)] g"

definition AuthLayout :: "'e view list \<Rightarrow> 'e view" where
  "AuthLayout children = box ''div'' children"

definition IndicacoesPage :: "'e view \<Rightarrow> 'e view" where
  "IndicacoesPage table = box ''div''
     [box ''div'' [txt_el ''h1'' (U ''Indica~00e7~00f5es''),
        txt_el ''p'' (U ''Gerencie todas as indica~00e7~00f5es recebidas pelos seus parceiros.'')], table]"

subsection \<open>The button\<close>

datatype button_variant = BvDefault | BvSecondary | BvOutline | BvGhost | BvDestructive | BvLink
datatype button_size = BsDefault | BsSm | BsLg | BsIcon

fun button_variant_classes :: "button_variant \<Rightarrow> jstr" where
  "button_variant_classes BvDefault = U ''bg-primary text-primary-foreground hover:bg-primary-hover''"
| "button_variant_classes BvSecondary = U ''bg-secondary text-secondary-foreground hover:bg-secondary-hover''"
| "button_variant_classes BvOutline = U ''border border-neutral-300 text-neutral-700 bg-background hover:bg-neutral-100''"
| "button_variant_classes BvGhost = U ''text-neutral-600 hover:bg-neutral-100 hover:text-neutral-900''"
| "button_variant_classes BvDestructive = U ''bg-error text-white hover:bg-error/90''"
| "button_variant_classes BvLink = U ''text-primary underline-offset-4 hover:underline''"

fun button_size_classes :: "button_size \<Rightarrow> jstr" where
  "button_size_classes BsDefault = U ''h-9 px-4 py-2''"
| "button_size_classes BsSm = U ''h-8 rounded-md px-3 text-xs''"
| "button_size_classes BsLg = U ''h-10 rounded-md px-8''"
| "button_size_classes BsIcon = U ''h-9 w-9 rounded-md''"

definition Button :: "button_variant \<Rightarrow> button_size \<Rightarrow> bool \<Rightarrow> bool \<Rightarrow> 'e attr list \<Rightarrow> 'e view list \<Rightarrow> 'e view" where
  "Button variant sz loading off props children = N ''button''
     ([A ''className'' (button_variant_classes variant @ U '' '' @ button_size_classes sz),
       Flag ''disabled'' (off \<or> loading)] @ props)
     (whenl loading [box ''svg'' []] @ children)"

subsection \<open>The store of the interface\<close>

record ui_state =
  sidebarOpen :: bool

datatype ui_action = ToggleSidebar | SetSidebarOpen bool

definition ui_start :: ui_state where
  "ui_start = \<lparr> sidebarOpen = True \<rparr>"

fun ui_step :: "ui_action \<Rightarrow> ui_state \<Rightarrow> ui_state" where
  "ui_step ToggleSidebar s = s\<lparr> sidebarOpen := \<not> sidebarOpen s \<rparr>"
| "ui_step (SetSidebarOpen b) s = s\<lparr> sidebarOpen := b \<rparr>"

subsection \<open>Facts\<close>

text \<open>No path is held back before its page is rendered.\<close>

lemma middleware_passes: "dashboard_middleware p = MwNext" "partner_middleware p = MwNext"
  by (simp_all add: dashboard_middleware_def partner_middleware_def)

lemma matcher_covers: "mw_matcher (U ''/dashboard'')" "mw_matcher (U ''/admin/tenants'')" "\<not> mw_matcher (U ''/api/leads'')"
  "\<not> mw_matcher (U ''/favicon.ico'')" "\<not> mw_matcher (U ''/_next/static/x.js'')"
  by (simp_all add: mw_matcher_def ustr)

text \<open>Nothing of a page, of its menu or of its toasts is rendered while the guard waits.\<close>

lemma layouts_guarded:
  "dashboard_layout sidebar toaster children GuardLoading = dashboard_layout sidebar' toaster' children' GuardLoading"
  "partner_layout p toaster children PGuardLoading = partner_layout p' toaster' children' PGuardLoading"
  by (simp_all add: dashboard_layout_def partner_layout_def guard_view_def pguard_view_def)

lemma layouts_open:
  assumes "v \<in> set children" "causes v ev"
  shows "\<exists>w \<in> set (dashboard_layout sidebar toaster children GuardOpen). causes w ev"
    and "\<exists>w \<in> set (partner_layout p toaster children PGuardOpen). causes w ev"
    and "causes (admin_layout p children) ev"
  using assms by (auto simp: dashboard_layout_def partner_layout_def guard_view_def pguard_view_def admin_layout_def causes_N)

lemma header_inert: "\<not> causes Header ev"
  by (simp add: Header_def causes_N)

text \<open>A disabled or loading button causes nothing by itself.\<close>

lemma button_off: "off \<or> loading \<Longrightarrow> \<forall>c \<in> set children. \<not> causes c ev \<Longrightarrow>
    \<not> causes (Button variant sz loading off props children) ev"
  by (auto simp: Button_def causes_N disabled_def split: attr.splits)

lemma toggle_sidebar_twice: "ui_step ToggleSidebar (ui_step ToggleSidebar s) = s"
  by simp

end
