(* ===== verification/PackageTypes.thy ===== *)
theory PackageTypes imports ClientApi NovoPrograma Parceiros begin

text \<open>
  The data of the client package (\<open>packages/api-client/src/{auth,leads,partners,programs}.ts\<close>): the
  interfaces of what it receives and of what it sends, with the bodies of its requests, and what the
  server makes of those that create something. The package names members in camel case, the server's
  decoders in snake case.
\<close>

subsection \<open>Sign-in\<close>

record pk_login_request =
  pkl_email :: jstr
  pkl_password :: jstr

datatype pk_role = PkOwner | PkAdmin | PkMember | PkSaasAdmin

record pk_user =
  pku_id :: jstr
  pku_email :: jstr
  pku_name :: jstr
  pku_role :: pk_role

record pk_tenant =
  pkt_id :: jstr
  pkt_name :: jstr
  pkt_slug :: jstr
  pkt_plan :: jstr

record pk_login_response =
  pkr_user :: pk_user
  pkr_tenant :: pk_tenant

definition pk_login_json :: "pk_login_request \<Rightarrow> jsval" where
  "pk_login_json d = JObj [(''email'', JStr (pkl_email d)), (''password'', JStr (pkl_password d))]"

subsection \<open>Leads and rewards\<close>

record pk_lead =
  pkd_id :: jstr
  pkd_tenantId :: jstr
  pkd_programId :: jstr
  pkd_partnerId :: jstr
  pkd_name :: jstr
  pkd_email :: "jstr option"
  pkd_phone :: "jstr option"
  pkd_referralCode :: "jstr option"
  pkd_status :: lead_status
  pkd_createdAt :: jstr
  pkd_updatedAt :: jstr

record pk_create_lead =
  pkc_name :: jstr
  pkc_email :: "jstr option"
  pkc_phone :: "jstr option"
  pkc_referralCode :: "jstr option"
  pkc_programId :: jstr

datatype pk_reward_status = PkPending | PkApproved | PkPaid | PkCancelled

record pk_reward =
  pkw_id :: jstr
  pkw_leadId :: jstr
  pkw_partnerId :: jstr
  pkw_type :: jstr
  pkw_amount :: "jsnum option"
  pkw_status :: pk_reward_status
  pkw_createdAt :: jstr

definition pk_create_lead_json :: "pk_create_lead \<Rightarrow> jsval" where
  "pk_create_lead_json d = JObj [(''name'', JStr (pkc_name d)), (''email'', opt_str (pkc_email d)), (''phone'', opt_str (pkc_phone d)),
     (''referralCode'', opt_str (pkc_referralCode d)), (''programId'', JStr (pkc_programId d))]"

definition pk_lead_status_json :: "lead_status \<Rightarrow> jsval" where
  "pk_lead_status_json st = JObj [(''status'', JStr (lead_status_str st))]"

subsection \<open>Partners\<close>

datatype pk_partner_status = PkActive | PkInactive | PkBlocked

record pk_partner =
  pkp_id :: jstr
  pkp_tenantId :: jstr
  pkp_programId :: jstr
  pkp_name :: jstr
  pkp_email :: jstr
  pkp_phone :: "jstr option"
  pkp_slug :: jstr
  pkp_status :: pk_partner_status
  pkp_pixKey :: "jstr option"
  pkp_totalReferrals :: jsnum
  pkp_totalEarnings :: jsnum
  pkp_createdAt :: jstr

record pk_create_partner =
  pkn_name :: jstr
  pkn_email :: jstr
  pkn_phone :: "jstr option"
  pkn_programId :: jstr

record pk_partner_stats =
  pks_totalClicks :: jsnum
  pks_totalReferrals :: jsnum
  pks_totalConversions :: jsnum
  pks_pendingEarnings :: jsnum
  pks_approvedEarnings :: jsnum
  pks_paidEarnings :: jsnum

definition pk_create_partner_json :: "pk_create_partner \<Rightarrow> jsval" where
  "pk_create_partner_json d = JObj [(''name'', JStr (pkn_name d)), (''email'', JStr (pkn_email d)),
     (''phone'', opt_str (pkn_phone d)), (''programId'', JStr (pkn_programId d))]"

subsection \<open>Programmes\<close>

text \<open>The reward has a type and any other members.\<close>

record pk_reward_rule =
  pkg_type :: jstr
  pkg_members :: "(string \<times> jsval) list"

record pk_payout_rule =
  pky_method :: jstr
  pky_schedule :: jstr
  pky_minAmountBrl :: "jsnum option"

record pk_limits_rule =
  pkm_maxPerPartnerPerDay :: "jsnum option"
  pkm_maxTotalPayoutBrl :: "jsnum option"

record pk_program_rules =
  pke_schemaVersion :: jsnum
  pke_trigger :: jstr
  pke_attributionWindowDays :: jsnum
  pke_reward :: pk_reward_rule
  pke_payout :: pk_payout_rule
  pke_limits :: pk_limits_rule

datatype pk_program_status = PkProgActive | PkProgPaused | PkProgDraft

record pk_program =
  pko_id :: jstr
  pko_tenantId :: jstr
  pko_name :: jstr
  pko_slug :: jstr
  pko_status :: pk_program_status
  pko_rules :: pk_program_rules
  pko_createdAt :: jstr
  pko_updatedAt :: jstr

record pk_create_program =
  pkx_name :: jstr
  pkx_rules :: pk_program_rules

definition opt_num :: "jsnum option \<Rightarrow> jsval" where
  "opt_num x = (case x of None \<Rightarrow> JUndef | Some n \<Rightarrow> JNum n)"

definition pk_rules_json :: "pk_program_rules \<Rightarrow> jsval" where
  "pk_rules_json r = JObj [(''schemaVersion'', JNum (pke_schemaVersion r)), (''trigger'', JStr (pke_trigger r)),
     (''attributionWindowDays'', JNum (pke_attributionWindowDays r)),
     (''reward'', JObj ((''type'', JStr (pkg_type (pke_reward r))) # pkg_members (pke_reward r))),
     (''payout'', JObj [(''method'', JStr (pky_method (pke_payout r))), (''schedule'', JStr (pky_schedule (pke_payout r))),
        (''minAmountBrl'', opt_num (pky_minAmountBrl (pke_payout r)))]),
     (''limits'', JObj [(''maxPerPartnerPerDay'', opt_num (pkm_maxPerPartnerPerDay (pke_limits r))),
        (''maxTotalPayoutBrl'', opt_num (pkm_maxTotalPayoutBrl (pke_limits r)))])]"

definition pk_create_program_json :: "pk_create_program \<Rightarrow> jsval" where
  "pk_create_program_json d = JObj [(''name'', JStr (pkx_name d)), (''rules'', pk_rules_json (pkx_rules d))]"

subsection \<open>Facts\<close>

text \<open>The version of the schema is not among the members of the rules, so it is zero for the server.\<close>

lemma pk_rules_version: "jfield (json (pk_rules_json r)) ''schema_version'' = None"
  by (simp add: pk_rules_json_def jfield_def opt_num_def split: option.splits)

lemma pk_rules_refused: "\<not> accepted (json (pk_rules_json r))"
proof -
  have "gr_SchemaVersion s = 0" if "decode_schema (json (pk_rules_json r)) = Some s" for s
  proof -
    have "go_struct (Some (json (pk_rules_json r))) = Some (json (pk_rules_json r))" by (simp add: pk_rules_json_def)
    with that show ?thesis by (auto simp: decode_schema_def pk_rules_version go_int_def split: bind_splits)
  qed
  then show ?thesis by (fastforce simp: accepted_iff)
qed

lemma pk_program_refused: "srv_create_program (json (pk_create_program_json d)) = (400, None)"
proof -
  have "jfield (json (pk_create_program_json d)) ''rules'' = Some (json (pk_rules_json (pkx_rules d)))"
    by (simp add: pk_create_program_json_def jfield_def pk_rules_json_def)
  then show ?thesis using pk_rules_refused [of "pkx_rules d"] by (simp add: srv_create_program_def split: option.splits)
qed

text \<open>The programme of a new partner is not read either, and the empty text is no UUID.\<close>

lemma pk_partner_refused:
  assumes "parse [] = None"
  shows "srv_create_partner parse programs (json (pk_create_partner_json d)) rows = (400, rows)"
  using assms by (cases "pkn_phone d") (simp_all add: srv_create_partner_def pk_create_partner_json_def opt_str_def jfield_def)

end
