(* ===== verification/AuthServer.thy ===== *)
theory AuthServer imports GoRules Access Parceiros begin

text \<open>
  Sessions on the server: \<open>internal/api/handlers/auth/handler.go\<close> and \<open>sessions/handler.go\<close> on the rows
  of users, memberships, partners, sessions, refresh tokens and magic links. \<open>h\<close> stands for SHA-256
  (\<open>HashToken\<close>), \<open>verify\<close> for \<open>VerifyPassword\<close>, \<open>valid\<close> for \<open>ValidateToken\<close> on a refresh token; random
  identifiers and tokens are arguments. Time is in seconds. Statements that only fail when the
  database does are left out, as are the moments of the last login, the 24 hours of a session, which no
  statement here reads, and the address of the request, which is one the column takes when the proxy
  sets it (\<open>RealIP\<close>). Listing the sessions is not modelled.
\<close>

subsection \<open>Rows\<close>

record user_row =
  su_id :: jstr
  su_email :: jstr
  su_email_hash :: jstr
  su_name :: jstr
  su_pw :: "jstr option"
  su_role :: jstr

record session_row =
  ss_id :: jstr
  ss_user :: jstr
  ss_tenant :: jstr
  ss_revoked :: bool

record refresh_row =
  rt_id :: jstr
  rt_user :: jstr
  rt_session :: "jstr option"
  rt_tenant :: jstr
  rt_family :: jstr
  rt_hash :: jstr
  rt_revoked :: bool
  rt_replaced :: "jstr option"

record magic_row =
  ml_hash :: jstr
  ml_user :: jstr
  ml_tenant :: jstr
  ml_expires :: nat
  ml_used :: bool

text \<open>Partners, the last updated first.\<close>

record partner_account =
  pn_id :: jstr
  pn_tenant :: jstr
  pn_name :: jstr
  pn_email_hash :: "jstr option"
  pn_user :: "jstr option"
  pn_active :: bool

record auth_db =
  ad_users :: "user_row list"
  ad_members :: "(jstr \<times> jstr) list"
  ad_partners :: "partner_account list"
  ad_sessions :: "session_row list"
  ad_refresh :: "refresh_row list"
  ad_magic :: "magic_row list"

text \<open>What a request draws: identifiers and tokens.\<close>

record fresh_values =
  fv_user :: jstr
  fv_tenant :: jstr
  fv_session :: jstr
  fv_family :: jstr
  fv_row :: jstr
  fv_token :: jstr

text \<open>The claims of an access token; no tenant is the nil identifier.\<close>

record jwt_claims =
  jc_user :: jstr
  jc_tenant :: "jstr option"
  jc_role :: jstr

text \<open>A reply: the status and, when tokens are set, the claims of the access token and the refresh token.\<close>

type_synonym auth_reply = "nat \<times> (jwt_claims \<times> jstr) option"

definition grant :: "jstr \<Rightarrow> jstr option \<Rightarrow> jstr \<Rightarrow> jstr \<Rightarrow> (jwt_claims \<times> jstr) option" where
  "grant user tenant role tok = Some (\<lparr> jc_user = user, jc_tenant = tenant, jc_role = role \<rparr>, tok)"

definition start_session :: "(jstr \<Rightarrow> jstr) \<Rightarrow> fresh_values \<Rightarrow> jstr \<Rightarrow> jstr \<Rightarrow> auth_db \<Rightarrow> auth_db" where
  "start_session h f user tenant d = d\<lparr>
     ad_sessions := ad_sessions d @ [\<lparr> ss_id = fv_session f, ss_user = user, ss_tenant = tenant, ss_revoked = False \<rparr>],
     ad_refresh := ad_refresh d @ [\<lparr> rt_id = fv_row f, rt_user = user, rt_session = Some (fv_session f), rt_tenant = tenant,
       rt_family = fv_family f, rt_hash = h (fv_token f), rt_revoked = False, rt_replaced = None \<rparr>] \<rparr>"

subsection \<open>Accounts\<close>

text \<open>\<open>pw\<close> is what \<open>HashPassword\<close> makes of the password with a new salt.\<close>

definition srv_register :: "(jstr \<Rightarrow> jstr) \<Rightarrow> (jstr \<Rightarrow> jstr) \<Rightarrow> fresh_values \<Rightarrow> jsval \<Rightarrow> auth_db \<Rightarrow> auth_reply \<times> auth_db" where
  "srv_register h pw f body d =
     (case (go_struct (Some body), go_string (jfield body ''email''), go_string (jfield body ''password''),
            go_string (jfield body ''name'')) of
        (Some _, Some email, Some password, Some name) \<Rightarrow>
          if h email \<in> su_email_hash ` set (ad_users d) then ((409, None), d)
          else ((201, grant (fv_user f) (Some (fv_tenant f)) (U ''user'') (fv_token f)),
            start_session h f (fv_user f) (fv_tenant f)
              (d\<lparr> ad_users := ad_users d @ [\<lparr> su_id = fv_user f, su_email = email, su_email_hash = h email, su_name = name,
                    su_pw = Some (pw password), su_role = U ''user'' \<rparr>],
                  ad_members := ad_members d @ [(fv_tenant f, fv_user f)] \<rparr>))
      | _ \<Rightarrow> ((400, None), d))"

definition tenant_of :: "jstr \<Rightarrow> auth_db \<Rightarrow> jstr option" where
  "tenant_of user d = map_option fst (List.find (\<lambda>(t, u). u = user) (ad_members d))"

text \<open>
  A user without a password cannot be read into the handler's text. Without a membership the session
  and the refresh token violate their foreign keys, which the handler ignores.
\<close>

definition srv_login :: "(jstr \<Rightarrow> jstr) \<Rightarrow> (jstr \<Rightarrow> jstr \<Rightarrow> bool) \<Rightarrow> fresh_values \<Rightarrow> jsval \<Rightarrow> auth_db \<Rightarrow> auth_reply \<times> auth_db" where
  "srv_login h verify f body d =
     (case (go_struct (Some body), go_string (jfield body ''email''), go_string (jfield body ''password'')) of
        (Some _, Some email, Some password) \<Rightarrow>
          (case List.find (\<lambda>u. su_email_hash u = h email) (ad_users d) of
             None \<Rightarrow> ((401, None), d)
           | Some u \<Rightarrow> (case su_pw u of
               None \<Rightarrow> ((401, None), d)
             | Some enc \<Rightarrow>
                 if \<not> verify password enc then ((401, None), d)
                 else (case tenant_of (su_id u) d of
                     None \<Rightarrow> ((200, grant (su_id u) None (su_role u) (fv_token f)), d)
                   | Some t \<Rightarrow> ((200, grant (su_id u) (Some t) (su_role u) (fv_token f)), start_session h f (su_id u) t d))))
      | _ \<Rightarrow> ((400, None), d))"

subsection \<open>Refresh tokens\<close>

definition revoke_where :: "(refresh_row \<Rightarrow> bool) \<Rightarrow> auth_db \<Rightarrow> auth_db" where
  "revoke_where P d = d\<lparr> ad_refresh := map (\<lambda>r. if P r then r\<lparr> rt_revoked := True \<rparr> else r) (ad_refresh d) \<rparr>"

definition stored_token :: "jstr \<Rightarrow> auth_db \<Rightarrow> refresh_row option" where
  "stored_token hash d = List.find (\<lambda>r. rt_hash r = hash) (ad_refresh d)"

definition role_of :: "jstr \<Rightarrow> auth_db \<Rightarrow> jstr" where
  "role_of user d = (case List.find (\<lambda>u. su_id u = user) (ad_users d) of None \<Rightarrow> [] | Some u \<Rightarrow> su_role u)"

text \<open>The handler's statements after it has read the token's row: without a transaction around both.\<close>

definition rotate :: "(jstr \<Rightarrow> jstr) \<Rightarrow> fresh_values \<Rightarrow> refresh_row \<Rightarrow> auth_db \<Rightarrow> auth_reply \<times> auth_db" where
  "rotate h f r d =
     (if rt_revoked r then ((401, None), revoke_where (\<lambda>x. rt_family x = rt_family r) d)
      else ((200, grant (rt_user r) (Some (rt_tenant r)) (role_of (rt_user r) d) (fv_token f)),
        d\<lparr> ad_refresh := map (\<lambda>x. if rt_id x = rt_id r then x\<lparr> rt_revoked := True, rt_replaced := Some (fv_row f) \<rparr> else x) (ad_refresh d)
          @ [\<lparr> rt_id = fv_row f, rt_user = rt_user r, rt_session = None, rt_tenant = rt_tenant r, rt_family = rt_family r,
               rt_hash = h (fv_token f), rt_revoked = False, rt_replaced = None \<rparr>] \<rparr>))"

definition srv_refresh :: "(jstr \<Rightarrow> jstr) \<Rightarrow> (jstr \<Rightarrow> bool) \<Rightarrow> fresh_values \<Rightarrow> jstr option \<Rightarrow> auth_db \<Rightarrow> auth_reply \<times> auth_db" where
  "srv_refresh h valid f cookie d =
     (case cookie of None \<Rightarrow> ((401, None), d)
      | Some tok \<Rightarrow> if \<not> valid tok then ((401, None), d)
          else (case stored_token (h tok) d of None \<Rightarrow> ((401, None), d) | Some r \<Rightarrow> rotate h f r d))"

definition srv_logout :: "(jstr \<Rightarrow> jstr) \<Rightarrow> jstr option \<Rightarrow> auth_db \<Rightarrow> auth_reply \<times> auth_db" where
  "srv_logout h cookie d = ((200, None),
     case cookie of None \<Rightarrow> d | Some tok \<Rightarrow> revoke_where (\<lambda>r. rt_hash r = h tok) d)"

subsection \<open>Sessions\<close>

definition revoke_sessions :: "(session_row \<Rightarrow> bool) \<Rightarrow> auth_db \<Rightarrow> auth_db" where
  "revoke_sessions P d = d\<lparr> ad_sessions := map (\<lambda>s. if P s then s\<lparr> ss_revoked := True \<rparr> else s) (ad_sessions d) \<rparr>"

text \<open>\<open>parse\<close> stands for \<open>uuid.Parse\<close>.\<close>

definition srv_revoke_session :: "(jstr \<Rightarrow> jstr option) \<Rightarrow> jstr \<Rightarrow> jstr \<Rightarrow> auth_db \<Rightarrow> auth_reply \<times> auth_db" where
  "srv_revoke_session parse user sid d =
     (case parse sid of None \<Rightarrow> ((400, None), d)
      | Some i \<Rightarrow>
          if \<not> list_ex (\<lambda>s. ss_id s = i \<and> ss_user s = user \<and> \<not> ss_revoked s) (ad_sessions d) then ((404, None), d)
          else ((200, None), revoke_where (\<lambda>r. rt_session r = Some i \<and> rt_user r = user)
                 (revoke_sessions (\<lambda>s. ss_id s = i \<and> ss_user s = user) d)))"

definition srv_revoke_all :: "jstr \<Rightarrow> auth_db \<Rightarrow> auth_reply \<times> auth_db" where
  "srv_revoke_all user d = ((200, None),
     revoke_where (\<lambda>r. rt_user r = user) (revoke_sessions (\<lambda>s. ss_user s = user) d))"

subsection \<open>Magic links\<close>

text \<open>
  The user of a partner: the one linked, or the one with the e-mail, or a new one without a password.
\<close>

definition partner_user :: "fresh_values \<Rightarrow> jstr \<Rightarrow> jstr \<Rightarrow> partner_account \<Rightarrow> auth_db \<Rightarrow> jstr \<times> auth_db" where
  "partner_user f email hash p d =
     (case pn_user p of Some u \<Rightarrow> (u, d)
      | None \<Rightarrow>
          let (u, d1) = (case List.find (\<lambda>u. su_email_hash u = hash) (ad_users d) of
                 Some u \<Rightarrow> (su_id u, d)
               | None \<Rightarrow> (fv_user f, d\<lparr> ad_users := ad_users d @ [\<lparr> su_id = fv_user f, su_email = email, su_email_hash = hash,
                     su_name = pn_name p, su_pw = None, su_role = U ''user'' \<rparr>] \<rparr>))
          in (u, d1\<lparr> ad_partners := map (\<lambda>q. if pn_id q = pn_id p then q\<lparr> pn_user := Some u \<rparr> else q) (ad_partners d1) \<rparr>))"

text \<open>
  Nothing is sent: the token of the link is in the reply, unless the server runs in production. The
  second component of the reply is that token.
\<close>

definition srv_request_link ::
  "(jstr \<Rightarrow> jstr) \<Rightarrow> bool \<Rightarrow> nat \<Rightarrow> fresh_values \<Rightarrow> jsval \<Rightarrow> auth_db \<Rightarrow> (nat \<times> jstr option) \<times> auth_db" where
  "srv_request_link h production now f body d =
     (case (go_struct (Some body), go_string (jfield body ''email'')) of
        (Some _, Some email) \<Rightarrow>
          if email = [] then ((400, None), d)
          else (case List.find (\<lambda>p. pn_email_hash p = Some (h email) \<and> pn_active p) (ad_partners d) of
              None \<Rightarrow> ((200, None), d)
            | Some p \<Rightarrow> (case partner_user f email (h email) p d of
                (u, d1) \<Rightarrow> ((200, if production then None else Some (fv_token f)),
                  d1\<lparr> ad_magic := ad_magic d1 @ [\<lparr> ml_hash = h (fv_token f), ml_user = u, ml_tenant = pn_tenant p,
                      ml_expires = now + 15 * 60, ml_used = False \<rparr>] \<rparr>)))
      | _ \<Rightarrow> ((400, None), d))"

definition usable :: "jstr \<Rightarrow> nat \<Rightarrow> magic_row \<Rightarrow> bool" where
  "usable hash now m \<longleftrightarrow> ml_hash m = hash \<and> \<not> ml_used m \<and> now < ml_expires m"

definition srv_verify_link ::
  "(jstr \<Rightarrow> jstr) \<Rightarrow> nat \<Rightarrow> fresh_values \<Rightarrow> jsval \<Rightarrow> auth_db \<Rightarrow> auth_reply \<times> auth_db" where
  "srv_verify_link h now f body d =
     (case (go_struct (Some body), go_string (jfield body ''token'')) of
        (Some _, Some tok) \<Rightarrow>
          if tok = [] then ((400, None), d)
          else (case List.find (usable (h tok) now) (ad_magic d) of
              None \<Rightarrow> ((401, None), d)
            | Some m \<Rightarrow> ((200, grant (ml_user m) (Some (ml_tenant m)) (U ''user'') (fv_token f)),
                start_session h f (ml_user m) (ml_tenant m)
                  (d\<lparr> ad_magic := map (\<lambda>x. if usable (h tok) now x then x\<lparr> ml_used := True \<rparr> else x) (ad_magic d) \<rparr>)))
      | _ \<Rightarrow> ((400, None), d))"

subsection \<open>Requests in any order\<close>

datatype auth_req = QRegister fresh_values jsval | QLogin fresh_values jsval | QRefresh fresh_values "jstr option"
  | QLogout "jstr option" | QRevoke jstr jstr | QRevokeAll jstr
  | QLink fresh_values jsval | QVerify fresh_values jsval

text \<open>What the handlers are given by their surroundings.\<close>

record auth_env =
  ae_hash :: "jstr \<Rightarrow> jstr"
  ae_pw :: "jstr \<Rightarrow> jstr"
  ae_verify :: "jstr \<Rightarrow> jstr \<Rightarrow> bool"
  ae_valid :: "jstr \<Rightarrow> bool"
  ae_uuid :: "jstr \<Rightarrow> jstr option"
  ae_production :: bool

fun auth_step :: "auth_env \<Rightarrow> nat \<times> auth_req \<Rightarrow> auth_db \<Rightarrow> nat \<times> auth_db" where
  "auth_step e (now, QRegister f b) d = map_prod fst id (srv_register (ae_hash e) (ae_pw e) f b d)"
| "auth_step e (now, QLogin f b) d = map_prod fst id (srv_login (ae_hash e) (ae_verify e) f b d)"
| "auth_step e (now, QRefresh f c) d = map_prod fst id (srv_refresh (ae_hash e) (ae_valid e) f c d)"
| "auth_step e (now, QLogout c) d = map_prod fst id (srv_logout (ae_hash e) c d)"
| "auth_step e (now, QRevoke u i) d = map_prod fst id (srv_revoke_session (ae_uuid e) u i d)"
| "auth_step e (now, QRevokeAll u) d = map_prod fst id (srv_revoke_all u d)"
| "auth_step e (now, QLink f b) d = map_prod fst id (srv_request_link (ae_hash e) (ae_production e) now f b d)"
| "auth_step e (now, QVerify f b) d = map_prod fst id (srv_verify_link (ae_hash e) now f b d)"

fun auth_run :: "auth_env \<Rightarrow> (nat \<times> auth_req) list \<Rightarrow> auth_db \<Rightarrow> nat list \<times> auth_db" where
  "auth_run e [] d = ([], d)"
| "auth_run e (q # qs) d = (case auth_step e q d of (st, d1) \<Rightarrow> (case auth_run e qs d1 of (sts, d2) \<Rightarrow> (st # sts, d2)))"

text \<open>What a request draws has never been seen.\<close>

fun draws :: "auth_req \<Rightarrow> fresh_values option" where
  "draws (QRegister f _) = Some f" | "draws (QLogin f _) = Some f" | "draws (QRefresh f _) = Some f"
| "draws (QLink f _) = Some f" | "draws (QVerify f _) = Some f" | "draws _ = None"

definition unseen :: "(jstr \<Rightarrow> jstr) \<Rightarrow> fresh_values \<Rightarrow> auth_db \<Rightarrow> bool" where
  "unseen h f d \<longleftrightarrow> h (fv_token f) \<notin> rt_hash ` set (ad_refresh d) \<and> h (fv_token f) \<notin> ml_hash ` set (ad_magic d) \<and>
     fv_row f \<notin> rt_id ` set (ad_refresh d) \<and> fv_family f \<notin> rt_family ` set (ad_refresh d)"

fun draws_unseen :: "auth_env \<Rightarrow> (nat \<times> auth_req) list \<Rightarrow> auth_db \<Rightarrow> bool" where
  "draws_unseen e [] d = True"
| "draws_unseen e (q # qs) d \<longleftrightarrow> (case draws (snd q) of None \<Rightarrow> True | Some f \<Rightarrow> unseen (ae_hash e) f d) \<and>
     draws_unseen e qs (snd (auth_step e q d))"

lemmas auth_handlers = srv_register_def srv_login_def srv_refresh_def srv_logout_def srv_revoke_session_def
  srv_revoke_all_def srv_request_link_def srv_verify_link_def rotate_def

subsection \<open>What can happen to the refresh tokens\<close>

text \<open>
  Every request closes tokens, or opens a family, or replaces a live token by a new one of its family.
\<close>

definition closes :: "(refresh_row \<Rightarrow> refresh_row) \<Rightarrow> bool" where
  "closes g \<longleftrightarrow> (\<forall>r. rt_id (g r) = rt_id r \<and> rt_family (g r) = rt_family r \<and> rt_hash (g r) = rt_hash r \<and>
     rt_user (g r) = rt_user r \<and> rt_session (g r) = rt_session r \<and> rt_tenant (g r) = rt_tenant r \<and>
     (rt_revoked r \<longrightarrow> rt_revoked (g r)))"

definition new_token :: "refresh_row list \<Rightarrow> refresh_row \<Rightarrow> bool" where
  "new_token rs x \<longleftrightarrow> rt_id x \<notin> rt_id ` set rs \<and> rt_hash x \<notin> rt_hash ` set rs \<and> \<not> rt_revoked x"

inductive move :: "refresh_row list \<Rightarrow> refresh_row list \<Rightarrow> bool" where
  closed: "closes g \<Longrightarrow> move rs (map g rs)"
| opened: "new_token rs x \<Longrightarrow> rt_family x \<notin> rt_family ` set rs \<Longrightarrow> move rs (rs @ [x])"
| rotated: "closes g \<Longrightarrow> r \<in> set rs \<Longrightarrow> \<not> rt_revoked r \<Longrightarrow> (\<And>q. rt_id q = rt_id r \<Longrightarrow> rt_revoked (g q)) \<Longrightarrow>
    new_token rs x \<Longrightarrow> rt_family x = rt_family r \<Longrightarrow> move rs (map g rs @ [x])"

lemma move_refl: "move rs rs"
  using closed [of id rs] by (simp add: closes_def)

lemma move_revoke: "move (ad_refresh d) (ad_refresh (revoke_where P d))"
  unfolding revoke_where_def by (simp, rule closed) (simp add: closes_def)

lemma move_start: "unseen h f d \<Longrightarrow> ad_refresh d1 = ad_refresh d \<Longrightarrow> move (ad_refresh d) (ad_refresh (start_session h f u t d1))"
  unfolding start_session_def by (simp, rule opened) (auto simp: unseen_def new_token_def)

lemma stored_token_in: "stored_token x d = Some r \<Longrightarrow> r \<in> set (ad_refresh d) \<and> rt_hash r = x"
  unfolding stored_token_def by (rule find_Some_in)

lemma move_rotate:
  assumes "unseen h f d" "r \<in> set (ad_refresh d)"
  shows "move (ad_refresh d) (ad_refresh (snd (rotate h f r d)))"
proof (cases "rt_revoked r")
  case True
  then show ?thesis by (simp add: rotate_def move_revoke)
next
  case False
  then show ?thesis unfolding rotate_def
    by (simp, intro rotated [OF _ assms(2)]) (use assms(1) in \<open>auto simp: closes_def unseen_def new_token_def\<close>)
qed

lemma refresh_of_sessions [simp]: "ad_refresh (revoke_sessions P d) = ad_refresh d"
  by (simp add: revoke_sessions_def)

lemma refresh_of_partner [simp]: "ad_refresh (snd (partner_user f email hash p d)) = ad_refresh d"
  by (simp add: partner_user_def split: option.split prod.split)

lemma step_move:
  assumes "case draws (snd q) of None \<Rightarrow> True | Some f \<Rightarrow> unseen (ae_hash e) f d"
  shows "move (ad_refresh d) (ad_refresh (snd (auth_step e q d)))"
proof -
  obtain now r where q: "q = (now, r)" by (cases q)
  show ?thesis
  proof (cases r)
    case (QRegister f b)
    then show ?thesis using assms
      by (auto simp: q srv_register_def move_refl intro!: move_start split: option.splits)
  next
    case (QLogin f b)
    then show ?thesis using assms
      by (auto simp: q srv_login_def move_refl intro!: move_start split: option.splits)
  next
    case (QRefresh f c)
    then show ?thesis using assms
      by (auto simp: q srv_refresh_def move_refl intro!: move_rotate dest: stored_token_in split: option.splits)
  next
    case (QLogout c)
    then show ?thesis by (auto simp: q srv_logout_def move_refl move_revoke split: option.splits)
  next
    case (QRevoke u i)
    then show ?thesis using move_revoke [of "revoke_sessions P d" for P]
      by (auto simp: q srv_revoke_session_def move_refl split: option.splits)
  next
    case (QRevokeAll u)
    then show ?thesis using move_revoke [of "revoke_sessions P d" for P] by (simp add: q srv_revoke_all_def)
  next
    case (QLink f b)
    then show ?thesis
      using refresh_of_partner by (auto simp: q srv_request_link_def move_refl split: option.splits prod.splits) (metis move_refl refresh_of_partner snd_conv)
  next
    case (QVerify f b)
    then show ?thesis using assms
      by (auto simp: q srv_verify_link_def move_refl intro!: move_start split: option.splits)
  qed
qed

lemma auth_run_Cons [simp]:
  "snd (auth_run e (q # qs) d) = snd (auth_run e qs (snd (auth_step e q d)))"
  "fst (auth_run e (q # qs) d) = fst (auth_step e q d) # fst (auth_run e qs (snd (auth_step e q d)))"
  by (simp_all split: prod.split)

declare auth_run.simps(2) [simp del]

lemma run_induct:
  assumes "draws_unseen e qs d" "I (ad_refresh d)" "\<And>rs rs'. move rs rs' \<Longrightarrow> I rs \<Longrightarrow> I rs'"
  shows "I (ad_refresh (snd (auth_run e qs d)))"
  using assms(1,2)
proof (induction qs arbitrary: d)
  case (Cons q qs)
  have "I (ad_refresh (snd (auth_step e q d)))"
    using Cons.prems assms(3) [OF step_move] by simp
  then show ?case using Cons.IH Cons.prems(1) by simp
qed simp

text \<open>Of the tokens of a family at most one can be used; identifiers and hashes name one token.\<close>

definition live_in :: "jstr \<Rightarrow> refresh_row list \<Rightarrow> refresh_row list" where
  "live_in f rs = filter (\<lambda>r. rt_family r = f \<and> \<not> rt_revoked r) rs"

definition one_live :: "refresh_row list \<Rightarrow> bool" where
  "one_live rs \<longleftrightarrow> distinct (map rt_id rs) \<and> distinct (map rt_hash rs) \<and> (\<forall>f. length (live_in f rs) \<le> 1)"

lemma closes_map [simp]: "closes g \<Longrightarrow> map rt_id (map g rs) = map rt_id rs" "closes g \<Longrightarrow> map rt_hash (map g rs) = map rt_hash rs"
  "closes g \<Longrightarrow> map rt_family (map g rs) = map rt_family rs"
  by (simp_all add: closes_def)

lemma closes_images: "closes g \<Longrightarrow> rt_id ` set (map g rs) = rt_id ` set rs" "closes g \<Longrightarrow> rt_hash ` set (map g rs) = rt_hash ` set rs"
  "closes g \<Longrightarrow> rt_family ` set (map g rs) = rt_family ` set rs"
  by (simp_all add: closes_def image_image)

lemma live_closes: "closes g \<Longrightarrow> length (live_in f (map g rs)) \<le> length (live_in f rs)"
  by (induction rs) (auto simp: live_in_def closes_def)

lemma live_opened: "rt_family x \<notin> rt_family ` set rs \<Longrightarrow> live_in (rt_family x) rs = []"
  by (auto simp: live_in_def filter_empty_conv image_iff)

lemma live_in_append [simp]: "live_in f (rs @ rs') = live_in f rs @ live_in f rs'"
  by (simp add: live_in_def)

lemma live_rotated:
  assumes "closes g" "r \<in> set rs" "\<not> rt_revoked r" "\<And>q. rt_id q = rt_id r \<Longrightarrow> rt_revoked (g q)"
    and "length (live_in (rt_family r) rs) \<le> 1"
  shows "live_in (rt_family r) (map g rs) = []"
proof -
  have "live_in (rt_family r) rs = [r]"
  proof -
    have "r \<in> set (live_in (rt_family r) rs)" using assms(2,3) by (simp add: live_in_def)
    then show ?thesis using assms(5) by (cases "live_in (rt_family r) rs") auto
  qed
  then have "set (live_in (rt_family r) rs) = {r}" by simp
  then have "\<forall>q \<in> set rs. rt_family q = rt_family r \<longrightarrow> \<not> rt_revoked q \<longrightarrow> q = r" unfolding live_in_def by auto
  then show ?thesis using assms(1,4) unfolding live_in_def filter_empty_conv closes_def by (auto; metis)
qed

lemma one_live_move: "move rs rs' \<Longrightarrow> one_live rs \<Longrightarrow> one_live rs'"
proof (induction rule: move.induct)
  case (closed g rs)
  then show ?case using live_closes [OF closed(1)] order_trans unfolding one_live_def by (simp only: closes_map) blast
next
  case (opened rs x)
  have "length (live_in f (rs @ [x])) \<le> 1" for f
    using opened live_opened [OF opened(2)] by (cases "f = rt_family x") (auto simp: one_live_def live_in_def)
  then show ?case using opened by (auto simp: one_live_def new_token_def)
next
  case (rotated g r rs x)
  have "length (live_in f (map g rs @ [x])) \<le> 1" for f
  proof (cases "f = rt_family r")
    case True
    then have "live_in f (map g rs) = []"
      using live_rotated [OF rotated(1-4)] rotated(7) by (simp add: one_live_def)
    then show ?thesis by (simp add: live_in_def)
  next
    case False
    then have "live_in f (map g rs @ [x]) = live_in f (map g rs)" using rotated(6) by (simp add: live_in_def)
    then show ?thesis using live_closes [OF rotated(1), of f rs] rotated(7) by (simp add: one_live_def) (meson order_trans)
  qed
  moreover have "distinct (map rt_id (map g rs @ [x]))" "distinct (map rt_hash (map g rs @ [x]))"
    using rotated(1,5,7) closes_images [OF rotated(1), of rs] unfolding map_append closes_map [OF rotated(1)]
    by (auto simp: one_live_def new_token_def)
  ultimately show ?case unfolding one_live_def by blast
qed

text \<open>A family that is closed stays closed.\<close>

definition dead :: "jstr \<Rightarrow> refresh_row list \<Rightarrow> bool" where
  "dead f rs \<longleftrightarrow> f \<in> rt_family ` set rs \<and> live_in f rs = []"

lemma dead_move: "move rs rs' \<Longrightarrow> dead f rs \<Longrightarrow> dead f rs'"
proof (induction rule: move.induct)
  case (closed g rs)
  then show ?case using live_closes [OF closed(1), of f rs] closes_images(3) [OF closed(1), of rs] by (simp add: dead_def)
next
  case (opened rs x)
  then show ?case by (auto simp: dead_def live_in_def)
next
  case (rotated g r rs x)
  then have "rt_family r \<noteq> f" by (auto simp: dead_def live_in_def filter_empty_conv)
  then have "live_in f [x] = []" using rotated(6) by (simp add: live_in_def)
  moreover have "live_in f (map g rs) = []" using live_closes [OF rotated(1), of f rs] rotated(7) by (simp add: dead_def)
  ultimately show ?case using rotated(7) closes_images(3) [OF rotated(1), of rs] by (simp add: dead_def)
qed

lemma dead_refused:
  assumes "dead fam (ad_refresh d)" "stored_token (h tok) d = Some r" "rt_family r = fam"
  shows "fst (srv_refresh h valid f (Some tok) d) = (401, None)"
proof -
  have "rt_revoked r" using assms stored_token_in [OF assms(2)] by (auto simp: dead_def live_in_def filter_empty_conv)
  then show ?thesis using assms(2) by (simp add: srv_refresh_def rotate_def)
qed

lemma closes_revoke: "closes (\<lambda>r. if P r then r\<lparr> rt_revoked := True \<rparr> else r)"
  by (simp add: closes_def)

lemma revoked_family_dead:
  assumes "r \<in> set (ad_refresh d)"
  shows "dead (rt_family r) (ad_refresh (revoke_where (\<lambda>x. rt_family x = rt_family r) d))"
proof -
  have "rt_family r \<in> rt_family ` set (ad_refresh (revoke_where (\<lambda>x. rt_family x = rt_family r) d))"
    using assms unfolding revoke_where_def by (simp add: closes_images(3) [OF closes_revoke, simplified])
  then show ?thesis by (auto simp: dead_def live_in_def revoke_where_def filter_empty_conv)
qed

lemma replay_kills:
  assumes "stored_token (h tok) d = Some r" "rt_revoked r" "valid tok"
  shows "dead (rt_family r) (ad_refresh (snd (srv_refresh h valid f (Some tok) d)))"
  using assms stored_token_in [OF assms(1)] by (simp add: srv_refresh_def rotate_def revoked_family_dead)

text \<open>Renewal: the new token is stored, can be used, and belongs to the same user, company and family.\<close>

lemma find_append_None: "\<forall>x \<in> set xs. \<not> P x \<Longrightarrow> List.find P (xs @ ys) = List.find P ys"
  by (induction xs) auto

lemma stored_after_rotate:
  assumes "\<not> rt_revoked r" "unseen h f d"
  shows "stored_token (h (fv_token f)) (snd (rotate h f r d)) =
    Some \<lparr> rt_id = fv_row f, rt_user = rt_user r, rt_session = None, rt_tenant = rt_tenant r, rt_family = rt_family r,
      rt_hash = h (fv_token f), rt_revoked = False, rt_replaced = None \<rparr>"
  using assms unfolding stored_token_def rotate_def
  by (simp, subst find_append_None) (force simp: unseen_def, simp)

lemma refresh_ok:
  assumes "valid tok" "stored_token (h tok) d = Some r" "\<not> rt_revoked r"
  shows "srv_refresh h valid f (Some tok) d = rotate h f r d" "fst (fst (rotate h f r d)) = 200"
  using assms by (simp_all add: srv_refresh_def rotate_def)

text \<open>
  Ending one session leaves a token that has been renewed as it is: the row of the new token names no
  session.
\<close>

lemma find_map_keep: "(\<And>x. P (g x) = P x) \<Longrightarrow> List.find P (map g xs) = map_option g (List.find P xs)"
  by (induction xs) auto

lemma revoke_keeps_renewed:
  assumes "stored_token x d = Some r" "rt_session r = None"
  shows "stored_token x (snd (srv_revoke_session parse user sid d)) = Some r"
proof -
  have "stored_token x (revoke_where (\<lambda>r. rt_session r = Some i \<and> rt_user r = user) (revoke_sessions Q d)) = Some r" for i Q
    using assms unfolding stored_token_def revoke_where_def by (simp, subst find_map_keep) simp_all
  then show ?thesis using assms(1) by (simp add: srv_revoke_session_def split: option.split)
qed

text \<open>Ending all sessions ends every token of the user.\<close>

lemma revoke_all_refused:
  assumes "stored_token (h tok) d = Some r" "rt_user r = user"
  shows "fst (srv_refresh h valid f (Some tok) (snd (srv_revoke_all user d))) = (401, None)"
proof -
  have "stored_token (h tok) (snd (srv_revoke_all user d)) = Some (r\<lparr> rt_revoked := True \<rparr>)"
    using assms unfolding stored_token_def srv_revoke_all_def revoke_where_def by (simp, subst find_map_keep) simp_all
  then show ?thesis by (simp add: srv_refresh_def rotate_def)
qed

subsection \<open>Magic links\<close>

lemma magic_of_steps [simp]:
  "ad_magic (start_session h f u t d) = ad_magic d"
  "ad_magic (revoke_where P d) = ad_magic d" "ad_magic (revoke_sessions Q d) = ad_magic d"
  by (simp_all add: start_session_def revoke_where_def revoke_sessions_def)

lemma magic_rotate [simp]: "ad_magic (snd (rotate h f r d)) = ad_magic d"
  by (simp add: rotate_def)

lemma magic_partner_user [simp]: "ad_magic (snd (partner_user f email hash p d)) = ad_magic d"
  by (simp add: partner_user_def split: option.split prod.split)

text \<open>The body the link's page and the sign-in page send.\<close>

definition link_body :: "jstr \<Rightarrow> jsval" where
  "link_body tok = JObj [(''token'', JStr tok)]"

lemma link_body_sent: "rq_body (partner_req b (VerifyMagicLink tok)) = Some (link_body tok)"
  by (simp add: request_defs link_body_def body_of_def)

lemma verify_decoded:
  "srv_verify_link h now f (link_body tok) d =
     (if tok = [] then ((400, None), d)
      else case List.find (usable (h tok) now) (ad_magic d) of
          None \<Rightarrow> ((401, None), d)
        | Some m \<Rightarrow> ((200, grant (ml_user m) (Some (ml_tenant m)) (U ''user'') (fv_token f)),
            start_session h f (ml_user m) (ml_tenant m)
              (d\<lparr> ad_magic := map (\<lambda>x. if usable (h tok) now x then x\<lparr> ml_used := True \<rparr> else x) (ad_magic d) \<rparr>)))"
  by (simp add: srv_verify_link_def jfield_def link_body_def)

text \<open>A link is spent when its row is marked; no later request makes it good again.\<close>

definition spent :: "jstr \<Rightarrow> magic_row list \<Rightarrow> bool" where
  "spent x ms \<longleftrightarrow> x \<in> ml_hash ` set ms \<and> (\<forall>m \<in> set ms. ml_hash m = x \<longrightarrow> ml_used m)"

lemma mark_hashes: "ml_hash ` set (map (\<lambda>m. if P m then m\<lparr> ml_used := True \<rparr> else m) ms) = ml_hash ` set ms"
  unfolding set_map image_image by (rule image_cong) simp_all

lemma spent_mark: "spent x ms \<Longrightarrow> spent x (map (\<lambda>m. if P m then m\<lparr> ml_used := True \<rparr> else m) ms)"
proof -
  define g where "g m = (if P m then m\<lparr> ml_used := True \<rparr> else m)" for m
  have g: "ml_hash (g m) = ml_hash m" "ml_used m \<Longrightarrow> ml_used (g m)" for m by (simp_all add: g_def)
  show "spent x ms \<Longrightarrow> ?thesis" unfolding g_def [symmetric] by (auto simp: spent_def image_image g)
qed

lemma spent_append: "spent x ms \<Longrightarrow> ml_hash m \<notin> ml_hash ` set ms \<Longrightarrow> spent x (ms @ [m])"
  by (auto simp: spent_def)

lemma spent_step:
  assumes "case draws (snd q) of None \<Rightarrow> True | Some f \<Rightarrow> unseen (ae_hash e) f d" "spent x (ad_magic d)"
  shows "spent x (ad_magic (snd (auth_step e q d)))"
proof -
  obtain now r where q: "q = (now, r)" by (cases q)
  show ?thesis
  proof (cases r)
    case (QLink f b)
    have "spent x (ad_magic d1 @ [m])" if "partner_user f' em hs p d = (u, d1)" "ml_hash m = ae_hash e (fv_token f)" for f' em hs p u d1 m
      using that assms spent_append [of x "ad_magic d1" m] magic_partner_user [of f' em hs p d] by (simp add: QLink q unseen_def)
    then show ?thesis using assms(2) by (auto simp: q QLink srv_request_link_def split: option.splits prod.splits)
  next
    case (QVerify f b)
    then show ?thesis using assms by (auto simp: q srv_verify_link_def spent_mark split: option.splits)
  qed (use assms in \<open>auto simp: q auth_handlers split: option.splits\<close>)
qed

lemma spent_run: "draws_unseen e qs d \<Longrightarrow> spent x (ad_magic d) \<Longrightarrow> spent x (ad_magic (snd (auth_run e qs d)))"
  by (induction qs arbitrary: d) (auto simp: spent_step)

lemma spent_refused: "spent (h tok) (ad_magic d) \<Longrightarrow> tok \<noteq> [] \<Longrightarrow>
    srv_verify_link h now f (link_body tok) d = ((401, None), d)"
  unfolding verify_decoded by (auto simp: spent_def usable_def find_None_all split: option.split dest!: find_Some_in)

lemma verified_spent:
  assumes "distinct (map ml_hash (ad_magic d))" "fst (fst (srv_verify_link h now f (link_body tok) d)) = 200"
  shows "spent (h tok) (ad_magic (snd (srv_verify_link h now f (link_body tok) d)))" "tok \<noteq> []"
proof -
  show "tok \<noteq> []" using assms(2) by (auto simp: verify_decoded)
  then obtain m where m: "List.find (usable (h tok) now) (ad_magic d) = Some m"
    using assms(2) by (auto simp: verify_decoded split: option.splits)
  then have u: "m \<in> set (ad_magic d)" "usable (h tok) now m" by (blast dest: find_Some_in)+
  have "usable (h tok) now x" if "x \<in> set (ad_magic d)" "ml_hash x = h tok" for x
  proof -
    have "x = m" using assms(1) that u unfolding distinct_map usable_def by (metis inj_onD)
    then show ?thesis using u by simp
  qed
  then have "ml_used x" if "x \<in> set (map (\<lambda>x. if usable (h tok) now x then x\<lparr> ml_used := True \<rparr> else x) (ad_magic d))" "ml_hash x = h tok" for x
    using that by (auto split: if_splits)
  moreover have "h tok \<in> ml_hash ` set (map (\<lambda>x. if usable (h tok) now x then x\<lparr> ml_used := True \<rparr> else x) (ad_magic d))"
    unfolding mark_hashes using imageI [OF u(1), of ml_hash] u(2) by (simp add: usable_def)
  ultimately have "spent (h tok) (map (\<lambda>x. if usable (h tok) now x then x\<lparr> ml_used := True \<rparr> else x) (ad_magic d))"
    unfolding spent_def by blast
  then show "spent (h tok) (ad_magic (snd (srv_verify_link h now f (link_body tok) d)))"
    using m \<open>tok \<noteq> []\<close> by (simp add: verify_decoded)
qed

text \<open>A link works once, within fifteen minutes of its request.\<close>

definition email_body :: "jstr \<Rightarrow> jsval" where
  "email_body e = JObj [(''email'', JStr e)]"

lemma email_body_sent: "rq_body (partner_req b (RequestMagicLink e)) = Some (email_body e)"
  by (simp add: request_defs email_body_def body_of_def)

lemma request_decoded:
  "srv_request_link h production now f (email_body e) d =
     (if e = [] then ((400, None), d)
      else case List.find (\<lambda>p. pn_email_hash p = Some (h e) \<and> pn_active p) (ad_partners d) of
          None \<Rightarrow> ((200, None), d)
        | Some p \<Rightarrow> (case partner_user f e (h e) p d of
            (u, d1) \<Rightarrow> ((200, if production then None else Some (fv_token f)),
              d1\<lparr> ad_magic := ad_magic d1 @ [\<lparr> ml_hash = h (fv_token f), ml_user = u, ml_tenant = pn_tenant p,
                  ml_expires = now + 15 * 60, ml_used = False \<rparr>] \<rparr>)))"
  by (simp add: srv_request_link_def jfield_def email_body_def)

lemma issued_row:
  assumes "srv_request_link h production t0 f (email_body e) d = ((200, Some tok), d1)"
  obtains m where "ad_magic d1 = ad_magic d @ [m]" "tok = fv_token f" "ml_hash m = h tok" "ml_expires m = t0 + 15 * 60" "\<not> ml_used m"
proof -
  obtain p where p: "List.find (\<lambda>p. pn_email_hash p = Some (h e) \<and> pn_active p) (ad_partners d) = Some p"
    using assms by (auto simp: request_decoded split: if_splits option.splits prod.splits)
  obtain u d2 where pu: "partner_user f e (h e) p d = (u, d2)" by fastforce
  have "ad_magic d2 = ad_magic d" using magic_partner_user [of f e "h e" p d] pu by simp
  then show ?thesis using assms p pu
    by (intro that [of "\<lparr> ml_hash = h tok, ml_user = u, ml_tenant = pn_tenant p, ml_expires = t0 + 15 * 60, ml_used = False \<rparr>"])
      (auto simp: request_decoded split: if_splits)
qed

lemma issued_link:
  assumes "unseen h f d" "srv_request_link h production t0 f (email_body e) d = ((200, Some tok), d1)" "tok \<noteq> []"
  shows "fst (fst (srv_verify_link h now f' (link_body tok) d1)) = (if now < t0 + 900 then 200 else 401)"
proof -
  obtain m where m: "ad_magic d1 = ad_magic d @ [m]" "tok = fv_token f" "ml_hash m = h tok" "ml_expires m = t0 + 15 * 60" "\<not> ml_used m"
    by (rule issued_row [OF assms(2)])
  have "\<forall>m \<in> set (ad_magic d). \<not> usable (h tok) now m"
    using assms(1) m(2) by (force simp: unseen_def usable_def)
  then show ?thesis using assms(3) m by (simp add: verify_decoded find_append_None usable_def)
qed

lemma issued_distinct:
  assumes "unseen h f d" "srv_request_link h production t0 f (email_body e) d = ((200, Some tok), d1)"
    and "distinct (map ml_hash (ad_magic d))"
  shows "distinct (map ml_hash (ad_magic d1))"
  using assms(1,3) by (auto intro: issued_row [OF assms(2)] simp: unseen_def)

text \<open>
  \<open>AdminCreate\<close> stores the hash of the e-mail in lower case; the request for a link hashes the e-mail
  as it is typed. One with a capital letter finds no partner.
\<close>

definition hashed_lower :: "(jstr \<Rightarrow> jstr) \<Rightarrow> jstr set \<Rightarrow> auth_db \<Rightarrow> bool" where
  "hashed_lower h emails d \<longleftrightarrow>
     (\<forall>p \<in> set (ad_partners d). \<forall>x. pn_email_hash p = Some x \<longrightarrow> x \<in> h ` js_toLowerCase ` emails)"

definition account_of :: "(jstr \<Rightarrow> jstr) \<Rightarrow> jstr \<Rightarrow> jstr \<Rightarrow> partner_row \<Rightarrow> partner_account" where
  "account_of h i tenant r = \<lparr> pn_id = i, pn_tenant = tenant, pn_name = tp_name r,
     pn_email_hash = map_option (\<lambda>e. h (js_toLowerCase e)) (tp_email r), pn_user = None, pn_active = True \<rparr>"

lemma account_hashed_lower:
  "hashed_lower h emails (d\<lparr> ad_partners := map (account_of h i t) rows \<rparr>)"
  if "\<And>r e. r \<in> set rows \<Longrightarrow> tp_email r = Some e \<Longrightarrow> e \<in> emails"
  using that by (auto simp: hashed_lower_def account_of_def)

lemma capital_finds_none:
  assumes "inj_on h (insert e (js_toLowerCase ` emails))" "hashed_lower h emails d" "js_toLowerCase e \<noteq> e"
  shows "srv_request_link h production now f (email_body e) d = ((200, None), d)"
proof -
  have "pn_email_hash p \<noteq> Some (h e)" if p: "p \<in> set (ad_partners d)" for p
  proof
    assume "pn_email_hash p = Some (h e)"
    then obtain e' where "h e = h (js_toLowerCase e')" "e' \<in> emails" using assms(2) p by (auto simp: hashed_lower_def)
    then have "e = js_toLowerCase e'" using assms(1) by (auto simp: inj_on_def)
    then show False using assms(3) by simp
  qed
  then have "List.find (\<lambda>p. pn_email_hash p = Some (h e) \<and> pn_active p) (ad_partners d) = None"
    by (simp add: find_None_all)
  moreover have "e \<noteq> []" using assms(3) by auto
  ultimately show ?thesis by (simp add: request_decoded)
qed

subsection \<open>Registration, then sign-in\<close>

lemma register_then_login:
  assumes "\<And>p. verify p (pw p)" "h e \<notin> su_email_hash ` set (ad_users d)" "\<And>t u. (t, u) \<in> set (ad_members d) \<Longrightarrow> u \<noteq> fv_user f"
    and "rq_body (auth_op_req b (FetchRegister e p n)) = Some rb" "rq_body (auth_op_req b (FetchLogin e p)) = Some lb"
  shows "fst (fst (srv_register h pw f rb d)) = 201"
    and "fst (srv_login h verify f' lb (snd (srv_register h pw f rb d))) =
      (200, grant (fv_user f) (Some (fv_tenant f)) (U ''user'') (fv_token f'))"
proof -
  have n: "List.find (\<lambda>u. su_email_hash u = h e) (ad_users d @ us) = List.find (\<lambda>u. su_email_hash u = h e) us" for us
    by (rule find_append_None) (use assms(2) in force)
  have m: "List.find (\<lambda>(t, u). u = fv_user f) (ad_members d @ ms) = List.find (\<lambda>(t, u). u = fv_user f) ms" for ms
    by (rule find_append_None) (use assms(3) in auto)
  show "fst (fst (srv_register h pw f rb d)) = 201"
    using assms(2,4) by (auto simp: srv_register_def jfield_def)
  show "fst (srv_login h verify f' lb (snd (srv_register h pw f rb d))) =
      (200, grant (fv_user f) (Some (fv_tenant f)) (U ''user'') (fv_token f'))"
    using assms(1,2,4,5) by (auto simp: srv_register_def srv_login_def jfield_def start_session_def tenant_of_def n m grant_def)
qed

subsection \<open>Two renewals at once\<close>

text \<open>
  The handler reads the row of the token and writes later, with no lock in between. When two requests
  with the same token both read before either writes, both are answered, the reuse is not noticed, and
  the family has two live tokens.
\<close>

lemma two_renewals:
  assumes "\<not> rt_revoked r" "fv_row f1 \<noteq> rt_id r"
  shows "fst (fst (rotate h f1 r d)) = 200" "fst (fst (rotate h f2 r (snd (rotate h f1 r d)))) = 200"
    and "2 \<le> length (live_in (rt_family r) (ad_refresh (snd (rotate h f2 r (snd (rotate h f1 r d))))))"
  using assms by (simp_all add: rotate_def live_in_def)

end
