(* ===== verification/Gate.thy ===== *)
theory Gate imports Routes AuthServer begin

text \<open>
  What stands before the handlers: the groups of \<open>internal/api/routes.go\<close> with their middlewares
  \<open>AuthJWT\<close>, \<open>TenantInjector\<close>, \<open>RequireRole\<close> (\<open>internal/api/middleware/auth.go\<close>, \<open>tenant.go\<close>) and
  \<open>RateLimit\<close> (\<open>ratelimit.go\<close>). \<open>validate\<close> stands for the library's check of a token; \<open>redis\<close> for what
  the counter answers: nothing when it cannot be reached.
\<close>

subsection \<open>Groups of routes\<close>

datatype token_type = TokenAccess | TokenRefresh

datatype route_group = Limited nat bool | Open | TenantGroup | AdminGroup

text \<open>\<open>Limited n failOpen\<close>: so many requests a minute for one address.\<close>

definition group_of :: "string \<Rightarrow> route_group" where
  "group_of h =
     (if h \<in> {''auth.Login'', ''auth.RequestMagicLink''} then Limited 5 False
      else if h = ''auth.VerifyMagicLink'' then Limited 10 False
      else if h \<in> {''auth.Register'', ''auth.RefreshToken'', ''auth.Logout''} then Open
      else if h = ''tracking.HandleClick'' then Limited 60 True
      else if h = ''admin.tenants'' then AdminGroup
      else TenantGroup)"

subsection \<open>Middlewares\<close>

text \<open>\<open>extractToken\<close>: the header first, then the cookie; the empty text is no token.\<close>

record credentials =
  cr_authorization :: jstr
  cr_cookie :: "jstr option"

definition extractToken :: "credentials \<Rightarrow> jstr" where
  "extractToken c = (if js_startsWith (cr_authorization c) (U ''Bearer '') then drop 7 (cr_authorization c)
     else orelse (cr_cookie c) [])"

definition AuthJWT :: "(jstr \<Rightarrow> (jwt_claims \<times> token_type) option) \<Rightarrow> credentials \<Rightarrow> nat + jwt_claims" where
  "AuthJWT validate c = (let tok = extractToken c in
     if tok = [] then Inl 401
     else case validate tok of None \<Rightarrow> Inl 401
       | Some (cl, ty) \<Rightarrow> if ty \<noteq> TokenAccess then Inl 401 else Inr cl)"

definition TenantInjector :: "jwt_claims \<Rightarrow> nat + jstr" where
  "TenantInjector cl = (case jc_tenant cl of None \<Rightarrow> Inl 401 | Some t \<Rightarrow> Inr t)"

definition RequireRole :: "jstr list \<Rightarrow> jwt_claims \<Rightarrow> nat + unit" where
  "RequireRole roles cl = (if jc_role cl \<in> set roles then Inr () else Inl 403)"

definition RateLimit :: "bool \<Rightarrow> bool option \<Rightarrow> nat + unit" where
  "RateLimit failOpen redis = (case redis of
      None \<Rightarrow> if failOpen then Inr () else Inl 503
    | Some allowed \<Rightarrow> if allowed then Inr () else Inl 429)"

text \<open>What a handler is run with: no tenant, or the tenant of the claims and the claims.\<close>

definition gate ::
  "(jstr \<Rightarrow> (jwt_claims \<times> token_type) option) \<Rightarrow> bool option \<Rightarrow> credentials \<Rightarrow> string \<Rightarrow> nat + (jwt_claims \<times> jstr option) option" where
  "gate validate redis c h = (case group_of h of
      Limited n failOpen \<Rightarrow> (case RateLimit failOpen redis of Inl s \<Rightarrow> Inl s | Inr _ \<Rightarrow> Inr None)
    | Open \<Rightarrow> Inr None
    | TenantGroup \<Rightarrow> (case AuthJWT validate c of Inl s \<Rightarrow> Inl s
        | Inr cl \<Rightarrow> (case TenantInjector cl of Inl s \<Rightarrow> Inl s
          | Inr t \<Rightarrow> (case RateLimit False redis of Inl s \<Rightarrow> Inl s | Inr _ \<Rightarrow> Inr (Some (cl, Some t)))))
    | AdminGroup \<Rightarrow> (case AuthJWT validate c of Inl s \<Rightarrow> Inl s
        | Inr cl \<Rightarrow> (case RequireRole [U ''saas_admin''] cl of Inl s \<Rightarrow> Inl s | Inr _ \<Rightarrow> Inr (Some (cl, None)))))"

subsection \<open>Facts\<close>

text \<open>The calls of the dashboard: all but the sign-out are in the group of the tenant.\<close>

lemma dash_group: "group_of (dash_handler c) = (if c = AuthLogout then Open else TenantGroup)"
  by (cases c) (simp_all add: group_of_def)

lemma partner_group: "group_of (partner_handler c) = (case c of
    RequestMagicLink _ \<Rightarrow> Limited 5 False | VerifyMagicLink _ \<Rightarrow> Limited 10 False | PLogout \<Rightarrow> Open | _ \<Rightarrow> TenantGroup)"
  by (cases c) (simp_all add: group_of_def)

text \<open>Nothing behind \<open>AuthJWT\<close> is reached without an access token, and the administration not without its role.\<close>

lemma gate_needs_access:
  assumes "gate validate redis c h = Inr (Some (cl, t))"
  shows "validate (extractToken c) = Some (cl, TokenAccess)"
  using assms by (auto simp: gate_def AuthJWT_def Let_def split: route_group.splits sum.splits option.splits prod.splits if_splits)

lemma gate_admin:
  assumes "gate validate redis c ''admin.tenants'' = Inr x"
  shows "\<exists>cl. x = Some (cl, None) \<and> jc_role cl = U ''saas_admin''"
  using assms by (auto simp: gate_def group_of_def RequireRole_def split: sum.splits if_splits)

lemma gate_tenant:
  assumes "group_of h = TenantGroup" "validate (extractToken c) = Some (cl, TokenAccess)" "jc_tenant cl = Some t" "extractToken c \<noteq> []"
  shows "gate validate (Some True) c h = Inr (Some (cl, Some t))"
  using assms by (simp add: gate_def AuthJWT_def TenantInjector_def RateLimit_def)

text \<open>
  No role is asked for in the group of the tenant: the session of a partner, which is for the
  partner's company, passes to every handler the dashboard calls.
\<close>

lemma partner_passes:
  assumes "srv_verify_link h now f (link_body tok) d = ((200, Some (cl, rtok)), d')" "extractToken c \<noteq> []"
    and "validate (extractToken c) = Some (cl, TokenAccess)" "k \<noteq> AuthLogout"
  shows "\<exists>m \<in> set (ad_magic d). usable (h tok) now m \<and> jc_role cl = U ''user'' \<and>
    gate validate (Some True) c (dash_handler k) = Inr (Some (cl, Some (ml_tenant m)))"
proof -
  obtain m where m: "m \<in> set (ad_magic d)" "usable (h tok) now m" "jc_tenant cl = Some (ml_tenant m)" "jc_role cl = U ''user''"
    using assms(1) by (auto simp: verify_decoded grant_def split: option.splits if_splits dest!: find_Some_in)
  have "gate validate (Some True) c (dash_handler k) = Inr (Some (cl, Some (ml_tenant m)))"
    by (rule gate_tenant) (use assms m in \<open>simp_all add: dash_group\<close>)
  then show ?thesis using m by blast
qed

end
