(* ===== verification/RulesEngine.thy ===== *)
theory RulesEngine imports NovoPrograma NovaIndicacao begin

text \<open>
  The rules engine of the server (\<open>internal/domain/rules/engine.go\<close>, \<open>evaluators.go\<close>): what a
  validated rule pays for an event. Amounts are \<open>float64\<close> expressions converted to cents; a
  conversion to \<open>int64\<close> that is out of range, which Go leaves to the implementation, is \<open>None\<close>. The
  facts say that a rule the server stored never makes the engine read a missing number, that a share
  of a sale is exact up to half a cent, and what a fixed reward loses.
\<close>

subsection \<open>Conversions\<close>

definition toward_zero :: "rat \<Rightarrow> int" where
  "toward_zero q = (if 0 \<le> q then \<lfloor>q\<rfloor> else - \<lfloor>- q\<rfloor>)"

definition in_int64 :: "int \<Rightarrow> int option" where
  "in_int64 n = (if - (2 ^ 63) \<le> n \<and> n < 2 ^ 63 then Some n else None)"

text \<open>\<open>int64(x)\<close>, and \<open>int64(math.Round(x))\<close>.\<close>

definition go_int64 :: "jsnum \<Rightarrow> int option" where
  "go_int64 x = (case x of Fin q \<Rightarrow> in_int64 (toward_zero q) | _ \<Rightarrow> None)"

definition go_rounded :: "jsnum \<Rightarrow> int option" where
  "go_rounded x = Option.bind (go_round x) in_int64"

text \<open>\<open>int64(math.Round(float64(sale) * pct / 100))\<close>\<close>

definition pct_cents :: "int \<Rightarrow> rat \<Rightarrow> int option" where
  "pct_cents sale p = Option.bind (go_share sale (Fin p)) in_int64"

definition brl_cents :: "rat \<Rightarrow> int option" where
  "brl_cents q = go_int64 (js_mul (Fin q) (Fin 100))"

subsection \<open>Events and outcomes\<close>

record rule_event =
  ge_SaleAmount :: int
  ge_LeadStatus :: jstr
  ge_PartnerID :: jstr
  ge_ReferralID :: jstr
  ge_SaleID :: jstr
  ge_ProgramID :: jstr
  ge_TenantID :: jstr
  ge_SplitChoice :: "jsval option"

datatype meta = MFloat jsnum | MInt "int option" | MText jstr

record reward_outcome =
  ro_PartnerID :: jstr
  ro_ReferralID :: jstr
  ro_ProgramID :: jstr
  ro_TenantID :: jstr
  ro_SaleID :: jstr
  ro_Type :: jstr
  ro_AmountCents :: "int option"
  ro_Currency :: jstr
  ro_Status :: jstr
  ro_Metadata :: "(string \<times> meta) list"

datatype eval_err = NilDeref | EvErr jstr | ConditionNotMet | NoEvaluator jstr | InType jstr eval_err

text \<open>An evaluator sets the type, the amount and the metadata of the outcome.\<close>

type_synonym evaluator = "reward_config \<Rightarrow> rule_event \<Rightarrow> eval_err + (jstr \<times> int option \<times> (string \<times> meta) list)"

definition deref :: "'a option \<Rightarrow> ('a \<Rightarrow> eval_err + 'b) \<Rightarrow> eval_err + 'b" where
  "deref p k = (case p of None \<Rightarrow> Inl NilDeref | Some x \<Rightarrow> k x)"

lemma deref_simps [simp]: "deref None k = Inl NilDeref" "deref (Some x) k = k x"
  by (simp_all add: deref_def)

subsection \<open>Evaluators\<close>

definition CommissionFixedEvaluator :: evaluator where
  "CommissionFixedEvaluator rc ev = deref (gc_AmountBRL rc) (\<lambda>q.
     Inr (U ''commission_fixed'', brl_cents q, [(''amount_brl'', MFloat (Fin q))]))"

definition CommissionPctEvaluator :: evaluator where
  "CommissionPctEvaluator rc ev =
     (if ge_SaleAmount ev \<le> 0 then Inl (EvErr (U ''sale amount required for commission_pct''))
      else deref (gc_Pct rc) (\<lambda>p. let amount = pct_cents (ge_SaleAmount ev) p in
        Inr (U ''commission_pct'', amount, [(''sale_amount_cents'', MInt (Some (ge_SaleAmount ev))),
          (''pct'', MFloat (Fin p)), (''commission_cents'', MInt amount)])))"

definition decode_split :: "jsval \<Rightarrow> split_choice option" where
  "decode_split v = do {
     r \<leftarrow> go_struct (Some v);
     c \<leftarrow> go_float (jfield r ''commission_pct'');
     d \<leftarrow> go_float (jfield r ''discount_pct'');
     Some \<lparr> sc_commission_pct = Fin c, sc_discount_pct = Fin d \<rparr> }"

text \<open>Without a choice all of the ceiling is commission; \<open>go_flexible_split\<close> has the default and the test.\<close>

definition FlexibleSplitEvaluator :: evaluator where
  "FlexibleSplitEvaluator rc ev =
     (if ge_SaleAmount ev \<le> 0 then Inl (EvErr (U ''sale amount required for flexible_split''))
      else case map_option decode_split (ge_SplitChoice ev) of
        Some None \<Rightarrow> Inl (EvErr (U ''parse split_choice''))
      | choice \<Rightarrow> deref (gc_MaxPct rc) (\<lambda>mx.
          let c = orelse (Option.bind choice id) \<lparr> sc_commission_pct = Fin mx, sc_discount_pct = Fin 0 \<rparr> in
          (case go_flexible_split (Fin mx) (ge_SaleAmount ev) (Some c) of
             Inl e \<Rightarrow> Inl (EvErr e)
           | Inr (commission, discount) \<Rightarrow>
               Inr (U ''flexible_split'', Option.bind commission in_int64,
                 [(''sale_amount_cents'', MInt (Some (ge_SaleAmount ev))),
                  (''commission_pct'', MFloat (sc_commission_pct c)), (''discount_pct'', MFloat (sc_discount_pct c)),
                  (''commission_cents'', MInt (Option.bind commission in_int64)),
                  (''discount_cents'', MInt (Option.bind discount in_int64))]))))"

definition GoalBasedEvaluator :: evaluator where
  "GoalBasedEvaluator rc ev = deref (gc_Target rc) (\<lambda>t.
     Inr (U ''goal_based'', Some 0, [(''goal_target'', MInt (Some t)), (''goal_status'', MText (U ''pending_count''))]))"

definition PointsEvaluator :: evaluator where
  "PointsEvaluator rc ev =
     (let points = (case gc_PointsPerBRL rc of
          Some r \<Rightarrow> if 0 < ge_SaleAmount ev
            then go_rounded (js_mul (js_div (num_int (ge_SaleAmount ev)) (Fin 100)) (Fin r))
            else orelse (map_option Some (gc_PointsPerConversion rc)) (Some 0)
        | None \<Rightarrow> orelse (map_option Some (gc_PointsPerConversion rc)) (Some 0))
      in Inr (U ''points'', Some 0, [(''points'', MInt points)]))"

definition CashbackEvaluator :: evaluator where
  "CashbackEvaluator rc ev =
     (if ge_SaleAmount ev \<le> 0 then Inl (EvErr (U ''sale amount required for cashback''))
      else deref (gc_Pct rc) (\<lambda>p. let amount = pct_cents (ge_SaleAmount ev) p in
        Inr (U ''cashback'', amount, [(''sale_amount_cents'', MInt (Some (ge_SaleAmount ev))),
          (''pct'', MFloat (Fin p)), (''cashback_cents'', MInt amount)])))"

definition RecurringCommissionEvaluator :: evaluator where
  "RecurringCommissionEvaluator rc ev =
     (if ge_SaleAmount ev \<le> 0 then Inl (EvErr (U ''sale amount required for recurring_commission''))
      else deref (gc_Pct rc) (\<lambda>p. let amount = pct_cents (ge_SaleAmount ev) p in
        Inr (U ''recurring_commission'', amount, [(''sale_amount_cents'', MInt (Some (ge_SaleAmount ev))),
          (''pct'', MFloat (Fin p)), (''max_months'', MInt (Some (orelse (gc_MaxMonths rc) 12))),
          (''current_month'', MInt (Some 1))])))"

definition DiscountForLeadEvaluator :: evaluator where
  "DiscountForLeadEvaluator rc ev =
     (let amount = (case gc_Pct rc of Some p \<Rightarrow> pct_cents (ge_SaleAmount ev) p
        | None \<Rightarrow> (case gc_AmountBRL rc of Some q \<Rightarrow> brl_cents q | None \<Rightarrow> Some 0))
      in Inr (U ''discount_for_lead'', Some 0, [(''discount_cents'', MInt amount)]))"

subsection \<open>The engine\<close>

definition evaluators :: "(jstr \<times> evaluator) list" where
  "evaluators = [(U ''commission_fixed'', CommissionFixedEvaluator), (U ''commission_pct'', CommissionPctEvaluator),
     (U ''flexible_split'', FlexibleSplitEvaluator), (U ''goal_based'', GoalBasedEvaluator), (U ''points'', PointsEvaluator),
     (U ''cashback'', CashbackEvaluator), (U ''recurring_commission'', RecurringCommissionEvaluator),
     (U ''discount_for_lead'', DiscountForLeadEvaluator)]"

text \<open>
  Conditions. A field is a text, an amount or, when its name is unknown, nil; both sides are compared
  as \<open>fmt.Sprintf\<close> prints them with \<open>%v\<close>: \<open>show\<close> prints the JSON value of the condition.
\<close>

record condition =
  cd_Op :: jstr
  cd_Field :: jstr
  cd_Value :: jsval

definition getFieldValue :: "jstr \<Rightarrow> rule_event \<Rightarrow> jstr" where
  "getFieldValue f ev = (if f = U ''lead.status'' then ge_LeadStatus ev
     else if f = U ''sale.amount'' then dec_int (ge_SaleAmount ev) else U ''<nil>'')"

definition evaluateCondition :: "(jsval \<Rightarrow> jstr) \<Rightarrow> condition \<Rightarrow> rule_event \<Rightarrow> bool" where
  "evaluateCondition shw c ev = (let actual = getFieldValue (cd_Field c) ev in
     if cd_Op c = U ''eq'' then actual = shw (cd_Value c)
     else if cd_Op c = U ''neq'' then actual \<noteq> shw (cd_Value c) else True)"

definition Evaluate :: "(jsval \<Rightarrow> jstr) \<Rightarrow> condition list \<Rightarrow> reward_config \<Rightarrow> rule_event \<Rightarrow> eval_err + reward_outcome" where
  "Evaluate shw conds rc ev =
     (if \<not> list_all (\<lambda>c. evaluateCondition shw c ev) conds then Inl ConditionNotMet
      else case map_of evaluators (gc_Type rc) of
        None \<Rightarrow> Inl (NoEvaluator (gc_Type rc))
      | Some e \<Rightarrow> (case e rc ev of
          Inl x \<Rightarrow> Inl (InType (gc_Type rc) x)
        | Inr (ty, amount, m) \<Rightarrow> Inr \<lparr> ro_PartnerID = ge_PartnerID ev, ro_ReferralID = ge_ReferralID ev,
            ro_ProgramID = ge_ProgramID ev, ro_TenantID = ge_TenantID ev, ro_SaleID = ge_SaleID ev, ro_Type = ty,
            ro_AmountCents = amount, ro_Currency = U ''BRL'', ro_Status = U ''pending'', ro_Metadata = m \<rparr>))"

lemmas evaluator_defs = CommissionFixedEvaluator_def CommissionPctEvaluator_def FlexibleSplitEvaluator_def
  GoalBasedEvaluator_def PointsEvaluator_def CashbackEvaluator_def RecurringCommissionEvaluator_def
  DiscountForLeadEvaluator_def

subsection \<open>Rounding\<close>

text \<open>The error of one rounding, the subnormal range included; and that no expression here overflows.\<close>

abbreviation ulp :: rat where "ulp \<equiv> 1 / 2 ^ 53"
abbreviation tiny :: rat where "tiny \<equiv> 1 / 2 ^ 80"

lemma fl_error_sum: "\<bar>fl q - q\<bar> \<le> \<bar>q\<bar> * ulp + tiny"
proof (cases "2 powi (- 1022) \<le> \<bar>q\<bar>")
  case True
  have "2 powi (- 53) = ulp" by (simp add: power_int_minus)
  then show ?thesis using fl_rel_error [OF True] by simp
next
  case False
  show ?thesis
  proof (cases "q = 0")
    case nz: False
    with False have "ilog2 \<bar>q\<bar> < - 1022" by (intro ilog2_less) auto
    then have "fl_exp q \<le> - 79" by (simp add: fl_exp_def)
    then have "(2::rat) powi fl_exp q \<le> 2 powi (- 79)" by (intro power_int_increasing) auto
    then have "\<bar>fl q - q\<bar> \<le> tiny" using fl_error [of q] by (simp add: power_int_minus)
    moreover have "0 \<le> \<bar>q\<bar> * ulp" by simp
    ultimately show ?thesis by linarith
  qed simp
qed

lemma mk_bounded: "\<bar>q\<bar> \<le> 2 ^ 60 \<Longrightarrow> mk q = Fin (fl q)"
proof (rule mk_Fin)
  assume q: "\<bar>q\<bar> \<le> 2 ^ 60"
  have "\<bar>fl q\<bar> \<le> \<bar>q\<bar> + (\<bar>q\<bar> * ulp + tiny)" using fl_error_sum [of q] by linarith
  also have "\<dots> \<le> 2 ^ 60 + (2 ^ 60 * ulp + tiny)" using q by (intro add_mono mult_right_mono) auto
  also have "\<dots> \<le> 2 powi 61" by simp
  also have "\<dots> < 2 powi 1024" by (rule power_int_strict_increasing) simp_all
  finally show "\<bar>fl q\<bar> < 2 powi 1024" .
qed

text \<open>Two roundings: a product, then its hundredth.\<close>

lemma fl_hundredth:
  assumes "0 \<le> x" "x \<le> 100 * 2 ^ 45"
  shows "\<bar>fl (fl x / 100) - x / 100\<bar> < 1 / 100" and "\<bar>fl x\<bar> \<le> 2 ^ 60"
proof -
  have x: "x \<le> 3518437208883200" using assms(2) by simp
  have a: "\<bar>fl x - x\<bar> \<le> x / 9007199254740992 + 1 / 10 ^ 20"
    using fl_error_sum [of x] assms(1) by simp
  have fx: "\<bar>fl x\<bar> \<le> 3518437208883201" using a x assms(1) by simp
  then show "\<bar>fl x\<bar> \<le> 2 ^ 60" by simp
  have "\<bar>fl (fl x / 100) - fl x / 100\<bar> \<le> \<bar>fl x\<bar> / 100 * ulp + tiny" using fl_error_sum [of "fl x / 100"] by simp
  also have "\<dots> \<le> 3518437208883201 / 100 * ulp + tiny" using fx by (intro add_mono mult_right_mono divide_right_mono) auto
  also have "\<dots> \<le> 1 / 250" by simp
  finally have b: "\<bar>fl (fl x / 100) - fl x / 100\<bar> \<le> 1 / 250" .
  have "\<bar>fl x - x\<bar> \<le> 2 / 5" using a x by simp
  then have "\<bar>fl x / 100 - x / 100\<bar> \<le> 1 / 250" unfolding diff_divide_distrib [symmetric] abs_divide by simp
  with b show "\<bar>fl (fl x / 100) - x / 100\<bar> < 1 / 100" by linarith
qed

subsection \<open>Shares of a sale\<close>

text \<open>A share is a number of cents, at most half a cent and a hundredth from the exact share.\<close>

lemma go_round_error: "\<exists>n. go_round (Fin b) = Some n \<and> \<bar>of_int n - b\<bar> \<le> 1 / 2"
proof (cases "0 \<le> b")
  case True
  have "\<bar>of_int \<lfloor>b + 1 / 2\<rfloor> - b\<bar> \<le> 1 / 2" by linarith
  with True show ?thesis by (simp add: go_round_def)
next
  case False
  have "\<bar>of_int (- \<lfloor>- b + 1 / 2\<rfloor>) - b\<bar> \<le> 1 / 2" by linarith
  with False show ?thesis by (simp add: go_round_def)
qed

lemma of_int_bounds: "- 1 < (of_int n :: rat) \<Longrightarrow> 0 \<le> n" "(of_int n :: rat) < of_int m + 1 \<Longrightarrow> n \<le> m"
  by linarith+

lemma pct_cents_exact:
  assumes "0 < sale" "sale \<le> 2 ^ 45" "0 \<le> p" "p \<le> 100"
  obtains n where "pct_cents sale p = Some n" "\<bar>of_int n - of_int sale * p / 100\<bar> < 51 / 100" "0 \<le> n" "n \<le> sale"
proof -
  let ?x = "of_int sale * p" and ?b = "fl (fl (of_int sale * p) / 100)"
  have s: "(of_int sale :: rat) \<le> of_int (2 ^ 45)" using assms(2) by (simp only: of_int_le_iff)
  have x: "0 \<le> ?x" "?x \<le> 100 * 2 ^ 45" "?x \<le> of_int sale * 100"
    using assms(1,3,4) s mult_mono [of "of_int sale" "2 ^ 45" p 100] by (simp_all add: mult_left_mono)
  note f = fl_hundredth [OF x(1,2)]
  have "\<bar>?x\<bar> \<le> 2 ^ 60" using x by simp
  moreover have "\<bar>fl ?x / 100\<bar> \<le> 2 ^ 60" using f(2) by simp
  ultimately have sh: "js_div (js_mul (num_int sale) (Fin p)) (Fin 100) = Fin ?b"
    using assms(1,2) by (simp add: num_int_small mk_bounded)
  obtain n where n: "go_round (Fin ?b) = Some n" "\<bar>of_int n - ?b\<bar> \<le> 1 / 2" using go_round_error by blast
  have e: "\<bar>of_int n - ?x / 100\<bar> < 51 / 100" using n(2) f(1) by linarith
  have "- 1 < (of_int n :: rat)" "(of_int n :: rat) < of_int sale + 1" using e x(1,3) by linarith+
  then have b: "0 \<le> n" "n \<le> sale" by (simp_all only: of_int_bounds)
  then have "pct_cents sale p = Some n"
    using n(1) assms(2) by (simp add: pct_cents_def go_share_def sh in_int64_def)
  then show ?thesis using e b by (rule that)
qed

subsection \<open>Fixed rewards\<close>

text \<open>
  A fixed reward of \<open>c\<close> cents, stored as the number nearest to \<open>c / 100\<close>, pays \<open>c\<close> cents or one cent
  less; whole reais are exact.
\<close>

lemma toward_zero_pos: "0 \<le> q \<Longrightarrow> toward_zero q = \<lfloor>q\<rfloor>"
  by (simp add: toward_zero_def)

lemma brl_cents_close:
  assumes "0 < c" "c \<le> 2 ^ 45"
  shows "brl_cents (fl (of_int c / 100)) \<in> {Some c, Some (c - 1)}"
proof -
  let ?q = "fl (of_int c / 100 :: rat)"
  have c: "1 \<le> (of_int c :: rat)" "(of_int c :: rat) \<le> of_int (2 ^ 45)"
    using assms by (simp_all only: of_int_le_iff of_int_1_le_iff)
  have "\<bar>?q - of_int c / 100\<bar> \<le> of_int c / 100 * ulp + tiny" using fl_error_sum [of "of_int c / 100"] c by simp
  also have "\<dots> \<le> 2 ^ 45 / 100 * ulp + tiny" using c by (intro add_mono mult_right_mono divide_right_mono) auto
  also have "\<dots> \<le> 1 / 20000" by simp
  finally have q: "\<bar>100 * ?q - of_int c\<bar> \<le> 1 / 200" by linarith
  have "of_int c \<le> (35184372088832 :: rat)" using c by simp
  then have h: "\<bar>100 * ?q\<bar> \<le> 35184372088833" using q c by linarith
  have "\<bar>fl (100 * ?q) - 100 * ?q\<bar> \<le> \<bar>100 * ?q\<bar> * ulp + tiny" by (rule fl_error_sum)
  also have "\<dots> \<le> 35184372088833 * ulp + tiny" using h by (intro add_mono mult_right_mono) auto
  also have "\<dots> \<le> 1 / 200" by simp
  finally have r: "\<bar>fl (100 * ?q) - of_int c\<bar> \<le> 1 / 100" using q by linarith
  have "\<bar>?q * 100\<bar> \<le> 2 ^ 60" using h by (simp add: mult.commute)
  then have m: "js_mul (Fin ?q) (Fin 100) = Fin (fl (100 * ?q))" by (simp add: mk_bounded mult.commute)
  have "0 \<le> fl (100 * ?q)" using r c by linarith
  then have t: "toward_zero (fl (100 * ?q)) = \<lfloor>fl (100 * ?q)\<rfloor>" by (rule toward_zero_pos)
  have "\<lfloor>fl (100 * ?q)\<rfloor> = c \<or> \<lfloor>fl (100 * ?q)\<rfloor> = c - 1" using r by linarith
  then obtain n where n: "\<lfloor>fl (100 * ?q)\<rfloor> = n" "n = c \<or> n = c - 1" by blast
  have "brl_cents ?q = in_int64 n" by (simp only: brl_cents_def go_int64_def m t n(1) jsnum.case)
  then show ?thesis using assms n(2) by (auto simp: in_int64_def)
qed

lemma brl_cents_whole:
  assumes "0 \<le> r" "r \<le> 2 ^ 45"
  shows "brl_cents (fl (of_int r)) = Some (100 * r)"
proof -
  have "mk (of_int (100 * r)) = Fin (of_int (100 * r))" by (rule mk_of_int) (use assms in simp)
  then have "js_mul (Fin (of_int r)) (Fin 100) = Fin (of_int (100 * r))" by (simp add: mult.commute)
  then show ?thesis using assms
    by (simp add: brl_cents_def fl_of_int go_int64_def toward_zero_pos in_int64_def del: of_int_mult)
qed

lemma brl_cents_1999: "brl_cents (fl (1999 / 100)) = Some 1998"
  by code_simp

subsection \<open>Rules the server stored\<close>

text \<open>
  Every type the validation lets through has an evaluator, and the evaluator finds the numbers it
  reads: the engine never dereferences nil.
\<close>

lemma evaluator_types:
  "map_of evaluators (U ''commission_fixed'') = Some CommissionFixedEvaluator"
  "map_of evaluators (U ''commission_pct'') = Some CommissionPctEvaluator"
  "map_of evaluators (U ''flexible_split'') = Some FlexibleSplitEvaluator"
  "map_of evaluators (U ''goal_based'') = Some GoalBasedEvaluator"
  "map_of evaluators (U ''points'') = Some PointsEvaluator"
  "map_of evaluators (U ''cashback'') = Some CashbackEvaluator"
  "map_of evaluators (U ''recurring_commission'') = Some RecurringCommissionEvaluator"
  "map_of evaluators (U ''discount_for_lead'') = Some DiscountForLeadEvaluator"
  by (simp_all add: evaluators_def ustr)

lemma validated_type: "validate_reward rc = None \<Longrightarrow> gc_Type rc \<in> set valid_types"
  by (auto simp: validate_reward_def Let_def split: if_splits)

lemma above0_Some: "above0 x \<Longrightarrow> \<exists>q. x = Some q \<and> 0 < q" "pct_range x \<Longrightarrow> \<exists>q. x = Some q \<and> 0 < q \<and> q \<le> 100"
  by (auto simp: above0_def pct_range_def split: option.splits)

text \<open>The numbers a validated rule of each type has.\<close>

lemma validated_numbers:
  assumes "validate_reward rc = None"
  shows "gc_Type rc = U ''commission_fixed'' \<Longrightarrow> \<exists>q. gc_AmountBRL rc = Some q \<and> 0 < q"
    and "gc_Type rc = U ''commission_pct'' \<Longrightarrow> \<exists>p. gc_Pct rc = Some p \<and> 0 < p \<and> p \<le> 100"
    and "gc_Type rc = U ''cashback'' \<Longrightarrow> \<exists>p. gc_Pct rc = Some p \<and> 0 < p \<and> p \<le> 100"
    and "gc_Type rc = U ''flexible_split'' \<Longrightarrow> \<exists>p. gc_MaxPct rc = Some p \<and> 0 < p \<and> p \<le> 100"
    and "gc_Type rc = U ''goal_based'' \<Longrightarrow> \<exists>t. gc_Target rc = Some t \<and> 0 < t"
    and "gc_Type rc = U ''recurring_commission'' \<Longrightarrow> \<exists>p. gc_Pct rc = Some p \<and> 0 < p"
  using assms by (auto simp: validate_reward_def Let_def type_strings above0_def pct_range_def ustr split: if_splits option.splits)

lemma no_nil:
  assumes "validate_reward rc = None" "map_of evaluators (gc_Type rc) = Some e"
  shows "e rc ev \<noteq> Inl NilDeref"
proof -
  note v = validated_numbers [OF assms(1)]
  have "gc_Type rc \<in> set valid_types" using validated_type [OF assms(1)] .
  then consider (fixed) "gc_Type rc = U ''commission_fixed''" | (pct) "gc_Type rc = U ''commission_pct''"
    | (flex) "gc_Type rc = U ''flexible_split''" | (goal) "gc_Type rc = U ''goal_based''"
    | (points) "gc_Type rc = U ''points''" | (cash) "gc_Type rc = U ''cashback''"
    | (rec) "gc_Type rc = U ''recurring_commission''" | (disc) "gc_Type rc = U ''discount_for_lead''"
    unfolding valid_types_def by (auto simp: ustr)
  then show ?thesis
  proof cases
    case fixed
    then show ?thesis using v(1) assms(2) by (auto simp: evaluator_types CommissionFixedEvaluator_def)
  next
    case pct
    then show ?thesis using v(2) assms(2) by (auto simp: evaluator_types CommissionPctEvaluator_def Let_def)
  next
    case flex
    then show ?thesis using v(4) assms(2)
      by (auto simp: evaluator_types FlexibleSplitEvaluator_def Let_def split: option.splits sum.splits prod.splits)
  next
    case goal
    then show ?thesis using v(5) assms(2) by (auto simp: evaluator_types GoalBasedEvaluator_def)
  next
    case points
    then show ?thesis using assms(2) by (auto simp: evaluator_types PointsEvaluator_def Let_def)
  next
    case cash
    then show ?thesis using v(3) assms(2) by (auto simp: evaluator_types CashbackEvaluator_def Let_def)
  next
    case rec
    then show ?thesis using v(6) assms(2) by (auto simp: evaluator_types RecurringCommissionEvaluator_def Let_def)
  next
    case disc
    then show ?thesis using assms(2) by (auto simp: evaluator_types DiscountForLeadEvaluator_def Let_def)
  qed
qed

subsection \<open>What a stored rule pays\<close>

text \<open>
  The exact amount in cents, without rounding: a fixed reward, a share of the sale (of the ceiling,
  when a flexible split has no choice), or nothing in money.
\<close>

definition exact_cents :: "reward_config \<Rightarrow> int \<Rightarrow> rat" where
  "exact_cents rc sale =
     (if gc_Type rc = U ''commission_fixed'' then 100 * orelse (gc_AmountBRL rc) 0
      else if gc_Type rc \<in> {U ''commission_pct'', U ''cashback'', U ''recurring_commission''}
        then of_int sale * orelse (gc_Pct rc) 0 / 100
      else if gc_Type rc = U ''flexible_split'' then of_int sale * orelse (gc_MaxPct rc) 0 / 100
      else 0)"

text \<open>
  Numbers of the format, fixed rewards below 350 billion reais, and no recurring share above the sale,
  which the validation lets through.
\<close>

definition in_range :: "reward_config \<Rightarrow> bool" where
  "in_range rc \<longleftrightarrow> (\<forall>q. gc_AmountBRL rc = Some q \<longrightarrow> 100 * q \<le> 2 ^ 45) \<and>
     (\<forall>q. gc_MaxPct rc = Some q \<longrightarrow> fl q = q) \<and>
     (gc_Type rc = U ''recurring_commission'' \<longrightarrow> (\<forall>p. gc_Pct rc = Some p \<longrightarrow> p \<le> 100))"

lemma brl_cents_near:
  assumes "0 < q" "100 * q \<le> 2 ^ 45"
  obtains n where "brl_cents q = Some n" "0 \<le> n" "\<bar>of_int n - 100 * q\<bar> < 101 / 100"
proof -
  have h: "100 * q \<le> 35184372088832" using assms(2) by simp
  have "\<bar>fl (q * 100) - q * 100\<bar> \<le> \<bar>q * 100\<bar> * ulp + tiny" by (rule fl_error_sum)
  also have "\<dots> \<le> 35184372088832 * ulp + tiny" using assms(1) h by (intro add_mono mult_right_mono) auto
  also have "\<dots> < 1 / 100" by simp
  finally have e: "\<bar>fl (q * 100) - q * 100\<bar> < 1 / 100" .
  have m: "js_mul (Fin q) (Fin 100) = Fin (fl (q * 100))" using assms(1) h by (simp add: mk_bounded)
  define n where "n = toward_zero (fl (q * 100))"
  have n: "\<bar>of_int n - fl (q * 100)\<bar> < 1" "0 \<le> n"
    using e assms(1) unfolding n_def toward_zero_def by (auto; linarith)+
  have "(of_int n :: rat) < 70368744177664" using n(1) e h by linarith
  then have "n < 70368744177664" by simp
  then have "brl_cents q = Some n"
    using n(2) by (simp add: brl_cents_def go_int64_def m in_int64_def flip: n_def del: js_mul.simps)
  moreover have "\<bar>of_int n - 100 * q\<bar> < 101 / 100" using n(1) e by linarith
  ultimately show ?thesis using n(2) by (intro that)
qed

lemma parsed_reward: "ParseRuleSchema v = Inr r \<Longrightarrow> validate_reward (gr_Reward r) = None"
  by (auto simp: ParseRuleSchema_def validate_schema_def Let_def split: option.splits sum.splits if_splits)

definition pays :: "eval_err + reward_outcome \<Rightarrow> (int \<Rightarrow> bool) \<Rightarrow> bool" where
  "pays x P = (case x of Inl _ \<Rightarrow> False | Inr out \<Rightarrow> ro_Status out = U ''pending'' \<and> ro_Currency out = U ''BRL'' \<and>
     (case ro_AmountCents out of None \<Rightarrow> False | Some n \<Rightarrow> P n))"

lemma pays_by_type:
  "map_of evaluators (gc_Type rc) = Some e \<Longrightarrow> e rc ev = Inr (ty, Some n, m) \<Longrightarrow> P n \<Longrightarrow> pays (Evaluate shw [] rc ev) P"
  by (simp add: Evaluate_def pays_def)

lemma pays_share:
  assumes "0 < sale" "sale \<le> 2 ^ 45" "0 < p" "p \<le> 100" "map_of evaluators (gc_Type rc) = Some e"
    and "\<And>n. pct_cents sale p = Some n \<Longrightarrow> \<exists>ty m. e rc ev = Inr (ty, Some n, m)"
  shows "pays (Evaluate shw [] rc ev) (\<lambda>n. 0 \<le> n \<and> \<bar>of_int n - of_int sale * p / 100\<bar> < 101 / 100)"
proof -
  have "0 \<le> p" using assms(3) by simp
  then obtain n where n: "pct_cents sale p = Some n" "\<bar>of_int n - of_int sale * p / 100\<bar> < 51 / 100" "0 \<le> n"
    using pct_cents_exact [OF assms(1,2) _ assms(4)] by metis
  obtain ty m where "e rc ev = Inr (ty, Some n, m)" using assms(6) [OF n(1)] by blast
  then show ?thesis by (rule pays_by_type [OF assms(5)]) (use n in linarith)
qed

lemma split_default:
  assumes "0 < sale" "fl mx = mx" "0 < mx" "mx \<le> 100"
  shows "go_flexible_split (Fin mx) sale (Some \<lparr> sc_commission_pct = Fin mx, sc_discount_pct = Fin 0 \<rparr>) =
     Inr (go_share sale (Fin mx), go_share sale (Fin 0))"
proof -
  have "mk mx = Fin mx" using assms mk_bounded [of mx] by simp
  then show ?thesis using assms(1) by (simp add: go_flexible_split_def)
qed

lemma exact_of_type:
  "gc_Type rc = U ''commission_fixed'' \<Longrightarrow> gc_AmountBRL rc = Some q \<Longrightarrow> exact_cents rc sale = 100 * q"
  "gc_Type rc = U ''commission_pct'' \<Longrightarrow> gc_Pct rc = Some q \<Longrightarrow> exact_cents rc sale = of_int sale * q / 100"
  "gc_Type rc = U ''cashback'' \<Longrightarrow> gc_Pct rc = Some q \<Longrightarrow> exact_cents rc sale = of_int sale * q / 100"
  "gc_Type rc = U ''recurring_commission'' \<Longrightarrow> gc_Pct rc = Some q \<Longrightarrow> exact_cents rc sale = of_int sale * q / 100"
  "gc_Type rc = U ''flexible_split'' \<Longrightarrow> gc_MaxPct rc = Some q \<Longrightarrow> exact_cents rc sale = of_int sale * q / 100"
  "gc_Type rc = U ''goal_based'' \<Longrightarrow> exact_cents rc sale = 0"
  "gc_Type rc = U ''points'' \<Longrightarrow> exact_cents rc sale = 0"
  "gc_Type rc = U ''discount_for_lead'' \<Longrightarrow> exact_cents rc sale = 0"
  by (simp_all add: exact_cents_def ustr)

text \<open>An amount as close to the exact one as the engine comes.\<close>

definition near :: "rat \<Rightarrow> int \<Rightarrow> bool" where
  "near x n \<longleftrightarrow> 0 \<le> n \<and> \<bar>of_int n - x\<bar> < 101 / 100"

lemma pays_pct:
  assumes "0 < ge_SaleAmount ev" "ge_SaleAmount ev \<le> 2 ^ 45" "gc_Pct rc = Some q" "0 < q" "q \<le> 100"
    and "gc_Type rc = U ''commission_pct'' \<or> gc_Type rc = U ''cashback'' \<or> gc_Type rc = U ''recurring_commission''"
  shows "pays (Evaluate shw [] rc ev) (near (of_int (ge_SaleAmount ev) * q / 100))"
proof -
  obtain e where "map_of evaluators (gc_Type rc) = Some e"
    "e = CommissionPctEvaluator \<or> e = CashbackEvaluator \<or> e = RecurringCommissionEvaluator"
    using assms(6) by (auto simp: evaluator_types)
  then show ?thesis unfolding near_def
    by (intro pays_share [OF assms(1,2,4,5)])
      (use assms(1,3) in \<open>auto simp: Let_def CommissionPctEvaluator_def CashbackEvaluator_def RecurringCommissionEvaluator_def\<close>)
qed

lemma pays_flexible:
  assumes "0 < ge_SaleAmount ev" "ge_SaleAmount ev \<le> 2 ^ 45" "gc_MaxPct rc = Some q" "0 < q" "q \<le> 100" "fl q = q"
    and "gc_Type rc = U ''flexible_split''" "ge_SplitChoice ev = None"
  shows "pays (Evaluate shw [] rc ev) (near (of_int (ge_SaleAmount ev) * q / 100))"
  unfolding near_def
  by (rule pays_share [OF assms(1,2,4,5), where e = FlexibleSplitEvaluator])
    (use assms in \<open>simp_all add: evaluator_types FlexibleSplitEvaluator_def split_default pct_cents_def\<close>)

lemma pays_fixed:
  assumes "gc_Type rc = U ''commission_fixed''" "gc_AmountBRL rc = Some q" "0 < q" "100 * q \<le> 2 ^ 45"
  shows "pays (Evaluate shw [] rc ev) (near (100 * q))"
proof -
  obtain n where n: "brl_cents q = Some n" "0 \<le> n" "\<bar>of_int n - 100 * q\<bar> < 101 / 100"
    using brl_cents_near [OF assms(3,4)] by metis
  show ?thesis
    by (rule pays_by_type [where e = CommissionFixedEvaluator and n = n])
      (use assms n in \<open>auto simp: evaluator_types CommissionFixedEvaluator_def near_def\<close>)
qed

lemma pays_nothing:
  assumes "validate_reward rc = None"
    and "gc_Type rc = U ''goal_based'' \<or> gc_Type rc = U ''points'' \<or> gc_Type rc = U ''discount_for_lead''"
  shows "pays (Evaluate shw [] rc ev) (near 0)"
  using assms(2) validated_numbers(5) [OF assms(1)]
  by (auto simp: Evaluate_def pays_def near_def evaluator_types GoalBasedEvaluator_def PointsEvaluator_def
      DiscountForLeadEvaluator_def Let_def)

lemma validated_cases:
  assumes "validate_reward rc = None"
  obtains q where "gc_Type rc = U ''commission_fixed''" "gc_AmountBRL rc = Some q" "0 < q"
  | q where "gc_Type rc = U ''commission_pct'' \<or> gc_Type rc = U ''cashback''" "gc_Pct rc = Some q" "0 < q" "q \<le> 100"
  | q where "gc_Type rc = U ''recurring_commission''" "gc_Pct rc = Some q" "0 < q"
  | q where "gc_Type rc = U ''flexible_split''" "gc_MaxPct rc = Some q" "0 < q" "q \<le> 100"
  | "gc_Type rc = U ''goal_based'' \<or> gc_Type rc = U ''points'' \<or> gc_Type rc = U ''discount_for_lead''"
proof -
  have "gc_Type rc = U ''commission_fixed'' \<or> gc_Type rc = U ''commission_pct'' \<or> gc_Type rc = U ''flexible_split'' \<or>
    gc_Type rc = U ''goal_based'' \<or> gc_Type rc = U ''points'' \<or> gc_Type rc = U ''cashback'' \<or>
    gc_Type rc = U ''recurring_commission'' \<or> gc_Type rc = U ''discount_for_lead''"
    using validated_type [OF assms] unfolding valid_types_def by auto
  then show ?thesis using validated_numbers [OF assms] by (elim disjE) (blast intro: that)+
qed

lemma stored_rule:
  assumes "ParseRuleSchema v = Inr r" "in_range (gr_Reward r)" "ge_SplitChoice ev = None"
    and "0 < ge_SaleAmount ev" "ge_SaleAmount ev \<le> 2 ^ 45"
  shows "pays (Evaluate shw [] (gr_Reward r) ev) (near (exact_cents (gr_Reward r) (ge_SaleAmount ev)))"
proof (cases rule: validated_cases [OF parsed_reward [OF assms(1)]])
  case (1 q)
  then show ?thesis using assms(2) by (simp add: exact_of_type pays_fixed in_range_def)
next
  case (2 q)
  then show ?thesis using pays_pct [OF assms(4,5) 2(2-4)] by (auto simp: exact_of_type)
next
  case (3 q)
  then have "q \<le> 100" using assms(2) by (simp add: in_range_def)
  then show ?thesis using 3 pays_pct [OF assms(4,5) 3(2,3)] by (auto simp: exact_of_type)
next
  case (4 q)
  then show ?thesis using pays_flexible [OF assms(4,5) 4(2-4)] assms(2,3) by (simp add: exact_of_type in_range_def)
next
  case 5
  then show ?thesis using pays_nothing [OF parsed_reward [OF assms(1)]] by (auto simp: exact_of_type)
qed

subsection \<open>A fixed reward of the wizard\<close>

lemma fixed_reward_of:
  assumes "np_preset s = Commission" "first_tier (np_tiers s) = Some t" "tr_type t = CommissionFixed"
    and "tr_value t = RNum (Fin q)" "reward_of (buildReward s) = Some rc"
  shows "gc_Type rc = U ''commission_fixed''" "gc_AmountBRL rc = Some q"
  using assms by (auto simp: buildReward_def value_if_number_def reward_of_def decode_defs)

lemma whole_brl_cents:
  assumes "100 dvd c" "0 < c" "c \<le> 2 ^ 45"
  shows "brl_cents (fl (of_int c / 100)) = Some c"
proof -
  obtain r where "c = 100 * r" using assms(1) by blast
  then show ?thesis using assms brl_cents_whole [of r] by simp
qed

lemma wizard_fixed:
  assumes "np_janela s \<in> set janela_options" "ParseRuleSchema (json (buildBackendRules s)) = Inr r"
    and "np_preset s = Commission" "first_tier (np_tiers s) = Some t" "tr_type t = CommissionFixed"
    and "tr_value t = RNum (mk (of_int c / 100))" "0 < c" "c \<le> 2 ^ 45"
  shows "pays (Evaluate shw [] (gr_Reward r) ev) (\<lambda>n. n = c \<or> n = c - 1 \<and> \<not> 100 dvd c)"
    and "c = 1999 \<Longrightarrow> pays (Evaluate shw [] (gr_Reward r) ev) (\<lambda>n. n = 1998)"
proof -
  let ?q = "fl (of_int c / 100)"
  have "(of_int c :: rat) \<le> of_int (2 ^ 45)" using assms(8) by (simp only: of_int_le_iff)
  then have "mk (of_int c / 100) = Fin ?q" using assms(7) by (intro mk_bounded) simp
  then have rc: "gc_Type (gr_Reward r) = U ''commission_fixed''" "gc_AmountBRL (gr_Reward r) = Some ?q"
    using fixed_reward_of [OF assms(3-5) _ parsed_rules [OF assms(1,2)]] assms(6) by simp_all
  have pay: "pays (Evaluate shw [] (gr_Reward r) ev) P" if "brl_cents ?q = Some n" "P n" for P n
    by (rule pays_by_type [where e = CommissionFixedEvaluator and n = n])
      (use rc that in \<open>auto simp: evaluator_types CommissionFixedEvaluator_def\<close>)
  show "pays (Evaluate shw [] (gr_Reward r) ev) (\<lambda>n. n = c \<or> n = c - 1 \<and> \<not> 100 dvd c)"
    using brl_cents_close [OF assms(7,8)] whole_brl_cents [OF _ assms(7,8)] pay by (cases "100 dvd c") auto
  show "c = 1999 \<Longrightarrow> pays (Evaluate shw [] (gr_Reward r) ev) (\<lambda>n. n = 1998)"
    using pay [of 1998] brl_cents_1999 by simp
qed

end
