(* ===== verification/RateLimiter.thy ===== *)
theory RateLimiter imports Gate RulesEngine begin

text \<open>
  The counter behind \<open>RateLimit\<close>: the Lua script of \<open>internal/platform/cache/redis.go\<close>, run by Redis in one
  step, and the address it counts by (\<open>clientIP\<close>, \<open>internal/api/middleware/ratelimit.go\<close>). Times are
  milliseconds; the clocks of the servers and of Redis are taken to agree. Numbers of Lua are binary64.
\<close>

subsection \<open>The script\<close>

record bucket =
  bk_tokens :: int
  bk_last :: int

text \<open>\<open>math.floor(elapsed * limit / window)\<close>.\<close>

definition refill :: "int \<Rightarrow> int \<Rightarrow> int \<Rightarrow> int" where
  "refill limit window elapsed =
     (case js_div (js_mul (num_int elapsed) (num_int limit)) (num_int window) of Fin q \<Rightarrow> \<lfloor>q\<rfloor> | _ \<Rightarrow> 0)"

text \<open>\<open>EXPIRE\<close>: the key is gone \<open>ceil(window / 1000)\<close> seconds after it was last written.\<close>

definition ttl :: "int \<Rightarrow> int" where
  "ttl window = (window + 999) div 1000 * 1000"

definition unexpired :: "int \<Rightarrow> int \<Rightarrow> bucket option \<Rightarrow> bucket option" where
  "unexpired window now b = (case b of None \<Rightarrow> None | Some k \<Rightarrow> if now < bk_last k + ttl window then Some k else None)"

definition take_token :: "int \<Rightarrow> int \<Rightarrow> int \<Rightarrow> bucket option \<Rightarrow> bool \<times> bucket" where
  "take_token limit window now b =
     (let (tokens, since) = (case unexpired window now b of None \<Rightarrow> (limit, now) | Some k \<Rightarrow> (bk_tokens k, bk_last k));
          t = min limit (tokens + refill limit window (now - since))
      in if 0 < t then (True, \<lparr> bk_tokens = t - 1, bk_last = now \<rparr>) else (False, \<lparr> bk_tokens = t, bk_last = now \<rparr>))"

fun bucket_run :: "int \<Rightarrow> (int \<times> int) list \<Rightarrow> bucket option \<Rightarrow> bool list" where
  "bucket_run window [] b = []"
| "bucket_run window ((limit, now) # qs) b = (case take_token limit window now b of (ok, k) \<Rightarrow> ok # bucket_run window qs (Some k))"

subsection \<open>The middleware\<close>

record sender =
  sn_forwarded :: jstr
  sn_remote :: jstr

text \<open>The first entry of the header, or the address of the connection without its port.\<close>

definition clientIP :: "sender \<Rightarrow> jstr" where
  "clientIP s =
     (let xff = sn_forwarded s; host = rev (tl (dropWhile (\<lambda>c. c \<noteq> 58) (rev (sn_remote s)))) in
      if xff \<noteq> [] then
        (if 44 \<in> set xff \<and> hd xff \<noteq> 44 then go_TrimSpace (takeWhile (\<lambda>c. c \<noteq> 44) xff) else go_TrimSpace xff)
      else if 58 \<in> set (sn_remote s) \<and> host \<noteq> [] then host else sn_remote s)"

definition RateLimitByIP :: "sender \<Rightarrow> jstr" where
  "RateLimitByIP s = U ''ratelimit:ip:'' @ clientIP s"

text \<open>One request for a handler: what its limiter answers, and the counters after it.\<close>

type_synonym counters = "jstr \<Rightarrow> bucket option"

definition limited :: "int \<Rightarrow> string \<Rightarrow> sender \<Rightarrow> counters \<Rightarrow> (nat + unit) \<times> counters" where
  "limited now h s c = (case group_of h of
      Limited n failOpen \<Rightarrow> (case take_token (int n) 60000 now (c (RateLimitByIP s)) of
        (ok, k) \<Rightarrow> (RateLimit failOpen (Some ok), c(RateLimitByIP s \<mapsto> k)))
    | _ \<Rightarrow> (Inr (), c))"

fun limited_run :: "(int \<times> string \<times> sender) list \<Rightarrow> counters \<Rightarrow> (nat + unit) list" where
  "limited_run [] c = []"
| "limited_run ((now, h, s) # qs) c = (case limited now h s c of (r, c') \<Rightarrow> r # limited_run qs c')"

subsection \<open>The refill\<close>

text \<open>In the range of the limits in use the division in binary64 and its floor are those of integers.\<close>

definition sane :: "int \<Rightarrow> int \<Rightarrow> bool" where
  "sane limit window \<longleftrightarrow> 1 \<le> limit \<and> limit \<le> 1000 \<and> 1 \<le> window \<and> window \<le> 100000"

lemma floor_quotient:
  assumes "0 \<le> a" "a \<le> 2 ^ 28" "1 \<le> b" "b \<le> 100000"
  shows "\<lfloor>fl (of_int a / of_int b)\<rfloor> = a div b"
proof -
  let ?q = "of_int a / of_int b :: rat" and ?n = "a div b"
  have b: "1 \<le> (of_int b :: rat)" "(of_int b :: rat) \<le> 100000" using assms(3,4) by simp_all
  have a: "0 \<le> (of_int a :: rat)" "(of_int a :: rat) \<le> of_int (2 ^ 28)" using assms(1,2) by (simp_all only: of_int_0_le_iff of_int_le_iff)
  have "?q \<le> of_int a" using a(1) b(1) by (simp add: divide_le_eq mult_le_cancel_left1)
  then have q: "0 \<le> ?q" "?q \<le> 2 ^ 28" using a b by simp_all
  have "\<bar>fl ?q - ?q\<bar> \<le> \<bar>?q\<bar> * ulp + tiny" by (rule fl_error_sum)
  also have "\<dots> \<le> 2 ^ 28 * ulp + tiny" using q by (intro add_mono mult_right_mono) auto
  also have "\<dots> < 1 / 100000" by simp
  finally have e: "\<bar>fl ?q - ?q\<bar> < 1 / 100000" .
  have i: "1 / 100000 \<le> 1 / (of_int b :: rat)" using b by (intro divide_left_mono) auto
  have qn: "?q = of_int ?n + of_int (a mod b) / of_int b"
    using b by (simp add: field_simps flip: of_int_mult of_int_add)
  have m: "0 \<le> a mod b" "a mod b \<le> b - 1" using assms(3) by (simp_all add: zle_diff1_eq)
  have "of_int (a mod b) / of_int b \<le> of_int (b - 1) / (of_int b :: rat)"
    using b m(2) by (intro divide_right_mono) (simp_all only: of_int_le_iff)
  also have "\<dots> = 1 - 1 / of_int b" using b by (simp add: field_simps)
  finally have up: "?q \<le> of_int ?n + 1 - 1 / of_int b" using qn by linarith
  have "of_int ?n \<le> fl ?q"
  proof (cases "a mod b = 0")
    case True
    have "?n \<le> a" "0 \<le> ?n" using assms(1,3) zdiv_mono2 [of a 1 b] by (simp_all add: pos_imp_zdiv_nonneg_iff)
    then have "fl (of_int ?n) = of_int ?n" using assms(2) by (intro fl_of_int) simp
    then show ?thesis using qn True by simp
  next
    case False
    then have "1 \<le> a mod b" using m(1) by linarith
    then have "1 / of_int b \<le> of_int (a mod b) / (of_int b :: rat)" using b by (intro divide_right_mono) simp_all
    then show ?thesis using e i qn by linarith
  qed
  moreover have "fl ?q < of_int ?n + 1" using e i up by linarith
  ultimately show ?thesis by linarith
qed

lemma refill_exact:
  assumes "sane l w" "0 \<le> e" "e \<le> 200000"
  shows "refill l w e = e * l div w"
proof -
  have l: "1 \<le> l" "l \<le> 1000" "1 \<le> w" "w \<le> 100000" using assms(1) by (simp_all add: sane_def)
  have p: "0 \<le> e * l" "e * l \<le> 200000 * 1000" using l assms(2,3) by (simp, intro mult_mono) auto
  have "mk (of_int (e * l)) = Fin (of_int (e * l))" by (rule mk_of_int) (use p in simp)
  then have m: "js_mul (num_int e) (num_int l) = Fin (of_int (e * l))" using assms(2,3) l by (simp add: num_int_small)
  have "\<bar>of_int (e * l) / (of_int w :: rat)\<bar> \<le> of_int (e * l)"
    using p(1) l by (simp add: divide_le_eq mult_le_cancel_left1 del: of_int_mult)
  also have "\<dots> \<le> of_int (200000 * 1000)" using p(2) by (simp only: of_int_le_iff)
  finally have "mk (of_int (e * l) / of_int w) = Fin (fl (of_int (e * l) / of_int w))" by (intro mk_bounded) simp
  moreover have "\<lfloor>fl (of_int (e * l) / of_int w)\<rfloor> = e * l div w" by (rule floor_quotient) (use p l in simp_all)
  moreover have "num_int w = Fin (of_int w)" "(of_int w :: rat) \<noteq> 0" using l by (simp_all add: num_int_small)
  ultimately show ?thesis unfolding refill_def m by (simp del: of_int_mult)
qed

lemma refill_0: "sane l w \<Longrightarrow> refill l w 0 = 0"
  by (simp add: refill_exact)

lemma ttl_bounds: "sane l w \<Longrightarrow> w \<le> ttl w \<and> ttl w < 200000"
proof -
  assume "sane l w"
  moreover have "ttl w = (w + 999) - (w + 999) mod 1000" by (simp add: ttl_def minus_mod_eq_div_mult)
  moreover have "0 \<le> (w + 999) mod 1000" "(w + 999) mod 1000 < 1000" by simp_all
  ultimately show ?thesis unfolding sane_def by linarith
qed

subsection \<open>One request\<close>

text \<open>\<open>x\<close> tokens are there when the request comes: not more than before and what the time since is worth.\<close>

lemma taken:
  assumes "sane l w" "0 \<le> \<tau>" "\<tau> \<le> l" "t0 \<le> t"
  obtains x where "take_token l w t (Some \<lparr> bk_tokens = \<tau>, bk_last = t0 \<rparr>) = (0 < x, \<lparr> bk_tokens = x - of_bool (0 < x), bk_last = t \<rparr>)"
    "0 \<le> x" "x \<le> l" "x \<le> \<tau> + (t - t0) * l div w" "(t - t0) * l < w \<Longrightarrow> x = \<tau>"
proof (cases "t < t0 + ttl w")
  case True
  have "t - t0 \<le> 200000" "0 \<le> t - t0" using True ttl_bounds [OF assms(1)] assms(4) by linarith+
  note r = refill_exact [OF assms(1) this(2,1)]
  have "0 \<le> (t - t0) * l div w" using assms(1,4) by (simp add: sane_def pos_imp_zdiv_nonneg_iff)
  moreover have "(t - t0) * l div w = 0" if "(t - t0) * l < w"
    using that assms(1,4) by (intro div_pos_pos_trivial) (simp_all add: sane_def)
  ultimately show ?thesis
    using assms(1-3) True by (intro that [of "min l (\<tau> + (t - t0) * l div w)"])
      (auto simp: take_token_def unexpired_def Let_def r sane_def)
next
  case False
  have "w \<le> t - t0" using False ttl_bounds [OF assms(1)] by linarith
  then have "w * l \<le> (t - t0) * l" using assms(1) by (intro mult_right_mono) (simp_all add: sane_def)
  then have "l \<le> (t - t0) * l div w" using zdiv_mono1 [of "w * l" "(t - t0) * l" w] assms(1) by (simp add: sane_def)
  moreover have "w * 1 \<le> (t - t0) * l" using \<open>w \<le> t - t0\<close> assms(1,4) by (intro mult_mono) (simp_all add: sane_def)
  ultimately show ?thesis using assms(1,2) False
    by (intro that [of l]) (auto simp: take_token_def unexpired_def Let_def refill_0 sane_def)
qed

lemma take_first: "sane l w \<Longrightarrow> take_token l w t None = (True, \<lparr> bk_tokens = l - 1, bk_last = t \<rparr>)"
  by (simp add: take_token_def unexpired_def refill_0 sane_def)

subsection \<open>Many requests\<close>

definition granted :: "bool list \<Rightarrow> int" where
  "granted oks = int (length (filter id oks))"

lemma granted_simps [simp]: "granted [] = 0" "granted (ok # oks) = of_bool ok + granted oks"
  by (simp_all add: granted_def)

lemma div_sum: "0 < w \<Longrightarrow> a div w + b div w \<le> (a + b) div w" for a b w :: int
proof -
  assume w: "0 < w"
  have "a div w * w \<le> a" "b div w * w \<le> b"
    using pos_mod_sign [OF w, of a] pos_mod_sign [OF w, of b] div_mult_mod_eq [of a w] div_mult_mod_eq [of b w] by linarith+
  then have "(a div w + b div w) * w \<le> a + b" by (simp add: distrib_right)
  then show ?thesis using zdiv_mono1 [of "(a div w + b div w) * w" "a + b" w] w by simp
qed

lemma bucket_bound:
  assumes "sane l w" "sorted (t0 # ts)" "0 \<le> \<tau>" "\<tau> \<le> l"
  shows "granted (bucket_run w (map (Pair l) ts) (Some \<lparr> bk_tokens = \<tau>, bk_last = t0 \<rparr>)) \<le> \<tau> + (last (t0 # ts) - t0) * l div w"
  using assms(2-4)
proof (induction ts arbitrary: t0 \<tau>)
  case (Cons t ts)
  have "t0 \<le> t" using Cons.prems(1) by simp
  from taken [OF assms(1) Cons.prems(2,3) this] obtain x where
    x: "take_token l w t (Some \<lparr> bk_tokens = \<tau>, bk_last = t0 \<rparr>) = (0 < x, \<lparr> bk_tokens = x - of_bool (0 < x), bk_last = t \<rparr>)"
      "0 \<le> x" "x \<le> l" "x \<le> \<tau> + (t - t0) * l div w" by blast
  have "granted (bucket_run w (map (Pair l) ts) (Some \<lparr> bk_tokens = x - of_bool (0 < x), bk_last = t \<rparr>)) \<le>
      x - of_bool (0 < x) + (last (t # ts) - t) * l div w"
    using Cons.prems(1) x(2,3) by (intro Cons.IH) auto
  moreover have "(t - t0) * l div w + (last (t # ts) - t) * l div w \<le> (last (t # ts) - t0) * l div w"
    using div_sum [of w "(t - t0) * l" "(last (t # ts) - t) * l"] assms(1) by (simp add: sane_def algebra_simps)
  ultimately show ?case using x(1,4) by simp
qed (use assms(1) in \<open>simp add: sane_def\<close>)

text \<open>Who asks again before a token's worth of time has passed gets none: the moment of the last request moves on.\<close>

fun impatient :: "int \<Rightarrow> int \<Rightarrow> int list \<Rightarrow> bool" where
  "impatient l w (t # t' # ts) \<longleftrightarrow> t \<le> t' \<and> (t' - t) * l < w \<and> impatient l w (t' # ts)"
| "impatient l w _ \<longleftrightarrow> True"

lemma bucket_starves:
  assumes "sane l w" "impatient l w (t0 # ts)" "0 \<le> \<tau>" "\<tau> \<le> l"
  shows "bucket_run w (map (Pair l) ts) (Some \<lparr> bk_tokens = \<tau>, bk_last = t0 \<rparr>) =
    map (\<lambda>i. int i < \<tau>) [0..<length ts]"
  using assms(2-4)
proof (induction ts arbitrary: t0 \<tau>)
  case (Cons t ts)
  have "t0 \<le> t" "(t - t0) * l < w" "impatient l w (t # ts)" using Cons.prems(1) by simp_all
  from taken [OF assms(1) Cons.prems(2,3) this(1)] this(2) have
    x: "take_token l w t (Some \<lparr> bk_tokens = \<tau>, bk_last = t0 \<rparr>) = (0 < \<tau>, \<lparr> bk_tokens = \<tau> - of_bool (0 < \<tau>), bk_last = t \<rparr>)"
    by metis
  have IH: "bucket_run w (map (Pair l) ts) (Some \<lparr> bk_tokens = \<tau> - of_bool (0 < \<tau>), bk_last = t \<rparr>) =
      map (\<lambda>i. int i < \<tau> - of_bool (0 < \<tau>)) [0..<length ts]"
    using Cons.prems \<open>impatient l w (t # ts)\<close> by (intro Cons.IH) auto
  have "map (\<lambda>i. int i < \<tau>) [0..<Suc (length ts)] = (0 < \<tau>) # map (\<lambda>i. int (Suc i) < \<tau>) [0..<length ts]"
    by (simp only: upt_conv_Cons zero_less_Suc list.map map_Suc_upt [symmetric] map_map comp_def of_nat_0)
  moreover have "(int (Suc i) < \<tau>) = (int i < \<tau> - of_bool (0 < \<tau>))" for i using Cons.prems(2) by (cases "\<tau> = 0") auto
  ultimately show ?case using x IH by simp
qed simp

subsection \<open>Around the limit\<close>

text \<open>
  The three limits for one address count in one place: the key has the address only. A click is allowed
  sixty times a minute, so it brings back the tokens that a sign-in takes.
\<close>

fun alternating :: "sender \<Rightarrow> nat \<Rightarrow> int \<Rightarrow> (int \<times> string \<times> sender) list" where
  "alternating s 0 t = []"
| "alternating s (Suc n) t = (t, ''tracking.HandleClick'', s) # (t, ''auth.Login'', s) # alternating s n (t + 2000)"

lemma ip_groups: "group_of h = Limited n b \<Longrightarrow> sane (int n) 60000"
  by (auto simp: group_of_def sane_def split: if_splits)

lemma groups_of_two: "group_of ''tracking.HandleClick'' = Limited 60 True" "group_of ''auth.Login'' = Limited 5 False"
  by (simp_all add: group_of_def)

lemma refills: "refill 60 60000 2000 = 2" "refill 60 60000 0 = 0" "refill 5 60000 0 = 0"
  by (simp_all add: refill_exact sane_def)

lemma click_then_login:
  assumes "c (RateLimitByIP s) = None \<or> c (RateLimitByIP s) = Some \<lparr> bk_tokens = 4, bk_last = t - 2000 \<rparr>"
  shows "limited_run (alternating s (Suc n) t) c =
    Inr () # Inr () # limited_run (alternating s n (t + 2000)) (c(RateLimitByIP s \<mapsto> \<lparr> bk_tokens = 4, bk_last = t \<rparr>))"
  using assms by (auto simp: limited_def groups_of_two take_token_def unexpired_def ttl_def RateLimit_def refills Let_def)

lemma alternating_passes:
  assumes "c (RateLimitByIP s) = None \<or> c (RateLimitByIP s) = Some \<lparr> bk_tokens = 4, bk_last = t - 2000 \<rparr>"
  shows "limited_run (alternating s n t) c = replicate (2 * n) (Inr ())"
  using assms
proof (induction n arbitrary: t c)
  case (Suc n)
  then show ?case unfolding click_then_login [of c s t n, OF Suc.prems] by (simp add: Suc.IH)
qed simp

text \<open>The header is the caller's: with another entry in it every time, nothing is ever counted.\<close>

lemma forged_passes:
  assumes "distinct (map (\<lambda>(_, _, s). RateLimitByIP s) qs)" "\<And>t h s. (t, h, s) \<in> set qs \<Longrightarrow> c (RateLimitByIP s) = None"
  shows "limited_run qs c = replicate (length qs) (Inr ())"
  using assms
proof (induction qs c rule: limited_run.induct)
  case (2 t h s qs c)
  have c: "c (RateLimitByIP s) = None" using "2.prems"(2) [of t h s] by simp
  obtain c' where c': "limited t h s c = (Inr (), c')" "\<And>k. k \<noteq> RateLimitByIP s \<Longrightarrow> c' k = c k"
  proof (cases "group_of h")
    case (Limited n b)
    then show ?thesis using that c ip_groups [OF Limited] by (simp add: limited_def take_first RateLimit_def)
  qed (simp_all add: limited_def that)
  have "RateLimitByIP s' \<noteq> RateLimitByIP s" if "(t', h', s') \<in> set qs" for t' h' s'
    using "2.prems"(1) that by (auto simp: image_iff)
  then have "limited_run qs c' = replicate (length qs) (Inr ())"
    using "2.prems"(1) by (intro "2.IH" [OF c'(1) [symmetric]]) (simp, metis "2.prems"(2) c'(2) list.set_intros(2))
  then show ?case by (simp add: c'(1))
qed simp

end
