(* ===== verification/PartnerLeadServer.thy ===== *)
theory PartnerLeadServer imports RulesEngine AuthServer begin

text \<open>
  A partner registers a lead: the handlers \<open>CreateLead\<close>, \<open>Referrals\<close> and the count of \<open>Me\<close>
  (\<open>internal/api/handlers/partners/handler.go\<close>) on the rows of one company, and the fraud engine they
  ask (\<open>internal/domain/fraud\<close>). \<open>h\<close> stands for SHA-256; times are seconds; random identifiers are
  arguments. Statements that only fail when the database does are left out.
\<close>

subsection \<open>Rows\<close>

record lead_partner =
  lp_id :: jstr
  lp_program :: jstr
  lp_email_hash :: "jstr option"
  lp_phone_hash :: "jstr option"

record lead_entry =
  le_id :: jstr
  le_program :: jstr
  le_referral :: "jstr option"
  le_name :: "jstr option"
  le_email :: "jstr option"
  le_email_hash :: "jstr option"
  le_phone :: jstr
  le_phone_hash :: jstr
  le_notes :: "jstr option"
  le_created :: int

record referral_row =
  rf_id :: jstr
  rf_program :: jstr
  rf_partner :: jstr
  rf_snapshot :: jsval
  rf_split :: "jsval option"
  rf_score :: rat
  rf_created :: int

record click_row =
  ce_partner :: jstr
  ce_fingerprint :: jstr
  ce_occurred :: int

record lead_db =
  lb_leads :: "lead_entry list"
  lb_referrals :: "referral_row list"
  lb_clicks :: "click_row list"
  lb_sales :: "(jstr \<times> int) list"
  lb_rewards :: "(jstr \<times> int \<times> jstr) list"

definition hashLower :: "(jstr \<Rightarrow> jstr) \<Rightarrow> jstr \<Rightarrow> jstr" where
  "hashLower h v = h (js_toLowerCase v)"

subsection \<open>Fraud signals\<close>

record fraud_input =
  fi_partner :: lead_partner
  fi_PhoneHash :: jstr
  fi_EmailHash :: jstr
  fi_Now :: int

definition checkSelfReferral :: "fraud_input \<Rightarrow> nat" where
  "checkSelfReferral i = (if lp_phone_hash (fi_partner i) = Some (fi_PhoneHash i) then 50
     else if fi_EmailHash i \<noteq> [] \<and> lp_email_hash (fi_partner i) = Some (fi_EmailHash i) then 50 else 0)"

definition checkVelocity :: "lead_db \<Rightarrow> fraud_input \<Rightarrow> nat" where
  "checkVelocity d i =
     (if 10 < length (filter (\<lambda>r. rf_partner r = lp_id (fi_partner i) \<and> fi_Now i - 3600 \<le> rf_created r) (lb_referrals d))
      then 20 else 0)"

definition checkPhoneDedup :: "lead_db \<Rightarrow> fraud_input \<Rightarrow> nat" where
  "checkPhoneDedup d i =
     (if fi_PhoneHash i = [] then 0
      else if list_ex (\<lambda>r. rf_partner r \<noteq> lp_id (fi_partner i) \<and> fi_Now i - 24 * 3600 \<le> rf_created r \<and>
          list_ex (\<lambda>l. le_referral l = Some (rf_id r) \<and> le_phone_hash l = fi_PhoneHash i) (lb_leads d)) (lb_referrals d)
        then 30 else 0)"

definition recent_clicks :: "int \<Rightarrow> lead_db \<Rightarrow> fraud_input \<Rightarrow> click_row list" where
  "recent_clicks secs d i = filter (\<lambda>c. ce_partner c = lp_id (fi_partner i) \<and> fi_Now i - secs \<le> ce_occurred c) (lb_clicks d)"

definition checkClickVelocity :: "lead_db \<Rightarrow> fraud_input \<Rightarrow> nat" where
  "checkClickVelocity d i = (if 50 < length (recent_clicks 60 d i) then 25 else 0)"

definition checkIPUADup :: "lead_db \<Rightarrow> fraud_input \<Rightarrow> nat" where
  "checkIPUADup d i = (let cs = map ce_fingerprint (recent_clicks 3600 d i) in
     if list_ex (\<lambda>x. 30 < count_list cs x) cs then 15 else 0)"

text \<open>Between two and five in the morning, three hours west of UTC.\<close>

definition checkImprobableHours :: "fraud_input \<Rightarrow> nat" where
  "checkImprobableHours i = (let hour = (fi_Now i - 3 * 3600) div 3600 mod 24 in if 2 \<le> hour \<and> hour \<le> 4 then 10 else 0)"

datatype fraud_decision = ActionOK | ActionReview | ActionBlock

record fraud_result =
  fr_Score :: nat
  fr_Action :: fraud_decision
  fr_Signals :: "(string \<times> nat) list"

definition fraud_signals :: "lead_db \<Rightarrow> fraud_input \<Rightarrow> (string \<times> nat) list" where
  "fraud_signals d i = filter (\<lambda>(n, pts). 0 < pts)
     [(''self_referral'', checkSelfReferral i), (''velocity'', checkVelocity d i), (''phone_dedup'', checkPhoneDedup d i),
      (''click_velocity'', checkClickVelocity d i), (''ip_ua_dup'', checkIPUADup d i), (''improbable_hours'', checkImprobableHours i)]"

definition Check :: "lead_db \<Rightarrow> fraud_input \<Rightarrow> fraud_result" where
  "Check d i = (let signals = fraud_signals d i; score = sum_list (map snd signals) in
     \<lparr> fr_Score = score, fr_Action = (if 61 \<le> score then ActionBlock else if 31 \<le> score then ActionReview else ActionOK),
       fr_Signals = signals \<rparr>)"

fun AttributionScoreFor :: "fraud_decision \<Rightarrow> rat" where
  "AttributionScoreFor ActionReview = 3 / 10"
| "AttributionScoreFor ActionBlock = 0"
| "AttributionScoreFor ActionOK = 1"

subsection \<open>The handlers\<close>

text \<open>The partner of the session is found by its user; \<open>rules\<close> are those of its programme.\<close>

definition pointerIfNotEmpty :: "jstr \<Rightarrow> jstr option" where
  "pointerIfNotEmpty s = (if s = [] then None else Some s)"

definition new_lead :: "(jstr \<Rightarrow> jstr) \<Rightarrow> jstr \<Rightarrow> int \<Rightarrow> lead_partner \<Rightarrow> jstr \<Rightarrow> jstr \<Rightarrow> jstr \<Rightarrow> jstr \<Rightarrow> lead_entry" where
  "new_lead h i now p name phone email notes = \<lparr> le_id = i, le_program = lp_program p, le_referral = None,
     le_name = pointerIfNotEmpty name, le_email = pointerIfNotEmpty email,
     le_email_hash = (if email = [] then None else Some (hashLower h (js_toLowerCase email))),
     le_phone = phone, le_phone_hash = hashLower h phone, le_notes = pointerIfNotEmpty notes, le_created = now \<rparr>"

definition attach :: "jstr \<Rightarrow> jstr \<Rightarrow> lead_entry list \<Rightarrow> lead_entry list" where
  "attach lead ref ls = map (\<lambda>l. if le_id l = lead \<and> le_referral l = None then l\<lparr> le_referral := Some ref \<rparr> else l) ls"

definition lead_input :: "(jstr \<Rightarrow> jstr) \<Rightarrow> int \<Rightarrow> lead_partner \<Rightarrow> jstr \<Rightarrow> jstr \<Rightarrow> fraud_input" where
  "lead_input h now p phone email = \<lparr> fi_partner = p, fi_PhoneHash = hashLower h phone,
     fi_EmailHash = (if email = [] then [] else hashLower h (js_toLowerCase email)), fi_Now = now \<rparr>"

text \<open>The transaction: a lead with this telephone in the programme is used again; the referral is new.\<close>

definition store_lead ::
  "(jstr \<Rightarrow> jstr) \<Rightarrow> jstr \<times> jstr \<Rightarrow> int \<Rightarrow> lead_partner \<Rightarrow> jsval \<Rightarrow> rat \<Rightarrow> jstr \<Rightarrow> jstr \<Rightarrow> jstr \<Rightarrow> jstr \<Rightarrow> jsval option \<Rightarrow>
     lead_db \<Rightarrow> lead_db" where
  "store_lead h ids now p rules score name phone email notes split d =
     (let (lead, ls) = (case List.find (\<lambda>l. le_program l = lp_program p \<and> le_phone_hash l = hashLower h phone) (lb_leads d) of
          Some l \<Rightarrow> (le_id l, lb_leads d)
        | None \<Rightarrow> (fst ids, lb_leads d @ [new_lead h (fst ids) now p name phone email notes]))
      in d\<lparr> lb_leads := attach lead (snd ids) ls,
            lb_referrals := lb_referrals d @ [\<lparr> rf_id = snd ids, rf_program = lp_program p, rf_partner = lp_id p,
              rf_snapshot = rules, rf_split = split, rf_score = score, rf_created = now \<rparr>] \<rparr>)"

definition srv_partner_lead ::
  "(jstr \<Rightarrow> jstr) \<Rightarrow> jstr \<times> jstr \<Rightarrow> int \<Rightarrow> lead_partner option \<Rightarrow> jsval \<Rightarrow> jsval \<Rightarrow> lead_db \<Rightarrow> nat \<times> lead_db" where
  "srv_partner_lead h ids now partner rules body d =
     (case partner of None \<Rightarrow> (404, d)
      | Some p \<Rightarrow> (case (go_struct (Some body), go_string (jfield body ''name''), go_string (jfield body ''phone_e164''),
            go_string (jfield body ''email''), go_string (jfield body ''notes'')) of
          (Some _, Some name, Some raw, Some email, Some notes) \<Rightarrow>
            let phone = go_TrimSpace raw in
            if phone = [] then (400, d)
            else (case fr_Action (Check d (lead_input h now p phone email)) of
                ActionBlock \<Rightarrow> (403, d)
              | ActionReview \<Rightarrow> (201, store_lead h ids now p rules (AttributionScoreFor ActionReview) name phone email notes
                  (jfield body ''split_choice'') d)
              | ActionOK \<Rightarrow> (201, store_lead h ids now p rules 1 name phone email notes (jfield body ''split_choice'') d))
        | _ \<Rightarrow> (400, d)))"

text \<open>
  \<open>Referrals\<close>: leads joined with their referral and, where there are any, with sales and rewards; the
  newest first, at most a hundred rows.
\<close>

definition left_join :: "'a list \<Rightarrow> 'a option list" where
  "left_join xs = (if xs = [] then [None] else map Some xs)"

type_synonym referral_entry = "lead_entry \<times> int option \<times> (int \<times> jstr) option"

definition referral_rows :: "jstr \<Rightarrow> lead_db \<Rightarrow> lead_entry \<Rightarrow> referral_entry list" where
  "referral_rows partner d l =
     [(l, s, w). r \<leftarrow> lb_referrals d, le_referral l = Some (rf_id r) \<and> rf_partner r = partner,
       s \<leftarrow> left_join (map snd (filter (\<lambda>x. fst x = le_id l) (lb_sales d))),
       w \<leftarrow> left_join (map snd (filter (\<lambda>x. fst x = rf_id r) (lb_rewards d)))]"

definition all_referral_rows :: "jstr \<Rightarrow> lead_db \<Rightarrow> referral_entry list" where
  "all_referral_rows partner d = concat (map (referral_rows partner d) (sort_key (\<lambda>l. - le_created l) (lb_leads d)))"

definition srv_partner_referrals :: "jstr \<Rightarrow> lead_db \<Rightarrow> referral_entry list" where
  "srv_partner_referrals partner d = take 100 (all_referral_rows partner d)"

definition srv_me_referrals :: "jstr \<Rightarrow> lead_db \<Rightarrow> nat" where
  "srv_me_referrals partner d = length (filter (\<lambda>r. rf_partner r = partner) (lb_referrals d))"

subsection \<open>The signals\<close>

lemma signal_points:
  "checkSelfReferral i \<in> {0, 50}" "checkVelocity d i \<in> {0, 20}" "checkPhoneDedup d i \<in> {0, 30}"
  "checkClickVelocity d i \<in> {0, 25}" "checkIPUADup d i \<in> {0, 15}" "checkImprobableHours i \<in> {0, 10}"
  by (simp_all add: checkSelfReferral_def checkVelocity_def checkPhoneDedup_def checkClickVelocity_def checkIPUADup_def
      checkImprobableHours_def Let_def)

lemma score_sum:
  "fr_Score (Check d i) = checkSelfReferral i + checkVelocity d i + checkPhoneDedup d i + checkClickVelocity d i +
     checkIPUADup d i + checkImprobableHours i"
  by (simp add: Check_def fraud_signals_def Let_def)

lemma action_of_score:
  "fr_Action (Check d i) = (if 61 \<le> fr_Score (Check d i) then ActionBlock else if 31 \<le> fr_Score (Check d i) then ActionReview else ActionOK)"
  by (simp add: Check_def Let_def)

lemma score_bound: "fr_Score (Check d i) \<le> 150"
  using signal_points(1,6) [of i] signal_points(2-5) [of d i] unfolding score_sum by auto

text \<open>What the behaviour of the partner and of others adds; the hour alone never decides.\<close>

definition behaviour :: "lead_db \<Rightarrow> fraud_input \<Rightarrow> nat" where
  "behaviour d i = checkVelocity d i + checkPhoneDedup d i + checkClickVelocity d i + checkIPUADup d i"

lemma self_referral_action:
  assumes "checkSelfReferral i \<noteq> 0"
  shows "fr_Action (Check d i) = (if behaviour d i = 0 then ActionReview else ActionBlock)"
proof -
  have "behaviour d i = 0 \<or> 15 \<le> behaviour d i" using signal_points(2-5) [of d i] by (auto simp: behaviour_def)
  then show ?thesis using assms signal_points(1,6) [of i] by (auto simp: action_of_score score_sum behaviour_def)
qed

lemma quiet_action:
  assumes "checkSelfReferral i = 0" "behaviour d i = 0"
  shows "fr_Action (Check d i) = ActionOK"
  using assms signal_points(6) [of i] by (auto simp: action_of_score score_sum behaviour_def)

subsection \<open>What the page's request leads to\<close>

lemma lead_body: "rq_body (partner_req b (PCreateLead d)) = Some (json (create_lead_json d))"
  by (simp add: request_defs body_of_def create_lead_json_def)

lemma not_space: "\<not> goSpace 43" "isDigit c \<Longrightarrow> \<not> goSpace c"
  by (auto simp: goSpace_def isSpace_def isDigit_def)

lemma trim_empty [simp]: "go_TrimSpace [] = []"
  by (simp add: go_TrimSpace_def)

lemma trim_phone: "go_TrimSpace (normalizePhone raw) = normalizePhone raw"
proof -
  consider "normalizePhone raw = []" | x where "normalizePhone raw = 43 # x" "x \<noteq> []" "\<forall>c \<in> set x. isDigit c"
    using phone_shape by metis
  then show ?thesis
    by cases (simp, rename_tac x, case_tac x rule: rev_cases, simp_all add: go_TrimSpace_def not_space)
qed

lemma lead_decoded:
  "srv_partner_lead h ids now (Some p) rules (json (create_lead_json (ni_request s))) d =
     (let phone = normalizePhone (ni_phone s) in
      if phone = [] then (400, d)
      else (case fr_Action (Check d (lead_input h now p phone (ni_email s))) of
          ActionBlock \<Rightarrow> (403, d)
        | act \<Rightarrow> (201, store_lead h ids now p rules (AttributionScoreFor act) (ni_nome s) phone (ni_email s) (ni_notes s)
            (map_option (\<lambda>c. json (split_json c)) (computedSplit s)) d)))"
proof -
  let ?b = "json (create_lead_json (ni_request s))"
  have f: "go_struct (Some ?b) \<noteq> None" "go_string (jfield ?b ''name'') = Some (ni_nome s)"
    "go_string (jfield ?b ''phone_e164'') = Some (normalizePhone (ni_phone s))"
    "go_string (jfield ?b ''email'') = Some (ni_email s)" "go_string (jfield ?b ''notes'') = Some (ni_notes s)"
    "jfield ?b ''split_choice'' = map_option (\<lambda>c. json (split_json c)) (computedSplit s)"
    by (simp_all add: create_lead_json_def ni_request_def jfield_def split_json_def nonempty_def opt_str_def split: option.split)
  then show ?thesis unfolding srv_partner_lead_def
    by (auto simp: trim_phone Let_def split: fraud_decision.splits)
qed

subsection \<open>What the partner sees\<close>

text \<open>The rows \<open>Referrals\<close> reads for one lead, the newest lead first, and the limit.\<close>

definition fresh_ids :: "jstr \<times> jstr \<Rightarrow> lead_db \<Rightarrow> bool" where
  "fresh_ids ids d \<longleftrightarrow> fst ids \<notin> le_id ` set (lb_leads d) \<and> fst ids \<notin> fst ` set (lb_sales d) \<and>
     Some (snd ids) \<notin> le_referral ` set (lb_leads d) \<and> snd ids \<notin> rf_id ` set (lb_referrals d) \<and>
     snd ids \<notin> fst ` set (lb_rewards d)"

definition has_phone :: "(jstr \<Rightarrow> jstr) \<Rightarrow> jstr \<Rightarrow> jstr \<Rightarrow> lead_entry \<Rightarrow> bool" where
  "has_phone h program phone l \<longleftrightarrow> le_program l = program \<and> le_phone_hash l = hashLower h phone"

lemma store_rest [simp]:
  "lb_sales (store_lead h ids now p rules score name phone email notes split d) = lb_sales d"
  "lb_rewards (store_lead h ids now p rules score name phone email notes split d) = lb_rewards d"
  "lb_referrals (store_lead h ids now p rules score name phone email notes split d) = lb_referrals d @
     [\<lparr> rf_id = snd ids, rf_program = lp_program p, rf_partner = lp_id p, rf_snapshot = rules, rf_split = split,
        rf_score = score, rf_created = now \<rparr>]"
  by (simp_all add: store_lead_def split: prod.split)

lemma attach_absent: "lead \<notin> le_id ` set ls \<Longrightarrow> attach lead ref ls = ls"
  unfolding attach_def by (rule map_idI) auto

lemma new_phone_stored:
  assumes "\<not> list_ex (has_phone h (lp_program p) phone) (lb_leads d)" "fresh_ids ids d"
  shows "lb_leads (store_lead h ids now p rules score name phone email notes split d) =
    lb_leads d @ [(new_lead h (fst ids) now p name phone email notes)\<lparr> le_referral := Some (snd ids) \<rparr>]"
proof -
  have "List.find (\<lambda>l. le_program l = lp_program p \<and> le_phone_hash l = hashLower h phone) (lb_leads d) = None"
    using assms(1) by (simp add: find_None_all list_ex_iff has_phone_def)
  moreover have "attach (fst ids) (snd ids) (lb_leads d) = lb_leads d"
    using assms(2) by (intro attach_absent) (simp add: fresh_ids_def)
  ultimately show ?thesis by (simp add: store_lead_def attach_def new_lead_def)
qed

lemma known_phone_kept:
  assumes "l \<in> set (lb_leads d)" "has_phone h (lp_program p) phone l"
    and "\<And>x. x \<in> set (lb_leads d) \<Longrightarrow> has_phone h (lp_program p) phone x \<Longrightarrow> x = l"
    and "distinct (map le_id (lb_leads d))" "le_referral l \<noteq> None"
  shows "lb_leads (store_lead h ids now p rules score name phone email notes split d) = lb_leads d"
proof -
  let ?find = "List.find (\<lambda>l. le_program l = lp_program p \<and> le_phone_hash l = hashLower h phone) (lb_leads d)"
  have "?find \<noteq> None" using assms(1,2) by (auto simp: find_None_all has_phone_def)
  then obtain x where x: "?find = Some x" by blast
  then have "x = l" using assms(3) [of x] by (auto simp: has_phone_def dest: find_Some_in)
  moreover have "attach (le_id l) r (lb_leads d) = lb_leads d" for r
    unfolding attach_def
  proof (rule map_idI)
    fix y assume "y \<in> set (lb_leads d)"
    then have "le_id y = le_id l \<Longrightarrow> y = l" using assms(1,4) by (auto simp: distinct_map dest: inj_onD)
    then show "(if le_id y = le_id l \<and> le_referral y = None then y\<lparr> le_referral := Some r \<rparr> else y) = y" using assms(5) by auto
  qed
  ultimately show ?thesis using x by (simp add: store_lead_def)
qed

lemma fresh_unreferenced: "fresh_ids ids d \<Longrightarrow> x \<in> set (lb_leads d) \<Longrightarrow> le_referral x \<noteq> Some (snd ids)"
  unfolding fresh_ids_def by (metis imageI)

lemma rows_of_others:
  assumes "le_referral l \<noteq> Some (rf_id r)" "lb_referrals d' = lb_referrals d @ [r]" "lb_sales d' = lb_sales d" "lb_rewards d' = lb_rewards d"
  shows "referral_rows partner d' l = referral_rows partner d l"
  unfolding referral_rows_def assms(2-4) by (simp add: assms(1))

lemma rows_of_new:
  assumes "fresh_ids ids d" "le_id l = fst ids" "le_referral l = Some (snd ids)" "rf_id r = snd ids" "rf_partner r = partner"
    and "lb_referrals d' = lb_referrals d @ [r]" "lb_sales d' = lb_sales d" "lb_rewards d' = lb_rewards d"
  shows "referral_rows partner d' l = [(l, None, None)]"
proof -
  have "filter (\<lambda>x. fst x = fst ids) (lb_sales d) = []" "filter (\<lambda>x. fst x = snd ids) (lb_rewards d) = []"
    using assms(1) unfolding fresh_ids_def filter_empty_conv by (metis imageI)+
  moreover have "concat (map (\<lambda>r. if le_referral l = Some (rf_id r) \<and> rf_partner r = partner then f r else []) (lb_referrals d)) = []" for f :: "_ \<Rightarrow> 'z list"
    using assms(1,3) by (force simp: fresh_ids_def)
  ultimately show ?thesis using assms(2-) by (simp add: referral_rows_def left_join_def)
qed

lemma sort_newest:
  assumes "\<And>y. y \<in> set xs \<Longrightarrow> f x < f y"
  shows "sort_key f (xs @ [x]) = x # sort_key f xs"
  using assms
proof (induction xs)
  case (Cons y ys)
  have "f x < f y" using Cons.prems by simp
  then have "\<not> f y \<le> f x" by simp
  then show ?case using Cons by simp
qed simp

lemma new_lead_listed:
  assumes "\<not> list_ex (has_phone h (lp_program p) phone) (lb_leads d)" "fresh_ids ids d"
    and "\<And>l. l \<in> set (lb_leads d) \<Longrightarrow> le_created l < now"
  shows "srv_partner_referrals (lp_id p) (store_lead h ids now p rules score name phone email notes split d) =
    take 100 (((new_lead h (fst ids) now p name phone email notes)\<lparr> le_referral := Some (snd ids) \<rparr>, None, None) #
      all_referral_rows (lp_id p) d)"
proof -
  let ?d = "store_lead h ids now p rules score name phone email notes split d"
  let ?l = "(new_lead h (fst ids) now p name phone email notes)\<lparr> le_referral := Some (snd ids) \<rparr>"
  have s: "sort_key (\<lambda>l. - le_created l) (lb_leads d @ [?l]) = ?l # sort_key (\<lambda>l. - le_created l) (lb_leads d)"
    using assms(3) by (intro sort_newest) (simp add: new_lead_def)
  have "referral_rows (lp_id p) ?d ?l = [(?l, None, None)]"
    by (rule rows_of_new [OF assms(2)]) (simp_all add: new_lead_def)
  moreover have "map (referral_rows (lp_id p) ?d) (sort_key (\<lambda>l. - le_created l) (lb_leads d)) =
      map (referral_rows (lp_id p) d) (sort_key (\<lambda>l. - le_created l) (lb_leads d))"
    using fresh_unreferenced [OF assms(2)] by (intro map_cong refl rows_of_others) simp_all
  ultimately show ?thesis
    by (simp add: srv_partner_referrals_def all_referral_rows_def new_phone_stored [OF assms(1,2)] s del: map_eq_conv)
qed

lemma known_phone_unlisted:
  assumes "l \<in> set (lb_leads d)" "has_phone h (lp_program p) phone l"
    and "\<And>x. x \<in> set (lb_leads d) \<Longrightarrow> has_phone h (lp_program p) phone x \<Longrightarrow> x = l"
    and "distinct (map le_id (lb_leads d))" "le_referral l \<noteq> None" "fresh_ids ids d"
  shows "srv_partner_referrals q (store_lead h ids now p rules score name phone email notes split d) = srv_partner_referrals q d"
    and "srv_me_referrals (lp_id p) (store_lead h ids now p rules score name phone email notes split d) =
      srv_me_referrals (lp_id p) d + 1"
proof -
  let ?d = "store_lead h ids now p rules score name phone email notes split d"
  have "map (referral_rows q ?d) (sort_key (\<lambda>l. - le_created l) (lb_leads d)) =
      map (referral_rows q d) (sort_key (\<lambda>l. - le_created l) (lb_leads d))"
    using fresh_unreferenced [OF assms(6)] by (intro map_cong refl rows_of_others) simp_all
  then show "srv_partner_referrals q ?d = srv_partner_referrals q d"
    by (simp add: srv_partner_referrals_def all_referral_rows_def known_phone_kept [OF assms(1-5)] del: map_eq_conv)
  show "srv_me_referrals (lp_id p) ?d = srv_me_referrals (lp_id p) d + 1" by (simp add: srv_me_referrals_def)
qed

subsection \<open>A partner's own telephone\<close>

text \<open>
  \<open>AdminCreate\<close> hashes the telephone as it was typed, the page of a new lead sends it in normal form:
  typed with a blank, a bracket or a hyphen it is never recognised.
\<close>

definition admin_partner :: "(jstr \<Rightarrow> jstr) \<Rightarrow> jstr \<Rightarrow> partner_row \<Rightarrow> lead_partner" where
  "admin_partner h i r = \<lparr> lp_id = i, lp_program = tp_program r, lp_email_hash = map_option (hashLower h) (tp_email r),
     lp_phone_hash = map_option (hashLower h) (tp_phone r) \<rparr>"

lemma lower_phone: "js_toLowerCase (normalizePhone raw) = normalizePhone raw"
proof -
  have "lower_unit c = c" if "c = 43 \<or> isDigit c" for c using that by (auto simp: lower_unit_def isDigit_def)
  then show ?thesis using phone_shape [of raw] by (auto simp: js_toLowerCase_def intro!: map_idI)
qed

lemma punctuation_not_normal:
  assumes "c \<in> set t" "c \<in> {32, 40, 41, 45}"
  shows "js_toLowerCase t \<noteq> normalizePhone raw"
proof
  assume e: "js_toLowerCase t = normalizePhone raw"
  have "lower_unit c = c" using assms(2) by (auto simp: lower_unit_def)
  then have "c \<in> set (js_toLowerCase t)" using assms(1) by (force simp: js_toLowerCase_def)
  then have "c \<in> set (normalizePhone raw)" unfolding e .
  moreover have "c \<noteq> 43" "\<not> isDigit c" using assms(2) by (auto simp: isDigit_def)
  ultimately show False using phone_shape [of raw] by auto
qed

lemma own_phone_missed:
  assumes "inj h" "tp_phone r = Some t" "c \<in> set t" "c \<in> {32, 40, 41, 45}"
  shows "checkSelfReferral (lead_input h now (admin_partner h i r) (normalizePhone raw) []) = 0"
  using assms(2) punctuation_not_normal [OF assms(3,4), of raw] inj_eq [OF assms(1)]
  by (simp add: checkSelfReferral_def lead_input_def admin_partner_def hashLower_def lower_phone)

subsection \<open>The chosen split\<close>

lemma decode_stored_split:
  "decode_split (json (split_json \<lparr> sc_commission_pct = Fin a, sc_discount_pct = Fin b \<rparr>)) =
     Some \<lparr> sc_commission_pct = Fin a, sc_discount_pct = Fin b \<rparr>"
  by (simp add: decode_split_def split_json_def jfield_def go_float_def)

lemma chosen_split_pays:
  assumes "ni_reach s" "isFlexible s" "\<not> ni_customMode s" "maxPct s = Fin q"
    and "gc_Type rc = U ''flexible_split''" "gc_MaxPct rc = Some q"
    and "0 < ge_SaleAmount ev" "ge_SaleAmount ev \<le> 2 ^ 45"
    and "ge_SplitChoice ev = map_option (\<lambda>c. json (split_json c)) (computedSplit s)"
  shows "\<exists>a. ni_commissionPct s = Fin a \<and> 0 \<le> a \<and> a \<le> q \<and>
    pays (Evaluate shw [] rc ev) (near (of_int (ge_SaleAmount ev) * a / 100))"
proof -
  obtain q' where q': "maxPct s = Fin q'" "ceiling_ok q'" "totalSplit s = Fin q'" "by_preset s"
    using ni_inv_total [OF ni_reach_inv [OF assms(1)] assms(2,3)] by blast
  have q: "q' = q" using q'(1) assms(4) by simp
  obtain a b where ab: "ni_commissionPct s = Fin a" "ni_discountPct s = Fin b" "0 \<le> a" "0 \<le> b" "a + b = q"
    using by_preset_shares [OF q'(4,1,2)] unfolding q by metis
  have aq: "a \<le> q" "q \<le> 100" using ab q'(2) q by (simp_all add: ceiling_ok_def)
  let ?c = "\<lparr> sc_commission_pct = Fin a, sc_discount_pct = Fin b \<rparr>"
  have tot: "js_add (Fin a) (Fin b) = Fin q" using q'(3) ab q by (simp add: totalSplit_def)
  have fs: "go_flexible_split (Fin q) (ge_SaleAmount ev) (Some ?c) =
      Inr (go_share (ge_SaleAmount ev) (Fin a), go_share (ge_SaleAmount ev) (Fin b))"
    using assms(7) by (simp add: go_flexible_split_def tot del: js_add.simps)
  obtain n where n: "pct_cents (ge_SaleAmount ev) a = Some n" "\<bar>of_int n - of_int (ge_SaleAmount ev) * a / 100\<bar> < 51 / 100" "0 \<le> n"
    using pct_cents_exact [OF assms(7,8) ab(3)] aq by (metis order_trans)
  have "pays (Evaluate shw [] rc ev) (near (of_int (ge_SaleAmount ev) * a / 100))"
    by (rule pays_by_type [where e = FlexibleSplitEvaluator and n = n])
      (use assms ab n fs in \<open>auto simp: evaluator_types FlexibleSplitEvaluator_def computedSplit_def decode_stored_split
          pct_cents_def near_def\<close>)
  then show ?thesis using ab aq by blast
qed

end
