(* ===== verification/OverviewServer.thy ===== *)
theory OverviewServer imports Overview RulesEngine begin

text \<open>
  The numbers of the overview: \<open>internal/api/handlers/dashboard/handler.go\<close> on the rows of one company.
  A query that names a column its table does not have fails, and the handler goes on with what it had:
  the columns are those of \<open>db/migrations\<close>. Moments are seconds; \<open>day_of\<close> names the day of a moment.
\<close>

subsection \<open>Tables\<close>

definition click_columns :: "string list" where
  "click_columns = [''id'', ''tenant_id'', ''program_id'', ''partner_id'', ''slug'', ''visitor_id'', ''fingerprint'', ''ip_inet'',
     ''ua'', ''accept_lang'', ''referer'', ''utm'', ''occurred_at'']"

definition lead_columns :: "string list" where
  "lead_columns = [''id'', ''tenant_id'', ''program_id'', ''referral_id'', ''name'', ''email'', ''email_hash'', ''phone_e164'',
     ''phone_hash'', ''status'', ''source'', ''notes'', ''metadata'', ''closed_at'', ''created_at'', ''updated_at'']"

text \<open>A row as the moments in its columns.\<close>

type_synonym moments = "string \<Rightarrow> int"

record ov_partner_row =
  vp_id :: jstr
  vp_name :: jstr
  vp_active :: bool

record ov_reward_row =
  vw_partner :: jstr
  vw_amount :: int
  vw_status :: jstr

record ov_lead_row =
  vl_id :: jstr
  vl_name :: "jstr option"
  vl_partner_name :: "jstr option"
  vl_status :: jstr
  vl_created :: int

record overview_db =
  vb_clicks :: "moments list"
  vb_lead_moments :: "moments list"
  vb_partners :: "ov_partner_row list"
  vb_referrals :: "(jstr \<times> jstr) list"
  vb_rewards :: "ov_reward_row list"
  vb_leads :: "ov_lead_row list"

subsection \<open>The handler\<close>

definition pctDelta :: "int \<Rightarrow> int \<Rightarrow> jsnum" where
  "pctDelta current prior = (if prior = 0 then if current = 0 then Fin 0 else Fin 100
     else js_mul (js_div (num_int (current - prior)) (num_int prior)) (Fin 100))"

abbreviation week :: int where "week \<equiv> 7 * 24 * 3600"

text \<open>How many rows are of the last week and of the week before, by the moment in a column.\<close>

definition week_counts :: "string list \<Rightarrow> string \<Rightarrow> int \<Rightarrow> moments list \<Rightarrow> (int \<times> int) option" where
  "week_counts cols col now rows = (if col \<notin> set cols then None
     else Some (int (length (filter (\<lambda>r. now - week \<le> r col) rows)),
                int (length (filter (\<lambda>r. now - 2 * week \<le> r col \<and> r col < now - week) rows))))"

definition clicks_per_day :: "string list \<Rightarrow> string \<Rightarrow> (int \<Rightarrow> jstr) \<Rightarrow> int \<Rightarrow> moments list \<Rightarrow> (jstr \<times> jsnum) list" where
  "clicks_per_day cols col day_of now rows = (if col \<notin> set cols then []
     else map (\<lambda>i. let d = day_of (now - int i * 24 * 3600) in
       (d, num_int (int (length (filter (\<lambda>r. day_of (r col) = d) rows))))) [6, 5, 4, 3, 2, 1, 0])"

text \<open>
  The best partners. Partners are joined with their referrals and with their rewards, each by the
  partner alone, so the sum runs over the pairs of both.
\<close>

definition join_all :: "'a list \<Rightarrow> 'a option list" where
  "join_all xs = (if xs = [] then [None] else map Some xs)"

definition approved_or_paid :: "ov_reward_row \<Rightarrow> bool" where
  "approved_or_paid w \<longleftrightarrow> vw_status w = U ''approved'' \<or> vw_status w = U ''paid''"

definition top_row :: "overview_db \<Rightarrow> ov_partner_row \<Rightarrow> jstr \<times> int \<times> int" where
  "top_row d p =
     (let refs = map fst (filter (\<lambda>r. snd r = vp_id p) (vb_referrals d));
          ws = filter (\<lambda>w. vw_partner w = vp_id p) (vb_rewards d);
          pairs = [(r, w). r \<leftarrow> join_all refs, w \<leftarrow> join_all ws]
      in (vp_name p, int (length (remdups refs)),
          sum_list (map (\<lambda>(r, w). case w of Some x \<Rightarrow> if approved_or_paid x then vw_amount x else 0 | None \<Rightarrow> 0) pairs)))"

definition top_partners :: "overview_db \<Rightarrow> (jstr \<times> int \<times> int) list" where
  "top_partners d = take 5 (sort_key (\<lambda>(n, r, a). - a) (sort_key (\<lambda>(n, r, a). - r) (map (top_row d) (vb_partners d))))"

definition recent_leads :: "(int \<Rightarrow> jstr) \<Rightarrow> overview_db \<Rightarrow> recent_lead list" where
  "recent_leads show_time d = map (\<lambda>l. \<lparr> rl_id = vl_id l, rl_name = orelse (vl_name l) [], rl_partner_name = orelse (vl_partner_name l) [],
     rl_status = vl_status l, rl_created_at = show_time (vl_created l) \<rparr>)
     (take 5 (sort_key (\<lambda>l. - vl_created l) (vb_leads d)))"

definition srv_overview :: "(int \<Rightarrow> jstr) \<Rightarrow> (int \<Rightarrow> jstr) \<Rightarrow> int \<Rightarrow> overview_db \<Rightarrow> dashboard_overview" where
  "srv_overview day_of show_time now d =
     (let (clicks, clicks0) = orelse (week_counts click_columns ''created_at'' now (vb_clicks d)) (0, 0);
          (leads, leads0) = orelse (week_counts lead_columns ''created_at'' now (vb_lead_moments d)) (0, 0)
      in \<lparr> ov_clicks_last_7_days = num_int clicks, ov_clicks_delta_pct = pctDelta clicks clicks0,
           ov_new_leads_last_7_days = num_int leads, ov_leads_delta_pct = pctDelta leads leads0,
           ov_pending_rewards_cents = num_int (sum_list (map vw_amount (filter (\<lambda>w. vw_status w = U ''pending'') (vb_rewards d)))),
           ov_active_partners = num_int (int (length (filter vp_active (vb_partners d)))),
           ov_clicks_per_day = clicks_per_day click_columns ''created_at'' day_of now (vb_clicks d),
           ov_top_partners = map (\<lambda>(n, r, a). (n, num_int r, num_int a)) (top_partners d),
           ov_recent_leads = recent_leads show_time d \<rparr>)"

subsection \<open>Facts\<close>

text \<open>The table of clicks has no column of that name: the overview counts no click.\<close>

lemma no_clicks_counted:
  "ov_clicks_last_7_days (srv_overview day_of show_time now d) = Fin 0"
  "ov_clicks_delta_pct (srv_overview day_of show_time now d) = Fin 0"
  "ov_clicks_per_day (srv_overview day_of show_time now d) = []"
  by (simp_all add: srv_overview_def week_counts_def clicks_per_day_def click_columns_def pctDelta_def num_int_small Let_def split: prod.split)

text \<open>The column of another name would have done.\<close>

lemma clicks_by_occurrence: "week_counts click_columns ''occurred_at'' now rows \<noteq> None"
  by (simp add: week_counts_def click_columns_def)

lemma leads_counted:
  "\<exists>recent before. week_counts lead_columns ''created_at'' now (vb_lead_moments d) = Some (int recent, int before) \<and>
     recent + before \<le> length (vb_lead_moments d) \<and>
     ov_new_leads_last_7_days (srv_overview day_of show_time now d) = num_int (int recent) \<and>
     ov_leads_delta_pct (srv_overview day_of show_time now d) = pctDelta (int recent) (int before)"
proof -
  let ?f = "\<lambda>r :: moments. now - week \<le> r ''created_at''" and ?g = "\<lambda>r :: moments. now - 2 * week \<le> r ''created_at'' \<and> r ''created_at'' < now - week"
  have "length (filter ?f rows) + length (filter ?g rows) \<le> length rows" for rows
    by (induction rows) auto
  then show ?thesis
    by (simp add: srv_overview_def week_counts_def lead_columns_def split: prod.split)
qed

text \<open>The sign of the change is that of the difference.\<close>

lemma fl_sign:
  assumes "1 / 2 ^ 50 \<le> \<bar>q\<bar>"
  shows "0 < fl q \<longleftrightarrow> 0 < q" "fl q < 0 \<longleftrightarrow> q < 0"
proof -
  have "\<bar>fl q - q\<bar> \<le> \<bar>q\<bar> * (1 / 2 ^ 53) + 1 / 2 ^ 80" by (rule fl_error_sum)
  also have "\<dots> < \<bar>q\<bar> / 2" using assms by simp
  finally have e: "\<bar>fl q - q\<bar> < \<bar>q\<bar> / 2" .
  then show "0 < fl q \<longleftrightarrow> 0 < q" "fl q < 0 \<longleftrightarrow> q < 0" by (auto simp: abs_if split: if_splits)
qed

text \<open>The change is above, at or below zero as the counts are.\<close>

lemma fl_of_size: "\<bar>q\<bar> \<le> 2 ^ 59 \<Longrightarrow> \<bar>fl q\<bar> \<le> 2 ^ 60"
proof -
  assume q: "\<bar>q\<bar> \<le> 2 ^ 59"
  have "\<bar>fl q - q\<bar> \<le> \<bar>q\<bar> * (1 / 2 ^ 53) + 1 / 2 ^ 80" by (rule fl_error_sum)
  then show ?thesis using q by simp
qed

lemma near_size: "\<bar>f - q\<bar> < \<bar>q\<bar> / 2 \<Longrightarrow> a \<le> \<bar>q\<bar> \<Longrightarrow> \<bar>q\<bar> \<le> b \<Longrightarrow> a / 2 \<le> \<bar>f\<bar> \<and> \<bar>f\<bar> \<le> 2 * b" for f q a b :: rat
  by linarith

lemma pctDelta_sign:
  assumes "0 \<le> c" "0 \<le> p" "c \<le> 2 ^ 40" "p \<le> 2 ^ 40"
  obtains x where "pctDelta c p = Fin x" "0 < x \<longleftrightarrow> p < c" "x < 0 \<longleftrightarrow> c < p" "x = 0 \<longleftrightarrow> c = p"
proof (cases "p = 0 \<or> c = p")
  case True
  show ?thesis
  proof (cases "c = p")
    case True
    then show ?thesis using assms that [of 0] by (cases "p = 0") (simp_all add: pctDelta_def num_int_small)
  next
    case False
    then have "p = 0" "0 < c" using \<open>p = 0 \<or> c = p\<close> assms(1) by auto
    then show ?thesis using that [of 100] by (simp add: pctDelta_def)
  qed
next
  case False
  define q where "q = (of_int (c - p) / of_int p :: rat)"
  have p: "1 \<le> (of_int p :: rat)" "(of_int p :: rat) \<le> 1099511627776" using False assms(2,4) by simp_all
  have "1 \<le> \<bar>c - p\<bar>" "\<bar>c - p\<bar> \<le> 1099511627776" using False assms by auto
  then have "of_int 1 \<le> (of_int \<bar>c - p\<bar> :: rat)" "(of_int \<bar>c - p\<bar> :: rat) \<le> of_int 1099511627776" unfolding of_int_le_iff .
  then have d: "1 \<le> \<bar>of_int (c - p) :: rat\<bar>" "\<bar>of_int (c - p) :: rat\<bar> \<le> 1099511627776" by simp_all
  have "1 / 1099511627776 \<le> \<bar>of_int (c - p)\<bar> / (of_int p :: rat)" using p d by (intro frac_le) simp_all
  moreover have "\<bar>of_int (c - p)\<bar> / (of_int p :: rat) \<le> 1099511627776 / 1" using p d by (intro frac_le) simp_all
  ultimately have b: "1 / 1099511627776 \<le> \<bar>q\<bar>" "\<bar>q\<bar> \<le> 1099511627776" using p unfolding q_def abs_divide by simp_all
  have "\<bar>fl q - q\<bar> \<le> \<bar>q\<bar> * (1 / 2 ^ 53) + 1 / 2 ^ 80" by (rule fl_error_sum)
  then have e: "\<bar>fl q - q\<bar> < \<bar>q\<bar> / 2" using b by simp
  have f: "1 / 2199023255552 \<le> \<bar>fl q\<bar>" "\<bar>fl q\<bar> \<le> 2199023255552" using near_size [OF e b] by simp_all
  have s: "0 < fl q \<longleftrightarrow> 0 < q" "fl q < 0 \<longleftrightarrow> q < 0"
    "0 < fl (fl q * 100) \<longleftrightarrow> 0 < fl q" "fl (fl q * 100) < 0 \<longleftrightarrow> fl q < 0"
    using fl_sign [of q] fl_sign [of "fl q * 100"] b f by (simp_all add: abs_mult zero_less_mult_iff mult_less_0_iff)
  have s0: "0 < q \<longleftrightarrow> p < c" "q < 0 \<longleftrightarrow> c < p" using p by (simp_all add: q_def zero_less_divide_iff divide_less_0_iff)
  have "\<bar>c - p\<bar> \<le> 2 ^ 53" "\<bar>p\<bar> \<le> 2 ^ 53" using assms by auto
  then have "js_div (num_int (c - p)) (num_int p) = mk q" using False by (simp add: num_int_small q_def)
  also have "\<dots> = Fin (fl q)" using b by (intro mk_bounded) simp
  finally have "pctDelta c p = Fin (fl (fl q * 100))"
    using False f by (simp add: pctDelta_def mk_bounded abs_mult)
  then show ?thesis by (rule that) (use s0 s False in auto)
qed

text \<open>The arrow of the card.\<close>

lemma delta_arrow:
  assumes "0 \<le> c" "0 \<le> p" "c \<le> 2 ^ 40" "p \<le> 2 ^ 40"
  shows "dl_positive (fmtDelta (pctDelta c p)) \<longleftrightarrow> p < c" "dl_neutral (fmtDelta (pctDelta c p)) \<longleftrightarrow> c = p"
proof -
  obtain x where "pctDelta c p = Fin x" "0 < x \<longleftrightarrow> p < c" "x = 0 \<longleftrightarrow> c = p" by (rule pctDelta_sign [OF assms])
  then show "dl_positive (fmtDelta (pctDelta c p)) \<longleftrightarrow> p < c" "dl_neutral (fmtDelta (pctDelta c p)) \<longleftrightarrow> c = p"
    by (auto simp: fmtDelta_def Let_def)
qed

subsection \<open>The best partners\<close>

text \<open>What a partner has earned, and how often the query counts it.\<close>

definition earned :: "overview_db \<Rightarrow> jstr \<Rightarrow> int" where
  "earned d i = sum_list (map vw_amount (filter (\<lambda>w. vw_partner w = i \<and> approved_or_paid w) (vb_rewards d)))"

definition referral_count :: "overview_db \<Rightarrow> jstr \<Rightarrow> nat" where
  "referral_count d i = length (filter (\<lambda>r. snd r = i) (vb_referrals d))"

lemma sum_pairs:
  "sum_list (map (\<lambda>(r, w). f w) [(r, w). r \<leftarrow> rs, w \<leftarrow> ws]) = int (length rs) * sum_list (map f ws)" for f :: "'b \<Rightarrow> int"
proof -
  have "(\<lambda>(r, w). f w) \<circ> Pair x = f" for x :: 'a by (rule ext) simp
  then show ?thesis by (induction rs) (simp_all add: algebra_simps)
qed

lemma sum_joined:
  "sum_list (map (\<lambda>w. case w of Some x \<Rightarrow> if approved_or_paid x then vw_amount x else 0 | None \<Rightarrow> 0) (join_all ws)) =
     sum_list (map vw_amount (filter approved_or_paid ws))"
proof -
  have "sum_list (map (\<lambda>x. if approved_or_paid x then vw_amount x else 0) ws) = sum_list (map vw_amount (filter approved_or_paid ws))"
    by (rule sum_list_map_filter' [symmetric])
  then show ?thesis by (simp add: join_all_def comp_def)
qed

lemma top_row_amount:
  "snd (snd (top_row d p)) = int (max 1 (referral_count d (vp_id p))) * earned d (vp_id p)"
proof -
  let ?refs = "map fst (filter (\<lambda>r. snd r = vp_id p) (vb_referrals d))"
  have "length (join_all ?refs) = max 1 (referral_count d (vp_id p))" by (simp add: join_all_def referral_count_def Suc_leI)
  then show ?thesis
    by (simp add: top_row_def Let_def sum_pairs sum_joined earned_def conj_commute del: length_map map_map)
qed

lemma top_partner_of:
  assumes "(n, r, a) \<in> set (top_partners d)"
  obtains p where "p \<in> set (vb_partners d)" "top_row d p = (n, r, a)"
proof -
  have "(n, r, a) \<in> top_row d ` set (vb_partners d)"
    using assms unfolding top_partners_def by (auto dest!: in_set_takeD)
  then show ?thesis using that by force
qed

end
