(* ===== verification/RewardWorker.thy ===== *)
theory RewardWorker imports PartnerLeadServer PayoutServer Comissoes begin

text \<open>
  \<open>internal/workers/attribution/worker.go\<close>: \<open>EvaluateRules\<close>, which makes a reward of a sale under the
  rule a referral was stored with, and \<open>Process\<close>, which attributes a referral to a click. The jobs are
  given as decoded; identifiers are arguments; times are seconds, days of 24 hours. Then the way of a
  sale from the form of the partner to a payout.
\<close>

subsection \<open>Rewards\<close>

record eval_job =
  ej_ReferralID :: jstr
  ej_SaleID :: jstr
  ej_TenantID :: jstr

record reward_entry =
  re_id :: jstr
  re_tenant :: jstr
  re_program :: jstr
  re_referral :: jstr
  re_partner :: jstr
  re_sale :: jstr
  re_type :: jstr
  re_amount :: int
  re_currency :: jstr
  re_status :: jstr
  re_metadata :: "(string \<times> meta) list"

datatype worker_err = GetReferral | ParseRule rule_err | EvaluateErr eval_err | UnspecifiedAmount | InsertReward

text \<open>
  A split that is not there is no split. A sale that is not there has the amount 0, and the reward's
  foreign key to it is violated. The amount is unspecified where the conversion to \<open>int64\<close> is.
\<close>

definition EvaluateRules ::
  "(jsval \<Rightarrow> jstr) \<Rightarrow> jstr \<Rightarrow> eval_job \<Rightarrow> (jstr \<times> int) list \<Rightarrow> referral_row list \<Rightarrow> reward_entry list \<Rightarrow>
     worker_err + reward_entry list" where
  "EvaluateRules shw rewardID job sales refs rewards =
     (case List.find (\<lambda>r. rf_id r = ej_ReferralID job) refs of
        None \<Rightarrow> Inl GetReferral
      | Some r \<Rightarrow> (case ParseRuleSchema (rf_snapshot r) of
          Inl e \<Rightarrow> Inl (ParseRule e)
        | Inr rule \<Rightarrow>
            let event = \<lparr> ge_SaleAmount = orelse (map_of sales (ej_SaleID job)) 0, ge_LeadStatus = U ''closed'',
                  ge_PartnerID = rf_partner r, ge_ReferralID = ej_ReferralID job, ge_SaleID = ej_SaleID job,
                  ge_ProgramID = rf_program r, ge_TenantID = ej_TenantID job, ge_SplitChoice = rf_split r \<rparr>
            in (case Evaluate shw [] (gr_Reward rule) event of
                Inl e \<Rightarrow> Inl (EvaluateErr e)
              | Inr out \<Rightarrow> (case ro_AmountCents out of
                  None \<Rightarrow> Inl UnspecifiedAmount
                | Some n \<Rightarrow>
                    if map_of sales (ej_SaleID job) = None then Inl InsertReward
                    else Inr (rewards @ [\<lparr> re_id = rewardID, re_tenant = ro_TenantID out, re_program = ro_ProgramID out,
                      re_referral = ro_ReferralID out, re_partner = ro_PartnerID out, re_sale = ro_SaleID out, re_type = ro_Type out,
                      re_amount = n, re_currency = ro_Currency out, re_status = ro_Status out, re_metadata = ro_Metadata out \<rparr>])))))"

text \<open>The row as the handlers of rewards and payouts read it.\<close>

definition status_of :: "jstr \<Rightarrow> reward_status" where
  "status_of s = (if s = U ''approved'' then RApproved else if s = U ''paid'' then RPaid else if s = U ''rejected'' then RRejected
     else if s = U ''cancelled'' then RCancelled else RPending)"

definition as_row :: "reward_entry \<Rightarrow> srv_reward" where
  "as_row w = \<lparr> sr_id = re_id w, sr_partner = re_partner w, sr_amount = re_amount w, sr_status = status_of (re_status w) \<rparr>"

subsection \<open>Attribution\<close>

record attribution_job =
  aj_ReferralID :: jstr
  aj_ProgramID :: jstr
  aj_PartnerID :: jstr
  aj_VisitorID :: jstr
  aj_Fingerprint :: jstr
  aj_PhoneHash :: jstr

record visit_row =
  vs_id :: jstr
  vs_program :: jstr
  vs_partner :: jstr
  vs_visitor :: jstr
  vs_fingerprint :: jstr
  vs_occurred :: int

record attribution_row =
  at_referral :: jstr
  at_partner :: jstr
  at_click :: "jstr option"
  at_score :: rat
  at_matched_by :: jstr

record attribution_db =
  tb_referrals :: "referral_row list"
  tb_visits :: "visit_row list"
  tb_attributions :: "attribution_row list"
  tb_flags :: "(jstr \<times> jstr) list"

definition set_score :: "jstr \<Rightarrow> rat \<Rightarrow> referral_row list \<Rightarrow> referral_row list" where
  "set_score i q rs = map (\<lambda>r. if rf_id r = i then r\<lparr> rf_score := q \<rparr> else r) rs"

text \<open>The latest click in the window by the visitor or, failing that, the fingerprint.\<close>

definition window_days :: "int option \<Rightarrow> int" where
  "window_days w = (let d = orelse w 0 in if d \<le> 0 then 30 else d)"

definition matching_click :: "int \<Rightarrow> int option \<Rightarrow> attribution_job \<Rightarrow> attribution_db \<Rightarrow> visit_row option" where
  "matching_click now w j d =
     (case sort_key (\<lambda>v. - vs_occurred v) (filter (\<lambda>v. vs_program v = aj_ProgramID j \<and>
         (vs_visitor v = aj_VisitorID j \<or> vs_fingerprint v = aj_Fingerprint j) \<and>
         now - window_days w * 24 * 3600 \<le> vs_occurred v) (tb_visits d)) of
        [] \<Rightarrow> None | v # _ \<Rightarrow> Some v)"

definition ScoreCookieMatch :: rat where "ScoreCookieMatch = 85 / 100"
definition ScoreFingerprintMatch :: rat where "ScoreFingerprintMatch = 4 / 10"

definition match_of :: "int \<Rightarrow> int option \<Rightarrow> attribution_job \<Rightarrow> attribution_db \<Rightarrow> rat \<times> jstr \<times> jstr option" where
  "match_of now w j d =
     (if aj_VisitorID j = [] \<and> aj_Fingerprint j = [] then (0, U ''manual'', None)
      else case matching_click now w j d of
        None \<Rightarrow> (0, U ''manual'', None)
      | Some v \<Rightarrow> if aj_VisitorID j \<noteq> [] \<and> vs_visitor v = aj_VisitorID j
          then (ScoreCookieMatch, U ''cookie'', Some (vs_id v))
          else (ScoreFingerprintMatch, U ''fingerprint'', Some (vs_id v)))"

text \<open>More than a hundred clicks in an hour by fewer than a tenth as many visitors.\<close>

definition click_farm :: "int \<Rightarrow> attribution_job \<Rightarrow> attribution_db \<Rightarrow> bool" where
  "click_farm now j d =
     (let vs = filter (\<lambda>v. vs_partner v = aj_PartnerID j \<and> now - 3600 \<le> vs_occurred v) (tb_visits d);
          total = length vs; unique = length (remdups (map vs_visitor vs))
      in 100 < total \<and> 0 < unique \<and> js_lt (js_div (num_int (int unique)) (num_int (int total))) (mk (1 / 10)))"

definition attribute :: "int \<Rightarrow> int option \<Rightarrow> attribution_job \<Rightarrow> attribution_db \<Rightarrow> attribution_db" where
  "attribute now w j d = (case match_of now w j d of (score, by, click) \<Rightarrow>
     d\<lparr> tb_referrals := set_score (aj_ReferralID j) score (tb_referrals d),
        tb_attributions := tb_attributions d @ [\<lparr> at_referral = aj_ReferralID j, at_partner = aj_PartnerID j, at_click = click,
          at_score = score, at_matched_by = by \<rparr>],
        tb_flags := tb_flags d @ (if click_farm now j d then [(U ''click_farm'', aj_PartnerID j)] else []) \<rparr>)"

definition Process :: "int \<Rightarrow> int option \<Rightarrow> jstr option \<Rightarrow> attribution_job \<Rightarrow> attribution_db \<Rightarrow> attribution_db" where
  "Process now w partnerPhoneHash j d =
     (if partnerPhoneHash = Some (aj_PhoneHash j) \<and> aj_PhoneHash j \<noteq> []
      then d\<lparr> tb_referrals := set_score (aj_ReferralID j) 0 (tb_referrals d),
              tb_flags := tb_flags d @ [(U ''auto_referral'', aj_ReferralID j)] \<rparr>
      else attribute now w j d)"

subsection \<open>From the form to the reward\<close>

text \<open>
  The rules of the programme as the page reads them from the partner's profile: the members it uses, with
  the types \<open>PartnerMe\<close> declares.
\<close>

definition text_of :: "jsval option \<Rightarrow> jstr option" where
  "text_of v = (case v of Some (JStr s) \<Rightarrow> Some s | _ \<Rightarrow> None)"

definition num_of :: "jsval option \<Rightarrow> jsnum option" where
  "num_of v = (case v of Some (JNum n) \<Rightarrow> Some n | _ \<Rightarrow> None)"

definition client_reward :: "jsval \<Rightarrow> reward_rules" where
  "client_reward r = \<lparr> rr_type = orelse (text_of (jfield r ''type'')) [], rr_max_pct = num_of (jfield r ''max_pct''),
     rr_amount_brl = num_of (jfield r ''amount_brl''), rr_pct = num_of (jfield r ''pct''),
     rr_metric = text_of (jfield r ''metric''), rr_tiers = (case jfield r ''tiers'' of Some (JArr ts) \<Rightarrow> Some ts | _ \<Rightarrow> None) \<rparr>"

definition client_rules :: "jsval \<Rightarrow> program_rules" where
  "client_rules v = \<lparr> pl_schemaVersion = num_of (jfield v ''schemaVersion''), pl_trigger = text_of (jfield v ''trigger''),
     pl_attributionWindowDays = num_of (jfield v ''attributionWindowDays''),
     pl_reward = map_option client_reward (jfield v ''reward''),
     pl_payout = map_option (\<lambda>p. \<lparr> pu_method = orelse (text_of (jfield p ''method'')) [],
       pu_schedule = orelse (text_of (jfield p ''schedule'')) [], pu_minAmountBrl = num_of (jfield p ''minAmountBrl'') \<rparr>) (jfield v ''payout''),
     pl_limits = jfield v ''limits'' \<rparr>"

definition reads_rules :: "nova \<Rightarrow> jsval \<Rightarrow> bool" where
  "reads_rules s rules \<longleftrightarrow> ni_reward s = map_option client_reward (jfield rules ''reward'')"

lemma text_of_Some: "text_of v = Some s \<longleftrightarrow> v = Some (JStr s)"
  by (auto simp: text_of_def split: option.splits jsval.splits)

lemma float_ptr_Some: "go_float_ptr v = Some (Some q) \<longleftrightarrow> v = Some (JNum (Fin q))"
  by (cases v rule: go_float_ptr.cases) auto

lemma jfield_struct: "jfield v k = Some x \<Longrightarrow> go_struct (Some v) = Some v"
  by (cases v) (auto simp: jfield_def)

text \<open>An accepted rule with a flexible split: the page and the server read the same ceiling.\<close>

lemma same_ceiling:
  assumes "ParseRuleSchema rules = Inr r" "reads_rules s rules" "isFlexible s"
  obtains q where "gc_Type (gr_Reward r) = U ''flexible_split''" "gc_MaxPct (gr_Reward r) = Some q" "maxPct s = Fin q"
proof -
  obtain rw where rw: "jfield rules ''reward'' = Some rw" "rr_type (client_reward rw) = U ''flexible_split''"
    using assms(2,3) by (auto simp: reads_rules_def isFlexible_def)
  have ty: "jfield rw ''type'' = Some (JStr (U ''flexible_split''))"
    using rw(2) by (cases "text_of (jfield rw ''type'')") (auto simp: client_reward_def text_of_Some ustr)
  obtain r0 where d: "decode_schema rules = Some r0" "validate_schema r0 = Inr r"
    using assms(1) by (auto simp: ParseRuleSchema_def split: option.splits sum.splits)
  then have gr: "gr_Reward r = gr_Reward r0" "validate_reward (gr_Reward r) = None"
    by (auto simp: validate_schema_def Let_def split: option.splits if_splits)
  have "decode_reward (jfield rules ''reward'') = Some (gr_Reward r0)"
    using d(1) rw(1) by (auto simp: decode_schema_def jfield_struct [OF rw(1)] bind_eq_Some_conv)
  moreover have "go_struct (Some rw) = Some rw" by (rule jfield_struct [OF ty])
  ultimately have c: "gc_Type (gr_Reward r) = U ''flexible_split''" "go_float_ptr (jfield rw ''max_pct'') = Some (gc_MaxPct (gr_Reward r))"
    unfolding gr(1) using rw(1) ty by (auto simp: decode_reward_def bind_eq_Some_conv dest!: sym [of _ "gr_Reward r0"])
  then obtain q where q: "gc_MaxPct (gr_Reward r) = Some q"
    using gr(2) by (auto simp: validate_reward_def pct_range_def ustr split: option.splits if_splits)
  then have "num_of (jfield rw ''max_pct'') = Some (Fin q)" using c(2) by (auto simp: float_ptr_Some num_of_def)
  then have "maxPct s = Fin q" using assms(2) rw(1) by (simp add: maxPct_def reads_rules_def client_reward_def)
  then show ?thesis using c(1) q by (rule that [rotated 2])
qed

lemma accepted_referral:
  assumes "srv_partner_lead h ids now (Some p) rules (json (create_lead_json (ni_request s))) d = (201, d')"
  obtains score where "lb_referrals d' = lb_referrals d @ [\<lparr> rf_id = snd ids, rf_program = lp_program p, rf_partner = lp_id p,
    rf_snapshot = rules, rf_split = map_option (\<lambda>c. json (split_json c)) (computedSplit s), rf_score = score, rf_created = now \<rparr>]"
proof -
  obtain score where "d' = store_lead h ids now p rules score (ni_nome s) (normalizePhone (ni_phone s)) (ni_email s) (ni_notes s)
      (map_option (\<lambda>c. json (split_json c)) (computedSplit s)) d"
    using assms unfolding lead_decoded by (cases "fr_Action (Check d (lead_input h now p (normalizePhone (ni_phone s)) (ni_email s)))")
      (auto simp: Let_def simp del: AttributionScoreFor.simps split: if_splits)
  then show ?thesis by (intro that) simp
qed

lemma find_appended: "(\<And>x. x \<in> set xs \<Longrightarrow> \<not> P x) \<Longrightarrow> P y \<Longrightarrow> List.find P (xs @ [y]) = Some y"
  by (induction xs) auto

text \<open>One evaluation of a referral with an accepted rule: the reward, or the error of the evaluator.\<close>

lemma evaluated:
  assumes "List.find (\<lambda>r. rf_id r = ej_ReferralID job) refs = Some ref" "ParseRuleSchema (rf_snapshot ref) = Inr rule"
    and "map_of sales (ej_SaleID job) = Some sale"
    and "\<And>ev. ge_SaleAmount ev = sale \<Longrightarrow> ge_SplitChoice ev = rf_split ref \<Longrightarrow> pays (Evaluate shw [] (gr_Reward rule) ev) P"
  obtains w where "EvaluateRules shw i job sales refs ws = Inr (ws @ [w])" "P (re_amount w)" "re_status w = U ''pending''"
    "re_partner w = rf_partner ref" "re_id w = i" "re_sale w = ej_SaleID job"
proof -
  let ?ev = "\<lparr> ge_SaleAmount = sale, ge_LeadStatus = U ''closed'', ge_PartnerID = rf_partner ref, ge_ReferralID = ej_ReferralID job,
    ge_SaleID = ej_SaleID job, ge_ProgramID = rf_program ref, ge_TenantID = ej_TenantID job, ge_SplitChoice = rf_split ref \<rparr>"
  have "pays (Evaluate shw [] (gr_Reward rule) ?ev) P" by (rule assms(4)) simp_all
  then obtain out n where out: "Evaluate shw [] (gr_Reward rule) ?ev = Inr out" "ro_AmountCents out = Some n" "P n"
    "ro_Status out = U ''pending''"
    by (auto simp: pays_def split: sum.splits option.splits)
  moreover have "ro_PartnerID out = rf_partner ref" "ro_SaleID out = ej_SaleID job"
    using out(1) by (auto simp: Evaluate_def split: option.splits sum.splits prod.splits if_splits)
  ultimately show ?thesis using assms(1-3) by (intro that) (auto simp: EvaluateRules_def Let_def)
qed

text \<open>
  Nothing marks a sale as evaluated: a second run of the job makes a second reward, equal but for its
  identifier.
\<close>

lemma evaluated_again:
  assumes "EvaluateRules shw i job sales refs ws = Inr ws1"
  shows "\<exists>w. ws1 = ws @ [w] \<and> EvaluateRules shw i' job sales refs ws1 = Inr (ws @ [w, w\<lparr> re_id := i' \<rparr>])"
  using assms by (auto simp: EvaluateRules_def Let_def split: option.splits sum.splits if_splits)

subsection \<open>Scores\<close>

text \<open>
  A lead the partner registered by hand comes with no visitor: the attribution takes back whatever score
  the fraud signals gave it. And a click counts for the referral whoever of the programme's partners it was of.
\<close>

lemma manual_score:
  assumes "aj_VisitorID j = []" "aj_Fingerprint j = []"
  shows "tb_referrals (Process now w hash j d) = set_score (aj_ReferralID j) 0 (tb_referrals d)"
  using assms by (simp add: Process_def attribute_def match_of_def)

lemma match_any_partner: "match_of now w (j\<lparr> aj_PartnerID := q \<rparr>) d = match_of now w j d"
proof -
  have "aj_VisitorID (j\<lparr> aj_PartnerID := q \<rparr>) = aj_VisitorID j" "aj_Fingerprint (j\<lparr> aj_PartnerID := q \<rparr>) = aj_Fingerprint j"
    "aj_ProgramID (j\<lparr> aj_PartnerID := q \<rparr>) = aj_ProgramID j" by (cases j; simp)+
  then show ?thesis by (simp only: match_of_def matching_click_def)
qed

lemma process_scores:
  assumes "r \<in> set (tb_referrals (Process now w hash j d))" "rf_id r = aj_ReferralID j"
  shows "rf_score r \<in> {0, ScoreFingerprintMatch, ScoreCookieMatch}"
  using assms by (auto simp: Process_def attribute_def match_of_def set_score_def split: if_splits option.splits)

lemma process_others:
  "filter (\<lambda>r. rf_id r \<noteq> aj_ReferralID j) (tb_referrals (Process now w hash j d)) =
     filter (\<lambda>r. rf_id r \<noteq> aj_ReferralID j) (tb_referrals d)"
proof -
  have "filter (\<lambda>r. rf_id r \<noteq> i) (set_score i q rs) = filter (\<lambda>r. rf_id r \<noteq> i) rs" for i q rs
    by (induction rs) (simp_all add: set_score_def)
  then show ?thesis by (simp add: Process_def attribute_def split: prod.split)
qed

subsection \<open>From the reward to the payout\<close>

lemma approved_row:
  assumes "sr_id row \<notin> sr_id ` set rows" "sr_status row = RPending"
  shows "srv_approve (sr_id row) (rows @ [row]) = (200, rows @ [row\<lparr> sr_status := RApproved \<rparr>])"
proof -
  have "map (\<lambda>r. if sr_id r = sr_id row \<and> sr_status r \<in> {RPending} then r\<lparr> sr_status := RApproved \<rparr> else r) rows = rows"
    using assms(1) by (intro map_idI) (force simp: image_iff)
  then show ?thesis using assms(2) by (simp add: srv_approve_def update_reward_def)
qed

lemma approved_paid_out:
  assumes "sr_id row \<notin> sr_id ` set (db_rewards d)" "sr_status row = RPending"
    and "d' = d\<lparr> db_rewards := snd (srv_approve (sr_id row) (db_rewards d @ [row])) \<rparr>"
    and "held (row\<lparr> sr_status := RApproved \<rparr>)" "truthy_s (db_pix d (sr_partner row)) \<noteq> None"
    and "no_pending (sr_partner row) d" "sr_partner row \<in> set order" "distinct order"
  shows "\<exists>p \<in> set (db_payouts (snd (srv_create_job held order fresh d'))).
    sp_partner p = sr_partner row \<and> sp_status p = YPending \<and> sr_id row \<in> set (sp_rewards p) \<and>
    sp_amount p = sr_amount row + sum_list (map sr_amount (filter (\<lambda>x. sr_partner x = sr_partner row) (eligible held d)))"
proof -
  let ?row = "row\<lparr> sr_status := RApproved \<rparr>"
  have d': "d' = d\<lparr> db_rewards := db_rewards d @ [?row] \<rparr>" using approved_row [OF assms(1,2)] assms(3) by simp
  have el: "eligible held d' = eligible held d @ [?row]" using assms(4,5) by (simp add: d' eligible_def)
  have "job_payout fresh (eligible held d') (sr_partner ?row) \<in> set (db_payouts (snd (srv_create_job held order fresh d')))"
    by (rule job_creates) (use assms(6-8) el d' in \<open>simp_all add: no_pending_def\<close>)
  then show ?thesis by (rule bexI [rotated]) (simp add: job_payout_def Let_def el)
qed

end
