(* ===== verification/PartnerServer.thy ===== *)
theory PartnerServer imports RewardWorker OverviewServer PartnerPages PartnerSettings begin

text \<open>
  What the server tells a partner of itself (\<open>Me\<close>) and a company of its partners (\<open>AdminList\<close>), and the
  partner's change of its Pix key (\<open>UpdatePixKey\<close>), all in \<open>internal/api/handlers/partners/handler.go\<close>, on the
  rows of one company. Three pages show what a partner has
  earned: the partner's start page, the company's table and the overview.
\<close>

subsection \<open>Rows\<close>

record partner_entry =
  pe_id :: jstr
  pe_user :: "jstr option"
  pe_name :: jstr
  pe_email :: "jstr option"
  pe_phone :: "jstr option"
  pe_status :: partner_status
  pe_program :: jstr
  pe_created :: int

record program_entry =
  pgm_id :: jstr
  pgm_name :: jstr
  pgm_rules :: jsval

record link_entry =
  lk_partner :: jstr
  lk_slug :: jstr
  lk_url :: jstr
  lk_click_count :: int
  lk_created :: int

record company_db =
  co_partners :: "partner_entry list"
  co_programs :: "program_entry list"
  co_links :: "link_entry list"
  co_referrals :: "(jstr \<times> jstr) list"
  co_rewards :: "srv_reward list"

subsection \<open>The handlers\<close>

definition getPartnerID :: "jstr \<Rightarrow> company_db \<Rightarrow> jstr option" where
  "getPartnerID user d = map_option pe_id (List.find (\<lambda>p. pe_user p = Some user) (co_partners d))"

definition links_of :: "jstr \<Rightarrow> company_db \<Rightarrow> link_entry list" where
  "links_of i d = sort_key (\<lambda>l. - lk_created l) (filter (\<lambda>l. lk_partner l = i) (co_links d))"

definition latest_link :: "jstr \<Rightarrow> company_db \<Rightarrow> link_entry option" where
  "latest_link i d = (case links_of i d of [] \<Rightarrow> None | l # _ \<Rightarrow> Some l)"

definition rewards_in :: "reward_status set \<Rightarrow> jstr \<Rightarrow> company_db \<Rightarrow> int" where
  "rewards_in ss i d = sum_list (map sr_amount (filter (\<lambda>r. sr_partner r = i \<and> sr_status r \<in> ss) (co_rewards d)))"

definition referrals_of :: "jstr \<Rightarrow> company_db \<Rightarrow> int" where
  "referrals_of i d = int (length (filter (\<lambda>r. snd r = i) (co_referrals d)))"

text \<open>A partner without its programme does not exist: the join finds nothing and the handler answers 500.\<close>

definition srv_me :: "(int \<Rightarrow> jstr) \<Rightarrow> jstr \<Rightarrow> company_db \<Rightarrow> nat \<times> partner_me option" where
  "srv_me show_time user d =
     (case getPartnerID user d of None \<Rightarrow> (404, None)
      | Some i \<Rightarrow> (case List.find (\<lambda>p. pe_id p = i) (co_partners d) of None \<Rightarrow> (500, None)
        | Some p \<Rightarrow> (case List.find (\<lambda>g. pgm_id g = pe_program p) (co_programs d) of None \<Rightarrow> (500, None)
          | Some g \<Rightarrow> (200, Some \<lparr> pm_partner_id = i, pm_name = pe_name p, pm_email = pe_email p, pm_phone_e164 = pe_phone p,
              pm_status = partner_status_str (pe_status p), pm_program_id = pgm_id g, pm_program_name = pgm_name g,
              pm_program_rules = Some (client_rules (pgm_rules g)), pm_link_url = map_option lk_url (latest_link i d),
              pm_clicks = num_int (sum_list (map lk_click_count (links_of i d))), pm_referrals = num_int (referrals_of i d),
              pm_pending_rewards_cents = num_int (rewards_in {RPending} i d),
              pm_approved_rewards_cents = num_int (rewards_in {RApproved} i d),
              pm_paid_rewards_cents = num_int (rewards_in {RPaid} i d), pm_created_at = show_time (pe_created p) \<rparr>))))"

definition admin_row :: "(int \<Rightarrow> jstr) \<Rightarrow> company_db \<Rightarrow> partner_entry \<Rightarrow> program_entry \<Rightarrow> partner" where
  "admin_row show_time d p g = (let l = latest_link (pe_id p) d in
     \<lparr> pt_id = pe_id p, pt_name = pe_name p, pt_email = pe_email p, pt_phone_e164 = pe_phone p, pt_status = pe_status p,
       pt_program_id = pe_program p, pt_program_name = pgm_name g, pt_link_slug = map_option lk_slug l,
       pt_link_url = map_option lk_url l, pt_referrals = num_int (referrals_of (pe_id p) d),
       pt_clicks = num_int (orelse (map_option lk_click_count l) 0),
       pt_commission_cents = num_int (rewards_in {RApproved, RPaid} (pe_id p) d), pt_created_at = show_time (pe_created p) \<rparr>)"

definition srv_admin_list :: "(int \<Rightarrow> jstr) \<Rightarrow> company_db \<Rightarrow> partner list" where
  "srv_admin_list show_time d = concat (map (\<lambda>p. map (admin_row show_time d p) (filter (\<lambda>g. pgm_id g = pe_program p) (co_programs d)))
     (sort_key (\<lambda>p. - pe_created p) (co_partners d)))"

text \<open>\<open>UpdatePixKey\<close>; the type of the key is stored too, which nothing here reads.\<close>

definition srv_update_pix :: "jstr option \<Rightarrow> jsval \<Rightarrow> payout_db \<Rightarrow> nat \<times> payout_db" where
  "srv_update_pix partner body d =
     (case partner of None \<Rightarrow> (404, d)
      | Some i \<Rightarrow> (case (go_struct (Some body), go_string (jfield body ''pix_key''), go_string (jfield body ''pix_key_type'')) of
          (Some _, Some key, Some ty) \<Rightarrow>
            if \<not> go_ValidatePixKey key ty then (400, d) else (200, d\<lparr> db_pix := (db_pix d)(i := Some key) \<rparr>)
        | _ \<Rightarrow> (400, d)))"

text \<open>The same rows as the handler of the overview reads them.\<close>

definition overview_of :: "company_db \<Rightarrow> overview_db" where
  "overview_of d = \<lparr> vb_clicks = [], vb_lead_moments = [],
     vb_partners = map (\<lambda>p. \<lparr> vp_id = pe_id p, vp_name = pe_name p, vp_active = (pe_status p = TActive) \<rparr>) (co_partners d),
     vb_referrals = co_referrals d,
     vb_rewards = map (\<lambda>r. \<lparr> vw_partner = sr_partner r, vw_amount = sr_amount r, vw_status = reward_status_str (sr_status r) \<rparr>) (co_rewards d),
     vb_leads = [] \<rparr>"

subsection \<open>Facts\<close>

lemma filter_sum:
  assumes "\<And>x. x \<in> set xs \<Longrightarrow> \<not> (P x \<and> Q x)"
  shows "sum_list (map f (filter P xs)) + sum_list (map f (filter Q xs)) = (sum_list (map f (filter (\<lambda>x. P x \<or> Q x) xs)) :: int)"
  using assms by (induction xs) auto

lemma rewards_split: "ss \<inter> ts = {} \<Longrightarrow> rewards_in ss i d + rewards_in ts i d = rewards_in (ss \<union> ts) i d"
  unfolding rewards_in_def by (subst filter_sum) (auto simp: conj_disj_distribL intro!: arg_cong [where f = sum_list] filter_cong)

lemma rewards_bounds:
  assumes "\<And>r. r \<in> set (co_rewards d) \<Longrightarrow> 0 \<le> sr_amount r"
  shows "0 \<le> rewards_in ss i d" "rewards_in ss i d \<le> rewards_in UNIV i d"
proof -
  show p: "0 \<le> rewards_in ts i d" for ts unfolding rewards_in_def using assms by (intro sum_list_nonneg) auto
  show "rewards_in ss i d \<le> rewards_in UNIV i d" using rewards_split [of ss "- ss" i d] p [of "- ss"] by simp
qed

lemma me_found:
  assumes "srv_me show_time user d = (200, Some m)"
  obtains p g where "p \<in> set (co_partners d)" "g \<in> set (co_programs d)" "pgm_id g = pe_program p" "pe_id p = pm_partner_id m"
    "pm_program_rules m = Some (client_rules (pgm_rules g))"
    "pm_pending_rewards_cents m = num_int (rewards_in {RPending} (pe_id p) d)"
    "pm_approved_rewards_cents m = num_int (rewards_in {RApproved} (pe_id p) d)"
    "pm_referrals m = num_int (referrals_of (pe_id p) d)"
  using assms by (auto simp: srv_me_def split: option.splits dest!: find_Some_in)

lemma earned_same: "earned (overview_of d) i = rewards_in {RApproved, RPaid} i d"
proof -
  have "approved_or_paid \<lparr> vw_partner = q, vw_amount = a, vw_status = reward_status_str st \<rparr> \<longleftrightarrow> st \<in> {RApproved, RPaid}" for q a st
    by (cases st) (simp_all add: approved_or_paid_def ustr)
  then show ?thesis by (simp add: earned_def overview_of_def rewards_in_def filter_map comp_def)
qed

lemma count_same: "int (referral_count (overview_of d) i) = referrals_of i d"
  by (simp add: referral_count_def overview_of_def referrals_of_def)

text \<open>The page of a new lead reads the rules of the programme it was given.\<close>

lemma page_reads_rules:
  assumes "ni_me s = Some m" "pm_program_rules m = Some (client_rules rules)"
  shows "reads_rules s rules"
  using assms by (simp add: reads_rules_def ni_reward_def client_rules_def)

text \<open>The key the settings page sends, and who is paid after it.\<close>

lemma pix_decoded:
  assumes "rq_body (partner_req b (PUpdatePixKey k ty)) = Some body"
  shows "srv_update_pix (Some i) body d =
    (if go_ValidatePixKey k (pix_type_str ty) then (200, d\<lparr> db_pix := (db_pix d)(i := Some k) \<rparr>) else (400, d))"
proof -
  have "body = JObj [(''pix_key'', JStr k), (''pix_key_type'', JStr (pix_type_str ty))]"
    using assms by (auto simp: request_defs body_of_def)
  then show ?thesis by (simp add: srv_update_pix_def jfield_def)
qed

lemma keyed_eligible:
  assumes "k \<noteq> []" "r \<in> set (db_rewards d)" "sr_partner r = i" "sr_status r = RApproved" "held r"
  shows "r \<in> set (eligible held (d\<lparr> db_pix := (db_pix d)(i := Some k) \<rparr>))"
  using assms by (simp add: eligible_def truthy_s_def nonempty_def)

end
