(* ===== verification/ServerProperties.thy ===== *)
theory ServerProperties imports RateLimiter PartnerLeadServer OverviewServer PartnerServer begin

text \<open>
  Properties of the whole path of a request through the server: who reaches a handler, how long a token or
  a link is good for, how often one address may ask, what becomes of a lead a partner registers, what a rule
  pays, how a sale becomes a payout, and what the overview and the pages of a partner show.
\<close>

section \<open>Sessions\<close>

definition demo_env :: auth_env where
  "demo_env = \<lparr> ae_hash = (\<lambda>s. s), ae_pw = (\<lambda>s. s), ae_verify = (\<lambda>p e. p = e), ae_valid = (\<lambda>_. True), ae_uuid = Some, ae_production = False \<rparr>"

definition demo_fresh :: "nat \<Rightarrow> fresh_values" where
  "demo_fresh n = \<lparr> fv_user = [n, 1], fv_tenant = [n, 2], fv_session = [n, 3], fv_family = [n, 4], fv_row = [n, 5], fv_token = [n, 6] \<rparr>"

definition demo_db :: auth_db where
  "demo_db = \<lparr> ad_users = [], ad_members = [],
     ad_partners = [\<lparr> pn_id = [112], pn_tenant = [116], pn_name = [65], pn_email_hash = Some [97], pn_user = None, pn_active = True \<rparr>],
     ad_sessions = [], ad_refresh = [], ad_magic = [] \<rparr>"

text \<open>The partner asks for a link and opens it; then one renewal.\<close>

definition demo_link :: auth_db where
  "demo_link = snd (srv_request_link (\<lambda>s. s) False 0 (demo_fresh 1) (email_body [97]) demo_db)"

definition demo_signed :: auth_db where
  "demo_signed = snd (srv_verify_link (\<lambda>s. s) 0 (demo_fresh 2) (link_body [1, 6]) demo_link)"

definition demo_renewed :: auth_db where
  "demo_renewed = snd (srv_refresh (\<lambda>s. s) (\<lambda>_. True) (demo_fresh 3) (Some [2, 6]) demo_signed)"

lemmas demo_defs = demo_fresh_def demo_db_def demo_link_def demo_signed_def demo_renewed_def

lemmas demo_eval = demo_defs demo_env_def request_decoded verify_decoded srv_refresh_def rotate_def start_session_def
  partner_user_def usable_def stored_token_def grant_def

text \<open>C1: A partner who signed in by a magic link of a company passes the gate of every handler the
  dashboard of that company calls: the server asks for no role there.\<close>

theorem partner_reaches_dashboard:
  assumes "srv_verify_link h now f (link_body tok) d = ((200, Some (cl, rtok)), d')"
    and "validate (extractToken c) = Some (cl, TokenAccess)" "extractToken c \<noteq> []" "k \<noteq> AuthLogout"
  shows "\<exists>m \<in> set (ad_magic d). usable (h tok) now m \<and> jc_role cl = U ''user'' \<and>
    gate validate (Some True) c (dash_handler k) = Inr (Some (cl, Some (ml_tenant m)))"
  using partner_passes [OF assms(1,3), where validate = validate and k = k] assms(2,4) by blast

definition demo_claims :: jwt_claims where
  "demo_claims = \<lparr> jc_user = [1, 1], jc_tenant = Some [116], jc_role = U ''user'' \<rparr>"

theorem partner_reaches_dashboard_witness:
  "gate (\<lambda>_. Some (demo_claims, TokenAccess)) (Some True) \<lparr> cr_authorization = [], cr_cookie = Some [120] \<rparr> ''partners.AdminCreate'' =
     Inr (Some (demo_claims, Some [116]))"
proof -
  have v: "srv_verify_link (\<lambda>s. s) 0 (demo_fresh 2) (link_body [1, 6]) demo_link = ((200, Some (demo_claims, [2, 6])), demo_signed)"
    unfolding demo_signed_def by (simp add: verify_decoded demo_link_def demo_db_def demo_fresh_def request_decoded partner_user_def
        usable_def start_session_def grant_def demo_claims_def)
  have "extractToken \<lparr> cr_authorization = [], cr_cookie = Some [120] \<rparr> = [120]" by (simp add: extractToken_def U.simps)
  moreover have "ad_magic demo_link = [\<lparr> ml_hash = [1, 6], ml_user = [1, 1], ml_tenant = [116], ml_expires = 900, ml_used = False \<rparr>]"
    by (simp add: demo_defs request_decoded partner_user_def)
  ultimately show ?thesis
    using partner_reaches_dashboard [OF v, of "\<lambda>_. Some (demo_claims, TokenAccess)" "\<lparr> cr_authorization = [], cr_cookie = Some [120] \<rparr>"
        "PartnersCreate c" for c] by simp
qed

text \<open>C10: The reuse of a refresh token that was rotated ends its family for good: after it no token of the
  family is accepted, whatever requests come, in any order.\<close>

theorem reused_token_ends_family:
  assumes "stored_token (ae_hash e tok) d = Some r" "rt_revoked r" "ae_valid e tok"
    and "d1 = snd (srv_refresh (ae_hash e) (ae_valid e) f (Some tok) d)" "draws_unseen e qs d1"
    and "stored_token (ae_hash e tok') (snd (auth_run e qs d1)) = Some r'" "rt_family r' = rt_family r"
  shows "fst (srv_refresh (ae_hash e) (ae_valid e) f' (Some tok') (snd (auth_run e qs d1))) = (401, None)"
proof -
  have "dead (rt_family r) (ad_refresh d1)" unfolding assms(4) by (rule replay_kills) (fact assms(1-3))+
  then have "dead (rt_family r) (ad_refresh (snd (auth_run e qs d1)))"
    by (rule run_induct [OF assms(5)]) (rule dead_move)
  then show ?thesis by (rule dead_refused) (fact assms(6,7))+
qed

theorem reused_token_ends_family_witness:
  "fst (srv_refresh (\<lambda>s. s) (\<lambda>_. True) (demo_fresh 5) (Some [3, 6])
     (snd (auth_run demo_env [(1, QLogout None)] (snd (srv_refresh (\<lambda>s. s) (\<lambda>_. True) (demo_fresh 4) (Some [2, 6]) demo_renewed))))) = (401, None)"
proof -
  define d1 where "d1 = snd (srv_refresh (ae_hash demo_env) (ae_valid demo_env) (demo_fresh 4) (Some [2, 6]) demo_renewed)"
  let ?r = "\<lparr> rt_id = [2, 5], rt_user = [1, 1], rt_session = Some [2, 3], rt_tenant = [116], rt_family = [2, 4], rt_hash = [2, 6],
    rt_revoked = True, rt_replaced = Some [3, 5] \<rparr>"
  let ?q = "\<lparr> rt_id = [3, 5], rt_user = [1, 1], rt_session = None, rt_tenant = [116], rt_family = [2, 4], rt_hash = [3, 6],
    rt_revoked = True, rt_replaced = None \<rparr>"
  have a: "stored_token (ae_hash demo_env [2, 6]) demo_renewed = Some ?r" by (simp add: demo_eval)
  have b: "stored_token (ae_hash demo_env [3, 6]) (snd (auth_run demo_env [(1, QLogout None)] d1)) = Some ?q"
    unfolding d1_def by (simp add: demo_eval revoke_where_def srv_logout_def)
  have c: "rt_revoked ?r" "ae_valid demo_env [2, 6]" "draws_unseen demo_env [(1, QLogout None)] d1" "rt_family ?q = rt_family ?r"
    by (simp_all add: demo_env_def)
  show ?thesis
    using reused_token_ends_family [where e = demo_env, OF a c(1,2) d1_def c(3) b c(4), of "demo_fresh 5"]
    by (simp add: d1_def demo_env_def)
qed



text \<open>C11: The link a partner asked for opens a session for fifteen minutes and once: later, or after it was
  opened, it is refused, whatever requests came in between.\<close>

theorem link_works_once:
  assumes "unseen (ae_hash e) f d" "distinct (map ml_hash (ad_magic d))"
    and "srv_request_link (ae_hash e) production t0 f (email_body em) d = ((200, Some tok), d1)" "tok \<noteq> []"
    and "d2 = snd (srv_verify_link (ae_hash e) now f2 (link_body tok) d1)" "draws_unseen e qs d2"
  shows "fst (fst (srv_verify_link (ae_hash e) now f2 (link_body tok) d1)) = (if now < t0 + 900 then 200 else 401) \<and>
    (now < t0 + 900 \<longrightarrow> fst (srv_verify_link (ae_hash e) later f3 (link_body tok) (snd (auth_run e qs d2))) = (401, None))"
proof -
  have st: "fst (fst (srv_verify_link (ae_hash e) now f2 (link_body tok) d1)) = (if now < t0 + 900 then 200 else 401)"
    by (rule issued_link [OF assms(1,3,4)])
  moreover have "spent (ae_hash e tok) (ad_magic (snd (auth_run e qs d2)))" if "now < t0 + 900"
    unfolding assms(5) using verified_spent(1) [OF issued_distinct [OF assms(1,3,2)]] st that assms(5,6)
    by (intro spent_run) simp_all
  ultimately show ?thesis using spent_refused [OF _ assms(4)] by fastforce
qed

theorem link_works_once_witness:
  "fst (srv_verify_link (\<lambda>s. s) 5 (demo_fresh 4) (link_body [1, 6])
     (snd (auth_run demo_env [(3, QRefresh (demo_fresh 3) (Some [2, 6]))] demo_signed))) = (401, None)"
proof -
  have u: "unseen (ae_hash demo_env) (demo_fresh 1) demo_db" "distinct (map ml_hash (ad_magic demo_db))"
    by (simp_all add: unseen_def demo_db_def)
  have r: "srv_request_link (ae_hash demo_env) False 0 (demo_fresh 1) (email_body [97]) demo_db = ((200, Some [1, 6]), demo_link)"
    by (simp add: demo_eval)
  have s: "demo_signed = snd (srv_verify_link (ae_hash demo_env) 0 (demo_fresh 2) (link_body [1, 6]) demo_link)"
    by (simp add: demo_signed_def demo_env_def)
  have "draws_unseen demo_env [(3, QRefresh (demo_fresh 3) (Some [2, 6]))] demo_signed" by (simp add: demo_eval unseen_def)
  from link_works_once [OF u r _ s this, of 5 "demo_fresh 4"] show ?thesis by (simp add: demo_env_def)
qed

text \<open>C22: Ending one session does not end it for who has renewed since: the new token names no session
  and is still accepted. Ending all sessions ends it.\<close>

theorem renewed_token_survives:
  assumes "stored_token (h tok) d = Some r" "\<not> rt_revoked r" "valid tok" "valid (fv_token f)" "unseen h f d"
    and "d1 = snd (srv_refresh h valid f (Some tok) d)"
  shows "fst (fst (srv_refresh h valid f' (Some (fv_token f)) (snd (srv_revoke_session parse (rt_user r) sid d1)))) = 200 \<and>
    fst (srv_refresh h valid f' (Some (fv_token f)) (snd (srv_revoke_all (rt_user r) d1))) = (401, None)"
proof -
  let ?new = "\<lparr> rt_id = fv_row f, rt_user = rt_user r, rt_session = None, rt_tenant = rt_tenant r, rt_family = rt_family r,
    rt_hash = h (fv_token f), rt_revoked = False, rt_replaced = None \<rparr>"
  have "d1 = snd (rotate h f r d)" using assms(1-3,6) by (simp add: srv_refresh_def)
  then have n: "stored_token (h (fv_token f)) d1 = Some ?new" using stored_after_rotate [OF assms(2,5)] by simp
  have "stored_token (h (fv_token f)) (snd (srv_revoke_session parse (rt_user r) sid d1)) = Some ?new"
    by (rule revoke_keeps_renewed [OF n]) simp
  then have "fst (fst (srv_refresh h valid f' (Some (fv_token f)) (snd (srv_revoke_session parse (rt_user r) sid d1)))) = 200"
    using assms(4) by (simp add: srv_refresh_def rotate_def)
  then show ?thesis using revoke_all_refused [where h = h, OF n] by simp
qed

theorem renewed_token_survives_witness:
  "fst (fst (srv_refresh (\<lambda>s. s) (\<lambda>_. True) (demo_fresh 5) (Some [3, 6]) (snd (srv_revoke_session Some [1, 1] [2, 3] demo_renewed)))) = 200"
proof -
  let ?r = "\<lparr> rt_id = [2, 5], rt_user = [1, 1], rt_session = Some [2, 3], rt_tenant = [116], rt_family = [2, 4], rt_hash = [2, 6],
    rt_revoked = False, rt_replaced = None \<rparr>"
  have "stored_token ((\<lambda>s. s) [2, 6]) demo_signed = Some ?r" "unseen (\<lambda>s. s) (demo_fresh 3) demo_signed"
    by (simp_all add: demo_eval unseen_def)
  then show ?thesis
    using renewed_token_survives [where h = "\<lambda>s. s" and valid = "\<lambda>_. True" and r = ?r and parse = Some and sid = "[2, 3]",
        OF _ _ _ _ _ demo_renewed_def, of "demo_fresh 5"]
    by (simp add: demo_fresh_def)
qed

text \<open>C23: A partner whose e-mail is typed with a capital letter gets no link: the server answers as if
  it had sent one and stores nothing. \<open>h\<close> is injective on the e-mails in question.\<close>

theorem capital_letter_no_link:
  assumes "inj_on h (insert em (js_toLowerCase ` emails))" "js_toLowerCase em \<noteq> em"
    and "\<And>r x. r \<in> set rows \<Longrightarrow> tp_email r = Some x \<Longrightarrow> x \<in> emails"
    and "ad_partners d = map (\<lambda>r. account_of h (ids r) (tenant r) r) rows"
  shows "srv_request_link h production now f (email_body em) d = ((200, None), d)"
proof (rule capital_finds_none [OF assms(1) _ assms(2)])
  show "hashed_lower h emails d" using assms(3,4) by (auto simp: hashed_lower_def account_of_def)
qed

theorem capital_letter_no_link_witness:
  "fst (srv_request_link (\<lambda>s. s) False 0 (demo_fresh 1) (email_body (U ''Ana@x.br''))
     (demo_db\<lparr> ad_partners := [account_of (\<lambda>s. s) [112] [116]
        \<lparr> tp_program = [80], tp_name = [65], tp_email = Some (U ''ana@x.br''), tp_phone = None \<rparr>] \<rparr>)) = (200, None)"
proof -
  let ?row = "\<lparr> tp_program = [80], tp_name = [65], tp_email = Some (U ''ana@x.br''), tp_phone = None \<rparr>"
  have "js_toLowerCase (U ''Ana@x.br'') \<noteq> U ''Ana@x.br''" by (simp add: ustr)
  then show ?thesis
    using capital_letter_no_link [of "\<lambda>s. s" "U ''Ana@x.br''" "{U ''ana@x.br''}" "[?row]"
        "demo_db\<lparr> ad_partners := [account_of (\<lambda>s. s) [112] [116] ?row] \<rparr>" "\<lambda>_. [112]" "\<lambda>_. [116]"]
    by simp
qed

section \<open>Leads of partners\<close>

text \<open>C4: What becomes of the lead a partner submits: 400 when its telephone has no digit, 403 when the
  fraud signals add up to a block; otherwise 201, and when no lead of the programme has this telephone,
  the partner's list begins with the new lead, under a referral with the split that was chosen.\<close>

theorem submitted_lead_listed:
  assumes "Call (PCreateLead req) \<in> set (snd (handleSubmit s))" "rq_body (partner_req b (PCreateLead req)) = Some body"
    and "\<not> list_ex (has_phone h (lp_program p) (normalizePhone (ni_phone s))) (lb_leads d)" "fresh_ids ids d"
    and "\<And>l. l \<in> set (lb_leads d) \<Longrightarrow> le_created l < now"
    and "act = fr_Action (Check d (lead_input h now p (normalizePhone (ni_phone s)) (ni_email s)))"
    and "l = (new_lead h (fst ids) now p (ni_nome s) (normalizePhone (ni_phone s)) (ni_email s) (ni_notes s))\<lparr> le_referral := Some (snd ids) \<rparr>"
  shows "case srv_partner_lead h ids now (Some p) rules body d of (st, d') \<Rightarrow>
    if normalizePhone (ni_phone s) = [] then st = 400 \<and> d' = d
    else if act = ActionBlock then st = 403 \<and> d' = d
    else st = 201 \<and> srv_partner_referrals (lp_id p) d' = take 100 ((l, None, None) # all_referral_rows (lp_id p) d) \<and>
      (\<exists>r. lb_referrals d' = lb_referrals d @ [r] \<and> le_referral l = Some (rf_id r) \<and> rf_partner r = lp_id p \<and>
        rf_split r = map_option (\<lambda>c. json (split_json c)) (computedSplit s) \<and> rf_score r = AttributionScoreFor act)"
proof -
  have "req = ni_request s" using assms(1) by (auto simp: handleSubmit_def split: if_splits)
  then have body: "body = json (create_lead_json (ni_request s))" using assms(2) by (simp add: lead_body del: partner_req.simps)
  show ?thesis unfolding body lead_decoded using new_lead_listed [OF assms(3-5)] assms(6,7)
    by (auto simp: Let_def new_lead_def split: fraud_decision.split)
qed

definition demo_page :: nova where
  "demo_page = (fst ni_init)\<lparr> ni_nome := [65], ni_phone := U ''(11) 99999-0000'' \<rparr>"

definition demo_leads :: lead_db where
  "demo_leads = \<lparr> lb_leads = [], lb_referrals = [], lb_clicks = [], lb_sales = [], lb_rewards = [] \<rparr>"

definition demo_partner :: lead_partner where
  "demo_partner = \<lparr> lp_id = [112], lp_program = [80], lp_email_hash = None, lp_phone_hash = None \<rparr>"

lemma demo_page_submits: "snd (handleSubmit demo_page) = [Call (PCreateLead (ni_request demo_page))]"
  by (simp add: handleSubmit_def demo_page_def ni_init_def splitInvalid_def isFlexible_def ni_reward_def ustr)

lemma demo_phone: "normalizePhone (ni_phone demo_page) = U ''+5511999990000''"
  by (simp add: demo_page_def normalizePhone_def Let_def ustr)

lemma demo_ok: "fr_Action (Check demo_leads (lead_input h 0 demo_partner phone email)) = ActionOK"
  by (rule quiet_action) (simp_all add: checkSelfReferral_def lead_input_def demo_partner_def behaviour_def checkVelocity_def
      checkPhoneDedup_def checkClickVelocity_def checkIPUADup_def recent_clicks_def demo_leads_def)

theorem submitted_lead_listed_witness:
  "fst (srv_partner_lead (\<lambda>s. s) ([108], [114]) 0 (Some demo_partner) JNull (json (create_lead_json (ni_request demo_page))) demo_leads) = 201"
proof -
  have f: "fresh_ids ([108], [114]) demo_leads" "lb_leads demo_leads = []" by (simp_all add: fresh_ids_def demo_leads_def)
  have "U ''+5511999990000'' \<noteq> []" by (simp add: U.simps)
  then show ?thesis
    using submitted_lead_listed [OF _ lead_body _ f(1) _ refl refl, of "ni_request demo_page" demo_page "\<lambda>s. s" demo_partner 0 JNull]
    by (auto simp: demo_page_submits demo_phone demo_ok f(2))
qed

text \<open>C16: A second partner who registers a telephone a lead of the programme already has, under another
  referral, is answered 201 and sees one referral more in the count, but the lists of all partners stay
  as they were.\<close>

theorem known_telephone_orphan:
  assumes "l \<in> set (lb_leads d)" "has_phone h (lp_program p) phone l" "le_referral l \<noteq> None"
    and "\<And>x. x \<in> set (lb_leads d) \<Longrightarrow> has_phone h (lp_program p) phone x \<Longrightarrow> x = l" "distinct (map le_id (lb_leads d))"
    and "fresh_ids ids d" "phone = normalizePhone (ni_phone s)"
    and "srv_partner_lead h ids now (Some p) rules (json (create_lead_json (ni_request s))) d = (201, d')"
  shows "(\<forall>q. srv_partner_referrals q d' = srv_partner_referrals q d) \<and>
    srv_me_referrals (lp_id p) d' = srv_me_referrals (lp_id p) d + 1"
  using assms(8) known_phone_unlisted [OF assms(1,2,4,5,3,6)] unfolding lead_decoded assms(7)
  by (auto simp: Let_def split: if_splits fraud_decision.splits)

definition demo_taken :: lead_db where
  "demo_taken = demo_leads\<lparr> lb_leads := [\<lparr> le_id = [108], le_program = [80], le_referral = Some [114], le_name = None, le_email = None,
       le_email_hash = None, le_phone = U ''+5511999990000'', le_phone_hash = U ''+5511999990000'', le_notes = None, le_created = 0 \<rparr>],
     lb_referrals := [\<lparr> rf_id = [114], rf_program = [80], rf_partner = [113], rf_snapshot = JNull, rf_split = None, rf_score = 1, rf_created = 0 \<rparr>] \<rparr>"

theorem known_telephone_orphan_witness:
  "srv_me_referrals [112] (snd (srv_partner_lead (\<lambda>s. s) ([109], [115]) 100000 (Some demo_partner) JNull
     (json (create_lead_json (ni_request demo_page))) demo_taken)) = 1"
proof -
  have "fr_Action (Check demo_taken (lead_input (\<lambda>s. s) 100000 demo_partner (U ''+5511999990000'') [])) = ActionOK"
    by (rule quiet_action) (simp_all add: checkSelfReferral_def lead_input_def demo_partner_def behaviour_def checkVelocity_def
        checkPhoneDedup_def checkClickVelocity_def checkIPUADup_def recent_clicks_def demo_leads_def demo_taken_def)
  moreover have "ni_email demo_page = []" by (simp add: demo_page_def ni_init_def)
  moreover have "U ''+5511999990000'' \<noteq> []" by (simp add: U.simps)
  ultimately obtain d' where d': "srv_partner_lead (\<lambda>s. s) ([109], [115]) 100000 (Some demo_partner) JNull
      (json (create_lead_json (ni_request demo_page))) demo_taken = (201, d')"
    by (simp add: lead_decoded demo_phone Let_def)
  have "js_toLowerCase (U ''+5511999990000'') = U ''+5511999990000''" by (simp add: ustr)
  then have "srv_me_referrals (lp_id demo_partner) d' = srv_me_referrals (lp_id demo_partner) demo_taken + 1"
    by (intro conjunct2 [OF known_telephone_orphan [OF _ _ _ _ _ _ refl d']])
      (auto simp: demo_taken_def demo_leads_def demo_partner_def has_phone_def fresh_ids_def demo_phone hashLower_def)
  then show ?thesis using d' by (simp add: srv_me_referrals_def demo_taken_def demo_leads_def demo_partner_def)
qed



definition demo_sale :: "jsval option \<Rightarrow> rule_event" where
  "demo_sale split = \<lparr> ge_SaleAmount = 10000, ge_LeadStatus = [], ge_PartnerID = [112], ge_ReferralID = [114], ge_SaleID = [115],
     ge_ProgramID = [80], ge_TenantID = [116], ge_SplitChoice = split \<rparr>"

definition demo_reward :: reward_config where
  "demo_reward = \<lparr> gc_Type = U ''flexible_split'', gc_AmountBRL = None, gc_Pct = None, gc_MaxPct = Some 20, gc_Target = None,
     gc_PointsPerBRL = None, gc_PointsPerConversion = None, gc_MaxMonths = None \<rparr>"






definition sale_db :: payout_db where
  "sale_db = \<lparr> db_payouts = [], db_rewards = [], db_pix = (\<lambda>_. Some [120]), db_cached = [] \<rparr>"


section \<open>What a rule pays\<close>




text \<open>C14: A fixed reward of a whole number of cents, published by the wizard, pays that number of cents or
  one less, and exactly that number when it is a whole number of reais; R$ 19,99 pays R$ 19,98.\<close>

theorem wizard_fixed_reward:
  assumes "np_janela s \<in> set janela_options" "ParseRuleSchema (json (buildBackendRules s)) = Inr r"
    and "np_preset s = Commission" "first_tier (np_tiers s) = Some t" "tr_type t = CommissionFixed"
    and "tr_value t = RNum (mk (of_int c / 100))" "0 < c" "c \<le> 2 ^ 45"
  shows "pays (Evaluate shw [] (gr_Reward r) ev) (\<lambda>n. n = c \<or> n = c - 1 \<and> \<not> 100 dvd c) \<and>
    (c = 1999 \<longrightarrow> pays (Evaluate shw [] (gr_Reward r) ev) (\<lambda>n. n = 1998))"
  using wizard_fixed [OF assms] by blast

definition demo_wizard :: novo where
  "demo_wizard = np_start\<lparr> np_tiers := [\<lparr> tr_from = Fin 1, tr_to = None, tr_type = CommissionFixed, tr_value = RNum (mk (1999 / 100)) \<rparr>] \<rparr>"

theorem wizard_fixed_reward_witness:
  "\<exists>r. ParseRuleSchema (json (buildBackendRules demo_wizard)) = Inr r \<and>
    pays (Evaluate (\<lambda>_. []) [] (gr_Reward r) (demo_sale None)) (\<lambda>n. n = 1998)"
proof -
  have v: "mk (1999 / 100) = Fin (fl (1999 / 100))" by (rule mk_bounded) simp
  have "0 < fl (1999 / 100)" using fl_sign(1) [of "1999 / 100"] by simp
  then have "reward_ok demo_wizard"
    by (simp add: reward_ok_def demo_wizard_def np_start_def first_tier_def value_if_number_def above_num_def v)
  moreover have w: "np_janela demo_wizard \<in> set janela_options" "np_preset demo_wizard = Commission"
    "np_quandoPagar demo_wizard \<in> set valid_triggers"
    by (simp_all add: demo_wizard_def np_start_def janela_options_def trigger_options)
  ultimately obtain r where r: "ParseRuleSchema (json (buildBackendRules demo_wizard)) = Inr r"
    using accepted_rules [OF w(1)] by (auto simp: accepted_def)
  have t: "first_tier (np_tiers demo_wizard) = Some \<lparr> tr_from = Fin 1, tr_to = None, tr_type = CommissionFixed, tr_value = RNum (mk (1999 / 100)) \<rparr>"
    by (simp add: demo_wizard_def first_tier_def)
  show ?thesis using wizard_fixed_reward [OF w(1) r w(2) t, of 1999 "\<lambda>_. []" "demo_sale None"] r by simp
qed

section \<open>The overview\<close>

text \<open>C21: Whatever was clicked, the overview shows no click, no change and no bar: the query names a column
  the table does not have. The change of the leads points where the counts do. And a partner's amount is
  the approved and paid rewards times the number of its referrals.\<close>

theorem overview_shows:
  assumes "length (vb_lead_moments d) \<le> 2 ^ 40" "ov = srv_overview day_of show_time now d"
  shows "hd (ov_cards ov) = (U ''Cliques nos ~00faltimos 7 dias'', toLocaleString (Fin 0),
      Some \<lparr> dl_value = U ''~2192 0% vs semana passada'', dl_positive = False, dl_neutral = True \<rparr>) \<and>
    ov_clicks_per_day ov = [] \<and>
    (\<exists>recent before. week_counts lead_columns ''created_at'' now (vb_lead_moments d) = Some (recent, before) \<and>
      (dl_positive (fmtDelta (ov_leads_delta_pct ov)) \<longleftrightarrow> before < recent) \<and>
      (dl_neutral (fmtDelta (ov_leads_delta_pct ov)) \<longleftrightarrow> recent = before)) \<and>
    (\<forall>x \<in> set (ov_top_partners ov). \<exists>p \<in> set (vb_partners d). fst x = vp_name p \<and>
      snd (snd x) = num_int (int (max 1 (referral_count d (vp_id p))) * earned d (vp_id p)))"
proof -
  obtain recent before where c: "week_counts lead_columns ''created_at'' now (vb_lead_moments d) = Some (int recent, int before)"
    "recent + before \<le> length (vb_lead_moments d)" "ov_leads_delta_pct ov = pctDelta (int recent) (int before)"
    unfolding assms(2) using leads_counted by blast
  have "int recent \<le> 2 ^ 40" "int before \<le> 2 ^ 40" using c(2) assms(1) by simp_all
  note delta = delta_arrow [OF _ _ this]
  have "\<exists>p \<in> set (vb_partners d). fst x = vp_name p \<and>
      snd (snd x) = num_int (int (max 1 (referral_count d (vp_id p))) * earned d (vp_id p))" if x: "x \<in> set (ov_top_partners ov)" for x
  proof -
    obtain n m a where "(n, m, a) \<in> set (top_partners d)" "x = (n, num_int m, num_int a)"
      using x unfolding assms(2) by (auto simp: srv_overview_def split: prod.splits)
    moreover obtain p where "p \<in> set (vb_partners d)" "top_row d p = (n, m, a)"
      by (rule top_partner_of [OF \<open>(n, m, a) \<in> set (top_partners d)\<close>])
    moreover have "fst (top_row d p) = vp_name p" by (simp add: top_row_def Let_def)
    ultimately show ?thesis using top_row_amount [of d p] by (intro bexI [of _ p]) simp_all
  qed
  then show ?thesis using c(1,3) delta no_clicks_counted [of day_of show_time now d]
    by (simp add: assms(2) ov_cards_def fmtDelta_def)
qed

definition demo_overview :: overview_db where
  "demo_overview = \<lparr> vb_clicks = [\<lambda>_. 0], vb_lead_moments = [\<lambda>_. 0], vb_partners = [\<lparr> vp_id = [112], vp_name = [65], vp_active = True \<rparr>],
     vb_referrals = [([114], [112]), ([115], [112])], vb_rewards = [\<lparr> vw_partner = [112], vw_amount = 1000, vw_status = U ''paid'' \<rparr>],
     vb_leads = [] \<rparr>"

theorem overview_shows_witness:
  "ov_clicks_per_day (srv_overview (\<lambda>_. []) (\<lambda>_. []) 0 demo_overview) = [] \<and>
   ov_top_partners (srv_overview (\<lambda>_. []) (\<lambda>_. []) 0 demo_overview) = [([65], num_int 2, num_int 2000)]"
proof -
  let ?ov = "srv_overview (\<lambda>_. []) (\<lambda>_. []) 0 demo_overview"
  have t: "ov_top_partners ?ov = [([65], num_int 2, snd (snd (hd (ov_top_partners ?ov))))]"
    by (simp add: srv_overview_def top_partners_def top_row_def demo_overview_def Let_def join_all_def split: prod.split)
  have "vb_partners demo_overview = [\<lparr> vp_id = [112], vp_name = [65], vp_active = True \<rparr>]" "referral_count demo_overview [112] = 2"
    "earned demo_overview [112] = 1000" "length (vb_lead_moments demo_overview) \<le> 2 ^ 40"
    by (simp_all add: demo_overview_def referral_count_def earned_def approved_or_paid_def)
  then have "ov_clicks_per_day ?ov = [] \<and> (\<forall>x \<in> set (ov_top_partners ?ov). snd (snd x) = num_int 2000)"
    using overview_shows [OF _ refl, of demo_overview "\<lambda>_. []" "\<lambda>_. []" 0] by simp
  then show ?thesis using t by (metis list.set_intros(1) snd_conv)
qed

section \<open>What a partner has earned\<close>

text \<open>C24: The start page of a partner and the company's table agree on the partner, to the cent: the page
  shows what is pending and approved together, the table what is approved and paid, and both the same
  number of referrals. The overview shows the table's amount times that number.\<close>

theorem earnings_shown:
  assumes "srv_me show_time user d = (200, Some m)" "\<And>r. r \<in> set (co_rewards d) \<Longrightarrow> 0 \<le> sr_amount r"
    and "rewards_in UNIV (pm_partner_id m) d < 2 ^ 52"
  shows "read_brl (snd (hd (hm_cards m))) = rewards_in {RPending, RApproved} (pm_partner_id m) d \<and>
    (\<exists>row \<in> set (srv_admin_list show_time d). pt_id row = pm_partner_id m \<and> pt_referrals row = pm_referrals m \<and>
      read_brl (pa_cents (pt_commission_cents row)) = rewards_in {RApproved, RPaid} (pm_partner_id m) d \<and>
      snd (snd (top_row (overview_of d) \<lparr> vp_id = pt_id row, vp_name = pt_name row, vp_active = act \<rparr>)) =
        max 1 (referrals_of (pm_partner_id m) d) * rewards_in {RApproved, RPaid} (pm_partner_id m) d)"
proof -
  let ?i = "pm_partner_id m"
  obtain p g where pg: "p \<in> set (co_partners d)" "g \<in> set (co_programs d)" "pgm_id g = pe_program p" "pe_id p = ?i"
    and m: "pm_pending_rewards_cents m = num_int (rewards_in {RPending} ?i d)"
      "pm_approved_rewards_cents m = num_int (rewards_in {RApproved} ?i d)" "pm_referrals m = num_int (referrals_of ?i d)"
    by (rule me_found [OF assms(1)]) metis
  have s: "\<bar>rewards_in ss ?i d\<bar> < 2 ^ 52" for ss 
    using rewards_bounds [of d ss ?i, OF assms(2)] assms(3) by simp
  have shown: "read_brl (fmt_brl (js_div (num_int (rewards_in ss ?i d)) (Fin 100))) = rewards_in ss ?i d" for ss
    using brl_shows_cents [OF s [of ss]] by (simp add: num_int_small)
  have sum: "rewards_in {RPending} ?i d + rewards_in {RApproved} ?i d = rewards_in {RPending, RApproved} ?i d"
    using rewards_split [of "{RPending}" "{RApproved}" ?i d] by (simp add: insert_commute)
  have "js_add (num_int (rewards_in {RPending} ?i d)) (num_int (rewards_in {RApproved} ?i d)) = num_int (rewards_in {RPending, RApproved} ?i d)"
    unfolding sum [symmetric] by (rule num_int_add) (use s [of "{RPending}"] s [of "{RApproved}"] in simp_all)
  then have card: "read_brl (snd (hd (hm_cards m))) = rewards_in {RPending, RApproved} ?i d"
    by (simp add: hm_cards_def brl_of_cents_def m shown)
  have "admin_row show_time d p g \<in> set (srv_admin_list show_time d)"
    using pg by (auto simp: srv_admin_list_def)
  moreover have "read_brl (pa_cents (pt_commission_cents (admin_row show_time d p g))) = rewards_in {RApproved, RPaid} ?i d"
    by (simp add: admin_row_def pa_cents_def Let_def pg(4) shown)
  ultimately show ?thesis using card
    by (intro conjI bexI [of _ "admin_row show_time d p g"])
      (simp_all add: admin_row_def Let_def pg(4) m(3) top_row_amount earned_same of_nat_max count_same)
qed

definition demo_company :: company_db where
  "demo_company = \<lparr> co_partners = [\<lparr> pe_id = [112], pe_user = Some [117], pe_name = [65], pe_email = None, pe_phone = None,
       pe_status = TActive, pe_program = [80], pe_created = 0 \<rparr>],
     co_programs = [\<lparr> pgm_id = [80], pgm_name = [80], pgm_rules = JNull \<rparr>], co_links = [],
     co_referrals = [([114], [112]), ([115], [112])],
     co_rewards = [\<lparr> sr_id = [1], sr_partner = [112], sr_amount = 1050, sr_status = RApproved \<rparr>,
       \<lparr> sr_id = [2], sr_partner = [112], sr_amount = 300, sr_status = RPending \<rparr>] \<rparr>"

theorem earnings_shown_witness:
  "\<exists>m. srv_me (\<lambda>_. []) [117] demo_company = (200, Some m) \<and> read_brl (snd (hd (hm_cards m))) = 1350 \<and>
    (\<exists>row \<in> set (srv_admin_list (\<lambda>_. []) demo_company). read_brl (pa_cents (pt_commission_cents row)) = 1050)"
proof -
  obtain m where m: "srv_me (\<lambda>_. []) [117] demo_company = (200, Some m)" "pm_partner_id m = [112]"
    by (simp add: srv_me_def getPartnerID_def demo_company_def)
  have "rewards_in UNIV [112] demo_company < 2 ^ 52" "rewards_in {RPending, RApproved} [112] demo_company = 1350"
    "rewards_in {RApproved, RPaid} [112] demo_company = 1050"
    by (simp_all add: rewards_in_def demo_company_def)
  moreover have "0 \<le> sr_amount r" if "r \<in> set (co_rewards demo_company)" for r
    using that by (auto simp: demo_company_def)
  ultimately show ?thesis using earnings_shown [OF m(1)] m by (simp only:) blast
qed

section \<open>The Pix key\<close>

text \<open>C32: The settings page sends a key only when it is saved and passes the check. The server stores a key
  that is not an e-mail, trimmed, for the partner, and from then on all the partner's approved rewards that
  were held long enough can be paid out; an e-mail it may refuse, and then nothing changes.\<close>

theorem saved_key_pays:
  assumes "Call c \<in> set (snd (ps_begin ev s))" "rq_body (partner_req b c) = Some body"
    and "key = js_trim (ps_value s)" "srv_update_pix (Some i) body d = (st, d')"
  shows "ev = PsSave \<and> matches (pixKeyRegex (ps_type s)) key \<and> (ps_type s \<noteq> KEmail \<longrightarrow> st = 200) \<and>
    (st = 200 \<and> d' = d\<lparr> db_pix := (db_pix d)(i := Some key) \<rparr> \<and>
        (\<forall>r \<in> set (db_rewards d). sr_partner r = i \<longrightarrow> sr_status r = RApproved \<longrightarrow> held r \<longrightarrow> r \<in> set (eligible held d')) \<or>
     st = 400 \<and> d' = d)"
proof -
  have c: "ev = PsSave" "c = PUpdatePixKey key (ps_type s)" "validatePixKey (ps_value s) (ps_type s) = None"
    using save_calls [OF assms(1)] assms(3) by simp_all
  then have k: "key \<noteq> []" "matches (pixKeyRegex (ps_type s)) key" by (simp_all add: validate_None assms(3))
  have "ps_type s \<noteq> KEmail \<Longrightarrow> go_ValidatePixKey key (pix_type_str (ps_type s))"
    using k same_regex [of "ps_type s" key] unfolding go_validate_cases(3) by blast
  then show ?thesis using c(1) k assms(4) pix_decoded [OF assms(2) [unfolded c(2)], of i d] keyed_eligible [OF k(1)]
    by (auto split: if_splits)
qed

definition demo_settings :: settings where
  "demo_settings = (fst ps_init)\<lparr> ps_value := U '' 12345678901'' \<rparr>"

theorem saved_key_pays_witness:
  "\<exists>body. rq_body (partner_req [] (PUpdatePixKey (js_trim (U '' 12345678901'')) KCpf)) = Some body \<and>
    fst (srv_update_pix (Some [112]) body sale_db) = 200"
proof -
  have v: "ps_type demo_settings = KCpf" "ps_value demo_settings = U '' 12345678901''" by (simp_all add: demo_settings_def ps_init_def)
  have "validatePixKey (U '' 12345678901'') KCpf = None"
    by (simp add: validate_None U.simps js_trim_def isSpace_def matches_lang lang_times isDigit_def)
  then have c: "Call (PUpdatePixKey (js_trim (U '' 12345678901'')) KCpf) \<in> set (snd (ps_begin PsSave demo_settings))"
    by (simp add: handleUpdatePixKey_def v)
  obtain body where body: "rq_body (partner_req [] (PUpdatePixKey (js_trim (U '' 12345678901'')) KCpf)) = Some body"
    by (simp add: request_defs body_of_def)
  obtain st d' where "srv_update_pix (Some [112]) body sale_db = (st, d')" by fastforce
  with saved_key_pays [OF c body refl this] body show ?thesis by (auto simp: v)
qed

section \<open>Limits\<close>

text \<open>C25: The token bucket keeps its limit: of the requests of one caller at any times, in order, no more pass
  than the limit and what the time between the first and the last is worth. And it starves the impatient:
  a caller whose requests come closer together than one token's worth passes as many as the limit, and then
  never again.\<close>

theorem bucket_limits:
  assumes "sane l w" "sorted (t0 # ts)"
  shows "granted (bucket_run w (map (Pair l) (t0 # ts)) None) \<le> l + (last (t0 # ts) - t0) * l div w \<and>
    (impatient l w (t0 # ts) \<longrightarrow>
      bucket_run w (map (Pair l) (t0 # ts)) None = map (\<lambda>i. int i < l) [0..<length (t0 # ts)])"
proof -
  have l: "0 \<le> l - 1" "l - 1 \<le> l" using assms(1) by (simp_all add: sane_def)
  have first: "bucket_run w (map (Pair l) (t0 # ts)) None =
      True # bucket_run w (map (Pair l) ts) (Some \<lparr> bk_tokens = l - 1, bk_last = t0 \<rparr>)"
    by (simp add: take_first [OF assms(1)])
  have "map (\<lambda>i. int i < l) [0..<length (t0 # ts)] = True # map (\<lambda>i. int i < l - 1) [0..<length ts]"
    using l by (simp add: upt_conv_Cons map_Suc_upt [symmetric] comp_def less_diff_eq add.commute del: upt_Suc)
  then show ?thesis
    unfolding first using bucket_bound [OF assms l] bucket_starves [OF assms(1) _ l] by simp
qed

theorem bucket_limits_witness:
  "bucket_run 60000 (map (Pair 5) [0, 11000, 22000, 33000, 44000, 55000, 66000]) None = [True, True, True, True, True, False, False]"
  using bucket_limits [of 5 60000 0 "[11000, 22000, 33000, 44000, 55000, 66000]"]
  by (simp add: sane_def upt_rec)

text \<open>C34: The limit on sign-ins, five a minute for one address, does not hold. The counter is shared with the
  limit on clicks, so who sends a click before each sign-in signs in every two seconds for ever; and the
  address is what the caller writes into a header, so who writes another each time is never limited.\<close>

theorem sign_in_limit_evaded:
  "limited_run (alternating s n t) (\<lambda>_. None) = replicate (2 * n) (Inr ()) \<and>
   (distinct (map (\<lambda>(_, _, s). RateLimitByIP s) qs) \<longrightarrow> limited_run qs (\<lambda>_. None) = replicate (length qs) (Inr ()))"
  using alternating_passes [where c = "\<lambda>_. None"] forged_passes [of qs "\<lambda>_. None"] by simp

definition forger :: "nat \<Rightarrow> sender" where
  "forger n = \<lparr> sn_forwarded = [n], sn_remote = [] \<rparr>"

theorem sign_in_limit_evaded_witness:
  "limited_run (alternating (forger 49) 10 0) (\<lambda>_. None) = replicate 20 (Inr ()) \<and>
   limited_run (map (\<lambda>n. (0, ''auth.Login'', forger n)) [49, 50, 51, 52, 53, 54, 55]) (\<lambda>_. None) = replicate 7 (Inr ())"
proof -
  let ?qs = "map (\<lambda>n. (0 :: int, ''auth.Login'', forger n)) [49, 50, 51, 52, 53, 54, 55]"
  have "distinct (map (\<lambda>(_, _, s). RateLimitByIP s) ?qs)"
    by (simp add: RateLimitByIP_def clientIP_def forger_def go_TrimSpace_def goSpace_def isSpace_def)
  moreover have "length ?qs = 7" "(2 :: nat) * 10 = 20" by simp_all
  ultimately show ?thesis using sign_in_limit_evaded [of "forger 49" 10 0 ?qs] by (simp only:)
qed

end
