(* ===== verification/UiKit.thy ===== *)
theory UiKit imports Cards Shell begin

text \<open>
  The components of \<open>packages/ui/src/components/ui\<close> that put class names on an element of the page or
  of Radix, and what \<open>packages/ui/src/index.ts\<close> exports. The views of the pages use these components by
  their names; the facts say what that leaves out: a wrapper passes on the texts and the handlers it is
  given, and only the content of a dialog adds a text of its own. \<open>clsx\<close>, \<open>twMerge\<close> and the state of a
  field of \<open>react-hook-form\<close> are parameters.
\<close>

subsection \<open>Class names\<close>

record kit =
  ki_clsx :: "jstr option list \<Rightarrow> jstr"
  ki_twMerge :: "jstr \<Rightarrow> jstr"

definition cn :: "kit \<Rightarrow> jstr option list \<Rightarrow> jstr" where
  "cn k inputs = ki_twMerge k (ki_clsx k inputs)"

text \<open>An element with its class names, the properties passed on and the children.\<close>

definition wrapped :: "kit \<Rightarrow> string \<Rightarrow> jstr option list \<Rightarrow> 'e attr list \<Rightarrow> 'e view list \<Rightarrow> 'e view" where
  "wrapped k tag cs props children = N tag (A ''className'' (cn k cs) # props) children"

subsection \<open>Cards and tables\<close>

definition Card :: "kit \<Rightarrow> jstr option \<Rightarrow> 'e attr list \<Rightarrow> 'e view list \<Rightarrow> 'e view" where
  "Card k cls props children = wrapped k ''div'' [Some (U ''rounded-lg border bg-card text-card-foreground shadow-sm''), cls] props children"

definition CardHeader :: "kit \<Rightarrow> jstr option \<Rightarrow> 'e attr list \<Rightarrow> 'e view list \<Rightarrow> 'e view" where
  "CardHeader k cls props children = wrapped k ''div'' [Some (U ''flex flex-col space-y-1.5 p-6''), cls] props children"

definition CardTitle :: "kit \<Rightarrow> jstr option \<Rightarrow> 'e attr list \<Rightarrow> 'e view list \<Rightarrow> 'e view" where
  "CardTitle k cls props children = wrapped k ''h3'' [Some (U ''text-2xl font-semibold leading-none tracking-tight''), cls] props children"

definition CardDescription :: "kit \<Rightarrow> jstr option \<Rightarrow> 'e attr list \<Rightarrow> 'e view list \<Rightarrow> 'e view" where
  "CardDescription k cls props children = wrapped k ''p'' [Some (U ''text-sm text-muted-foreground''), cls] props children"

definition CardContent :: "kit \<Rightarrow> jstr option \<Rightarrow> 'e attr list \<Rightarrow> 'e view list \<Rightarrow> 'e view" where
  "CardContent k cls props children = wrapped k ''div'' [Some (U ''p-6 pt-0''), cls] props children"

definition CardFooter :: "kit \<Rightarrow> jstr option \<Rightarrow> 'e attr list \<Rightarrow> 'e view list \<Rightarrow> 'e view" where
  "CardFooter k cls props children = wrapped k ''div'' [Some (U ''flex items-center p-6 pt-0''), cls] props children"

definition Table :: "kit \<Rightarrow> jstr option \<Rightarrow> 'e attr list \<Rightarrow> 'e view list \<Rightarrow> 'e view" where
  "Table k cls props children = N ''div'' [A ''className'' (U ''relative w-full overflow-auto'')]
     [wrapped k ''table'' [Some (U ''w-full caption-bottom text-sm''), cls] props children]"

definition TableHeader :: "kit \<Rightarrow> jstr option \<Rightarrow> 'e attr list \<Rightarrow> 'e view list \<Rightarrow> 'e view" where
  "TableHeader k cls props children = wrapped k ''thead'' [Some (U ''[&_tr]:border-b''), cls] props children"

definition TableBody :: "kit \<Rightarrow> jstr option \<Rightarrow> 'e attr list \<Rightarrow> 'e view list \<Rightarrow> 'e view" where
  "TableBody k cls props children = wrapped k ''tbody'' [Some (U ''[&_tr:last-child]:border-0''), cls] props children"

definition TableFooter :: "kit \<Rightarrow> jstr option \<Rightarrow> 'e attr list \<Rightarrow> 'e view list \<Rightarrow> 'e view" where
  "TableFooter k cls props children = wrapped k ''tfoot'' [Some (U ''border-t bg-muted/50 font-medium [&>tr]:last:border-b-0''), cls] props children"

definition TableRow :: "kit \<Rightarrow> jstr option \<Rightarrow> 'e attr list \<Rightarrow> 'e view list \<Rightarrow> 'e view" where
  "TableRow k cls props children = wrapped k ''tr'' [Some (U ''border-b transition-colors hover:bg-muted/50 data-[state=selected]:bg-muted''), cls] props children"

definition TableHead :: "kit \<Rightarrow> jstr option \<Rightarrow> 'e attr list \<Rightarrow> 'e view list \<Rightarrow> 'e view" where
  "TableHead k cls props children = wrapped k ''th'' [Some (U ''h-12 px-4 text-left align-middle font-medium text-muted-foreground [&:has([role=checkbox])]:pr-0''), cls] props children"

definition TableCell :: "kit \<Rightarrow> jstr option \<Rightarrow> 'e attr list \<Rightarrow> 'e view list \<Rightarrow> 'e view" where
  "TableCell k cls props children = wrapped k ''td'' [Some (U ''p-4 align-middle [&:has([role=checkbox])]:pr-0''), cls] props children"

definition TableCaption :: "kit \<Rightarrow> jstr option \<Rightarrow> 'e attr list \<Rightarrow> 'e view list \<Rightarrow> 'e view" where
  "TableCaption k cls props children = wrapped k ''caption'' [Some (U ''mt-4 text-sm text-muted-foreground''), cls] props children"

subsection \<open>Inputs, labels, tabs, toasts\<close>

definition Input :: "kit \<Rightarrow> jstr option \<Rightarrow> jstr option \<Rightarrow> 'e attr list \<Rightarrow> 'e view" where
  "Input k cls ty props = N ''input''
     (orelse (map_option (\<lambda>t. [A ''type'' t]) ty) [] @
      [A ''className'' (cn k [Some (U ''flex h-10 w-full rounded-md border border-input bg-background px-3 py-2 text-sm ring-offset-background file:border-0 file:bg-transparent file:text-sm file:font-medium placeholder:text-muted-foreground focus-visible:outline-none focus-visible:ring-2 focus-visible:ring-ring focus-visible:ring-offset-2 disabled:cursor-not-allowed disabled:opacity-50''), cls])] @ props) []"

definition Label :: "kit \<Rightarrow> jstr option \<Rightarrow> 'e attr list \<Rightarrow> 'e view list \<Rightarrow> 'e view" where
  "Label k cls props children = wrapped k ''LabelPrimitive.Root'' [Some (U ''text-sm font-medium leading-none peer-disabled:cursor-not-allowed peer-disabled:opacity-70''), cls] props children"

definition TabsList :: "kit \<Rightarrow> jstr option \<Rightarrow> 'e attr list \<Rightarrow> 'e view list \<Rightarrow> 'e view" where
  "TabsList k cls props children = wrapped k ''TabsPrimitive.List'' [Some (U ''inline-flex h-10 items-center justify-center rounded-md bg-muted p-1 text-muted-foreground''), cls] props children"

definition TabsTrigger :: "kit \<Rightarrow> jstr option \<Rightarrow> 'e attr list \<Rightarrow> 'e view list \<Rightarrow> 'e view" where
  "TabsTrigger k cls props children = wrapped k ''TabsPrimitive.Trigger'' [Some (U ''inline-flex items-center justify-center whitespace-nowrap rounded-sm px-3 py-1.5 text-sm font-medium ring-offset-background transition-all focus-visible:outline-none focus-visible:ring-2 focus-visible:ring-ring focus-visible:ring-offset-2 disabled:pointer-events-none disabled:opacity-50 data-[state=active]:bg-background data-[state=active]:text-foreground data-[state=active]:shadow-sm''), cls] props children"

definition TabsContent :: "kit \<Rightarrow> jstr option \<Rightarrow> 'e attr list \<Rightarrow> 'e view list \<Rightarrow> 'e view" where
  "TabsContent k cls props children = wrapped k ''TabsPrimitive.Content'' [Some (U ''mt-2 ring-offset-background focus-visible:outline-none focus-visible:ring-2 focus-visible:ring-ring focus-visible:ring-offset-2''), cls] props children"

definition ToastViewport :: "kit \<Rightarrow> jstr option \<Rightarrow> 'e attr list \<Rightarrow> 'e view list \<Rightarrow> 'e view" where
  "ToastViewport k cls props children = wrapped k ''ToastPrimitives.Viewport'' [Some (U ''fixed top-0 z-[100] flex max-h-screen w-full flex-col-reverse p-4 sm:bottom-0 sm:right-0 sm:top-auto sm:flex-col md:max-w-[420px]''), cls] props children"

subsection \<open>Dialogs, sheets, menus\<close>

definition DialogOverlay :: "kit \<Rightarrow> jstr option \<Rightarrow> 'e attr list \<Rightarrow> 'e view list \<Rightarrow> 'e view" where
  "DialogOverlay k cls props children = wrapped k ''DialogPrimitive.Overlay'' [Some (U ''fixed inset-0 z-50 bg-black/80 data-[state=open]:animate-in data-[state=closed]:animate-out data-[state=closed]:fade-out-0 data-[state=open]:fade-in-0''), cls] props children"

definition dialog_close :: "'e view" where
  "dialog_close = N ''DialogPrimitive.Close'' [A ''className'' (U ''absolute right-4 top-4 rounded-sm opacity-70 ring-offset-background transition-opacity hover:opacity-100 focus:outline-none focus:ring-2 focus:ring-ring focus:ring-offset-2 disabled:pointer-events-none data-[state=open]:bg-accent data-[state=open]:text-muted-foreground'')]
     [N ''X'' [A ''className'' (U ''h-4 w-4'')] [], N ''span'' [A ''className'' (U ''sr-only'')] [T (U ''Close'')]]"

definition DialogContent :: "kit \<Rightarrow> jstr option \<Rightarrow> 'e attr list \<Rightarrow> 'e view list \<Rightarrow> 'e view" where
  "DialogContent k cls props children = box ''DialogPortal'' [DialogOverlay k None [] [],
     wrapped k ''DialogPrimitive.Content'' [Some (U ''fixed left-[50%] top-[50%] z-50 grid w-full max-w-lg translate-x-[-50%] translate-y-[-50%] gap-4 border bg-background p-6 shadow-lg duration-200 data-[state=open]:animate-in data-[state=closed]:animate-out data-[state=closed]:fade-out-0 data-[state=open]:fade-in-0 data-[state=closed]:zoom-out-95 data-[state=open]:zoom-in-95 sm:rounded-lg''), cls] props
       (children @ [dialog_close])]"

definition DialogHeader :: "kit \<Rightarrow> jstr option \<Rightarrow> 'e attr list \<Rightarrow> 'e view list \<Rightarrow> 'e view" where
  "DialogHeader k cls props children = wrapped k ''div'' [Some (U ''flex flex-col space-y-1.5 text-center sm:text-left''), cls] props children"

definition DialogFooter :: "kit \<Rightarrow> jstr option \<Rightarrow> 'e attr list \<Rightarrow> 'e view list \<Rightarrow> 'e view" where
  "DialogFooter k cls props children = wrapped k ''div'' [Some (U ''flex flex-col-reverse sm:flex-row sm:justify-end sm:space-x-2''), cls] props children"

definition DialogTitle :: "kit \<Rightarrow> jstr option \<Rightarrow> 'e attr list \<Rightarrow> 'e view list \<Rightarrow> 'e view" where
  "DialogTitle k cls props children = wrapped k ''DialogPrimitive.Title'' [Some (U ''text-lg font-semibold leading-none tracking-tight''), cls] props children"

definition DialogDescription :: "kit \<Rightarrow> jstr option \<Rightarrow> 'e attr list \<Rightarrow> 'e view list \<Rightarrow> 'e view" where
  "DialogDescription k cls props children = wrapped k ''DialogPrimitive.Description'' [Some (U ''text-sm text-muted-foreground''), cls] props children"

definition SheetOverlay :: "kit \<Rightarrow> jstr option \<Rightarrow> 'e attr list \<Rightarrow> 'e view list \<Rightarrow> 'e view" where
  "SheetOverlay k cls props children = wrapped k ''SheetPrimitive.Overlay'' [Some (U ''fixed inset-0 z-50 bg-black/80 data-[state=open]:animate-in data-[state=closed]:animate-out data-[state=closed]:fade-out-0 data-[state=open]:fade-in-0''), cls] props children"

datatype sheet_side = SideTop | SideBottom | SideLeft | SideRight

fun side_classes :: "sheet_side \<Rightarrow> jstr" where
  "side_classes SideRight = U ''inset-y-0 right-0 h-full w-3/4 border-l data-[state=closed]:slide-out-to-right data-[state=open]:slide-in-from-right sm:max-w-sm''"
| "side_classes SideLeft = U ''inset-y-0 left-0 h-full w-3/4 border-r data-[state=closed]:slide-out-to-left data-[state=open]:slide-in-from-left sm:max-w-sm''"
| "side_classes SideTop = U ''inset-x-0 top-0 border-b data-[state=closed]:slide-out-to-top data-[state=open]:slide-in-from-top''"
| "side_classes SideBottom = U ''inset-x-0 bottom-0 border-t data-[state=closed]:slide-out-to-bottom data-[state=open]:slide-in-from-bottom''"

definition SheetContent :: "kit \<Rightarrow> sheet_side option \<Rightarrow> jstr option \<Rightarrow> 'e attr list \<Rightarrow> 'e view list \<Rightarrow> 'e view" where
  "SheetContent k side cls props children = (let sd = orelse side SideRight in
     box ''SheetPortal'' [SheetOverlay k None [] [],
       wrapped k ''SheetPrimitive.Content''
         (Some (U ''fixed z-50 gap-4 bg-background p-6 shadow-lg transition ease-in-out data-[state=closed]:duration-300 data-[state=open]:duration-500 data-[state=open]:animate-in data-[state=closed]:animate-out'') #
          map (\<lambda>x. if sd = x then Some (side_classes x) else None) [SideRight, SideLeft, SideTop, SideBottom] @ [cls])
         props children])"

definition DropdownMenuContent :: "kit \<Rightarrow> jsnum option \<Rightarrow> jstr option \<Rightarrow> 'e attr list \<Rightarrow> 'e view list \<Rightarrow> 'e view" where
  "DropdownMenuContent k sideOffset cls props children = box ''DropdownMenuPrimitive.Portal''
     [N ''DropdownMenuPrimitive.Content'' (A ''sideOffset'' (num_str (orelse sideOffset (Fin 4))) #
        A ''className'' (cn k [Some (U ''z-50 min-w-[8rem] overflow-hidden rounded-md border bg-popover p-1 text-popover-foreground shadow-md data-[state=open]:animate-in data-[state=closed]:animate-out data-[state=closed]:fade-out-0 data-[state=open]:fade-in-0 data-[state=closed]:zoom-out-95 data-[state=open]:zoom-in-95 data-[side=bottom]:slide-in-from-top-2 data-[side=left]:slide-in-from-right-2 data-[side=right]:slide-in-from-left-2 data-[side=top]:slide-in-from-bottom-2''), cls]) # props) children]"

definition DropdownMenuItem :: "kit \<Rightarrow> bool \<Rightarrow> jstr option \<Rightarrow> 'e attr list \<Rightarrow> 'e view list \<Rightarrow> 'e view" where
  "DropdownMenuItem k inset cls props children = wrapped k ''DropdownMenuPrimitive.Item''
     [Some (U ''relative flex cursor-default select-none items-center rounded-sm px-2 py-1.5 text-sm outline-none transition-colors focus:bg-accent focus:text-accent-foreground data-[disabled]:pointer-events-none data-[disabled]:opacity-50''), if inset then Some (U ''pl-8'') else None, cls] props children"

subsection \<open>Forms\<close>

text \<open>
  The state of a field is what \<open>getFieldState\<close> says for the name in the context: here its error, which
  may lack a message. Outside of a field there is no name.
\<close>

record field_error =
  fe_message :: "jstr option"

definition useFormField :: "(jstr option \<Rightarrow> field_error option) \<Rightarrow> jstr option \<Rightarrow> jstr option \<times> field_error option" where
  "useFormField getFieldState name = (name, getFieldState name)"

definition FormField :: "jstr \<Rightarrow> 'e attr list \<Rightarrow> 'e view" where
  "FormField name props = N ''FormFieldContext.Provider'' [A ''name'' name] [N ''Controller'' (A ''name'' name # props) []]"

definition FormItem :: "kit \<Rightarrow> jstr option \<Rightarrow> 'e attr list \<Rightarrow> 'e view list \<Rightarrow> 'e view" where
  "FormItem k cls props children = wrapped k ''div'' [Some (U ''space-y-2''), cls] props children"

definition FormLabel :: "kit \<Rightarrow> field_error option \<Rightarrow> jstr option \<Rightarrow> 'e attr list \<Rightarrow> 'e view list \<Rightarrow> 'e view" where
  "FormLabel k err cls props children =
     Label k (Some (cn k [map_option (\<lambda>_. U ''text-destructive'') err, cls])) props children"

definition FormControl :: "'e attr list \<Rightarrow> 'e view list \<Rightarrow> 'e view" where
  "FormControl props children = N ''div'' props children"

definition FormDescription :: "kit \<Rightarrow> jstr option \<Rightarrow> 'e attr list \<Rightarrow> 'e view list \<Rightarrow> 'e view" where
  "FormDescription k cls props children = wrapped k ''p'' [Some (U ''text-sm text-muted-foreground''), cls] props children"

text \<open>No children, or an empty text, is no message.\<close>

definition FormMessage :: "kit \<Rightarrow> field_error option \<Rightarrow> jstr option \<Rightarrow> 'e attr list \<Rightarrow> 'e view list \<Rightarrow> 'e view option" where
  "FormMessage k err cls props children =
     (let body = (case err of Some e \<Rightarrow> [T (orelse (fe_message e) (U ''undefined''))] | None \<Rightarrow> children)
      in if body = [] \<or> body = [T []] then None
         else Some (wrapped k ''p'' [Some (U ''text-sm font-medium text-destructive''), cls] props body))"

subsection \<open>What the package exports\<close>

text \<open>The names each file exports, and those the package takes from each of its files.\<close>

definition dialog_exports :: "string list" where
  "dialog_exports = [''Dialog'', ''DialogPortal'', ''DialogOverlay'', ''DialogTrigger'', ''DialogClose'', ''DialogContent'',
     ''DialogHeader'', ''DialogFooter'', ''DialogTitle'', ''DialogDescription'']"

definition form_exports :: "string list" where
  "form_exports = [''useFormField'', ''Form'', ''FormItem'', ''FormLabel'', ''FormControl'', ''FormDescription'',
     ''FormMessage'', ''FormField'']"

definition table_exports :: "string list" where
  "table_exports = [''Table'', ''TableHeader'', ''TableBody'', ''TableFooter'', ''TableHead'', ''TableRow'', ''TableCell'',
     ''TableCaption'']"

definition menu_exports :: "string list" where
  "menu_exports = [''DropdownMenu'', ''DropdownMenuTrigger'', ''DropdownMenuContent'', ''DropdownMenuItem'',
     ''DropdownMenuGroup'', ''DropdownMenuPortal'', ''DropdownMenuSub'', ''DropdownMenuRadioGroup'']"

definition sheet_exports :: "string list" where
  "sheet_exports = [''Sheet'', ''SheetPortal'', ''SheetOverlay'', ''SheetTrigger'', ''SheetClose'', ''SheetContent'']"

definition tabs_exports :: "string list" where
  "tabs_exports = [''Tabs'', ''TabsList'', ''TabsTrigger'', ''TabsContent'']"

definition card_exports :: "string list" where
  "card_exports = [''Card'', ''CardHeader'', ''CardTitle'', ''CardDescription'', ''CardContent'', ''CardFooter'']"

definition toast_exports :: "string list" where
  "toast_exports = [''ToastProvider'', ''ToastViewport'']"

definition input_exports :: "string list" where
  "input_exports = [''Input'']"

definition label_exports :: "string list" where
  "label_exports = [''Label'']"

definition ui_index :: "(string \<times> string list) list" where
  "ui_index = [
     (''./lib/utils'', [''cn'']),
     (''./components/ui/button'', [''Button'', ''ButtonProps'']),
     (''./components/ui/input'', [''Input'', ''InputProps'']),
     (''./components/ui/card'', [''Card'', ''CardHeader'', ''CardTitle'', ''CardDescription'', ''CardContent'', ''CardFooter'']),
     (''./components/ui/badge'', [''Badge'', ''BadgeProps'']),
     (''./components/ui/label'', [''Label'']),
     (''./components/ui/table'', [''Table'', ''TableHeader'', ''TableBody'', ''TableFooter'', ''TableHead'', ''TableRow'', ''TableCell'',
        ''TableCaption'']),
     (''./components/ui/tabs'', [''Tabs'', ''TabsList'', ''TabsTrigger'', ''TabsContent'']),
     (''./components/ui/toast'', [''ToastProvider'', ''ToastViewport'']),
     (''./components/ui/dropdown-menu'', [''DropdownMenu'', ''DropdownMenuTrigger'', ''DropdownMenuContent'', ''DropdownMenuItem'',
        ''DropdownMenuGroup'', ''DropdownMenuPortal'', ''DropdownMenuSub'', ''DropdownMenuRadioGroup'']),
     (''./components/ui/dialog'', [''Dialog'', ''DialogPortal'', ''DialogOverlay'', ''DialogTrigger'', ''DialogClose'', ''DialogContent'',
        ''DialogHeader'', ''DialogFooter'', ''DialogTitle'', ''DialogDescription'']),
     (''./components/ui/sheet'', [''Sheet'', ''SheetPortal'', ''SheetOverlay'', ''SheetTrigger'', ''SheetClose'', ''SheetContent'']),
     (''./components/ui/form'', [''useFormField'', ''Form'', ''FormItem'', ''FormLabel'', ''FormControl'', ''FormDescription'',
        ''FormMessage'', ''FormField'']),
     (''./components/stat-card'', [''StatCard'', ''StatCardProps'']),
     (''./components/empty-state'', [''EmptyState'']),
     (''./components/lead-status-badge'', [''LeadStatusBadge'']),
     (''./components/commission-amount'', [''CommissionAmount'']),
     (''./components/copy-link-button'', [''CopyLinkButton'']),
     (''./components/reward-rule-preview'', [''RewardRulePreview'']),
     (''./components/tier-builder'', [''TierBuilder'', ''Tier'', ''TierRewardType'']),
     (''./hooks/use-toast'', [''toast'', ''useToast'', ''dismissToast'', ''Toast'']),
     (''./components/ui/sonner'', [''Toaster'']),
     (''./store/example'', [''useUIStore''])]"

subsection \<open>Facts\<close>

text \<open>A wrapper shows the texts of its children and offers their handlers and those it is given.\<close>

definition transparent :: "('e attr list \<Rightarrow> 'e view list \<Rightarrow> 'e view) \<Rightarrow> bool" where
  "transparent f \<longleftrightarrow> (\<forall>props children. texts (f props children) = concat (map texts children) \<and>
     reachable_handlers (f props children) =
       (if disabled props then [] else handlers props) @ concat (map reachable_handlers children))"

lemma transparent_wrapped: "transparent (wrapped k tag cs)"
  by (simp add: transparent_def wrapped_def)

lemma transparent_inside:
  assumes "transparent f" "disabled as = False" "handlers as = []"
  shows "transparent (\<lambda>props children. N tag as [f props children])"
  using assms by (simp add: transparent_def)

definition wrappers :: "kit \<Rightarrow> (jstr option \<Rightarrow> 'e attr list \<Rightarrow> 'e view list \<Rightarrow> 'e view) list" where
  "wrappers k = [Card k, CardHeader k, CardTitle k, CardDescription k, CardContent k, CardFooter k,
     Table k, TableHeader k, TableBody k, TableFooter k, TableRow k, TableHead k, TableCell k, TableCaption k,
     Label k, TabsList k, TabsTrigger k, TabsContent k, ToastViewport k, DialogOverlay k, DialogHeader k, DialogFooter k,
     DialogTitle k, DialogDescription k, SheetOverlay k, FormItem k, FormDescription k]"

lemmas wrapper_defs = Card_def CardHeader_def CardTitle_def CardDescription_def CardContent_def CardFooter_def
  TableHeader_def TableBody_def TableFooter_def TableRow_def TableHead_def TableCell_def TableCaption_def
  Label_def TabsList_def TabsTrigger_def TabsContent_def ToastViewport_def DialogOverlay_def DialogHeader_def DialogFooter_def
  DialogTitle_def DialogDescription_def SheetOverlay_def FormItem_def FormDescription_def

lemma wrapper_transparent:
  fixes f :: "jstr option \<Rightarrow> 'e attr list \<Rightarrow> 'e view list \<Rightarrow> 'e view"
  assumes "f \<in> set (wrappers k)"
  shows "transparent (f cls)"
proof -
  have "transparent (Table k cls :: 'e attr list \<Rightarrow> _)" by (simp add: transparent_def Table_def wrapped_def)
  then have "list_all (\<lambda>f. transparent (f cls)) (wrappers k :: (_ \<Rightarrow> 'e attr list \<Rightarrow> _) list)"
    by (simp add: wrappers_def wrapper_defs transparent_def wrapped_def)
  then show ?thesis using assms by (simp add: list_all_iff)
qed

lemma menu_transparent: "transparent (DropdownMenuContent k off cls)" "transparent (DropdownMenuItem k inset cls)"
  by (simp_all add: transparent_def DropdownMenuContent_def DropdownMenuItem_def wrapped_def box_def)

lemma label_transparent: "transparent (FormLabel k err cls)" "transparent (FormControl :: 'e attr list \<Rightarrow> _)"
  by (simp_all add: transparent_def FormLabel_def FormControl_def Label_def wrapped_def)

text \<open>The content of a sheet adds nothing, that of a dialog a button with an English text.\<close>

lemma sheet_content: "texts (SheetContent k side cls props children) = concat (map texts children)"
  by (simp add: SheetContent_def SheetOverlay_def wrapped_def box_def Let_def)

lemma dialog_content: "texts (DialogContent k cls props children) = concat (map texts children) @ [U ''Close'']"
  by (simp add: DialogContent_def DialogOverlay_def dialog_close_def wrapped_def box_def)

text \<open>A field with an error shows a message: its own, the text \<open>undefined\<close> when it has none, nothing when it is empty.\<close>

lemma message_of_error:
  "map_option texts (FormMessage k (Some e) cls props children) =
     (case fe_message e of None \<Rightarrow> Some [U ''undefined''] | Some m \<Rightarrow> if m = [] then None else Some [m])"
  by (simp add: FormMessage_def wrapped_def ustr split: option.split)

lemma message_without_error:
  "FormMessage k None cls props children = None \<longleftrightarrow> children = [] \<or> children = [T []]"
  by (simp add: FormMessage_def Let_def)

text \<open>Every name the package takes from a wrapper's file is exported there, and no name is taken twice.\<close>

definition file_exports :: "(string \<times> string list) list" where
  "file_exports = [(''./components/ui/dialog'', dialog_exports), (''./components/ui/form'', form_exports),
     (''./components/ui/table'', table_exports), (''./components/ui/dropdown-menu'', menu_exports),
     (''./components/ui/sheet'', sheet_exports), (''./components/ui/tabs'', tabs_exports),
     (''./components/ui/card'', card_exports), (''./components/ui/toast'', toast_exports),
     (''./components/ui/input'', input_exports @ [''InputProps'']), (''./components/ui/label'', label_exports)]"

lemmas export_defs = dialog_exports_def form_exports_def table_exports_def menu_exports_def sheet_exports_def
  tabs_exports_def card_exports_def toast_exports_def input_exports_def label_exports_def

lemma index_exports: "list_all (\<lambda>(f, ns). map_of ui_index f = Some ns \<or> (\<exists>ms. map_of ui_index f = Some ms \<and> set ms = set ns)) file_exports"
  by (simp add: file_exports_def ui_index_def export_defs)

lemma index_distinct: "distinct (concat (map snd ui_index))"
  by code_simp

end
