(* ===== verification/SiteMeta.thy ===== *)
theory SiteMeta imports PublicSite PublicPages Http begin

text \<open>
  What surrounds the pages: the root layouts and metadata of the three applications
  (\<open>apps/*/app/layout.tsx\<close>, the metadata of the public pages), the provider of \<open>react-query\<close>, the
  configurations of Next.js, and the partner application's own copy of \<open>request\<close> and \<open>api\<close>
  (\<open>apps/partner/app/lib/api.ts\<close>).
\<close>

subsection \<open>Metadata\<close>

definition SITE_URL :: "jstr option \<Rightarrow> jstr" where
  "SITE_URL env = orelse env (U ''https://indica.ai'')"

record og_image =
  oi_url :: jstr
  oi_width :: int
  oi_height :: int
  oi_alt :: jstr

record site_metadata =
  sd_base :: jstr
  sd_title :: jstr
  sd_template :: jstr
  sd_description :: jstr
  sd_keywords :: "jstr list"
  sd_authors :: "jstr list"
  sd_canonical :: jstr
  sd_openGraph :: "(string \<times> jstr) list"
  sd_images :: "og_image list"
  sd_twitter :: "(string \<times> jstr) list"
  sd_twitter_images :: "jstr list"
  sd_index :: bool
  sd_follow :: bool
  sd_googleBot :: "(string \<times> jsval) list"

definition public_metadata :: "jstr option \<Rightarrow> site_metadata" where
  "public_metadata env = \<lparr> sd_base = SITE_URL env,
     sd_title = U ''Indica A~00cd! ~2014 Programa de indica~00e7~00e3o com Pix, regras configur~00e1veis e rastreio real'',
     sd_template = U ''%s ~00b7 Indica A~00cd!'',
     sd_description = U ''Plataforma brasileira de programa de indica~00e7~00e3o. Configure regras, pague seus parceiros via Pix e rastreie cada venda ~2014 sem planilha, sem perder atribui~00e7~00e3o no WhatsApp.'',
     sd_keywords = [U ''programa de indica~00e7~00e3o'',
       U ''marketing de indica~00e7~00e3o'',
       U ''sistema de comiss~00e3o'',
       U ''indica~00e7~00e3o Pix'',
       U ''programa de afiliados Brasil'',
       U ''indique e ganhe'',
       U ''rastreamento de indica~00e7~00e3o''],
     sd_authors = [U ''Indica A~00cd!''], sd_canonical = U ''/'',
     sd_openGraph = [(''type'', U ''website''), (''locale'', U ''pt_BR''), (''url'', SITE_URL env), (''siteName'', U ''Indica A~00cd!''),
       (''title'', U ''Indica A~00cd! ~2014 Programa de indica~00e7~00e3o com Pix e rastreio real''),
       (''description'', U ''Configure regras, pague parceiros via Pix e rastreie cada indica~00e7~00e3o. Plataforma 100% brasileira para SMBs.'')],
     sd_images = [\<lparr> oi_url = U ''/og-image.png'', oi_width = 1200, oi_height = 630, oi_alt = U ''Indica A~00cd! ~2014 Programa de indica~00e7~00e3o'' \<rparr>],
     sd_twitter = [(''card'', U ''summary_large_image''), (''title'', U ''Indica A~00cd! ~2014 Programa de indica~00e7~00e3o com Pix''),
       (''description'', U ''Configure regras, pague parceiros via Pix e rastreie cada indica~00e7~00e3o.'')],
     sd_twitter_images = [U ''/og-image.png''],
     sd_index = True, sd_follow = True,
     sd_googleBot = [(''index'', JBool True), (''follow'', JBool True), (''max-snippet'', JNum (Fin (- 1))),
       (''max-image-preview'', JStr (U ''large''))] \<rparr>"

text \<open>The metadata of a page; a page without any has none of its members.\<close>

record page_metadata =
  mt_title :: "jstr option"
  mt_description :: "jstr option"
  mt_canonical :: "jstr option"

definition termos_metadata :: page_metadata where
  "termos_metadata = \<lparr> mt_title = Some (U ''Termos de Uso''),
     mt_description = Some (U ''Termos de uso da plataforma Indica A~00cd! ~2014 regras para empresas-cliente, parceiros indicadores e visitantes.''),
     mt_canonical = Some (U ''/termos'') \<rparr>"

definition privacidade_metadata :: page_metadata where
  "privacidade_metadata = \<lparr> mt_title = Some (U ''Pol~00edtica de Privacidade''),
     mt_description = Some (U ''Pol~00edtica de Privacidade da Indica A~00cd! ~2014 bases legais, reten~00e7~00e3o e direitos do titular conforme a LGPD.''),
     mt_canonical = Some (U ''/privacidade'') \<rparr>"

definition precos_metadata :: page_metadata where
  "precos_metadata = \<lparr> mt_title = Some (U ''Pre~00e7os''),
     mt_description = Some (U ''Quatro planos do trial gratuito ao Scale ilimitado. Sem cobran~00e7a transacional, sem fidelidade, cancele quando quiser. Pague em BRL via Pix, boleto ou cart~00e3o.''),
     mt_canonical = Some (U ''/precos'') \<rparr>"

definition dashboard_metadata :: page_metadata where
  "dashboard_metadata = \<lparr> mt_title = Some (U ''Indica A~00cd! ~2014 Dashboard''),
     mt_description = Some (U ''Painel de gest~00e3o de programas de indica~00e7~00e3o''), mt_canonical = None \<rparr>"

definition partner_metadata :: page_metadata where
  "partner_metadata = \<lparr> mt_title = Some (U ''Indica A~00cd! ~2014 Parceiro''),
     mt_description = Some (U ''Painel do parceiro para acompanhar indica~00e7~00f5es e comiss~00f5es''), mt_canonical = None \<rparr>"

definition no_metadata :: page_metadata where
  "no_metadata = \<lparr> mt_title = None, mt_description = None, mt_canonical = None \<rparr>"

subsection \<open>Root layouts\<close>

definition public_RootLayout :: "ck_event view option \<Rightarrow> ck_event view list \<Rightarrow> ck_event view" where
  "public_RootLayout banner children = N ''html'' [A ''lang'' (U ''pt-BR'')]
     [box ''body'' (children @ (case banner of None \<Rightarrow> [] | Some b \<Rightarrow> [b]))]"

record query_options =
  qo_staleTime :: int
  qo_retry :: int
  qo_refetchOnWindowFocus :: bool

definition dashboard_query_options :: query_options where
  "dashboard_query_options = \<lparr> qo_staleTime = 60 * 1000, qo_retry = 1, qo_refetchOnWindowFocus = False \<rparr>"

definition partner_query_options :: query_options where
  "partner_query_options = \<lparr> qo_staleTime = 60 * 1000, qo_retry = 1, qo_refetchOnWindowFocus = False \<rparr>"

definition QueryProvider :: "query_options \<Rightarrow> 'e view list \<Rightarrow> 'e view" where
  "QueryProvider opts children = N ''QueryClientProvider''
     [A ''staleTime'' (num_str (num_int (qo_staleTime opts))), A ''retry'' (num_str (num_int (qo_retry opts))),
      Flag ''refetchOnWindowFocus'' (qo_refetchOnWindowFocus opts)] children"

definition dashboard_RootLayout :: "'e view list \<Rightarrow> 'e view" where
  "dashboard_RootLayout children = N ''html'' [A ''lang'' (U ''pt-BR'')] [box ''body'' [QueryProvider dashboard_query_options children]]"

definition partner_RootLayout :: "'e view list \<Rightarrow> 'e view" where
  "partner_RootLayout children = N ''html'' [A ''lang'' (U ''pt-BR'')] [box ''body'' [QueryProvider partner_query_options children]]"

definition partner_AuthLayout :: "'e view list \<Rightarrow> 'e view" where
  "partner_AuthLayout children = N ''div'' [A ''className'' (U ''flex min-h-screen items-center justify-center bg-muted/30'')] children"

subsection \<open>Configurations of Next.js\<close>

record next_config =
  nc_transpilePackages :: "jstr list"
  nc_bodySizeLimit :: "jstr option"

definition dashboard_nextConfig :: next_config where
  "dashboard_nextConfig = \<lparr> nc_transpilePackages = [U ''@indica/ui'', U ''@indica/api-client'', U ''recharts''],
     nc_bodySizeLimit = Some (U ''2mb'') \<rparr>"

definition partner_nextConfig :: next_config where
  "partner_nextConfig = \<lparr> nc_transpilePackages = [U ''@indica/ui'', U ''@indica/api-client''], nc_bodySizeLimit = None \<rparr>"

definition public_nextConfig :: next_config where
  "public_nextConfig = \<lparr> nc_transpilePackages = [U ''@indica/ui'', U ''@indica/tracking''], nc_bodySizeLimit = None \<rparr>"

subsection \<open>The partner application's \<open>request\<close>\<close>

definition partner_request :: "jstr \<Rightarrow> jstr \<Rightarrow> http_init \<Rightarrow> http_req" where
  "partner_request base path i = \<lparr> rq_method = in_method i, rq_url = base @ path,
     rq_credentials = ''include'', rq_headers = spread json_type (in_headers i), rq_body = in_body i \<rparr>"

fun partner_settle :: "engine \<Rightarrow> outcome \<Rightarrow> api_err + jsval" where
  "partner_settle eng (NetworkFailure m) = Inl (FetchErr m)"
| "partner_settle eng (Reply r) =
     (if \<not> res_ok r then
        (case member (case rp_json r of Some v \<Rightarrow> v | None \<Rightarrow> JObj [(''error'', JStr (rp_statusText r))]) ''error'' of
           None \<Rightarrow> Inl (TypeErr (eng ''TypeError''))
         | Some e \<Rightarrow> Inl (ApiErr (error_text e (rp_statusText r)) (rp_status r)))
      else if rp_status r = 204 then Inr JUndef
      else case rp_json r of None \<Rightarrow> Inl (SyntaxErr (eng ''SyntaxError'')) | Some v \<Rightarrow> Inr v)"

definition partner_get :: "jstr \<Rightarrow> jstr \<Rightarrow> http_req" where
  "partner_get base path = partner_request base path \<lparr> in_method = ''GET'', in_headers = [], in_body = None \<rparr>"

definition partner_post :: "jstr \<Rightarrow> jstr \<Rightarrow> jsval \<Rightarrow> http_req" where
  "partner_post base path body = partner_request base path \<lparr> in_method = ''POST'', in_headers = [], in_body = body_of body \<rparr>"

definition partner_patch :: "jstr \<Rightarrow> jstr \<Rightarrow> jsval \<Rightarrow> http_req" where
  "partner_patch base path body = partner_request base path \<lparr> in_method = ''PATCH'', in_headers = [], in_body = body_of body \<rparr>"

subsection \<open>Facts\<close>

text \<open>The two copies do the same.\<close>

lemma partner_copy:
  "partner_settle eng x = app_settle eng x"
  "partner_get base p = api_get base p" "partner_post base p v = api_post base p v" "partner_patch base p v = api_patch base p v"
  by (cases x) (simp_all add: partner_request_def partner_get_def partner_post_def partner_patch_def request_defs)

text \<open>Root layouts add no text and no handler to the page.\<close>

lemma layouts_add_nothing:
  "texts (dashboard_RootLayout vs) = concat (map texts vs)" "texts (partner_RootLayout vs) = concat (map texts vs)"
  "texts (public_RootLayout None ws) = concat (map texts ws)"
  by (simp_all add: dashboard_RootLayout_def partner_RootLayout_def public_RootLayout_def QueryProvider_def box_def)

text \<open>
  Canonical addresses. \<open>inherit\<close> stands for how Next.js merges a page's metadata with that of the root
  layout: a member the page has not set is the root's.
\<close>

definition metadata_of :: "jstr \<Rightarrow> page_metadata" where
  "metadata_of path = (if path = U ''/precos'' then precos_metadata else if path = U ''/termos'' then termos_metadata
     else if path = U ''/privacidade'' then privacidade_metadata else no_metadata)"

lemma sitemap_canonical:
  assumes "\<And>root p. inherit root p = orelse (mt_canonical p) (sd_canonical root)"
  shows "map (\<lambda>(path, _). inherit (public_metadata env) (metadata_of path) = path) staticRoutes = [True, True, False]"
    and "inherit (public_metadata env) (metadata_of (U ''/lgpd/contact'')) = U ''/''"
  by (simp_all add: assms staticRoutes_def metadata_of_def precos_metadata_def no_metadata_def public_metadata_def ustr)

end
