(* ===== verification/Spec2Isabelle.thy ===== *)
theory Spec2Isabelle
  imports PayoutSpec Comissoes Indicacoes NovoPrograma PartnerSettings NovaIndicacao Access Nav Toasts
    ClickServer ClientRoutes Queries Auditoria Configuracoes Parceiros Programas Overview PartnerPages
    LeadServer AdminPages PublicPages Shell PackageTypes ServerProperties UiKit SiteMeta
begin

text \<open>
  Indica AI: a platform for referral programmes. Its source has three web applications in TypeScript
  (\<open>src/web/apps\<close>: the \<open>dashboard\<close> of a company, the \<open>partner\<close> application, the \<open>public\<close> site), three
  packages they share (\<open>src/web/packages\<close>: \<open>ui\<close>, \<open>api-client\<close>, \<open>tracking\<close>) and an API server in Go
  (\<open>src/internal\<close>). A company defines programmes with a rule, its partners bring leads, the leads
  become rewards, and rewards are collected into payouts. This development models the TypeScript code
  and, where a property is about what a request leads to, the handler of the server that serves it.

  \<^bold>\<open>How the model reads the code.\<close> A page is a record of its React state with three functions: \<open>begin\<close>
  (an event handler up to its first \<open>await\<close>), \<open>finish\<close> (what runs when a call settles, on success and
  on failure) and a view (the markup, as a tree of elements, texts and handlers, without static class
  names and icons). Their effects are listed: calls, toasts, navigation, clipboard, windows. \<open>React\<close>
  is the event loop: the states a page can reach with the multiset of its calls in flight, in any order
  of events and replies. A handler of the server is a function from a decoded body and the rows it
  reads to a status and the new rows. \<open>JSON.stringify\<close> on a request is \<open>json\<close>, decoding is the
  \<open>go_...\<close> functions. JavaScript numbers are binary64 (exact rationals rounded to nearest even, with
  NaN and the infinities), strings are lists of UTF-16 code units, dynamic values a datatype.

  \<^bold>\<open>Theories.\<close>
  \<^item> \<open>Prelude\<close>, \<open>JsString\<close>, \<open>JsNumber\<close>, \<open>JsFormat\<close>, \<open>JsValue\<close>, \<open>JsonText\<close>, \<open>Uri\<close>, \<open>Regex\<close>: what
    the source uses of the JavaScript library. Main facts: rounding and exactness below \<open>2 ^ 53\<close>,
    currency texts read back, JSON texts read back, percent encoding decodes, queries read back.
  \<^item> \<open>React\<close>, \<open>View\<close>, \<open>Http\<close>: the event loop with the locales \<open>spinner\<close> (a flag is set only while a call
    that clears it is in flight), \<open>draining\<close> (replies come to an end), \<open>settling\<close> (both: the page
    comes to rest) and \<open>loader\<close> (one call at mount, which clears the flag), which every page with a loading text interprets; trees of markup and which events
    they can cause; requests, replies and their settlement (\<open>apps/*/app/lib/api.ts\<close>, \<open>request\<close>).
  \<^item> \<open>DashboardApi\<close>, \<open>PartnerApi\<close>, \<open>ClientApi\<close>: the calls of the two \<open>lib/api.ts\<close> and of
    \<open>packages/api-client\<close>, each with its request; \<open>PackageTypes\<close>: the bodies that package declares
    and what the server does with them; \<open>Queries\<close> reads the query strings back.
  \<^item> \<open>Routes\<close>, \<open>ClientRoutes\<close>: the route table of \<open>internal/api\<close>, and which calls it serves.
  \<^item> \<open>Saques\<close>, \<open>PayoutServer\<close>, \<open>PayoutSpec\<close>: the payouts page, the payout handlers and job, and the
    machine on one status they refine. \<open>Comissoes\<close>, \<open>Indicacoes\<close>: rewards and leads, with handlers.
  \<^item> \<open>TierBuilder\<close>, \<open>RewardPreview\<close>, \<open>GoRules\<close>, \<open>NovoPrograma\<close>, \<open>Programas\<close>: the editor of tiers, the
    rule in words, the rule schema of the server, the wizard, the list of programmes.
  \<^item> \<open>PixKey\<close>, \<open>PartnerSettings\<close>, \<open>NovaIndicacao\<close>, \<open>PartnerPages\<close>: the partner's Pix key, settings, new
    lead with its split, and start page, leads and statement.
  \<^item> \<open>Parceiros\<close>, \<open>Auditoria\<close>, \<open>Configuracoes\<close>, \<open>Overview\<close>: the other pages of the dashboard, with the
    handler that registers a partner. \<open>Cards\<close>, \<open>Toasts\<close>: small components and the list of toasts.
  \<^item> \<open>Access\<close>, \<open>Nav\<close>: guards, sign-in, registration; menus. \<open>Widget\<close>, \<open>ClickServer\<close>: the tracking
    script and the click handler. \<open>LeadServer\<close>: the status of a lead on the server.
  \<^item> \<open>AdminPages\<close>, \<open>Shell\<close>: the administration of the platform on its sample tenants; middlewares, layouts,
    the header and the button. \<open>PublicSite\<close>, \<open>PublicPages\<close>: consent to cookies, the redirect of referral
    links, landing, start, price and legal pages, and what crawlers are told; facts about dead links.
  \<^item> \<open>UiKit\<close>: the components of \<open>packages/ui\<close> that put class names on elements, and the parts of a form;
    \<open>SiteMeta\<close>: root layouts, metadata of pages, the provider of queries, the configurations of Next.js.
  \<^item> \<open>AuthServer\<close>, \<open>Gate\<close>: sign-in, renewal, magic links and the end of sessions on their rows, with the
    event list \<open>auth_req\<close> of requests in any order, and the middlewares before the handlers; \<open>RateLimiter\<close>:
    the token bucket behind the limits, and the address they count by.
    \<open>RulesEngine\<close>: the evaluators of \<open>domain/rules\<close>, with bounds on their rounding. \<open>PartnerLeadServer\<close>:
    the registration of a lead by a partner and its six fraud signals. \<open>OverviewServer\<close>: the numbers of
    the overview. \<open>RewardWorker\<close>: the jobs that attribute a referral and make a reward of a sale.
    \<open>PartnerServer\<close>: what a partner is told of itself and a company of its partners, and the Pix key.
    \<open>ServerProperties\<close> holds the properties of these eight, and of the pages that meet them.
  \<^bold>\<open>What the properties show.\<close> C1, C9, C10, C11, C22, C23, C25, C34: who passes the gate, how long a token
  or a link is good for, how often one may ask. C2, C3, C6 to C8, C17, C20: payouts are a refinement of a
  machine, the page offers what the server will do, amounts are exact; and the job can pay a reward twice
  (C8). C4, C12, C15, C16: from the form of a partner to the rows, the fraud signals, the reward of a sale and
  its payout. C5, C13, C14, C27: what the wizard sends is what the server's schema accepts, and what an
  accepted rule pays, to a cent. C18, C19, C21, C24: texts of money, pages come to rest, what the overview and
  two more pages show. C26: the status of a lead. C28 to C32: telephone, split and Pix key agree with the
  server's checks within the stated limits. C33, C35: requests, routes and queries. C36 to C38: toasts and
  the tracking script. C39, C40: registration of a partner, the audit log. Several state a defect as the
  code has it.

  \<^bold>\<open>Hypotheses.\<close> \<open>h\<close> is SHA-256: where a property needs it, it is injective on the texts in question.
  \<open>validate\<close> is the library's check of a token, \<open>fmtDate\<close> and \<open>show_time\<close> the printing of moments, \<open>kit\<close> the
  class name functions clsx and tailwind-merge. Random identifiers are arguments, and distinct from
  what is stored where that is assumed (\<open>unseen\<close>, \<open>fresh_ids\<close>). The rows are those of one company: the
  handlers select by it, and row level security does not bind the role the tests connect with.

  \<^bold>\<open>Bounds and fuel.\<close> The reader of JSON takes as fuel the length of its text, which every nested value
  uses at least one unit of, so a printed text never runs out. \<open>String(x)\<close> prints the shortest decimal
  that rounds to \<open>x\<close>, of at most 17 digits, which always suffice for binary64. Sums of cents are
  exact below \<open>2 ^ 52\<close>; rewards are bounded for sales up to \<open>2 ^ 45\<close> cents; limits up to 1000 in windows up
  to 100 seconds are counted exactly. Replies to a page are bounded
  by the weight of the calls in flight.

  \<^bold>\<open>Outside the model.\<close> React, Next.js, Radix, zod, react-hook-form, recharts and the browser are the
  parameters and effects named above; the database is the rows a handler reads and writes. Not
  modelled: sample data no page reads, and the parts of the server no property needs:
  e-mail, storage, the requests of data subjects, the reading of the audit log, migrations beyond the
  columns and constraints a handler meets.
\<close>

section \<open>Payouts\<close>

text \<open>C2: Over any sequence of actions, the payouts of the server refine an abstract machine on one
  status: \<open>pending\<close> to \<open>processing\<close> by a confirmation, \<open>processing\<close> to \<open>paid\<close>, either to
  \<open>cancelled\<close>, everything else unchanged, actions on other payouts included.\<close>

theorem payouts_refine_machine:
  assumes "db_ok d"
  shows "current_status i (srv_run as d) = map_option (pay_run i as) (current_status i d)"
  by (rule run_refines [OF assms])

definition example_db :: payout_db where
  "example_db = \<lparr> db_payouts = [\<lparr> sp_id = [97], sp_partner = [112], sp_rewards = [[114]], sp_amount = 1000, sp_status = YPending \<rparr>],
     db_rewards = [\<lparr> sr_id = [114], sr_partner = [112], sr_amount = 1000, sr_status = RApproved \<rparr>],
     db_pix = (\<lambda>_. Some [120]), db_cached = [] \<rparr>"

lemma example_db_ok: "db_ok example_db"
  by (simp add: db_ok_def unique_ids_def cache_ok_def example_db_def)

theorem payouts_refine_machine_witness:
  "current_status [97] (srv_run [SqConfirm [97], SqMarkPaid [97], SqCancel [97]] example_db) = Some YPaid"
  unfolding payouts_refine_machine [OF example_db_ok]
  by (simp add: current_status_def payout_row_def example_db_def)

text \<open>C3: A pending payout becomes paid only by a confirmation and, after it, a mark as paid.\<close>

theorem paid_after_confirm:
  assumes "db_ok d" "current_status i d = Some YPending" "current_status i (srv_run as d) = Some YPaid"
  shows "subseq [SqConfirm i, SqMarkPaid i] as"
  using assms by (intro pending_to_paid) (simp add: run_refines)

theorem paid_after_confirm_witness: "subseq [SqConfirm [97], SqMarkPaid [97]] [SqConfirm [97], SqMarkPaid [97]]"
proof (rule paid_after_confirm [OF example_db_ok])
  show "current_status [97] (srv_run [SqConfirm [97], SqMarkPaid [97]] example_db) = Some YPaid"
    unfolding run_refines [OF example_db_ok] by (simp add: current_status_def payout_row_def example_db_def)
qed (simp add: current_status_def payout_row_def example_db_def)


definition example_payout :: payout where
  "example_payout = \<lparr> po_id = [97], po_partner_id = [112], po_partner_name = [65], po_pix_key = None, po_pix_key_type = None,
     po_amount_cents = num_int 1000, po_currency = [], po_method = [], po_status = YPending, po_created_at = [],
     po_reward_count = None \<rparr>"






text \<open>C17: The cards of the payouts page show the exact sums of the payouts by status, and together
  their whole amount.\<close>

theorem payout_cards_exact:
  assumes "sent_cents c ps" "sum_list (map c ps) < 2 ^ 52"
  shows "map (read_brl \<circ> snd) (sq_cards ps) =
      [cents_in c (\<lambda>st. st = YPending) ps, cents_in c (\<lambda>st. st = YProcessing) ps,
       cents_in c (\<lambda>st. st = YPaid) ps, cents_in c ended ps] \<and>
    sum_list (map (read_brl \<circ> snd) (sq_cards ps)) = sum_list (map c ps)"
proof -
  have b: "\<bar>cents_in c st ps\<bar> < 2 ^ 52" for st
    using cents_in_bounds [OF assms(1), of st] assms(2) by simp
  have "sum_list (map c ps) \<le> 2 ^ 53" using assms(2) by simp
  then have "map (read_brl \<circ> snd) (sq_cards ps) =
      [cents_in c (\<lambda>st. st = YPending) ps, cents_in c (\<lambda>st. st = YProcessing) ps,
       cents_in c (\<lambda>st. st = YPaid) ps, cents_in c ended ps]"
    by (simp add: sq_cards_def totals_exact [OF assms(1)] cents_brl_def brl_shows_cents [OF b])
  then show ?thesis using cents_partition [of c ps] by (simp only:) simp
qed

theorem payout_cards_exact_witness:
  "map (read_brl \<circ> snd) (sq_cards [example_payout]) = [1000, 0, 0, 0]"
  using payout_cards_exact [of "\<lambda>_. 1000" "[example_payout]"]
  by (simp add: sent_cents_def cents_in_def example_payout_def)

text \<open>C18: An amount in cents is displayed exactly: dividing by 100 in binary64 and formatting as
  Brazilian currency gives a text from which the same cents are read.\<close>

theorem money_display_exact:
  assumes "\<bar>c\<bar> < 2 ^ 52"
  shows "read_brl (cents_brl (num_int c)) = c"
  unfolding cents_brl_def by (rule brl_shows_cents [OF assms])

theorem money_display_exact_witness: "read_brl (cents_brl (num_int (- 123456))) = - 123456"
  by (rule money_display_exact) simp

text \<open>While the payouts page shows its loading text the list request is in flight, and while a row or the
  button is busy a request for it is, whatever the order of events and replies.\<close>

theorem payouts_page_spinners:
  assumes "reachable sq_begin sq_finish sq_opof sq_init s P"
  shows "(\<not> sq_loading s \<or> sq_list_call \<in># P) \<and>
    (sq_busy s = None \<or> (\<exists>c. c \<in># P \<and> sq_busy_key c = sq_busy s))"
  using sqL.owned [OF assms] sqB.owned [OF assms] by (cases "sq_busy s") (auto simp: sq_owns_loading_def sq_owns_busy_def)

theorem payouts_page_spinners_witness:
  "let d = SqListed (Inr \<lparr> pr_payouts = None, pr_total_count = Fin 0, pr_page = Fin 1, pr_limit = Fin 100 \<rparr>);
       s = fst (sq_finish d (fst sq_init))
   in \<not> sq_loading s \<and> sq_busy s = None"
  using payouts_page_spinners [OF first_reply, of "SqListed (Inr \<lparr> pr_payouts = None, pr_total_count = Fin 0, pr_page = Fin 1, pr_limit = Fin 100 \<rparr>)"]
  by (simp add: sq_init_def sq_reload_def)

text \<open>C19: No page waits for nothing. From every state that the pages of commissions, of leads, of the audit
  log, of partners, of programmes, of the overview, and the partner's start page, leads and statement can
  reach, the calls in flight can all be answered, and after every such run of replies neither the loading
  text nor a busy row is left.\<close>

theorem pages_come_to_rest:
  "rests cm_begin cm_finish cm_opof cm_init cm_loading \<and>
   rests cm_begin cm_finish cm_opof cm_init (\<lambda>s. cm_busy s \<noteq> None) \<and>
   rests it_begin it_finish it_opof it_init it_loading \<and>
   rests it_begin it_finish it_opof it_init (\<lambda>s. it_updatingId s \<noteq> None) \<and>
   rests au_begin au_finish au_opof au_init au_loading \<and>
   rests pa_begin pa_finish pa_opof pa_init pa_loading \<and>
   rests (\<lambda>(_ :: unit) s. (s, [])) pr_finish pr_opof pr_init pl_list_loading \<and>
   rests (\<lambda>(_ :: unit) s. (s, [])) ov_finish ov_opof ov_init op_loading \<and>
   rests hm_begin hm_finish hm_opof hm_init hm_loading \<and>
   rests mi_begin mi_finish mi_opof mi_init mi_loading \<and>
   rests (\<lambda>(_ :: unit) s. (s, [])) (ex_finish decode eng) ex_opof ex_init ex_loading"
  by (intro conjI cmLS.comes_to_rest cmBS.comes_to_rest itLS.comes_to_rest itBS.comes_to_rest auL.comes_to_rest
      paL.comes_to_rest prL.comes_to_rest ovL.comes_to_rest hmL.comes_to_rest miL.comes_to_rest exL.comes_to_rest)

text \<open>C20: The payouts page always comes to rest. From any state it can reach, every run of replies is at
  most as long as the weight of the calls in flight (2 for an action, 1 for a list), some run answers
  every call, and after every such run neither the loading text nor a busy row is left.\<close>

theorem payouts_page_settles:
  assumes "reachable sq_begin sq_finish sq_opof sq_init s P"
  shows "(\<forall>n t Q. replies sq_finish sq_opof s P n t Q \<longrightarrow> n + load sq_weight Q \<le> load sq_weight P) \<and>
    (\<exists>n t. replies sq_finish sq_opof s P n t {#}) \<and>
    (\<forall>n t. replies sq_finish sq_opof s P n t {#} \<longrightarrow> \<not> sq_loading t \<and> sq_busy t = None)"
  using sqD.bounded sqD.drains [OF assms] sqLS.all_replied [OF assms] sqBS.all_replied [OF assms] by blast

theorem payouts_page_settles_witness:
  "\<exists>n t. replies sq_finish sq_opof (fst sq_init) (mset (snd sq_init)) n t {#}"
  using payouts_page_settles [OF reachable.start] by blast

section \<open>Commissions\<close>

text \<open>The commissions page sends a rejection only after its prompt, for the row and with the
  text the user gave, and never an empty one.\<close>

theorem rejection_has_reason:
  assumes "cm_begin ev s = (s', es)" "Call (CmDoReject i r) \<in> set es"
  shows "ev = (CmReject i, Some r) \<and> r \<noteq> [] \<and> cm_busy s' = Some i \<and> cm_calls (CmDoReject i r) = [RewardsReject i r]"
  using assms by (induction ev s rule: cm_begin.induct) (auto simp: truthy_s_def nonempty_Some split: option.splits)

theorem rejection_has_reason_witness:
  "cm_busy (fst (cm_begin (CmReject [97], Some [98]) (fst cm_init))) = Some [97]"
  using rejection_has_reason [of "(CmReject [97], Some [98])" "fst cm_init" _ _ "[97]" "[98]", OF surjective_pairing]
  by (simp add: truthy_s_def nonempty_def)

text \<open>C25: The server answers 200 to whatever the menu of a commission offers, when the row shows the
  status the server has.\<close>

theorem commission_menu_accepted:
  assumes "causes (cm_menu r) a" "x \<in> set rs" "sr_id x = rw_id r" "sr_status x = rw_status r"
  shows "fst (srv_reward_act a rs) = 200"
  by (rule cm_menu_accepted [OF assms])

definition example_reward :: reward where
  "example_reward = \<lparr> rw_id = [114], rw_type = [], rw_amount_cents = num_int 1000, rw_currency = [], rw_status = RPending,
     rw_approved_at = None, rw_rejected_reason = None, rw_created_at = [], rw_program_id = [], rw_program_name = [80],
     rw_partner_id = [112], rw_partner_name = [65], rw_lead_name = None \<rparr>"

theorem commission_menu_accepted_witness:
  "fst (srv_reward_act (CmApprove [114]) [\<lparr> sr_id = [114], sr_partner = [112], sr_amount = 5, sr_status = RPending \<rparr>]) = 200"
  by (rule commission_menu_accepted [of example_reward]) (auto simp: cm_menu_causes example_reward_def)

text \<open>The cards of the commissions page read as amounts of money, but what they show is how many
  rewards have the status, in cents.\<close>

theorem commission_cards_show_counts:
  assumes "length rs < 2 ^ 52"
  shows "read_brl (snd (cm_cards (Some (srv_summary rs)) ! 0)) = int (length (filter (\<lambda>r. sr_status r = RPending) rs))"
  using cm_cards_count [OF assms] by (simp add: cm_cards_def)

theorem commission_cards_show_counts_witness:
  "read_brl (snd (cm_cards (Some (srv_summary
      [\<lparr> sr_id = [114], sr_partner = [112], sr_amount = 50000, sr_status = RPending \<rparr>])) ! 0)) = 1"
  using commission_cards_show_counts [of "[\<lparr> sr_id = [114], sr_partner = [112], sr_amount = 50000, sr_status = RPending \<rparr>]"]
  by simp

section \<open>Leads\<close>




section \<open>The programme wizard\<close>

text \<open>C13: Whatever the wizard lets through, the server creates as a draft exactly when the trigger is
  one it knows and the reward is in its bounds; otherwise it answers 400.\<close>

theorem wizard_publish_outcome:
  assumes "publish_guard s = None" "np_janela s \<in> set janela_options"
  shows "srv_create_program (json (create_program_json (np_request s))) =
    (if np_quandoPagar s \<in> set valid_triggers \<and> reward_ok s then (201, Some (U ''draft'')) else (400, None))"
  by (rule published_status [OF assms])

definition example_wizard :: novo where
  "example_wizard = np_start\<lparr> np_nome := [65], np_whatsapp := [49] \<rparr>"

lemma example_wizard_guard:
  "publish_guard example_wizard = None" "np_janela example_wizard \<in> set janela_options"
  by (simp_all add: example_wizard_def np_start_def publish_guard_def isTiered_def js_trim_def isSpace_def janela_options_def)

theorem wizard_publish_outcome_witness:
  "srv_create_program (json (create_program_json (np_request example_wizard))) = (201, Some (U ''draft''))"
  unfolding wizard_publish_outcome [OF example_wizard_guard]
  by (simp add: example_wizard_def np_start_def reward_ok_def trigger_options first_tier_def value_if_number_def pct_num_def)

text \<open>Every preset of the wizard, with its default rule, gives a programme the server creates:
  only a name and a telephone have to be filled in.\<close>

theorem wizard_defaults_accepted:
  assumes "js_trim name \<noteq> []" "js_trim phone \<noteq> []"
  shows "srv_create_program (json (create_program_json (np_request
      ((handlePresetChange p np_start)\<lparr> np_nome := name, np_whatsapp := phone \<rparr>)))) = (201, Some (U ''draft''))"
proof -
  let ?s = "(handlePresetChange p np_start)\<lparr> np_nome := name, np_whatsapp := phone \<rparr>"
  have "np_start\<lparr> np_flexMaxPct := Fin 20 \<rparr> = np_start" by (simp add: np_start_def)
  then have "reward_ok (handlePresetChange p np_start)" using default_reward_ok [of p np_start] by simp
  then have "reward_ok ?s" by (cases "np_preset (handlePresetChange p np_start)") (simp_all add: reward_ok_def)
  moreover have "publish_guard ?s = None" "np_janela ?s \<in> set janela_options" "np_quandoPagar ?s \<in> set valid_triggers"
    using assms by (cases p; simp add: publish_guard_def handlePresetChange_def np_start_def isTiered_def Let_def
        janela_options_def trigger_options)+
  ultimately show ?thesis by (simp add: published_status)
qed

theorem wizard_defaults_accepted_witness:
  "srv_create_program (json (create_program_json (np_request
     ((handlePresetChange Goal np_start)\<lparr> np_nome := [65], np_whatsapp := [49] \<rparr>)))) = (201, Some (U ''draft''))"
  by (rule wizard_defaults_accepted) (simp_all add: js_trim_def isSpace_def)

text \<open>The wizard offers the trigger \<open>manual\<close>, which the server does not know: with it no programme
  can be published, whatever else is filled in.\<close>

theorem wizard_manual_refused:
  assumes "publish_guard s = None" "np_janela s \<in> set janela_options" "np_quandoPagar s = U ''manual''"
  shows "causes (np_view t) (NpQuando (U ''manual'')) \<and>
    srv_create_program (json (create_program_json (np_request s))) = (400, None)"
  using published_status [OF assms(1,2)] trigger_options(3) assms(3)
  by (auto simp: np_view_def causes_N np_payment_section_def section_el_def field_el_def)

theorem wizard_manual_refused_witness:
  "srv_create_program (json (create_program_json (np_request (example_wizard\<lparr> np_quandoPagar := U ''manual'' \<rparr>)))) = (400, None)"
proof -
  have "publish_guard (example_wizard\<lparr> np_quandoPagar := U ''manual'' \<rparr>) = publish_guard example_wizard"
    unfolding publish_guard_def isTiered_def by simp
  then show ?thesis using wizard_manual_refused [of "example_wizard\<lparr> np_quandoPagar := U ''manual'' \<rparr>"] example_wizard_guard
    by simp
qed

text \<open>C27: Every tier the wizard can come to hold, by any sequence of events its markup offers, has a text
  for a product and a number, never NaN, for anything else.\<close>

theorem wizard_tiers_typed:
  assumes "np_reach s" "i < length (np_tiers s)"
  shows "case tr_value (np_tiers s ! i) of RStr _ \<Rightarrow> tr_type (np_tiers s ! i) = Product
    | RNum n \<Rightarrow> tr_type (np_tiers s ! i) \<noteq> Product \<and> n \<noteq> NaN"
  using np_reach_tiers [OF assms(1)] assms(2) by (simp add: tiers_ok_def tier_ok_def list_all_length)

theorem wizard_tiers_typed_witness:
  "case tr_value (np_tiers np_start ! 0) of RStr _ \<Rightarrow> False | RNum n \<Rightarrow> n \<noteq> NaN"
  using wizard_tiers_typed [OF np_reach.start, of 0] by (simp add: np_start_def)

section \<open>The partner's new lead\<close>





text \<open>A split chosen by one of the presets is one the server's rule splits a sale by, on every state
  of the page.\<close>

theorem preset_split_accepted:
  assumes "ni_reach s" "isFlexible s" "\<not> ni_customMode s" "0 < sale"
  shows "\<exists>shares. go_flexible_split (maxPct s) sale (computedSplit s) = Inr shares"
proof -
  obtain q where "maxPct s = Fin q" "totalSplit s = Fin q"
    using ni_inv_total [OF ni_reach_inv [OF assms(1)] assms(2,3)] by blast
  then show ?thesis using server_accepts [OF assms(4), of "maxPct s" "the (computedSplit s)"] assms(2)
    by (simp add: computedSplit_def totalSplit_def)
qed

theorem preset_split_accepted_witness: "\<exists>shares. go_flexible_split (Fin 20) 10000 (computedSplit flexible_page) = Inr shares"
  using preset_split_accepted [OF flexible_page_reach flexible_page_flexible(1,2), of 10000]
  by (simp add: flexible_page_flexible(3))

text \<open>C30: With a ceiling and percentages in the steps of one half the inputs have, the page's check, with
  its tolerance in binary64, refuses exactly the splits the server refuses.\<close>

theorem half_steps_same_ceiling:
  assumes "1 \<le> m" "m \<le> 200" "\<bar>a\<bar> \<le> 2 ^ 50" "\<bar>b\<bar> \<le> 2 ^ 50" "0 < sale"
    and "isFlexible s" "maxPct s = Fin (of_int m / 2)"
    and "ni_commissionPct s = Fin (of_int a / 2)" "ni_discountPct s = Fin (of_int b / 2)"
  shows "splitInvalid s \<longleftrightarrow> go_flexible_split (maxPct s) sale (computedSplit s) = Inl (U ''split total exceeds max'')"
  using half_steps_agree [OF assms(1-4)] assms(5-9)
  by (simp add: splitInvalid_def totalSplit_def computedSplit_def go_flexible_split_def Let_def del: js_add.simps js_lt.simps)

theorem half_steps_same_ceiling_witness:
  "splitInvalid (flexible_page\<lparr> ni_commissionPct := Fin (31 / 2), ni_discountPct := Fin 5 \<rparr>) \<longleftrightarrow>
    go_flexible_split (Fin 20) 10000 (Some \<lparr> sc_commission_pct = Fin (31 / 2), sc_discount_pct = Fin 5 \<rparr>) =
      Inl (U ''split total exceeds max'')"
proof -
  let ?s = "flexible_page\<lparr> ni_commissionPct := Fin (31 / 2), ni_discountPct := Fin 5 \<rparr>"
  have f: "isFlexible ?s" "maxPct ?s = Fin 20"
    using flexible_page_flexible derived_me [of ?s flexible_page] by simp_all
  show ?thesis using half_steps_same_ceiling [of 40 31 10 10000 ?s] f by (simp add: computedSplit_def)
qed

section \<open>Pix keys\<close>

text \<open>C31: The page accepts a key exactly when the server accepts the key it would be sent, except for
  e-mails, where the server accepts less.\<close>

theorem pix_check_agrees:
  "(ty \<noteq> KEmail \<longrightarrow> (validatePixKey k ty = None \<longleftrightarrow> go_ValidatePixKey (js_trim k) (pix_type_str ty))) \<and>
   (go_ValidatePixKey (js_trim k) (pix_type_str KEmail) \<longrightarrow> validatePixKey k KEmail = None)"
  using same_regex [of ty "js_trim k"] lang_nonempty [of _ "js_trim k"] email_stricter [of "js_trim k"]
  unfolding validate_None go_validate_cases(3) by blast

theorem pix_check_agrees_witness:
  "validatePixKey (U '' 12345678901 '') KCpf = None \<longleftrightarrow> go_ValidatePixKey (U ''12345678901'') (pix_type_str KCpf)"
  using pix_check_agrees [of KCpf "U '' 12345678901 ''"] by (simp add: U.simps js_trim_def isSpace_def)

text \<open>The e-mail \<open>a@b.c\<close> passes the check of the page, is sent, and is refused by the server.\<close>

theorem pix_email_gap:
  "validatePixKey (U ''a@b.c'') KEmail = None \<and> \<not> go_ValidatePixKey (U ''a@b.c'') (pix_type_str KEmail)"
proof -
  have t: "js_trim (U ''a@b.c'') = U ''a@b.c''" by (simp add: U.simps js_trim_def isSpace_def)
  have "\<not> matches pixEmail (U ''a@b.c'')"
    by (simp add: U.simps pixEmail_def plus_re_def unit_re_def matches_def local_char_def domain_char_def letter_def isDigit_def)
  moreover have "matches (pixKeyRegex KEmail) (U ''a@b.c'')"
    by (simp add: U.simps plus_re_def unit_re_def matches_def not_space_at_def isSpace_def)
  moreover have "U ''a@b.c'' \<noteq> []" by (simp add: U.simps)
  ultimately show ?thesis unfolding validate_None go_validate_cases(3) t by blast
qed

text \<open>The settings page sends a key only when it is saved and passes the check, and sends it
  trimmed, with the type that was chosen.\<close>

theorem settings_send_checked_key:
  assumes "Call c \<in> set (snd (ps_begin ev s))"
  shows "ev = PsSave \<and> c = PUpdatePixKey (js_trim (ps_value s)) (ps_type s) \<and>
    js_trim (ps_value s) \<noteq> [] \<and> matches (pixKeyRegex (ps_type s)) (js_trim (ps_value s))"
  using save_calls [OF assms] by (simp add: validate_None)

theorem settings_send_checked_key_witness:
  "matches (pixKeyRegex KCpf) (js_trim (U '' 12345678901''))"
proof -
  let ?s = "(fst ps_init)\<lparr> ps_value := U '' 12345678901'' \<rparr>"
  have "ps_type ?s = KCpf" by (simp add: ps_init_def)
  moreover have "validatePixKey (U '' 12345678901'') KCpf = None"
    by (simp add: validate_None U.simps js_trim_def isSpace_def matches_lang lang_times isDigit_def)
  ultimately have "Call (PUpdatePixKey (js_trim (ps_value ?s)) KCpf) \<in> set (snd (ps_begin PsSave ?s))"
    by (simp add: handleUpdatePixKey_def)
  from settings_send_checked_key [OF this] show ?thesis by (simp add: ps_init_def)
qed

section \<open>Calls, routes and replies\<close>

text \<open>C33: Every call of the dashboard and of the partner application reaches exactly one handler of the
  server, the one meant for it, whatever its parameters, identifiers being path segments.\<close>

theorem application_calls_served:
  assumes "list_all is_segment (dash_ids c)"
  shows "served (dash_req [] c) = [dash_handler c] \<and> served (partner_req [] k) = [partner_handler k]"
  by (simp add: dash_routes [OF assms] partner_routes)

theorem application_calls_served_witness: "served (dash_req [] (PayoutsConfirm (U ''p1''))) = [''payouts.Confirm'']"
  using application_calls_served [of "PayoutsConfirm (U ''p1'')"] by (simp add: is_segment_def U.simps)

text \<open>Of the endpoints of the client package, with the server's base address, exactly those of
  \<open>pkg_served\<close> reach a handler: 13 of the 24 reach none.\<close>

theorem package_calls_served:
  assumes "co_baseUrl c = U ''/api''" "list_all is_segment (pkg_ids k)"
  shows "\<exists>q. pkg_req c k = Some q \<and> (served q \<noteq> [] \<longleftrightarrow> pkg_served k)"
  by (rule pkg_routes [OF assms])

theorem package_calls_served_witness:
  "\<exists>q. pkg_req \<lparr> co_baseUrl = U ''/api'', co_credentials = None, co_headers = None \<rparr> (CPartnersStats (U ''p1'')) = Some q \<and> served q = []"
  using package_calls_served [of "\<lparr> co_baseUrl = U ''/api'', co_credentials = None, co_headers = None \<rparr>" "CPartnersStats (U ''p1'')"]
  by (simp add: is_segment_def U.simps)

text \<open>A call of an application resolves exactly on a reply with a status from 200 to 299 whose body
  parses, or is not wanted (204); it fails with a type error exactly when the body of a refusal is null.\<close>

theorem call_settles:
  "(app_settle eng x = Inr v \<longleftrightarrow> (\<exists>r. x = Reply r \<and> res_ok r \<and>
      (if rp_status r = 204 then v = JUndef else rp_json r = Some v))) \<and>
   ((\<exists>m. app_settle eng x = Inl (TypeErr m)) \<longleftrightarrow>
      (\<exists>r. x = Reply r \<and> \<not> res_ok r \<and> (rp_json r = Some JNull \<or> rp_json r = Some JUndef)))"
  using app.resolves_iff app_type_error by blast




section \<open>Toasts\<close>

text \<open>C36: Whatever is raised, dismissed, timed out and mounted, in any order: the identifiers of the
  toasts shown are distinct, every toast with a duration has its timer, and every mounted component
  shows the same toasts.\<close>

theorem toasts_consistent:
  assumes "toast_reach s"
  shows "distinct (map to_id (globalToasts s)) \<and>
    (\<forall>t \<in> set (globalToasts s). js_lt (Fin 0) (to_duration t) \<longrightarrow> to_id t \<in># timers s) \<and>
    (\<forall>l \<in> set (globalListeners s). shown s l = globalToasts s)"
  using toast_reach_inv [OF assms] by (simp add: toast_inv_def)

theorem toasts_consistent_witness:
  "distinct (map to_id (globalToasts (fst (toast_fn network_toast (fst (toast_fn network_toast toast_init))))))"
  using toasts_consistent [OF toast_reach.raised [OF toast_reach.raised [OF toast_reach.init]]] by blast

section \<open>Access\<close>

text \<open>The guard of an application sends to the sign-in page exactly on a 401 with a body that is
  not null; on every other outcome of its call, a server that cannot be reached included, it shows
  the page.\<close>

theorem guard_only_stops_401:
  "guard_finish (app_settle eng x) g =
     (case x of Reply r \<Rightarrow>
        if rp_status r = 401 \<and> rp_json r \<noteq> Some JNull \<and> rp_json r \<noteq> Some JUndef
        then (g, [Replace (U ''/login'')]) else (GuardOpen, [])
      | NetworkFailure m \<Rightarrow> (GuardOpen, []))"
proof (cases x)
  case (Reply r)
  then show ?thesis
    by (cases "rp_json r") (auto simp: res_ok_def member_None split: option.splits)
qed simp

text \<open>Registration. The first reply either refuses, and the form is free again with an error, or
  starts the sign-in of the new account; after the second, a network failure frees the form with an
  error although the account exists, and anything else leaves for the dashboard or the sign-in page.\<close>

theorem registration_outcomes:
  "(let (s', es) = rg_finish (RgRegistered d x) s in
      if \<exists>r. x = Reply r \<and> res_ok r then s' = s \<and> es = [Call (FetchLogin (rf_email d) (rf_senha d))]
      else \<not> rg_loading s' \<and> (\<exists>t. es = [Toast t] \<and> ti_variant t = Some VDestructive)) \<and>
   (let (s', es) = rg_finish (RgLoggedIn d y) s in
      case y of NetworkFailure m \<Rightarrow> \<not> rg_loading s' \<and> es = [Toast network_toast]
      | Reply r \<Rightarrow> s' = s \<and> (\<exists>t. es = [Toast t, PushLater 600 (if res_ok r then U ''/dashboard'' else U ''/login'')]))"
  using rg_first [OF surjective_pairing, where d = d and x = x and s = s]
    rg_second [OF surjective_pairing, where d = d and x = y and s = s]
  unfolding case_prod_unfold Let_def by blast

section \<open>The tracking script\<close>





text \<open>A cookie of the script that is not percent-encoded text makes it throw on every page, before it
  has done anything: the event is not sent and the form is not filled.\<close>

theorem bad_cookie_stops_script:
  assumes "decodeURIComponent v = None" "v \<noteq> []" "59 \<notin> set v" "32 \<notin> set v"
    and "wb_jar w = [(COOKIE_NAME, v)]"
  shows "widget_init random apiUrl w = Inl URIError"
proof -
  have "plain_jar (wb_jar w)" using assms(3-5) token_COOKIE_NAME by (simp add: plain_jar_def)
  then have "cookie_match COOKIE_NAME (document_cookie (wb_jar w)) = Some v"
    using cookie_match_jar [OF token_COOKIE_NAME, of "wb_jar w"] assms(2,5) by (simp add: truthy_s_def nonempty_def)
  then have "getCookie COOKIE_NAME (wb_jar w) = Inl URIError" using assms(1) by (simp add: getCookie_def)
  then show ?thesis by (rule init_throws)
qed

theorem bad_cookie_stops_script_witness:
  "widget_init (\<lambda>_. 0) [] \<lparr> wb_jar = [(COOKIE_NAME, U ''100%'')], wb_search = [], wb_href = [], wb_referrer = [],
     wb_now = Fin 0, wb_inputs = [], wb_beacon = True \<rparr> = Inl URIError"
  by (rule bad_cookie_stops_script [of "U ''100%''"]) (simp_all add: decodeURIComponent_def ustr)

text \<open>The click handler of the server records a click of the script, when it knows the slug, but never
  with the visitor identifier the script sent: the member it reads has another name.\<close>

theorem click_loses_visitor:
  "srv_click parse fresh links (json (click_json e)) =
     (202, if ce_slug e \<in> links then Some (ce_slug e, orelse (parse []) fresh) else None)"
  by (rule click_recorded)

section \<open>The client package\<close>

text \<open>A programme or a partner created through the client package is refused, whatever it is: the
  routes exist, but the package names the members of its bodies in camel case, and the server reads neither
  the version of the rules nor the programme of the partner. \<open>parse\<close> is the reader of UUIDs.\<close>

theorem package_creations_refused:
  assumes "parse [] = None"
  shows "pkg_served (CProgramsCreate (pk_create_program_json d)) \<and>
    srv_create_program (json (pk_create_program_json d)) = (400, None) \<and>
    pkg_served (CPartnersCreate (pk_create_partner_json e)) \<and>
    srv_create_partner parse programs (json (pk_create_partner_json e)) rows = (400, rows)"
  using pk_program_refused pk_partner_refused [of parse] assms by simp

theorem package_creations_refused_witness:
  "srv_create_partner nonempty {U ''p1''} (json (pk_create_partner_json \<lparr> pkn_name = U ''Ana'', pkn_email = U ''a@b.c'',
     pkn_phone = None, pkn_programId = U ''p1'' \<rparr>)) [] = (400, [])"
  using package_creations_refused [of nonempty] by (simp add: nonempty_def)

section \<open>Partners, programmes and the audit log\<close>

text \<open>C39: What the sheet that registers a partner sends, the server stores under the chosen programme with
  the trimmed texts, unless the name is blank, which the sheet lets through, or the e-mail or telephone is
  taken in that programme. The programmes of the sheet are programmes the server has.\<close>

theorem sheet_registers_partner:
  assumes "cv_reach s" "Call (PartnersCreate d) \<in> set (snd (cv_begin ev s))"
    and "\<forall>p \<in> set (cv_programs s). parse (pg_id p) = Some (pg_id p) \<and> pg_id p \<in> programs"
  shows "srv_create_partner parse programs (json (create_partner_json d)) rows =
    (let r = new_row (cv_programId s) (go_TrimSpace (cv_nome s)) (cv_email s) (cv_telefone s)
     in if go_TrimSpace (cv_nome s) = [] then (400, rows)
        else if list_ex (row_clash r) rows then (409, rows) else (201, rows @ [r]))"
proof -
  have "d = cv_request s" "ct_program_id (cv_request s) \<in> pg_id ` set (cv_programs s)"
    using cv_sends_listed [OF assms(1,2)] by auto
  then have "parse (cv_programId s) = Some (cv_programId s)" "cv_programId s \<in> programs"
    using assms(3) by (auto simp: cv_request_def)
  then show ?thesis using \<open>d = cv_request s\<close>
    by (simp add: create_partner_decoded cv_request_def nonempty_def new_row_def Let_def)
qed

definition example_program :: program where
  "example_program = \<lparr> pg_id = U ''p1'', pg_tenant_id = U ''t1'', pg_name = U ''Wenox'', pg_description = None,
     pg_status = PDraft, pg_rules = JNull, pg_redirect_type = U ''whatsapp'', pg_redirect_url = None,
     pg_whatsapp_number = None, pg_settings = JNull, pg_created_at = U ''2026-05-01'' \<rparr>"

definition example_sheet :: convidar where
  "example_sheet = fst (cv_begin (CvNome (U '' Ana '')) (fst (cv_finish (CvPrograms (Inr (Some [example_program]))) (fst cv_init))))"

lemma example_sheet_fields: "cv_nome example_sheet = U '' Ana ''" "cv_email example_sheet = []"
  "cv_telefone example_sheet = []" "cv_programs example_sheet = [example_program]" "cv_programId example_sheet = U ''p1''"
  by (simp_all add: example_sheet_def cv_init_def Let_def) (simp add: example_program_def)

theorem sheet_registers_partner_witness:
  "srv_create_partner Some {U ''p1''} (json (create_partner_json (cv_request example_sheet))) [] =
     (201, [\<lparr> tp_program = U ''p1'', tp_name = U ''Ana'', tp_email = None, tp_phone = None \<rparr>])"
proof -
  have r: "cv_reach example_sheet" unfolding example_sheet_def
    by (intro cv_reach.intros) (simp_all add: cv_init_def)
  have c: "Call (PartnersCreate (cv_request example_sheet)) \<in> set (snd (cv_begin CvSubmit example_sheet))"
    by (simp add: cv_handleSubmit_def example_sheet_fields ustr)
  have p: "\<forall>p \<in> set (cv_programs example_sheet). Some (pg_id p) = Some (pg_id p) \<and> pg_id p \<in> {U ''p1''}"
    unfolding example_sheet_fields by (simp add: example_program_def)
  have t: "go_TrimSpace (U '' Ana '') = U ''Ana''" by (simp add: go_TrimSpace_def goSpace_def isSpace_def ustr)
  show ?thesis unfolding sheet_registers_partner [OF r c p] example_sheet_fields t
    by (simp add: new_row_def nonempty_def ustr)
qed

text \<open>The card of a programme the wizard published tells its rule: the amount or the share of the first
  tier, the goal, the ceiling of the split; but of a recurring commission only the word of the rules.\<close>

theorem wizard_card_text:
  assumes "publish_guard s = None" "np_janela s \<in> set janela_options"
    and "srv_create_program (json (create_program_json (np_request s))) = (201, st)"
  shows "summarizeRule (json (cp_rules (np_request s))) = (case np_preset s of
      Commission \<Rightarrow> (let n = value_if_number (first_tier (np_tiers s)) in
        if map_option tr_type (first_tier (np_tiers s)) = Some CommissionFixed
        then fmt_brl n @ U '' por venda'' else num_str n @ U ''% por venda'')
    | Recurring \<Rightarrow> U ''recurring_commission''
    | Goal \<Rightarrow> U ''Recompensa por meta''
    | FlexibleSplit \<Rightarrow> U ''Split flex~00edvel (at~00e9 '' @ num_str (np_flexMaxPct s) @ U ''%)'')"
proof -
  have "reward_ok s" using assms published_status [OF assms(1,2)] by (auto split: if_splits)
  then have "summarizeRule (json (buildBackendRules s)) = (case np_preset s of
      Commission \<Rightarrow> (let n = value_if_number (first_tier (np_tiers s)) in
        if map_option tr_type (first_tier (np_tiers s)) = Some CommissionFixed
        then fmt_brl n @ U '' por venda'' else num_str n @ U ''% por venda'')
    | Recurring \<Rightarrow> U ''recurring_commission''
    | Goal \<Rightarrow> U ''Recompensa por meta''
    | FlexibleSplit \<Rightarrow> U ''Split flex~00edvel (at~00e9 '' @ num_str (np_flexMaxPct s) @ U ''%)'')" by (rule wizard_summary)
  then show ?thesis by (simp add: np_request_def)
qed

theorem wizard_card_text_witness:
  "summarizeRule (json (cp_rules (np_request example_wizard))) = num_str (Fin 10) @ U ''% por venda''"
proof -
  have "srv_create_program (json (create_program_json (np_request example_wizard))) = (201, Some (U ''draft''))"
    unfolding published_status [OF example_wizard_guard]
    by (simp add: example_wizard_def np_start_def reward_ok_def trigger_options first_tier_def value_if_number_def pct_num_def)
  from wizard_card_text [OF example_wizard_guard this] show ?thesis
    by (simp add: example_wizard_def np_start_def first_tier_def value_if_number_def)
qed




text \<open>The partner's statement lists no payment, whatever payments the partner has and whatever page is
  asked for: the page reads a member of the reply that the server does not write.\<close>

theorem statement_lists_nothing:
  "ex_payouts (fst (ex_finish decode eng (ExLoaded (Inr (w, srv_partner_payouts page limit rows))) s)) = []"
  unfolding statement_empty by simp

end
